(* ===== verification/Prelude.thy ===== *)
theory Prelude
  imports
    Main
    "HOL-Library.Multiset"
    "HOL-Library.Product_Lexorder"
    "HOL-Library.List_Lexorder"
    "HOL-Library.Char_ord"
begin

text \<open>
  What every component shares: results (a Python function that may raise returns
  \<open>'e + 'a\<close>, \<open>Inl\<close> for the exception), database tables (lists of rows with a
  primary key, in insertion order), totals over the rows a query selects, the
  NULLS LAST order of SQL, decimal rendering, the character classes of the
  identifiers, and time as microseconds of UTC.
\<close>

section \<open>Results\<close>

text \<open>
  \<open>bindE\<close> is the sequencing of two Python statements: an exception of the first
  one leaves the function. \<open>require\<close> is \<open>if not c: raise e\<close>.
\<close>

named_theorems result_simps

definition bindE :: "'e + 'a \<Rightarrow> ('a \<Rightarrow> 'e + 'b) \<Rightarrow> 'e + 'b" where
  "bindE m f = (case m of Inl e \<Rightarrow> Inl e | Inr x \<Rightarrow> f x)"

definition require :: "bool \<Rightarrow> 'e \<Rightarrow> 'e + unit" where
  "require c e = (if c then Inr () else Inl e)"

lemma bindE_Inl [simp]: "bindE (Inl e) f = Inl e"
  by (simp add: bindE_def)

lemma bindE_Inr [simp]: "bindE (Inr x) f = f x"
  by (simp add: bindE_def)

lemma bindE_eq_Inr [result_simps]:
  "bindE m f = Inr y \<longleftrightarrow> (\<exists>x. m = Inr x \<and> f x = Inr y)"
  by (cases m) simp_all

lemma bindE_eq_Inl [result_simps]:
  "bindE m f = Inl e \<longleftrightarrow> m = Inl e \<or> (\<exists>x. m = Inr x \<and> f x = Inl e)"
  by (cases m) simp_all

lemma require_eq_Inr [result_simps]: "require c e = Inr u \<longleftrightarrow> c"
  by (cases u) (simp add: require_def)

lemma require_eq_Inl [result_simps]: "require c e = Inl e' \<longleftrightarrow> \<not> c \<and> e' = e"
  by (auto simp: require_def)

lemma require_True [simp]: "require True e = Inr ()"
  by (simp add: require_def)

lemma require_False [simp]: "require False e = Inl e"
  by (simp add: require_def)

lemma if_Inl_eq_Inr [result_simps]:
  "(if c then Inl e else m) = Inr y \<longleftrightarrow> \<not> c \<and> m = Inr y"
  by simp

lemma if_Inr_eq_Inr [result_simps]:
  "(if c then Inr x else m) = Inr y \<longleftrightarrow> (c \<and> x = y \<or> \<not> c \<and> m = Inr y)"
  by auto

text \<open>Outside \<open>result_simps\<close>: a lookup that must succeed.\<close>

lemma case_option_eq_Inr: "(case x of None \<Rightarrow> Inl e | Some y \<Rightarrow> f y) = Inr z \<longleftrightarrow> (\<exists>y. x = Some y \<and> f y = Inr z)"
  by (cases x) simp_all

section \<open>Runs\<close>

text \<open>What every step keeps holds after any number of steps.\<close>

locale step_invariant =
  fixes step :: "'s \<Rightarrow> 's \<Rightarrow> bool" and ok :: "'s \<Rightarrow> bool"
  assumes step_ok: "step s s' \<Longrightarrow> ok s \<Longrightarrow> ok s'"
begin

lemma run_ok: "step\<^sup>*\<^sup>* s s' \<Longrightarrow> ok s \<Longrightarrow> ok s'"
  by (induction rule: rtranclp_induct) (auto intro: step_ok)

end

section \<open>Tables\<close>

text \<open>
  A table is the list of its rows. \<open>row_at key k\<close> is the query by primary key
  (\<open>one_or_none\<close>), \<open>update_by key k f\<close> the assignment to attributes of that row.
\<close>

definition row_at :: "('r \<Rightarrow> 'k) \<Rightarrow> 'k \<Rightarrow> 'r list \<Rightarrow> 'r option" where
  "row_at key k rows = find (\<lambda>r. key r = k) rows"

definition update_by :: "('r \<Rightarrow> 'k) \<Rightarrow> 'k \<Rightarrow> ('r \<Rightarrow> 'r) \<Rightarrow> 'r list \<Rightarrow> 'r list" where
  "update_by key k f rows = map (\<lambda>r. if key r = k then f r else r) rows"

definition total :: "('r \<Rightarrow> bool) \<Rightarrow> ('r \<Rightarrow> int) \<Rightarrow> 'r list \<Rightarrow> int" where
  "total p h rows = sum_list (map h (filter p rows))"

lemma row_at_Nil [simp]: "row_at key k [] = None"
  by (simp add: row_at_def)

lemma row_at_Cons [simp]:
  "row_at key k (r # rows) = (if key r = k then Some r else row_at key k rows)"
  by (simp add: row_at_def)

lemma row_at_SomeD: "row_at key k rows = Some r \<Longrightarrow> r \<in> set rows \<and> key r = k"
  by (induction rows) (auto split: if_splits)

lemma row_at_None: "row_at key k rows = None \<longleftrightarrow> k \<notin> key ` set rows"
  by (induction rows) auto

lemma row_at_distinct:
  "distinct (map key rows) \<Longrightarrow> r \<in> set rows \<Longrightarrow> row_at key (key r) rows = Some r"
  by (induction rows) (auto simp: rev_image_eqI)

lemma row_at_append:
  "row_at key k (xs @ ys) = (case row_at key k xs of None \<Rightarrow> row_at key k ys | Some r \<Rightarrow> Some r)"
  by (induction xs) auto

lemma update_by_Nil [simp]: "update_by key k f [] = []"
  by (simp add: update_by_def)

lemma update_by_Cons [simp]:
  "update_by key k f (r # rows) = (if key r = k then f r else r) # update_by key k f rows"
  by (simp add: update_by_def)

lemma length_update_by [simp]: "length (update_by key k f rows) = length rows"
  by (simp add: update_by_def)

lemma update_by_absent: "k \<notin> key ` set rows \<Longrightarrow> update_by key k f rows = rows"
  by (induction rows) auto

lemma map_update_by:
  "(\<And>r. h (f r) = h r) \<Longrightarrow> map h (update_by key k f rows) = map h rows"
  by (induction rows) auto

lemma image_update_by: "(\<And>r. k (u r) = k r) \<Longrightarrow> k ` set (update_by key x u rows) = k ` set rows"
  by (metis image_set map_update_by)

lemma set_update_by:
  "set (update_by key k f rows) = (\<lambda>r. if key r = k then f r else r) ` set rows"
  by (simp add: update_by_def)

lemma mem_update_by_other:
  "r \<in> set rows \<Longrightarrow> key r \<noteq> k \<Longrightarrow> r \<in> set (update_by key k f rows)"
  by (auto simp: set_update_by image_iff intro: bexI [of _ r])

lemma mem_update_byD:
  "r \<in> set (update_by key k f rows) \<Longrightarrow>
     (r \<in> set rows \<and> key r \<noteq> k) \<or> (\<exists>r0 \<in> set rows. key r0 = k \<and> r = f r0)"
  by (auto simp: set_update_by split: if_splits)

lemma distinct_key_eq:
  "distinct (map key rows) \<Longrightarrow> r \<in> set rows \<Longrightarrow> x \<in> set rows \<Longrightarrow> key r = key x \<Longrightarrow> r = x"
  by (simp add: distinct_map inj_on_def)

text \<open>A row of an updated table is the updated one or an old one.\<close>

lemma mem_update_by_row:
  assumes "r \<in> set (update_by key k f rows)" and "distinct (map key rows)" and "x \<in> set rows" and "key x = k"
  shows "r = f x \<or> r \<in> set rows"
  using mem_update_byD [OF assms(1)]
proof (elim disjE bexE conjE)
  fix r0
  assume "r0 \<in> set rows" "key r0 = k" "r = f r0"
  with distinct_key_eq [OF assms(2) \<open>r0 \<in> set rows\<close> assms(3)] assms(4) show ?thesis by simp
qed simp

lemma ball_update_by:
  assumes "distinct (map key rows)" and "x \<in> set rows" and "\<forall>r \<in> set rows. Q r" and "Q (f x)"
  shows "\<forall>r \<in> set (update_by key (key x) f rows). Q r"
proof
  fix r
  assume "r \<in> set (update_by key (key x) f rows)"
  then consider "r \<in> set rows" | r0 where "r0 \<in> set rows" "key r0 = key x" "r = f r0"
    using mem_update_byD by metis
  then show "Q r"
  proof cases
    case 1
    with assms(3) show ?thesis by blast
  next
    case 2
    with distinct_key_eq [OF assms(1)] assms(2) have "r0 = x" by metis
    with 2 assms(4) show ?thesis by simp
  qed
qed

lemma row_at_update_by:
  assumes "\<And>r. key (f r) = key r"
  shows "row_at key k' (update_by key k f rows) =
     (if k' = k then map_option f (row_at key k rows) else row_at key k' rows)"
  by (induction rows) (auto simp: assms)

lemma filter_update_by:
  assumes "\<And>r. p (f r) = p r"
  shows "filter p (update_by key k f rows) = update_by key k f (filter p rows)"
  by (induction rows) (auto simp: assms)

section \<open>Totals\<close>

lemma total_Nil [simp]: "total p h [] = 0"
  by (simp add: total_def)

lemma total_Cons [simp]: "total p h (r # rows) = (if p r then h r else 0) + total p h rows"
  by (simp add: total_def)

lemma total_append [simp]: "total p h (xs @ ys) = total p h xs + total p h ys"
  by (simp add: total_def)

lemma total_nonneg: "(\<And>r. r \<in> set rows \<Longrightarrow> p r \<Longrightarrow> 0 \<le> h r) \<Longrightarrow> 0 \<le> total p h rows"
  by (induction rows) auto

lemma total_cong:
  "(\<And>r. r \<in> set rows \<Longrightarrow> p r = q r) \<Longrightarrow> (\<And>r. r \<in> set rows \<Longrightarrow> p r \<Longrightarrow> h r = h' r)
    \<Longrightarrow> total p h rows = total q h' rows"
  by (induction rows) auto

lemma total_map: "total p h (map f rows) = total (\<lambda>r. p (f r)) (\<lambda>r. h (f r)) rows"
  by (induction rows) auto

lemma total_filter: "total p h (filter q rows) = total (\<lambda>r. p r \<and> q r) h rows"
  by (induction rows) auto

lemma member_le_total:
  "(\<And>r. r \<in> set rows \<Longrightarrow> p r \<Longrightarrow> 0 \<le> h r) \<Longrightarrow> r \<in> set rows \<Longrightarrow> p r \<Longrightarrow> h r \<le> total p h rows"
proof (induction rows)
  case Nil
  then show ?case by simp
next
  case (Cons x xs)
  have tail: "0 \<le> total p h xs" by (rule total_nonneg) (use Cons.prems(1) in auto)
  have hd: "p x \<Longrightarrow> 0 \<le> h x" using Cons.prems(1) by simp
  show ?case
  proof (cases "r = x")
    case True
    with tail Cons.prems(3) show ?thesis by simp
  next
    case False
    with Cons have "h r \<le> total p h xs" by simp
    with hd show ?thesis by (cases "p x") auto
  qed
qed

lemma total_update_by:
  assumes "distinct (map key rows)" and "r \<in> set rows" and "key r = k" and "p (f r) = p r"
  shows "total p h (update_by key k f rows) =
           total p h rows + (if p r then h (f r) - h r else 0)"
  using assms
proof (induction rows)
  case Nil
  then show ?case by simp
next
  case (Cons x xs)
  show ?case
  proof (cases "x = r")
    case True
    with Cons.prems have "k \<notin> key ` set xs" by auto
    then have "update_by key k f xs = xs" by (rule update_by_absent)
    with True Cons.prems show ?thesis by simp
  next
    case False
    with Cons.prems have "r \<in> set xs" "key x \<noteq> k" by (auto simp: rev_image_eqI)
    with Cons show ?thesis by simp
  qed
qed

lemma total_update_by_same:
  assumes "\<And>r. p (f r) = p r" and "\<And>r. h (f r) = h r"
  shows "total p h (update_by key k f rows) = total p h rows"
  by (induction rows) (simp_all add: assms)

lemma total_mset: "total p h rows = (\<Sum>r \<in># filter_mset p (mset rows). h r)"
  by (induction rows) simp_all

lemma total_sort_key [simp]: "total p h (sort_key g rows) = total p h rows"
  by (simp add: total_mset)

section \<open>NULLS LAST\<close>

text \<open>
  The sort key of a nullable column under \<open>ORDER BY c ASC NULLS LAST\<close>: a present
  value sorts by itself, NULL sorts after every value.
\<close>

datatype nulls_last = Present int | Null

fun nulls_last_of :: "int option \<Rightarrow> nulls_last" where
  "nulls_last_of (Some t) = Present t"
| "nulls_last_of None = Null"

instantiation nulls_last :: linorder
begin

fun less_eq_nulls_last :: "nulls_last \<Rightarrow> nulls_last \<Rightarrow> bool" where
  "less_eq_nulls_last (Present a) (Present b) \<longleftrightarrow> a \<le> b"
| "less_eq_nulls_last Null (Present b) \<longleftrightarrow> False"
| "less_eq_nulls_last _ Null \<longleftrightarrow> True"

definition less_nulls_last :: "nulls_last \<Rightarrow> nulls_last \<Rightarrow> bool" where
  "less_nulls_last x y \<longleftrightarrow> x \<le> y \<and> \<not> y \<le> x"

instance
proof
  fix x y z :: nulls_last
  show "x < y \<longleftrightarrow> x \<le> y \<and> \<not> y \<le> x" by (rule less_nulls_last_def)
  show "x \<le> x" by (cases x) simp_all
  show "x \<le> y \<Longrightarrow> y \<le> z \<Longrightarrow> x \<le> z" by (cases x; cases y; cases z) simp_all
  show "x \<le> y \<Longrightarrow> y \<le> x \<Longrightarrow> x = y" by (cases x; cases y) simp_all
  show "x \<le> y \<or> y \<le> x" by (cases x; cases y) auto
qed

end

lemma nulls_last_le_iff:
  "nulls_last_of a \<le> nulls_last_of b \<longleftrightarrow>
     (case b of None \<Rightarrow> True | Some t \<Rightarrow> (case a of None \<Rightarrow> False | Some s \<Rightarrow> s \<le> t))"
  by (cases a; cases b) auto

section \<open>Strings and identifiers\<close>

text \<open>
  Strings are lists of code points below 256. \<open>is_space\<close> is Python's \<open>\s\<close> on those,
  \<open>is_control\<close> the class \<open>[\x00-\x1f]\<close>.
\<close>

definition is_space :: "char \<Rightarrow> bool" where
  "is_space c \<longleftrightarrow> (let n = of_char c :: nat in
     (9 \<le> n \<and> n \<le> 13) \<or> (28 \<le> n \<and> n \<le> 32) \<or> n = 133 \<or> n = 160)"

definition is_control :: "char \<Rightarrow> bool" where
  "is_control c \<longleftrightarrow> (of_char c :: nat) < 32"

definition is_lower_hex :: "char \<Rightarrow> bool" where
  "is_lower_hex c \<longleftrightarrow> c \<in> set ''0123456789abcdef''"

text \<open>\<open>re.fullmatch(r"[a-f0-9]{64}", s)\<close>\<close>

definition is_sha256_hex :: "string \<Rightarrow> bool" where
  "is_sha256_hex s \<longleftrightarrow> length s = 64 \<and> list_all is_lower_hex s"

lemma lower_hex_not_space: "is_lower_hex c \<Longrightarrow> \<not> is_space c \<and> \<not> is_control c"
  by (auto simp: is_lower_hex_def is_space_def is_control_def)

text \<open>\<open>str(n)\<close> of an integer, in decimal.\<close>

definition digit_char :: "nat \<Rightarrow> char" where
  "digit_char d = char_of (48 + d)"

fun decimal_nat :: "nat \<Rightarrow> string" where
  "decimal_nat n = (if n < 10 then [digit_char n] else decimal_nat (n div 10) @ [digit_char (n mod 10)])"

declare decimal_nat.simps [simp del]

definition decimal :: "int \<Rightarrow> string" where
  "decimal i = (if i < 0 then CHR ''-'' # decimal_nat (nat (- i)) else decimal_nat (nat i))"

lemma digit_char_inj: "a < 10 \<Longrightarrow> b < 10 \<Longrightarrow> digit_char a = digit_char b \<longleftrightarrow> a = b"
proof -
  assume "a < 10" "b < 10"
  then have "of_char (digit_char a) = 48 + a" "of_char (digit_char b) = 48 + b"
    by (simp_all add: digit_char_def)
  then show "digit_char a = digit_char b \<longleftrightarrow> a = b" by (metis add_left_cancel)
qed

lemma digit_char_not_colon: "d < 10 \<Longrightarrow> digit_char d \<noteq> CHR '':''"
proof
  assume d: "d < 10" and eq: "digit_char d = CHR '':''"
  have "(of_char (digit_char d) :: nat) = 48 + d" using d by (simp add: digit_char_def)
  with eq d show False by simp
qed

lemma decimal_nat_nonempty: "decimal_nat n \<noteq> []"
  by (subst decimal_nat.simps) simp

lemma decimal_nat_snoc: "\<not> n < 10 \<Longrightarrow> length (decimal_nat n) > 1"
  by (subst decimal_nat.simps) (simp add: decimal_nat_nonempty)

lemma decimal_nat_single: "length (decimal_nat n) = 1 \<longleftrightarrow> n < 10"
proof
  show "length (decimal_nat n) = 1 \<Longrightarrow> n < 10"
    using decimal_nat_snoc [of n] by linarith
  show "n < 10 \<Longrightarrow> length (decimal_nat n) = 1"
    by (subst decimal_nat.simps) simp
qed

lemma decimal_nat_inj: "decimal_nat a = decimal_nat b \<Longrightarrow> a = b"
proof (induction a arbitrary: b rule: decimal_nat.induct)
  case (1 a)
  then have small: "a < 10 \<longleftrightarrow> b < 10" by (metis decimal_nat_single)
  show ?case
  proof (cases "a < 10")
    case True
    with small "1.prems" show ?thesis
      by (simp add: decimal_nat.simps [of a] decimal_nat.simps [of b] digit_char_inj)
  next
    case False
    with small "1.prems" have "decimal_nat (a div 10) = decimal_nat (b div 10)"
      and "digit_char (a mod 10) = digit_char (b mod 10)"
      by (simp_all add: decimal_nat.simps [of a] decimal_nat.simps [of b])
    then have "a div 10 = b div 10" and "a mod 10 = b mod 10"
      using "1.IH" [OF False] by (simp_all add: digit_char_inj)
    then show ?thesis by (metis div_mult_mod_eq)
  qed
qed

lemma decimal_nat_no_colon: "CHR '':'' \<notin> set (decimal_nat n)"
proof (induction n rule: decimal_nat.induct)
  case (1 n)
  then show ?case
    by (subst decimal_nat.simps) (auto dest: sym simp: digit_char_not_colon [symmetric])
qed

lemma append_colon_inj:
  "CHR '':'' \<notin> set b \<Longrightarrow> CHR '':'' \<notin> set d \<Longrightarrow>
     a @ CHR '':'' # b = c @ CHR '':'' # d \<Longrightarrow> a = c \<and> b = d"
  by (auto simp: append_eq_append_conv2 Cons_eq_append_conv append_eq_Cons_conv)

section \<open>Identifiers drawn from a supply\<close>

text \<open>
  \<open>fresh_rows key p s n rows\<close>: primary keys are distinct and none of them is an
  identifier the process may still draw.
\<close>

definition fresh_rows :: "('r \<Rightarrow> string) \<Rightarrow> string \<Rightarrow> (nat \<Rightarrow> string) \<Rightarrow> nat \<Rightarrow> 'r list \<Rightarrow> bool" where
  "fresh_rows key p s n rows \<longleftrightarrow>
     distinct (map key rows) \<and> (\<forall>x \<in> set (map key rows). \<forall>k \<ge> n. x \<noteq> p @ ''_'' @ s k)"

lemma fresh_rows_distinct: "fresh_rows key p s n rows \<Longrightarrow> distinct (map key rows)"
  by (simp add: fresh_rows_def)

lemma fresh_rows_Suc: "fresh_rows key p s n rows \<Longrightarrow> fresh_rows key p s (Suc n) rows"
  by (simp add: fresh_rows_def)

lemma fresh_rows_later: "fresh_rows key p s n rows \<Longrightarrow> n \<le> m \<Longrightarrow> fresh_rows key p s m rows"
  by (auto simp: fresh_rows_def)

lemma fresh_rows_new: "fresh_rows key p s n rows \<Longrightarrow> p @ ''_'' @ s n \<notin> set (map key rows)"
  unfolding fresh_rows_def by blast

lemma fresh_rows_snoc:
  assumes "inj s" and "fresh_rows key p s n rows" and "key r = p @ ''_'' @ s n"
  shows "fresh_rows key p s (Suc n) (rows @ [r])"
proof -
  have "s n \<noteq> s k" if "Suc n \<le> k" for k
    using assms(1) that by (metis inj_eq not_less_eq_eq order_refl)
  then have "\<forall>k \<ge> Suc n. key r \<noteq> p @ ''_'' @ s k" using assms(3) by simp
  moreover have "key r \<notin> set (map key rows)"
    unfolding assms(3) by (rule fresh_rows_new) (rule assms(2))
  ultimately show ?thesis
    using assms(2) by (simp add: fresh_rows_def)
qed

lemma fresh_rows_update_by:
  assumes "\<And>r. key (f r) = key r"
  shows "fresh_rows key p s n (update_by key k f rows) \<longleftrightarrow> fresh_rows key p s n rows"
  unfolding fresh_rows_def by (subst (1 2) map_update_by) (simp_all add: assms)

section \<open>JSON values and time\<close>

text \<open>
  A JSON document that the modelled code only stores and compares. Objects are
  lists of members in a canonical key order, so that equality of documents is
  equality of the lists.
\<close>

datatype json =
    JNull
  | JBool bool
  | JInt int
  | JStr string
  | JArr "json list"
  | JObj "(string \<times> json) list"

text \<open>Instants and durations are microseconds, as Python's \<open>datetime\<close> counts them.\<close>

definition seconds :: "int \<Rightarrow> int" where
  "seconds n = n * 1000000"

definition minutes :: "int \<Rightarrow> int" where
  "minutes n = seconds (60 * n)"

definition hours :: "int \<Rightarrow> int" where
  "hours n = minutes (60 * n)"

definition days :: "int \<Rightarrow> int" where
  "days n = hours (24 * n)"

lemmas time_defs = seconds_def minutes_def hours_def days_def

end
