(* ===== verification/Credit_Models.thy ===== *)
theory Credit_Models
  imports Prelude
begin

text \<open>
  The tables of \<open>domains/credits/models.py\<close> that the credit ledger reads and writes:
  one record per row class with its columns, the CHECK constraints of each table as a
  predicate on rows, and the state of one transaction over them. A nullable column is
  an option, a timestamp the UTC microseconds that \<open>pricing.aware\<close> makes of it.
\<close>

section \<open>Errors\<close>

text \<open>
  \<open>CreditContractError\<close> (with its message), its subclass \<open>InsufficientCredits\<close>, and the
  exceptions of the library calls the ledger makes.
\<close>

datatype credit_error =
    CreditContractError string
  | InsufficientCredits int int   \<comment> \<open>available, required\<close>
  | ValueError string
  | KeyError string
  | NoResultFound

section \<open>Public purchase terms (schemas.py)\<close>

datatype campaign_status = Scheduled | Active | Ended

record campaign_view =
  cv_id :: string
  cv_version :: string
  cv_starts_at :: int
  cv_ends_at :: int
  cv_timezone :: string
  cv_status :: campaign_status
  cv_standard_amount_minor :: int
  cv_reference_price_verified :: bool

record service_offer =
  so_operation :: string
  so_credits :: int
  so_deliverable :: string
  so_supported_limits :: "(string \<times> int) list"
  so_source_formats :: "string list"
  so_route_version :: string

text \<open>
  \<open>PurchaseQuoteView\<close>: the persisted snapshot excludes \<open>server_time\<close>, which the
  response adds, so the view extends the record of the stored terms.
\<close>

record purchase_quote_terms =
  qt_schema_version :: string
  qt_quote_id :: string
  qt_sku :: string
  qt_name :: string
  qt_catalog_version :: string
  qt_terms_version :: string
  qt_amount_minor :: int
  qt_currency :: string
  qt_credits :: int
  qt_duration_days :: int
  qt_auto_renews :: bool
  qt_created_at :: int
  qt_expires_at :: int
  qt_pass_expires_at :: int
  qt_campaign :: "campaign_view option"
  qt_eligible_services :: "service_offer list"

record purchase_quote_view = purchase_quote_terms +
  qv_server_time :: int

text \<open>A \<open>terms_snapshot\<close> is the snapshot of a purchase quote or any other document.\<close>

datatype terms = QuoteTerms purchase_quote_terms | DictTerms json

section \<open>Rows\<close>

record credit_campaign =
  c_id :: string
  c_version :: string
  c_catalog_version :: string
  c_enabled :: bool
  c_starts_at :: int
  c_ends_at :: int
  c_timezone :: string
  c_reference_price_verified :: bool
  c_reference_evidence_id :: "string option"
  c_reference_approved_at :: "int option"
  c_created_at :: int

datatype quote_state = Quoted | Accepted

record credit_purchase_quote =
  q_id :: string
  q_user_id :: int
  q_idempotency_key :: string
  q_sku :: string
  q_snapshot :: purchase_quote_terms
  q_created_at :: int
  q_expires_at :: int
  q_state :: quote_state
  q_accepted_order_id :: "string option"
  q_accepted_at :: "int option"

record credit_account =
  acc_user_id :: int
  acc_debt_credits :: int

record credit_grant =
  g_id :: string
  g_user_id :: "int option"
  g_source_type :: string
  g_source_id :: string
  g_origin_type :: string
  g_origin_id :: string
  g_funding_kind :: string
  g_quantity :: int
  g_remaining_credits :: int
  g_expired_credits :: int
  g_issued_at :: int
  g_expires_at :: "int option"
  g_terms_snapshot :: terms
  g_parent_grant_id :: "string option"

datatype reservation_state = Reserved | Settled

record credit_reservation =
  r_id :: string
  r_user_id :: "int option"
  r_idempotency_key :: string
  r_operation :: string
  r_source_id :: string
  r_input_fingerprint :: string
  r_quote_snapshot :: json
  r_execution_allowance_minor :: int
  r_reserved_credits :: int
  r_committed_credits :: int
  r_released_credits :: int
  r_state :: reservation_state
  r_created_at :: int
  r_settled_at :: "int option"

record credit_allocation =
  al_id :: string
  al_reservation_id :: string
  al_grant_id :: string
  al_ordinal :: nat
  al_quantity :: int
  al_committed_credits :: int
  al_released_credits :: int

record credit_event =
  ev_id :: string
  ev_user_id :: "int option"
  ev_idempotency_key :: string
  ev_event_type :: string
  ev_amount :: int
  ev_balance_after :: int
  ev_source_type :: string
  ev_source_id :: string
  ev_origin_type :: "string option"
  ev_origin_id :: "string option"
  ev_details :: "string \<rightharpoonup> int"
  ev_created_at :: int

section \<open>CHECK constraints\<close>

definition campaign_check :: "credit_campaign \<Rightarrow> bool" where
  "campaign_check c \<longleftrightarrow> c_ends_at c > c_starts_at c"

definition quote_check :: "credit_purchase_quote \<Rightarrow> bool" where
  "quote_check q \<longleftrightarrow> q_expires_at q > q_created_at q"

definition account_check :: "credit_account \<Rightarrow> bool" where
  "account_check a \<longleftrightarrow> acc_debt_credits a \<ge> 0"

definition grant_check :: "credit_grant \<Rightarrow> bool" where
  "grant_check g \<longleftrightarrow>
     g_quantity g > 0 \<and>
     g_remaining_credits g \<ge> 0 \<and> g_remaining_credits g \<le> g_quantity g \<and>
     g_expired_credits g \<ge> 0 \<and> g_expired_credits g \<le> g_quantity g \<and>
     (case g_expires_at g of None \<Rightarrow> True | Some e \<Rightarrow> e > g_issued_at g)"

definition reservation_check :: "credit_reservation \<Rightarrow> bool" where
  "reservation_check r \<longleftrightarrow>
     r_reserved_credits r > 0 \<and>
     r_committed_credits r \<ge> 0 \<and> r_released_credits r \<ge> 0 \<and>
     r_committed_credits r + r_released_credits r \<le> r_reserved_credits r \<and>
     r_execution_allowance_minor r \<ge> 0"

definition allocation_check :: "credit_allocation \<Rightarrow> bool" where
  "allocation_check a \<longleftrightarrow>
     al_quantity a > 0 \<and>
     al_committed_credits a \<ge> 0 \<and> al_released_credits a \<ge> 0 \<and>
     al_committed_credits a + al_released_credits a \<le> al_quantity a"

lemmas row_checks = campaign_check_def quote_check_def account_check_def grant_check_def
  reservation_check_def allocation_check_def

section \<open>The state of a transaction\<close>

text \<open>
  \<open>db_users\<close> is the key column of the user table. \<open>db_supply\<close> is the sequence of
  \<open>uuid4().hex\<close> values the process draws and \<open>db_drawn\<close> how many it has drawn.
\<close>

record credit_db =
  db_users :: "int list"
  db_accounts :: "credit_account list"
  db_campaigns :: "credit_campaign list"
  db_quotes :: "credit_purchase_quote list"
  db_grants :: "credit_grant list"
  db_reservations :: "credit_reservation list"
  db_allocations :: "credit_allocation list"
  db_events :: "credit_event list"
  db_supply :: "nat \<Rightarrow> string"
  db_drawn :: nat

text \<open>\<open>common.public_id\<close>\<close>

definition public_id :: "credit_db \<Rightarrow> string \<Rightarrow> string \<times> credit_db" where
  "public_id db prefix =
     (prefix @ ''_'' @ db_supply db (db_drawn db), db\<lparr>db_drawn := Suc (db_drawn db)\<rparr>)"

end
