(* ===== verification/Pricing.thy ===== *)
theory Pricing
  imports Credit_Models
begin

text \<open>
  \<open>domains/credits/pricing.py\<close>: the finite tariff, the introductory campaign with its
  fixed 30-day interval, and the public catalogue. The zone database behind
  \<open>ZoneInfo(name)\<close> is data outside the repository: \<open>zones\<close> says which names it has.
\<close>

section \<open>Tariff\<close>

definition CATALOG_VERSION :: string where
  "CATALOG_VERSION = ''inr-unified-2026-10-27-v1''"

definition TERMS_VERSION :: string where
  "TERMS_VERSION = ''credit-pass-2026-10-27-v1''"

definition EXECUTION_MINOR_PER_CREDIT :: int where
  "EXECUTION_MINOR_PER_CREDIT = 45"

definition PURCHASE_QUOTE_LIFETIME :: int where
  "PURCHASE_QUOTE_LIFETIME = minutes 15"

definition PASS_LIFETIME :: int where
  "PASS_LIFETIME = days 30"

definition RESTORATION_LIFETIME :: int where
  "RESTORATION_LIFETIME = days 7"

lemmas lifetime_defs = PURCHASE_QUOTE_LIFETIME_def PASS_LIFETIME_def RESTORATION_LIFETIME_def time_defs

definition SERVICE_CREDITS :: "(string \<times> int) list" where
  "SERVICE_CREDITS =
    [(''resume_enrichment'', 2),
     (''enhanced_job_match'', 3),
     (''interview_questions'', 5),
     (''resume_tailor'', 8),
     (''resume_tailor_extended'', 15),
     (''bullet_rewrite'', 2),
     (''enhanced_qa'', 2),
     (''learning_strategy'', 4),
     (''job_discovery_batch'', 1),
     (''verified_submission'', 3),
     (''market_report'', 1)]"

record credit_product =
  p_sku :: string
  p_name :: string
  p_offer_amount_minor :: int
  p_standard_amount_minor :: int
  p_credits :: int

definition PRODUCTS :: "credit_product list" where
  "PRODUCTS =
    [\<lparr>p_sku = ''starter_pass'', p_name = ''Starter'', p_offer_amount_minor = 5900,
       p_standard_amount_minor = 7900, p_credits = 40\<rparr>,
     \<lparr>p_sku = ''growth_pass'', p_name = ''Growth'', p_offer_amount_minor = 17900,
       p_standard_amount_minor = 22900, p_credits = 130\<rparr>,
     \<lparr>p_sku = ''scale_pass'', p_name = ''Scale'', p_offer_amount_minor = 44900,
       p_standard_amount_minor = 59900, p_credits = 360\<rparr>]"

section \<open>Timestamps\<close>

text \<open>
  A Python datetime: its wall clock and, when it is aware, the offset of its zone.
  \<open>aware\<close> reads a naive value as UTC and converts an aware one.
\<close>

datatype datetime = Naive int | Zoned int int

fun aware :: "datetime \<Rightarrow> int" where
  "aware (Naive wall) = wall"
| "aware (Zoned wall offset) = wall - offset"

section \<open>Campaign and catalogue\<close>

record product_view =
  pv_sku :: string
  pv_name :: string
  pv_amount_minor :: int
  pv_credits :: int
  pv_duration_days :: int
  pv_auto_renews :: bool
  pv_purchase_enabled :: bool
  pv_terms_version :: string
  pv_campaign :: "campaign_view option"

record catalog_view =
  cat_schema_version :: string
  cat_catalog_version :: string
  cat_server_time :: int
  cat_market :: string
  cat_currency :: string
  cat_checkout_enabled :: bool
  cat_products :: "product_view list"
  cat_eligible_services :: "service_offer list"

definition SCHEMA_VERSION :: string where
  "SCHEMA_VERSION = ''unified-credits-v1''"

definition campaign_terms ::
  "(string \<Rightarrow> bool) \<Rightarrow> credit_campaign option \<Rightarrow> credit_product \<Rightarrow> int \<Rightarrow> credit_error + campaign_view option" where
  "campaign_terms zones campaign product now =
    (case campaign of
       None \<Rightarrow> Inr None
     | Some c \<Rightarrow>
        bindE (require (c_enabled c \<and> c_catalog_version c = CATALOG_VERSION)
                 (CreditContractError ''This campaign does not authorize the current catalog.'')) (\<lambda>_.
        let start = c_starts_at c; end_at = c_ends_at c; stamp = now in
        bindE (require (end_at - start = days 30)
                 (CreditContractError ''The introductory campaign requires one fixed 30-day interval.'')) (\<lambda>_.
        bindE (require (zones (c_timezone c))
                 (CreditContractError ''The campaign timezone is invalid.'')) (\<lambda>_.
        let verified = c_reference_price_verified c in
        bindE (require (\<not> (verified \<and>
                  ((case c_reference_evidence_id c of None \<Rightarrow> True | Some e \<Rightarrow> e = []) \<or>
                   (case c_reference_approved_at c of None \<Rightarrow> True | Some t \<Rightarrow> t > stamp))))
                 (CreditContractError ''A crossed-out price requires reviewed reference evidence.'')) (\<lambda>_.
        let status = (if stamp < start then Scheduled else if stamp < end_at then Active else Ended) in
        Inr (Some
          \<lparr>cv_id = c_id c, cv_version = c_version c, cv_starts_at = start, cv_ends_at = end_at,
           cv_timezone = c_timezone c, cv_status = status,
           cv_standard_amount_minor = p_standard_amount_minor product,
           cv_reference_price_verified = (verified \<and> status = Active)\<rparr>))))))"

definition product_offer ::
  "(string \<Rightarrow> bool) \<Rightarrow> credit_campaign option \<Rightarrow> int \<Rightarrow> bool \<Rightarrow> credit_product \<Rightarrow> credit_error + product_view" where
  "product_offer zones campaign now checkout_enabled product =
    bindE (campaign_terms zones campaign product now) (\<lambda>offer.
      let amount = (case offer of
            Some v \<Rightarrow> if cv_status v = Active then p_offer_amount_minor product
                      else p_standard_amount_minor product
          | None \<Rightarrow> p_standard_amount_minor product)
      in Inr \<lparr>pv_sku = p_sku product, pv_name = p_name product, pv_amount_minor = amount,
              pv_credits = p_credits product, pv_duration_days = 30, pv_auto_renews = False,
              pv_purchase_enabled = checkout_enabled, pv_terms_version = TERMS_VERSION,
              pv_campaign = offer\<rparr>)"

fun product_offers ::
  "(string \<Rightarrow> bool) \<Rightarrow> credit_campaign option \<Rightarrow> int \<Rightarrow> bool \<Rightarrow> credit_product list
     \<Rightarrow> credit_error + product_view list" where
  "product_offers zones campaign now checkout_enabled [] = Inr []"
| "product_offers zones campaign now checkout_enabled (p # ps) =
    bindE (product_offer zones campaign now checkout_enabled p) (\<lambda>v.
    bindE (product_offers zones campaign now checkout_enabled ps) (\<lambda>vs. Inr (v # vs)))"

definition public_catalog ::
  "(string \<Rightarrow> bool) \<Rightarrow> credit_campaign option \<Rightarrow> int \<Rightarrow> bool \<Rightarrow> credit_error + catalog_view" where
  "public_catalog zones campaign now checkout_enabled =
    bindE (product_offers zones campaign now checkout_enabled PRODUCTS) (\<lambda>products.
      Inr \<lparr>cat_schema_version = SCHEMA_VERSION, cat_catalog_version = CATALOG_VERSION,
           cat_server_time = now, cat_market = ''IN'', cat_currency = ''INR'',
           cat_checkout_enabled = checkout_enabled, cat_products = products,
           cat_eligible_services = []\<rparr>)"

section \<open>Facts about the catalogue\<close>

lemma products_priced:
  "p \<in> set PRODUCTS \<Longrightarrow> 0 < p_offer_amount_minor p \<and>
     p_offer_amount_minor p < p_standard_amount_minor p \<and> 0 < p_credits p"
  by (auto simp: PRODUCTS_def)

lemma product_offer_amount:
  assumes "product_offer zones campaign now enabled p = Inr v"
  shows "pv_sku v = p_sku p \<and> pv_credits v = p_credits p \<and>
     pv_amount_minor v \<in> {p_offer_amount_minor p, p_standard_amount_minor p}"
proof -
  from assms obtain offer where "campaign_terms zones campaign p now = Inr offer"
    by (cases "campaign_terms zones campaign p now") (simp_all add: product_offer_def)
  with assms show ?thesis
    by (cases offer) (auto simp: product_offer_def Let_def)
qed

lemma product_offers_Inr:
  "product_offers zones campaign now enabled ps = Inr vs \<Longrightarrow>
     list_all2 (\<lambda>p v. product_offer zones campaign now enabled p = Inr v) ps vs"
  by (induction ps arbitrary: vs) (auto simp: result_simps)

lemma product_offers_map:
  "(\<And>p. p \<in> set ps \<Longrightarrow> product_offer zones campaign now enabled p = Inr (f p)) \<Longrightarrow>
     product_offers zones campaign now enabled ps = Inr (map f ps)"
  by (induction ps) auto

text \<open>The offer price is charged exactly inside the campaign's half-open interval.\<close>

lemma campaign_terms_status:
  assumes "campaign_terms zones (Some c) p now = Inr offer"
  shows "\<exists>v. offer = Some v \<and> c_ends_at c = c_starts_at c + days 30 \<and>
     (cv_status v = Active \<longleftrightarrow> c_starts_at c \<le> now \<and> now < c_ends_at c)"
  using assms by (clarsimp simp: campaign_terms_def Let_def result_simps)

lemma product_offer_iff_active:
  assumes "product_offer zones (Some c) now enabled p = Inr v" and "p \<in> set PRODUCTS"
  shows "pv_amount_minor v = p_offer_amount_minor p \<longleftrightarrow> c_starts_at c \<le> now \<and> now < c_ends_at c"
proof -
  from assms(1) obtain offer where terms: "campaign_terms zones (Some c) p now = Inr offer"
    by (cases "campaign_terms zones (Some c) p now") (simp_all add: product_offer_def)
  from campaign_terms_status [OF this] obtain w where "offer = Some w"
    and "cv_status w = Active \<longleftrightarrow> c_starts_at c \<le> now \<and> now < c_ends_at c" by blast
  with terms assms(1) products_priced [OF assms(2)] show ?thesis
    by (auto simp: product_offer_def Let_def)
qed

end
