(* ===== verification/Credit_Ledger.thy ===== *)
theory Credit_Ledger
  imports Pricing
begin

text \<open>
  \<open>domains/credits/service.py\<close>: the transactional primitives of the unified credits.
  Each definition is one function of the module over the state of its transaction. A
  function that raises returns \<open>Inl\<close> and its transaction is rolled back by the caller
  (\<open>Callers own commit/rollback\<close>), so no state comes with an error. Row locks and
  flushes order the transactions and have no effect inside one.
\<close>

section \<open>Validation helpers\<close>

definition credit_count :: "int \<Rightarrow> bool \<Rightarrow> credit_error + int" where
  "credit_count v positive =
     (if v < (if positive then 1 else 0) \<or> v > 10 ^ 9
      then Inl (CreditContractError ''Credit quantities must be bounded nonnegative integers.'')
      else Inr v)"

definition credit_key :: "string \<Rightarrow> nat \<Rightarrow> credit_error + string" where
  "credit_key v maximum =
     (if \<not> (1 \<le> length v \<and> length v \<le> maximum) \<or> list_ex (\<lambda>c. is_space c \<or> is_control c) v
      then Inl (CreditContractError ''A bounded identifier without whitespace is required.'')
      else Inr v)"

definition lock_owner :: "credit_db \<Rightarrow> int \<Rightarrow> credit_error + unit" where
  "lock_owner db user =
     require (user \<in> set (db_users db)) (CreditContractError ''The credit owner does not exist.'')"

text \<open>\<open>_lock_account\<close>: the account row is created, free of debt, when it is missing.\<close>

definition lock_account :: "credit_db \<Rightarrow> int \<Rightarrow> credit_error + credit_db" where
  "lock_account db user =
     bindE (lock_owner db user) (\<lambda>_.
     Inr (case row_at acc_user_id user (db_accounts db) of
            Some _ \<Rightarrow> db
          | None \<Rightarrow> db\<lparr>db_accounts := db_accounts db @ [\<lparr>acc_user_id = user, acc_debt_credits = 0\<rparr>]\<rparr>))"

definition debt_of :: "credit_db \<Rightarrow> int \<Rightarrow> int" where
  "debt_of db user =
     (case row_at acc_user_id user (db_accounts db) of None \<Rightarrow> 0 | Some a \<Rightarrow> acc_debt_credits a)"

definition add_debt :: "credit_db \<Rightarrow> int \<Rightarrow> int \<Rightarrow> credit_db" where
  "add_debt db user n =
     db\<lparr>db_accounts := update_by acc_user_id user
           (\<lambda>a. a\<lparr>acc_debt_credits := acc_debt_credits a + n\<rparr>) (db_accounts db)\<rparr>"

section \<open>Purchase quotes\<close>

definition configured_campaign :: "credit_db \<Rightarrow> credit_error + credit_campaign option" where
  "configured_campaign db =
     (case take 2 (sort_key (\<lambda>c. - c_starts_at c) (filter c_enabled (db_campaigns db))) of
        [] \<Rightarrow> Inr None
      | [c] \<Rightarrow> Inr (Some c)
      | _ \<Rightarrow> Inl (CreditContractError ''Multiple enabled campaigns require pricing reconciliation.''))"

definition quote_response :: "credit_purchase_quote \<Rightarrow> int \<Rightarrow> purchase_quote_view" where
  "quote_response q stamp =
     purchase_quote_terms.extend (q_snapshot q) (purchase_quote_view.fields stamp)"

definition issue_purchase_quote ::
  "(string \<Rightarrow> bool) \<Rightarrow> credit_db \<Rightarrow> int \<Rightarrow> string \<Rightarrow> string \<Rightarrow> bool \<Rightarrow> service_offer list \<Rightarrow> int
     \<Rightarrow> credit_error + (credit_purchase_quote \<times> credit_db)" where
  "issue_purchase_quote zones db user sku key checkout_enabled eligible_services stamp =
     bindE (credit_key key 160) (\<lambda>_.
     bindE (lock_owner db user) (\<lambda>_.
     case find (\<lambda>q. q_user_id q = user \<and> q_idempotency_key q = key) (db_quotes db) of
       Some prior \<Rightarrow>
         bindE (require (q_sku prior = sku)
                  (CreditContractError ''This purchase request already belongs to a different pack.''))
               (\<lambda>_. Inr (prior, db))
     | None \<Rightarrow>
         bindE (require checkout_enabled (CreditContractError ''Credit purchases are not enabled.'')) (\<lambda>_.
         bindE (configured_campaign db) (\<lambda>campaign.
         bindE (public_catalog zones campaign stamp True) (\<lambda>catalog.
         case find (\<lambda>item. pv_sku item = sku) (cat_products catalog) of
           None \<Rightarrow> Inl (CreditContractError ''This credit pack is not available.'')
         | Some product \<Rightarrow>
             let (identity, db1) = public_id db ''cq'';
                 payload = \<lparr>qt_schema_version = SCHEMA_VERSION, qt_quote_id = identity,
                   qt_sku = pv_sku product, qt_name = pv_name product,
                   qt_catalog_version = cat_catalog_version catalog,
                   qt_terms_version = pv_terms_version product,
                   qt_amount_minor = pv_amount_minor product, qt_currency = ''INR'',
                   qt_credits = pv_credits product, qt_duration_days = 30, qt_auto_renews = False,
                   qt_created_at = stamp, qt_expires_at = stamp + PURCHASE_QUOTE_LIFETIME,
                   qt_pass_expires_at = stamp + PASS_LIFETIME, qt_campaign = pv_campaign product,
                   qt_eligible_services = eligible_services\<rparr>;
                 quote = \<lparr>q_id = identity, q_user_id = user, q_idempotency_key = key, q_sku = sku,
                   q_snapshot = payload, q_created_at = stamp,
                   q_expires_at = stamp + PURCHASE_QUOTE_LIFETIME, q_state = Quoted,
                   q_accepted_order_id = None, q_accepted_at = None\<rparr>
             in Inr (quote, db1\<lparr>db_quotes := db_quotes db1 @ [quote]\<rparr>))))))"

definition owned_quote :: "credit_db \<Rightarrow> int \<Rightarrow> string \<Rightarrow> credit_purchase_quote option" where
  "owned_quote db user quote_id =
     find (\<lambda>q. q_id q = quote_id \<and> q_user_id q = user) (db_quotes db)"

definition accept_purchase_quote ::
  "credit_db \<Rightarrow> int \<Rightarrow> string \<Rightarrow> string \<Rightarrow> int \<Rightarrow> credit_error + (credit_purchase_quote \<times> credit_db)" where
  "accept_purchase_quote db user quote_id order_id stamp =
     bindE (credit_key order_id 64) (\<lambda>_.
     bindE (lock_owner db user) (\<lambda>_.
     case owned_quote db user quote_id of
       None \<Rightarrow> Inl (CreditContractError ''Purchase quote not found.'')
     | Some quote \<Rightarrow>
         if q_state quote = Accepted
         then bindE (require (q_accepted_order_id quote = Some order_id)
                (CreditContractError ''This quote already belongs to another checkout.''))
                (\<lambda>_. Inr (quote, db))
         else
           bindE (require (q_created_at quote \<le> stamp \<and> stamp < q_expires_at quote)
             (CreditContractError ''The purchase quote expired. Review a new quote.'')) (\<lambda>_.
           let accept = (\<lambda>q. q\<lparr>q_state := Accepted, q_accepted_order_id := Some order_id,
                              q_accepted_at := Some stamp\<rparr>)
           in Inr (accept quote,
                   db\<lparr>db_quotes := update_by q_id quote_id accept (db_quotes db)\<rparr>))))"

section \<open>Balance and events\<close>

definition balance :: "credit_db \<Rightarrow> int \<Rightarrow> int" where
  "balance db user =
     total (\<lambda>g. g_user_id g = Some user) g_remaining_credits (db_grants db) - debt_of db user"

definition credit_event_row ::
  "credit_db \<Rightarrow> int \<Rightarrow> string \<Rightarrow> string \<Rightarrow> int \<Rightarrow> string \<Rightarrow> string \<Rightarrow> int \<Rightarrow> string option \<Rightarrow> string option
     \<Rightarrow> (string \<rightharpoonup> int) \<Rightarrow> credit_db" where
  "credit_event_row db user key kind amount source_type source_id stamp origin_type origin_id details =
     (let (identity, db1) = public_id db ''ce'';
          event = \<lparr>ev_id = identity, ev_user_id = Some user, ev_idempotency_key = key,
            ev_event_type = kind, ev_amount = amount, ev_balance_after = balance db1 user,
            ev_source_type = source_type, ev_source_id = source_id, ev_origin_type = origin_type,
            ev_origin_id = origin_id, ev_details = details, ev_created_at = stamp\<rparr>
      in db1\<lparr>db_events := db_events db1 @ [event]\<rparr>)"

section \<open>Expiry\<close>

definition expirable :: "credit_db \<Rightarrow> int \<Rightarrow> int \<Rightarrow> credit_grant list" where
  "expirable db user stamp =
     sort_key (\<lambda>g. (the (g_expires_at g), g_id g))
       (filter (\<lambda>g. g_user_id g = Some user \<and> g_remaining_credits g > 0 \<and>
                    (case g_expires_at g of None \<Rightarrow> False | Some e \<Rightarrow> e \<le> stamp)) (db_grants db))"

definition expire_one :: "int \<Rightarrow> int \<Rightarrow> credit_grant \<Rightarrow> credit_db \<Rightarrow> credit_db" where
  "expire_one user stamp grant db =
     (let removed = g_remaining_credits grant;
          db1 = db\<lparr>db_grants := update_by g_id (g_id grant)
                  (\<lambda>g. g\<lparr>g_remaining_credits := 0, g_expired_credits := g_expired_credits g + removed\<rparr>)
                  (db_grants db)\<rparr>
      in credit_event_row db1 user (''expire:'' @ g_id grant) ''expire'' (- removed)
           ''credit_grant'' (g_id grant) stamp (Some (g_origin_type grant)) (Some (g_origin_id grant))
           Map.empty)"

definition expire :: "credit_db \<Rightarrow> int \<Rightarrow> int \<Rightarrow> credit_db" where
  "expire db user stamp = fold (expire_one user stamp) (expirable db user stamp) db"

definition expire_credits :: "credit_db \<Rightarrow> int \<Rightarrow> int \<Rightarrow> credit_error + credit_db" where
  "expire_credits db user stamp =
     bindE (lock_account db user) (\<lambda>db1. Inr (expire db1 user stamp))"

section \<open>Grants\<close>

text \<open>\<open>a or b\<close> on an optional string: the empty string is false.\<close>

fun str_or :: "string option \<Rightarrow> string \<Rightarrow> string" where
  "str_or None b = b"
| "str_or (Some a) b = (if a = [] then b else a)"

text \<open>
  The insertion half of \<open>_grant\<close>: a debt is paid first, then the row and its event.
\<close>

definition issue_grant ::
  "credit_db \<Rightarrow> int \<Rightarrow> int \<Rightarrow> string \<Rightarrow> string \<Rightarrow> string \<Rightarrow> terms \<Rightarrow> int option \<Rightarrow> int
     \<Rightarrow> string \<Rightarrow> string \<Rightarrow> string option \<Rightarrow> credit_grant \<times> credit_db" where
  "issue_grant db user quantity source_type source_id funding_kind terms_snapshot expires_at stamp
       origin_type origin_id parent_grant_id =
     (let debt_offset = min (debt_of db user) quantity;
          db1 = add_debt db user (- debt_offset);
          (identity, db2) = public_id db1 ''cg'';
          grant = \<lparr>g_id = identity, g_user_id = Some user, g_source_type = source_type,
            g_source_id = source_id, g_origin_type = origin_type, g_origin_id = origin_id,
            g_funding_kind = funding_kind, g_quantity = quantity,
            g_remaining_credits = quantity - debt_offset, g_expired_credits = 0,
            g_issued_at = stamp, g_expires_at = expires_at, g_terms_snapshot = terms_snapshot,
            g_parent_grant_id = parent_grant_id\<rparr>;
          db3 = db2\<lparr>db_grants := db_grants db2 @ [grant]\<rparr>
      in (grant, credit_event_row db3 user (''grant:'' @ identity)
           (if parent_grant_id = None \<or> parent_grant_id = Some [] then ''grant'' else ''restore'')
           quantity source_type source_id stamp (Some origin_type) (Some origin_id)
           [''debt_offset'' \<mapsto> debt_offset]))"

definition grant_by_source :: "credit_db \<Rightarrow> int \<Rightarrow> string \<Rightarrow> string \<Rightarrow> credit_grant option" where
  "grant_by_source db user source_type source_id =
     find (\<lambda>g. g_user_id g = Some user \<and> g_source_type g = source_type \<and> g_source_id g = source_id)
       (db_grants db)"

definition grant_row ::
  "credit_db \<Rightarrow> int \<Rightarrow> int \<Rightarrow> string \<Rightarrow> string \<Rightarrow> string \<Rightarrow> terms \<Rightarrow> int option \<Rightarrow> int
     \<Rightarrow> string option \<Rightarrow> string option \<Rightarrow> string option \<Rightarrow> credit_error + (credit_grant \<times> credit_db)" where
  "grant_row db user quantity source_type source_id funding_kind terms_snapshot expires_at stamp
       origin_type0 origin_id0 parent_grant_id =
     bindE (credit_count quantity True) (\<lambda>_.
     bindE (credit_key source_type 40) (\<lambda>_.
     bindE (credit_key source_id 160) (\<lambda>_.
     bindE (require (funding_kind \<in> {''paid'', ''promotion'', ''legacy''})
              (CreditContractError ''The grant needs an explicit funding classification.'')) (\<lambda>_.
     let origin_type = str_or origin_type0 source_type; origin_id = str_or origin_id0 source_id in
     case grant_by_source db user source_type source_id of
       Some existing \<Rightarrow>
         bindE (require ((g_quantity existing, g_funding_kind existing, g_terms_snapshot existing,
                          g_origin_type existing, g_origin_id existing)
                       = (quantity, funding_kind, terms_snapshot, origin_type, origin_id))
                  (CreditContractError ''The grant source already has different immutable terms.''))
               (\<lambda>_. Inr (existing, db))
     | None \<Rightarrow>
         bindE (require (case expires_at of None \<Rightarrow> True | Some e \<Rightarrow> \<not> e \<le> stamp)
                  (CreditContractError ''A new credit grant must provide usable validity.'')) (\<lambda>_.
         Inr (issue_grant db user quantity source_type source_id funding_kind terms_snapshot
                expires_at stamp origin_type origin_id parent_grant_id))))))"

definition grant_credits ::
  "credit_db \<Rightarrow> int \<Rightarrow> int \<Rightarrow> string \<Rightarrow> string \<Rightarrow> string \<Rightarrow> terms \<Rightarrow> int option \<Rightarrow> int
     \<Rightarrow> credit_error + (credit_grant \<times> credit_db)" where
  "grant_credits db user quantity source_type source_id funding_kind terms_snapshot expires_at stamp =
     bindE (lock_account db user) (\<lambda>db1.
     let db2 = expire db1 user stamp in
     grant_row db2 user quantity source_type source_id funding_kind terms_snapshot expires_at stamp
       None None None)"

definition fulfill_purchase_quote ::
  "credit_db \<Rightarrow> int \<Rightarrow> string \<Rightarrow> string \<Rightarrow> int \<Rightarrow> int \<Rightarrow> credit_error + (credit_grant \<times> credit_db)" where
  "fulfill_purchase_quote db user quote_id order_id captured stamp =
     bindE (lock_account db user) (\<lambda>db1.
     case owned_quote db1 user quote_id of
       None \<Rightarrow> Inl (CreditContractError ''This payment has no matching accepted purchase quote.'')
     | Some quote \<Rightarrow>
         bindE (require (q_state quote = Accepted \<and> q_accepted_order_id quote = Some order_id)
           (CreditContractError ''This payment has no matching accepted purchase quote.'')) (\<lambda>_.
         let view = quote_response quote stamp in
         bindE (require (\<not> (captured < q_created_at quote \<or> captured > stamp))
           (CreditContractError ''The verified payment timestamp is inconsistent.'')) (\<lambda>_.
         let expiry = max (max (qt_pass_expires_at view) (captured + PASS_LIFETIME)) (stamp + PASS_LIFETIME);
             db2 = expire db1 user stamp
         in grant_row db2 user (qt_credits view) ''payment_order'' order_id ''paid''
              (QuoteTerms (q_snapshot quote)) (Some expiry) stamp None None None)))"

section \<open>The wallet\<close>

text \<open>The lots a reservation may use, in the order it uses them.\<close>

definition lot_key :: "credit_grant \<Rightarrow> nulls_last \<times> int \<times> string" where
  "lot_key g = (nulls_last_of (g_expires_at g), g_issued_at g, g_id g)"

definition usable_lots :: "credit_db \<Rightarrow> int \<Rightarrow> int \<Rightarrow> credit_grant list" where
  "usable_lots db user stamp =
     sort_key lot_key
       (filter (\<lambda>g. g_user_id g = Some user \<and> g_remaining_credits g > 0 \<and>
                    (case g_expires_at g of None \<Rightarrow> True | Some e \<Rightarrow> e > stamp)) (db_grants db))"

record credit_lot_view =
  lot_grant_id :: string
  lot_remaining_credits :: int
  lot_expires_at :: "int option"
  lot_funding_kind :: string

record credit_wallet_view =
  w_server_time :: int
  w_available_credits :: int
  w_debt_credits :: int
  w_reserved_credits :: int
  w_lots :: "credit_lot_view list"

definition wallet :: "credit_db \<Rightarrow> int \<Rightarrow> int \<Rightarrow> int option \<Rightarrow> credit_error + credit_wallet_view" where
  "wallet db user stamp max_lots =
     (let debt = debt_of db user; lots_query = usable_lots db user stamp in
      bindE (case max_lots of
               None \<Rightarrow> Inr lots_query
             | Some m \<Rightarrow> bindE (require (1 \<le> m \<and> m \<le> 5000) (ValueError ''Invalid finite wallet read bound''))
                          (\<lambda>_. Inr (take (nat (m + 1)) lots_query))) (\<lambda>lots.
      bindE (require (case max_lots of None \<Rightarrow> True | Some m \<Rightarrow> \<not> int (length lots) > m)
               (ValueError ''Wallet exceeds the supported complete read bound'')) (\<lambda>_.
      Inr \<lparr>w_server_time = stamp,
           w_available_credits = max 0 (sum_list (map g_remaining_credits lots) - debt),
           w_debt_credits = debt,
           w_reserved_credits = total (\<lambda>r. r_user_id r = Some user \<and> r_state r = Reserved)
                                  r_reserved_credits (db_reservations db),
           w_lots = map (\<lambda>g. \<lparr>lot_grant_id = g_id g, lot_remaining_credits = g_remaining_credits g,
                               lot_expires_at = g_expires_at g, lot_funding_kind = g_funding_kind g\<rparr>) lots\<rparr>)))"

section \<open>Reservations\<close>

text \<open>
  The allocation loop: lots in order, each giving what it has until the request is
  covered. \<open>allocate_lot\<close> is the body's effect on the tables; the loop returns what
  could not be covered.
\<close>

definition allocate_lot :: "string \<Rightarrow> nat \<Rightarrow> int \<Rightarrow> credit_grant \<Rightarrow> credit_db \<Rightarrow> credit_db" where
  "allocate_lot reservation_id index allocated grant db =
     (let db1 = db\<lparr>db_grants := update_by g_id (g_id grant)
                  (\<lambda>g. g\<lparr>g_remaining_credits := g_remaining_credits g - allocated\<rparr>) (db_grants db)\<rparr>;
          (identity, db2) = public_id db1 ''ca''
      in db2\<lparr>db_allocations := db_allocations db2 @
           [\<lparr>al_id = identity, al_reservation_id = reservation_id, al_grant_id = g_id grant,
             al_ordinal = index, al_quantity = allocated, al_committed_credits = 0,
             al_released_credits = 0\<rparr>]\<rparr>)"

fun allocate_lots :: "string \<Rightarrow> nat \<Rightarrow> int \<Rightarrow> credit_grant list \<Rightarrow> credit_db \<Rightarrow> int \<times> credit_db" where
  "allocate_lots reservation_id index remaining [] db = (remaining, db)"
| "allocate_lots reservation_id index remaining (grant # lots) db =
     (let allocated = min remaining (g_remaining_credits grant);
          db1 = allocate_lot reservation_id index allocated grant db;
          left = remaining - allocated
      in if left = 0 then (left, db1)
         else allocate_lots reservation_id (Suc index) left lots db1)"

text \<open>
  \<open>book_reservation\<close> is the part of \<open>reserve_credits\<close> after its checks: the row, its
  allocations in lot order, and the event.
\<close>

definition book_reservation ::
  "credit_db \<Rightarrow> int \<Rightarrow> string \<Rightarrow> string \<Rightarrow> string \<Rightarrow> int \<Rightarrow> string \<Rightarrow> json \<Rightarrow> int \<Rightarrow> int
     \<Rightarrow> credit_error + (credit_reservation \<times> credit_db)" where
  "book_reservation db user operation source_id idempotency_key credits input_fingerprint
       quote_snapshot execution_allowance_minor stamp =
     (let (identity, db1) = public_id db ''cr'';
          row = \<lparr>r_id = identity, r_user_id = Some user, r_idempotency_key = idempotency_key,
            r_operation = operation, r_source_id = source_id, r_input_fingerprint = input_fingerprint,
            r_quote_snapshot = quote_snapshot, r_execution_allowance_minor = execution_allowance_minor,
            r_reserved_credits = credits, r_committed_credits = 0, r_released_credits = 0,
            r_state = Reserved, r_created_at = stamp, r_settled_at = None\<rparr>;
          db2 = db1\<lparr>db_reservations := db_reservations db1 @ [row]\<rparr>;
          (remaining, db3) = allocate_lots identity 0 credits (usable_lots db2 user stamp) db2
      in bindE (require (remaining = 0)
           (CreditContractError ''Available credit lots require reconciliation.'')) (\<lambda>_.
         Inr (row, credit_event_row db3 user (''reserve:'' @ identity) ''reserve'' (- credits)
                ''credit_reservation'' identity stamp None None Map.empty)))"

definition prior_reservations ::
  "credit_db \<Rightarrow> int \<Rightarrow> string \<Rightarrow> string \<Rightarrow> string \<Rightarrow> credit_reservation list" where
  "prior_reservations db user idempotency_key operation source_id =
     filter (\<lambda>r. r_user_id r = Some user \<and>
                 (r_idempotency_key r = idempotency_key \<or>
                  (r_operation r = operation \<and> r_source_id r = source_id))) (db_reservations db)"

definition reserve_credits ::
  "credit_db \<Rightarrow> int \<Rightarrow> string \<Rightarrow> string \<Rightarrow> string \<Rightarrow> int \<Rightarrow> string \<Rightarrow> json \<Rightarrow> int \<Rightarrow> int
     \<Rightarrow> credit_error + (credit_reservation \<times> credit_db)" where
  "reserve_credits db user operation source_id idempotency_key credits input_fingerprint
       quote_snapshot execution_allowance_minor stamp =
     bindE (credit_count credits True) (\<lambda>_.
     bindE (credit_count execution_allowance_minor False) (\<lambda>_.
     bindE (credit_key operation 64) (\<lambda>_.
     bindE (credit_key source_id 64) (\<lambda>_.
     bindE (credit_key idempotency_key 160) (\<lambda>_.
     bindE (require (is_sha256_hex input_fingerprint)
              (CreditContractError ''An exact input fingerprint is required.'')) (\<lambda>_.
     bindE (require (\<not> execution_allowance_minor > credits * EXECUTION_MINOR_PER_CREDIT)
              (CreditContractError ''The operation exceeds the per-credit execution allowance.'')) (\<lambda>_.
     bindE (lock_account db user) (\<lambda>db1.
     case prior_reservations db1 user idempotency_key operation source_id of
       row # others \<Rightarrow>
         bindE (require (others = [])
           (CreditContractError ''The operation and request identities conflict.'')) (\<lambda>_.
         bindE (require ((r_operation row, r_source_id row, r_reserved_credits row,
                          r_input_fingerprint row, r_quote_snapshot row, r_execution_allowance_minor row)
                       = (operation, source_id, credits, input_fingerprint, quote_snapshot,
                          execution_allowance_minor))
           (CreditContractError ''This reservation already has different accepted terms.''))
           (\<lambda>_. Inr (row, db1)))
     | [] \<Rightarrow>
         let db2 = expire db1 user stamp; available = max 0 (balance db2 user) in
         bindE (require (\<not> credits > available) (InsufficientCredits available credits)) (\<lambda>_.
         book_reservation db2 user operation source_id idempotency_key credits input_fingerprint
           quote_snapshot execution_allowance_minor stamp)))))))))"

section \<open>Settlement\<close>

text \<open>
  One allocation: what the delivery consumed of it is committed, the rest is restored
  as a new grant with the origin of the old one and a validity that is never shortened.
\<close>

definition owned_grant :: "credit_db \<Rightarrow> int \<Rightarrow> string \<Rightarrow> credit_grant option" where
  "owned_grant db user grant_id = find (\<lambda>g. g_id g = grant_id \<and> g_user_id g = Some user) (db_grants db)"

definition mark_allocation :: "string \<Rightarrow> int \<Rightarrow> int \<Rightarrow> credit_db \<Rightarrow> credit_db" where
  "mark_allocation allocation_id consumed released db =
     db\<lparr>db_allocations := update_by al_id allocation_id
           (\<lambda>a. a\<lparr>al_committed_credits := consumed, al_released_credits := released\<rparr>) (db_allocations db)\<rparr>"

text \<open>A restored lot keeps the old expiry or gets seven days, whichever is later.\<close>

definition restored_expiry :: "credit_grant \<Rightarrow> int \<Rightarrow> int option" where
  "restored_expiry grant stamp =
     (case g_expires_at grant of None \<Rightarrow> None | Some e \<Rightarrow> Some (max e (stamp + RESTORATION_LIFETIME)))"

definition settle_allocation ::
  "int \<Rightarrow> int \<Rightarrow> credit_allocation \<Rightarrow> int \<times> credit_db \<Rightarrow> credit_error + (int \<times> credit_db)" where
  "settle_allocation user stamp allocation state =
     (let (remaining, db) = state in
      case owned_grant db user (al_grant_id allocation) of
        None \<Rightarrow> Inl NoResultFound
      | Some grant \<Rightarrow>
          let consumed = min remaining (al_quantity allocation);
              released = al_quantity allocation - consumed;
              db1 = mark_allocation (al_id allocation) consumed released db;
              left = remaining - consumed
          in if released = 0 then Inr (left, db1)
             else bindE (grant_row db1 user released ''reservation_release'' (al_id allocation)
                          (g_funding_kind grant) (g_terms_snapshot grant) (restored_expiry grant stamp) stamp
                          (Some (g_origin_type grant)) (Some (g_origin_id grant)) (Some (g_id grant)))
                    (\<lambda>(_, db2). Inr (left, db2)))"

fun settle_allocations ::
  "int \<Rightarrow> int \<Rightarrow> credit_allocation list \<Rightarrow> int \<times> credit_db \<Rightarrow> credit_error + (int \<times> credit_db)" where
  "settle_allocations user stamp [] state = Inr state"
| "settle_allocations user stamp (a # as) state =
     bindE (settle_allocation user stamp a state) (settle_allocations user stamp as)"

definition reservation_allocations :: "credit_db \<Rightarrow> string \<Rightarrow> credit_allocation list" where
  "reservation_allocations db reservation_id =
     sort_key al_ordinal (filter (\<lambda>a. al_reservation_id a = reservation_id) (db_allocations db))"

text \<open>\<open>close_reservation\<close> is the part of \<open>settle_reservation\<close> from the expiry on.\<close>

definition finish_reservation :: "int \<Rightarrow> int \<Rightarrow> int \<Rightarrow> credit_reservation \<Rightarrow> credit_reservation" where
  "finish_reservation committed released stamp r =
     r\<lparr>r_committed_credits := committed, r_released_credits := released,
       r_state := Settled, r_settled_at := Some stamp\<rparr>"

definition close_reservation ::
  "credit_db \<Rightarrow> int \<Rightarrow> credit_reservation \<Rightarrow> int \<Rightarrow> int \<Rightarrow> credit_error + (credit_reservation \<times> credit_db)" where
  "close_reservation db user row committed_credits stamp =
     (let db1 = expire db user stamp;
          allocations = reservation_allocations db1 (r_id row)
      in bindE (require (sum_list (map al_quantity allocations) = r_reserved_credits row)
           (CreditContractError ''Credit allocation history requires reconciliation.'')) (\<lambda>_.
         bindE (settle_allocations user stamp allocations (committed_credits, db1)) (\<lambda>(_, db2).
         let released = r_reserved_credits row - committed_credits;
             finish = finish_reservation committed_credits released stamp;
             db3 = db2\<lparr>db_reservations := update_by r_id (r_id row) finish (db_reservations db2)\<rparr>
         in Inr (finish row, credit_event_row db3 user (''settle:'' @ r_id row) ''settle'' 0
              ''credit_reservation'' (r_id row) stamp None None
              [''committed_credits'' \<mapsto> committed_credits, ''released_credits'' \<mapsto> released]))))"

definition owned_reservation :: "credit_db \<Rightarrow> int \<Rightarrow> string \<Rightarrow> credit_reservation option" where
  "owned_reservation db user reservation_id =
     find (\<lambda>r. r_id r = reservation_id \<and> r_user_id r = Some user) (db_reservations db)"

definition settle_reservation ::
  "credit_db \<Rightarrow> int \<Rightarrow> string \<Rightarrow> int \<Rightarrow> int \<Rightarrow> credit_error + (credit_reservation \<times> credit_db)" where
  "settle_reservation db user reservation_id committed_credits stamp =
     bindE (credit_count committed_credits False) (\<lambda>_.
     bindE (lock_account db user) (\<lambda>db1.
     case owned_reservation db1 user reservation_id of
       None \<Rightarrow> Inl (CreditContractError ''Credit reservation not found.'')
     | Some row \<Rightarrow>
         if r_state row = Settled
         then bindE (require (r_committed_credits row = committed_credits)
                (CreditContractError ''This reservation already has a different final outcome.''))
                (\<lambda>_. Inr (row, db1))
         else
           bindE (require (\<not> committed_credits > r_reserved_credits row)
             (CreditContractError ''The delivered amount exceeds the accepted reservation.''))
             (\<lambda>_. close_reservation db1 user row committed_credits stamp)))"

section \<open>Refund revocation\<close>

text \<open>The loop that takes the revoked credits from the remaining ones of the origin's lots.\<close>

definition revoke_lot :: "int \<Rightarrow> credit_grant \<Rightarrow> credit_db \<Rightarrow> credit_db" where
  "revoke_lot removed grant db =
     db\<lparr>db_grants := update_by g_id (g_id grant)
           (\<lambda>g. g\<lparr>g_remaining_credits := g_remaining_credits g - removed\<rparr>) (db_grants db)\<rparr>"

fun revoke_lots :: "int \<Rightarrow> credit_grant list \<Rightarrow> credit_db \<Rightarrow> int \<times> credit_db" where
  "revoke_lots remaining [] db = (remaining, db)"
| "revoke_lots remaining (grant # lots) db =
     (let removed = min remaining (g_remaining_credits grant)
      in revoke_lots (remaining - removed) lots (revoke_lot removed grant db))"

fun details_target :: "credit_event list \<Rightarrow> credit_error + int list" where
  "details_target [] = Inr []"
| "details_target (e # es) =
     (case ev_details e ''target_credits'' of
        None \<Rightarrow> Inl (KeyError ''target_credits'')
      | Some t \<Rightarrow> bindE (details_target es) (\<lambda>ts. Inr (t # ts)))"

definition expired_offset_of :: "credit_event \<Rightarrow> int" where
  "expired_offset_of e = (case ev_details e ''expired_offset'' of None \<Rightarrow> 0 | Some n \<Rightarrow> n)"

definition origin_grants :: "credit_db \<Rightarrow> int \<Rightarrow> string \<Rightarrow> string \<Rightarrow> credit_grant list" where
  "origin_grants db user origin_type origin_id =
     sort_key lot_key
       (filter (\<lambda>g. g_user_id g = Some user \<and> g_origin_type g = origin_type \<and> g_origin_id g = origin_id)
          (db_grants db))"

definition revoke_events :: "credit_db \<Rightarrow> int \<Rightarrow> string \<Rightarrow> string \<Rightarrow> credit_event list" where
  "revoke_events db user origin_type origin_id =
     filter (\<lambda>e. ev_user_id e = Some user \<and> ev_origin_type e = Some origin_type \<and>
                 ev_origin_id e = Some origin_id \<and> ev_event_type e = ''revoke'') (db_events db)"

text \<open>
  \<open>apply_revocation\<close> is the part of \<open>revoke_origin\<close> that writes: remaining credits first,
  then already expired ones absorb the revocation, and what is left becomes debt.
\<close>

definition apply_revocation ::
  "credit_db \<Rightarrow> int \<Rightarrow> string \<Rightarrow> string \<Rightarrow> credit_grant list \<Rightarrow> credit_event list \<Rightarrow> credit_grant
     \<Rightarrow> int \<Rightarrow> int \<Rightarrow> int \<Rightarrow> credit_db" where
  "apply_revocation db user origin_type origin_id grants previous root target_credits delta stamp =
     (let (remaining, db1) = revoke_lots delta grants db;
          expired_available = sum_list (map g_expired_credits grants)
                              - sum_list (map expired_offset_of previous);
          expired_offset = min remaining (max 0 expired_available);
          debt_added = remaining - expired_offset;
          db2 = add_debt db1 user debt_added
      in credit_event_row db2 user
           (''revoke:'' @ g_id root @ '':'' @ decimal target_credits) ''revoke''
           (- (delta - expired_offset)) ''credit_grant'' (g_id root) stamp
           (Some origin_type) (Some origin_id)
           [''target_credits'' \<mapsto> target_credits, ''expired_offset'' \<mapsto> expired_offset,
            ''debt_added'' \<mapsto> debt_added])"

definition revoke_origin ::
  "credit_db \<Rightarrow> int \<Rightarrow> string \<Rightarrow> string \<Rightarrow> int \<Rightarrow> int \<Rightarrow> credit_error + (int \<times> credit_db)" where
  "revoke_origin db user origin_type origin_id target_credits stamp =
     bindE (credit_count target_credits False) (\<lambda>_.
     bindE (lock_account db user) (\<lambda>db1.
     let db2 = expire db1 user stamp;
         grants = origin_grants db2 user origin_type origin_id
     in case filter (\<lambda>g. g_parent_grant_id g = None) grants of
       [root] \<Rightarrow>
         bindE (require (\<not> target_credits > g_quantity root)
           (CreditContractError ''The refund does not match an original credit grant.'')) (\<lambda>_.
         let previous = revoke_events db2 user origin_type origin_id in
         bindE (details_target previous) (\<lambda>targets.
         let revoked = (if targets = [] then 0 else Max (set targets)) in
         bindE (require (\<not> target_credits < revoked)
           (CreditContractError ''A verified refund cannot move backwards.'')) (\<lambda>_.
         let delta = target_credits - revoked in
         if delta = 0 then Inr (0, db2)
         else Inr (delta, apply_revocation db2 user origin_type origin_id grants previous root
                            target_credits delta stamp))))
     | _ \<Rightarrow> Inl (CreditContractError ''The refund does not match an original credit grant.'')))"

end
