(* ===== verification/Ledger_History.thy ===== *)
theory Ledger_History
  imports Prelude
begin

text \<open>
  The contract of an append-only ledger: every operation appends events, each with
  an amount and the balance after it, such that the balances can be recomputed from
  the amounts. Three ledgers of the program provide it (unified credits, analysis
  units, job-service credits).
\<close>

section \<open>Histories\<close>

text \<open>A history is a list of pairs (amount, recorded balance after the event).\<close>

type_synonym history = "(int \<times> int) list"

fun chained :: "int \<Rightarrow> history \<Rightarrow> bool" where
  "chained b [] \<longleftrightarrow> True"
| "chained b ((amount, after) # es) \<longleftrightarrow> after = b + amount \<and> chained (b + amount) es"

definition amounts :: "history \<Rightarrow> int" where
  "amounts es = sum_list (map fst es)"

text \<open>
  \<open>extends b es b' es'\<close>: from balance \<open>b\<close> and history \<open>es\<close> an operation went to \<open>b'\<close> and
  \<open>es'\<close>, keeping \<open>es\<close> and recording the way from \<open>b\<close> to \<open>b'\<close> without a gap.
\<close>

definition extends :: "int \<Rightarrow> history \<Rightarrow> int \<Rightarrow> history \<Rightarrow> bool" where
  "extends b es b' es' \<longleftrightarrow> (\<exists>new. es' = es @ new \<and> chained b new \<and> b' = b + amounts new)"

lemma amounts_Nil [simp]: "amounts [] = 0"
  by (simp add: amounts_def)

lemma amounts_Cons [simp]: "amounts (e # es) = fst e + amounts es"
  by (simp add: amounts_def)

lemma amounts_append [simp]: "amounts (xs @ ys) = amounts xs + amounts ys"
  by (simp add: amounts_def)

lemma chained_append: "chained b (xs @ ys) \<longleftrightarrow> chained b xs \<and> chained (b + amounts xs) ys"
  by (induction b xs rule: chained.induct) (auto simp: add.assoc)

lemma extends_refl [simp, intro]: "extends b es b es"
  unfolding extends_def by (rule exI [of _ "[]"]) simp

lemma extends_trans [trans]:
  assumes "extends b es b' es'" and "extends b' es' b'' es''"
  shows "extends b es b'' es''"
proof -
  from assms obtain xs ys where "es'' = es @ (xs @ ys)" and "chained b (xs @ ys)"
    and "b'' = b + amounts (xs @ ys)"
    unfolding extends_def by (auto simp: chained_append add.assoc)
  then show ?thesis unfolding extends_def by blast
qed

lemma extends_post:
  "b' = b + amount \<Longrightarrow> after = b' \<Longrightarrow> extends b es b' (es @ [(amount, after)])"
  unfolding extends_def by (rule exI [of _ "[(amount, after)]"]) simp

lemma chained_last: "chained b es \<Longrightarrow> es \<noteq> [] \<Longrightarrow> snd (last es) = b + amounts es"
  by (induction b es rule: chained.induct) auto

lemma extends_chained:
  "extends b es b' es' \<Longrightarrow> chained b0 es \<Longrightarrow> b = b0 + amounts es \<Longrightarrow>
     chained b0 es' \<and> b' = b0 + amounts es'"
  unfolding extends_def by (auto simp: chained_append)

section \<open>The interface\<close>

text \<open>
  \<open>step s t\<close>: some operation of the component took the committed state \<open>s\<close> to \<open>t\<close>.
  \<open>inv\<close> is what the component keeps of its tables. The provider promises that every
  step from a well-formed state extends every owner's history.
\<close>

locale audited_ledger =
  fixes inv :: "'s \<Rightarrow> bool"
    and balance_of :: "'s \<Rightarrow> 'u \<Rightarrow> int"
    and history_of :: "'s \<Rightarrow> 'u \<Rightarrow> history"
    and step :: "'s \<Rightarrow> 's \<Rightarrow> bool"
  assumes inv_step: "inv s \<Longrightarrow> step s t \<Longrightarrow> inv t"
    and step_sums: "inv s \<Longrightarrow> step s t \<Longrightarrow>
      \<exists>new. history_of t u = history_of s u @ new \<and> balance_of t u = balance_of s u + amounts new"
begin

lemma run_inv: "step\<^sup>*\<^sup>* s t \<Longrightarrow> inv s \<Longrightarrow> inv t"
  by (induction rule: rtranclp_induct) (auto intro: inv_step)

lemma run_sums:
  assumes "step\<^sup>*\<^sup>* s t" and "inv s"
  shows "\<exists>new. history_of t u = history_of s u @ new \<and> balance_of t u = balance_of s u + amounts new"
  using assms(1)
proof (induction rule: rtranclp_induct)
  case (step t t')
  have "inv t" using step.hyps(1) assms(2) by (rule run_inv)
  from step_sums [OF this step.hyps(2), of u] step.IH show ?case by force
qed simp

text \<open>History is append-only: a later state keeps every earlier event in place.\<close>

lemma run_append_only:
  "step\<^sup>*\<^sup>* s t \<Longrightarrow> inv s \<Longrightarrow> \<exists>new. history_of t u = history_of s u @ new"
  using run_sums [of s t u] by blast

lemma run_explained:
  assumes "step\<^sup>*\<^sup>* s t" and "inv s" and "balance_of s u = b0 + amounts (history_of s u)"
  shows "balance_of t u = b0 + amounts (history_of t u)"
  using run_sums [OF assms(1,2), of u] assms(3) by auto

end

text \<open>The stronger contract, which also fixes the balance that each event records.\<close>

locale reconciled_ledger =
  fixes inv :: "'s \<Rightarrow> bool"
    and balance_of :: "'s \<Rightarrow> 'u \<Rightarrow> int"
    and history_of :: "'s \<Rightarrow> 'u \<Rightarrow> history"
    and step :: "'s \<Rightarrow> 's \<Rightarrow> bool"
  assumes keeps_inv: "inv s \<Longrightarrow> step s t \<Longrightarrow> inv t"
    and step_extends: "inv s \<Longrightarrow> step s t \<Longrightarrow>
      extends (balance_of s u) (history_of s u) (balance_of t u) (history_of t u)"
begin

lemma sums_of_extends:
  "inv s \<Longrightarrow> step s t \<Longrightarrow>
     \<exists>new. history_of t u = history_of s u @ new \<and> balance_of t u = balance_of s u + amounts new"
  using step_extends [of s t u] unfolding extends_def by blast

end

sublocale reconciled_ledger \<subseteq> audited_ledger inv balance_of history_of step
  by unfold_locales (use keeps_inv sums_of_extends in blast)+

context reconciled_ledger
begin

lemma run_extends:
  assumes "step\<^sup>*\<^sup>* s t" and "inv s"
  shows "extends (balance_of s u) (history_of s u) (balance_of t u) (history_of t u)"
  using assms(1)
proof (induction rule: rtranclp_induct)
  case base
  show ?case by simp
next
  case (step t t')
  have "inv t" using step.hyps(1) assms(2) by (rule run_inv)
  from step.IH step_extends [OF this step.hyps(2)] show ?case by (rule extends_trans)
qed

text \<open>If the events explain the balance at the start, they explain it ever after.\<close>

lemma run_reconciled:
  assumes "step\<^sup>*\<^sup>* s t" and "inv s" and "chained b0 (history_of s u)"
    and "balance_of s u = b0 + amounts (history_of s u)"
  shows "balance_of t u = b0 + amounts (history_of t u) \<and> chained b0 (history_of t u)"
  using extends_chained [OF run_extends [OF assms(1,2)] assms(3,4)] by blast

lemma run_last_balance:
  assumes "step\<^sup>*\<^sup>* s t" and "inv s" and "chained b0 (history_of s u)"
    and "balance_of s u = b0 + amounts (history_of s u)" and "history_of t u \<noteq> []"
  shows "snd (last (history_of t u)) = balance_of t u"
  using run_reconciled [OF assms(1-4)] chained_last [of b0, OF _ assms(5)] by simp

end

end
