(* ===== verification/Credit_History.thy ===== *)
theory Credit_History
  imports Credit_Ledger Ledger_History
begin

text \<open>
  The unified credit ledger provides the contract of \<open>Ledger_History\<close>: whatever the
  operations of \<open>domains/credits/service.py\<close> do, every owner's balance stays the sum of
  the amounts of that owner's events, and each event records the balance it left.
\<close>

section \<open>Identifiers stay fresh\<close>

definition ids_ok :: "credit_db \<Rightarrow> bool" where
  "ids_ok db \<longleftrightarrow> inj (db_supply db) \<and>
     fresh_rows g_id ''cg'' (db_supply db) (db_drawn db) (db_grants db) \<and>
     fresh_rows r_id ''cr'' (db_supply db) (db_drawn db) (db_reservations db) \<and>
     fresh_rows al_id ''ca'' (db_supply db) (db_drawn db) (db_allocations db) \<and>
     fresh_rows ev_id ''ce'' (db_supply db) (db_drawn db) (db_events db) \<and>
     distinct (map acc_user_id (db_accounts db))"

lemma ids_ok_grants: "ids_ok db \<Longrightarrow> distinct (map g_id (db_grants db))"
  by (simp add: ids_ok_def fresh_rows_def)

section \<open>Frame equations\<close>

text \<open>What each primitive leaves alone; the balance depends on grants and debt only.\<close>

lemma credit_event_row_eq:
  "credit_event_row db user key kind amount st si stamp ot oi details =
     db\<lparr>db_drawn := Suc (db_drawn db),
        db_events := db_events db @
          [\<lparr>ev_id = ''ce_'' @ db_supply db (db_drawn db), ev_user_id = Some user,
            ev_idempotency_key = key, ev_event_type = kind, ev_amount = amount,
            ev_balance_after = balance db user, ev_source_type = st, ev_source_id = si,
            ev_origin_type = ot, ev_origin_id = oi, ev_details = details, ev_created_at = stamp\<rparr>]\<rparr>"
  by (simp add: credit_event_row_def public_id_def balance_def debt_of_def)

lemma event_frame [simp]:
  fixes db user key kind amount st si stamp ot oi details
  defines "db' \<equiv> credit_event_row db user key kind amount st si stamp ot oi details"
  shows "db_users db' = db_users db" and "db_accounts db' = db_accounts db"
    and "db_grants db' = db_grants db" and "db_reservations db' = db_reservations db"
    and "db_allocations db' = db_allocations db" and "db_quotes db' = db_quotes db"
    and "db_supply db' = db_supply db" and "db_drawn db' = Suc (db_drawn db)"
    and "db_campaigns db' = db_campaigns db"
  by (simp_all add: db'_def credit_event_row_eq)

lemma balance_cong:
  "db_grants db' = db_grants db \<Longrightarrow> db_accounts db' = db_accounts db \<Longrightarrow> balance db' u = balance db u"
  by (simp add: balance_def debt_of_def)

lemma balance_event [simp]:
  "balance (credit_event_row db user key kind amount st si stamp ot oi details) u = balance db u"
  by (rule balance_cong) simp_all

definition has_account :: "credit_db \<Rightarrow> int \<Rightarrow> bool" where
  "has_account db user \<longleftrightarrow> user \<in> acc_user_id ` set (db_accounts db)"

lemma debt_of_add_debt:
  assumes "has_account db user"
  shows "debt_of (add_debt db user n) u = debt_of db u + (if u = user then n else 0)"
proof -
  have "row_at acc_user_id user (db_accounts db) \<noteq> None"
    using assms by (simp add: has_account_def row_at_None)
  then show ?thesis
    by (auto simp: debt_of_def add_debt_def row_at_update_by split: option.splits)
qed

lemma add_debt_frame [simp]:
  "db_users (add_debt db user n) = db_users db" "db_grants (add_debt db user n) = db_grants db"
  "db_reservations (add_debt db user n) = db_reservations db"
  "db_allocations (add_debt db user n) = db_allocations db"
  "db_events (add_debt db user n) = db_events db" "db_quotes (add_debt db user n) = db_quotes db"
  "db_supply (add_debt db user n) = db_supply db" "db_drawn (add_debt db user n) = db_drawn db"
  by (simp_all add: add_debt_def)

lemma add_debt_users [simp]:
  "map acc_user_id (db_accounts (add_debt db user n)) = map acc_user_id (db_accounts db)"
  by (simp add: add_debt_def map_update_by)

lemma has_account_add_debt [simp]: "has_account (add_debt db user n) u = has_account db u"
  unfolding has_account_def by (metis add_debt_users set_map)

lemma has_account_cong: "db_accounts db' = db_accounts db \<Longrightarrow> has_account db' u = has_account db u"
  by (simp add: has_account_def)

section \<open>Histories of the ledger\<close>

definition credit_history :: "credit_db \<Rightarrow> int \<Rightarrow> history" where
  "credit_history db u =
     map (\<lambda>e. (ev_amount e, ev_balance_after e)) (filter (\<lambda>e. ev_user_id e = Some u) (db_events db))"

definition extends_all :: "credit_db \<Rightarrow> credit_db \<Rightarrow> bool" where
  "extends_all s t \<longleftrightarrow>
     (\<forall>u. extends (balance s u) (credit_history s u) (balance t u) (credit_history t u))"

lemma extends_all_refl [simp, intro]: "extends_all db db"
  by (simp add: extends_all_def)

lemma extends_all_trans [trans]: "extends_all a b \<Longrightarrow> extends_all b c \<Longrightarrow> extends_all a c"
  unfolding extends_all_def by (blast intro: extends_trans)

lemma credit_history_cong: "db_events db' = db_events db \<Longrightarrow> credit_history db' u = credit_history db u"
  by (simp add: credit_history_def)

lemma extends_all_same:
  assumes "db_events t = db_events s" and "\<And>u. balance t u = balance s u"
  shows "extends_all s t"
  using assms(2) credit_history_cong [OF assms(1)] by (simp add: extends_all_def)

text \<open>One event whose amount is the change of the balance it follows.\<close>

lemma extends_all_event:
  assumes "\<And>u. balance db' u = balance db u + (if u = user then amount else 0)"
    and "db_events db' = db_events db"
  shows "extends_all db (credit_event_row db' user key kind amount st si stamp ot oi details)"
  unfolding extends_all_def
proof
  fix u
  let ?e = "credit_event_row db' user key kind amount st si stamp ot oi details"
  show "extends (balance db u) (credit_history db u) (balance ?e u) (credit_history ?e u)"
  proof (cases "u = user")
    case True
    then have "credit_history ?e u = credit_history db u @ [(amount, balance db' u)]"
      by (simp add: credit_history_def credit_event_row_eq assms(2))
    with True show ?thesis by (simp add: assms(1) extends_post)
  next
    case False
    then have "credit_history ?e u = credit_history db u"
      by (simp add: credit_history_def credit_event_row_eq assms(2))
    with False show ?thesis by (simp add: assms(1))
  qed
qed

section \<open>Primitives\<close>

lemma lock_account_Inr:
  assumes "lock_account db user = Inr db1"
  shows "user \<in> set (db_users db) \<and> has_account db1 user \<and>
     (db1 = db \<or> (\<not> has_account db user \<and>
        db1 = db\<lparr>db_accounts := db_accounts db @ [\<lparr>acc_user_id = user, acc_debt_credits = 0\<rparr>]\<rparr>))"
proof (cases "row_at acc_user_id user (db_accounts db)")
  case None
  then have "\<not> has_account db user" by (simp add: row_at_None has_account_def)
  with None assms show ?thesis
    by (simp add: lock_account_def lock_owner_def result_simps) (auto simp: has_account_def)
next
  case (Some a)
  then have "has_account db user" using row_at_SomeD [OF Some] by (auto simp: has_account_def)
  with Some assms show ?thesis
    by (auto simp: lock_account_def lock_owner_def result_simps)
qed

lemma debt_lock_account:
  assumes "lock_account db user = Inr db1"
  shows "debt_of db1 u = debt_of db u"
proof (cases "db1 = db")
  case False
  with lock_account_Inr [OF assms] have "\<not> has_account db user"
    and "db1 = db\<lparr>db_accounts := db_accounts db @ [\<lparr>acc_user_id = user, acc_debt_credits = 0\<rparr>]\<rparr>"
    by auto
  then show ?thesis
    by (auto simp: debt_of_def row_at_append has_account_def row_at_None split: option.splits
        dest: row_at_SomeD)
qed simp

lemma lock_account_frame:
  assumes "lock_account db user = Inr db1"
  shows "db_users db1 = db_users db" "db_grants db1 = db_grants db" "db_quotes db1 = db_quotes db"
    "db_reservations db1 = db_reservations db" "db_allocations db1 = db_allocations db"
    "db_events db1 = db_events db" "db_supply db1 = db_supply db" "db_drawn db1 = db_drawn db"
  using lock_account_Inr [OF assms] by auto

lemma balance_lock_account: "lock_account db user = Inr db1 \<Longrightarrow> balance db1 u = balance db u"
  by (simp add: balance_def debt_lock_account lock_account_frame)

lemma ids_ok_lock_account: "lock_account db user = Inr db1 \<Longrightarrow> ids_ok db \<Longrightarrow> ids_ok db1"
  by (drule lock_account_Inr) (auto simp: ids_ok_def has_account_def)

lemma extends_lock_account: "lock_account db user = Inr db1 \<Longrightarrow> extends_all db db1"
  by (rule extends_all_same) (simp_all add: lock_account_frame balance_lock_account)

lemma ids_ok_event [simp]:
  assumes "ids_ok db"
  shows "ids_ok (credit_event_row db user key kind amount st si stamp ot oi details)"
  using assms unfolding ids_ok_def
  by (auto intro: fresh_rows_Suc simp: credit_event_row_eq intro!: fresh_rows_snoc)

lemma ids_ok_add_debt [simp]: "ids_ok (add_debt db user n) = ids_ok db"
  by (simp add: ids_ok_def)

text \<open>An update of one owned grant moves the owner's balance by what it adds to the rest.\<close>

lemma balance_update_grant:
  assumes "distinct (map g_id (db_grants db))" and "g \<in> set (db_grants db)"
    and "g_user_id g = Some user" and "g_user_id (f g) = g_user_id g"
  shows "balance (db\<lparr>db_grants := update_by g_id (g_id g) f (db_grants db)\<rparr>) u =
    balance db u + (if u = user then g_remaining_credits (f g) - g_remaining_credits g else 0)"
  using total_update_by [OF assms(1,2) refl, of "\<lambda>g. g_user_id g = Some u" f g_remaining_credits] assms
  by (auto simp: balance_def debt_of_def)

lemma ids_ok_update_grant:
  assumes "\<And>g. g_id (f g) = g_id g"
  shows "ids_ok (db\<lparr>db_grants := update_by g_id k f (db_grants db)\<rparr>) = ids_ok db"
  by (simp add: ids_ok_def fresh_rows_update_by assms)

section \<open>Expiry\<close>

lemma expire_one_frame [simp]:
  "db_users (expire_one user stamp g db) = db_users db"
  "db_accounts (expire_one user stamp g db) = db_accounts db"
  "db_reservations (expire_one user stamp g db) = db_reservations db"
  "db_allocations (expire_one user stamp g db) = db_allocations db"
  "db_quotes (expire_one user stamp g db) = db_quotes db"
  "db_supply (expire_one user stamp g db) = db_supply db"
  by (simp_all add: expire_one_def Let_def)

lemma expire_one_grants:
  "db_grants (expire_one user stamp g db) =
     update_by g_id (g_id g) (\<lambda>r. r\<lparr>g_remaining_credits := 0,
       g_expired_credits := g_expired_credits r + g_remaining_credits g\<rparr>) (db_grants db)"
  by (simp add: expire_one_def Let_def)

lemma ids_ok_expire_one: "ids_ok db \<Longrightarrow> ids_ok (expire_one user stamp g db)"
  unfolding expire_one_def Let_def by (rule ids_ok_event) (simp add: ids_ok_update_grant)

text \<open>
  The rule for a loop over rows that were read before the loop: as identifiers are
  distinct, a row is still unchanged in the table when its turn comes.
\<close>

lemma fold_expire_rule:
  assumes "ids_ok db" and "distinct (map g_id gs)" and "set gs \<subseteq> set (db_grants db)" and "P db"
    and step: "\<And>db g. P db \<Longrightarrow> ids_ok db \<Longrightarrow> g \<in> set (db_grants db) \<Longrightarrow> g \<in> set gs
      \<Longrightarrow> P (expire_one user stamp g db)"
  shows "ids_ok (fold (expire_one user stamp) gs db) \<and> P (fold (expire_one user stamp) gs db)"
  using assms
proof (induction gs arbitrary: db)
  case Nil
  then show ?case by simp
next
  case (Cons g gs)
  let ?db = "expire_one user stamp g db"
  have "set gs \<subseteq> set (db_grants ?db)"
  proof
    fix h
    assume "h \<in> set gs"
    with Cons.prems have "h \<in> set (db_grants db)" and "g_id h \<noteq> g_id g" by (auto simp: rev_image_eqI)
    then show "h \<in> set (db_grants ?db)" unfolding expire_one_grants by (rule mem_update_by_other)
  qed
  moreover have "P ?db" using Cons.prems by auto
  moreover have "ids_ok ?db" using Cons.prems(1) by (rule ids_ok_expire_one)
  moreover have "distinct (map g_id gs)" using Cons.prems(2) by simp
  ultimately have "ids_ok (fold (expire_one user stamp) gs ?db) \<and> P (fold (expire_one user stamp) gs ?db)"
    using Cons.prems(5) by (intro Cons.IH) auto
  then show ?case by simp
qed

definition stale :: "int \<Rightarrow> int \<Rightarrow> credit_grant \<Rightarrow> bool" where
  "stale user stamp g \<longleftrightarrow> g_user_id g = Some user \<and> g_remaining_credits g > 0 \<and>
     (case g_expires_at g of None \<Rightarrow> False | Some e \<Rightarrow> e \<le> stamp)"

lemma set_expirable: "set (expirable db user stamp) = {g \<in> set (db_grants db). stale user stamp g}"
  by (auto simp: expirable_def stale_def)

lemma distinct_map_sort_key: "distinct (map k (sort_key f xs)) = distinct (map k xs)"
proof -
  have "mset (map k (sort_key f xs)) = mset (map k xs)" by simp
  then show ?thesis by (metis mset_eq_imp_distinct_iff)
qed

lemma distinct_map_filter_sort:
  "distinct (map k xs) \<Longrightarrow> distinct (map k (sort_key f (filter p xs)))"
  by (simp add: distinct_map_sort_key distinct_map_filter)

lemma expire_rule:
  assumes "ids_ok db" and "P db"
    and "\<And>db g. P db \<Longrightarrow> ids_ok db \<Longrightarrow> g \<in> set (db_grants db) \<Longrightarrow> stale user stamp g
      \<Longrightarrow> P (expire_one user stamp g db)"
  shows "P (expire db user stamp)"
proof -
  have "distinct (map g_id (expirable db user stamp))"
    unfolding expirable_def by (rule distinct_map_filter_sort) (rule ids_ok_grants [OF assms(1)])
  then have "ids_ok (fold (expire_one user stamp) (expirable db user stamp) db) \<and>
    P (fold (expire_one user stamp) (expirable db user stamp) db)"
    by (intro fold_expire_rule assms) (auto simp: set_expirable)
  then show ?thesis by (simp add: expire_def)
qed

lemma ids_ok_expire: "ids_ok db \<Longrightarrow> ids_ok (expire db user stamp)"
  by (rule expire_rule) (auto intro: ids_ok_expire_one)

lemma expire_frame [simp]:
  "db_users (expire db user stamp) = db_users db"
  "db_accounts (expire db user stamp) = db_accounts db"
  "db_reservations (expire db user stamp) = db_reservations db"
  "db_allocations (expire db user stamp) = db_allocations db"
  "db_quotes (expire db user stamp) = db_quotes db"
  "db_supply (expire db user stamp) = db_supply db"
proof -
  have "db_users (fold (expire_one user stamp) gs db) = db_users db \<and>
    db_accounts (fold (expire_one user stamp) gs db) = db_accounts db \<and>
    db_reservations (fold (expire_one user stamp) gs db) = db_reservations db \<and>
    db_allocations (fold (expire_one user stamp) gs db) = db_allocations db \<and>
    db_quotes (fold (expire_one user stamp) gs db) = db_quotes db \<and>
    db_supply (fold (expire_one user stamp) gs db) = db_supply db" for gs
    by (induction gs arbitrary: db) simp_all
  then show
    "db_users (expire db user stamp) = db_users db"
    "db_accounts (expire db user stamp) = db_accounts db"
    "db_reservations (expire db user stamp) = db_reservations db"
    "db_allocations (expire db user stamp) = db_allocations db"
    "db_quotes (expire db user stamp) = db_quotes db"
    "db_supply (expire db user stamp) = db_supply db"
    by (simp_all add: expire_def)
qed

lemma has_account_expire [simp]: "has_account (expire db user stamp) u = has_account db u"
  by (rule has_account_cong) simp

lemma extends_expire_one:
  assumes "ids_ok db" and "g \<in> set (db_grants db)" and "g_user_id g = Some user"
  shows "extends_all db (expire_one user stamp g db)"
  unfolding expire_one_def Let_def
  by (rule extends_all_event)
     (simp_all add: balance_update_grant [OF ids_ok_grants [OF assms(1)] assms(2,3)])

lemma extends_expire:
  assumes "ids_ok db"
  shows "extends_all db (expire db user stamp)"
  using assms
proof (rule expire_rule)
  fix db' g
  assume "extends_all db db'" and "ids_ok db'" "g \<in> set (db_grants db')" "stale user stamp g"
  then show "extends_all db (expire_one user stamp g db')"
    by (auto simp: stale_def intro: extends_all_trans extends_expire_one)
qed simp

section \<open>Grants\<close>

lemma credit_count_Inr [result_simps]:
  "credit_count v positive = Inr n \<longleftrightarrow> n = v \<and> (if positive then 1 else 0) \<le> v \<and> v \<le> 10 ^ 9"
  by (auto simp: credit_count_def)

lemma grant_row_Inr:
  assumes "grant_row db user q st si fk ts ex stamp ot0 oi0 parent = Inr (g, db')"
  shows "0 < q \<and> q \<le> 10 ^ 9 \<and>
    (case grant_by_source db user st si of
       Some g' \<Rightarrow> g = g' \<and> db' = db \<and> g_quantity g = q
     | None \<Rightarrow> (\<forall>e. ex = Some e \<longrightarrow> stamp < e) \<and>
         (g, db') = issue_grant db user q st si fk ts ex stamp (str_or ot0 st) (str_or oi0 si) parent)"
  using assms
  by (cases "grant_by_source db user st si")
     (auto simp: grant_row_def Let_def result_simps split: option.splits)

lemma issue_grant_eq:
  "issue_grant db user q st si fk ts ex stamp ot oi parent =
    (let off = min (debt_of db user) q;
         g = \<lparr>g_id = ''cg_'' @ db_supply db (db_drawn db), g_user_id = Some user,
            g_source_type = st, g_source_id = si, g_origin_type = ot, g_origin_id = oi,
            g_funding_kind = fk, g_quantity = q, g_remaining_credits = q - off,
            g_expired_credits = 0, g_issued_at = stamp, g_expires_at = ex, g_terms_snapshot = ts,
            g_parent_grant_id = parent\<rparr>
     in (g, credit_event_row
             ((add_debt db user (- off))\<lparr>db_drawn := Suc (db_drawn db), db_grants := db_grants db @ [g]\<rparr>)
             user (''grant:'' @ g_id g)
             (if parent = None \<or> parent = Some [] then ''grant'' else ''restore'')
             q st si stamp (Some ot) (Some oi) [''debt_offset'' \<mapsto> off]))"
  by (simp add: issue_grant_def public_id_def Let_def)

lemma balance_insert_grant:
  assumes "has_account db user" and "g_user_id g = Some user"
  shows "balance ((add_debt db user (- off))\<lparr>db_drawn := n, db_grants := db_grants db @ [g]\<rparr>) u =
    balance db u + (if u = user then g_remaining_credits g + off else 0)"
proof -
  have "debt_of ((add_debt db user (- off))\<lparr>db_drawn := n, db_grants := db_grants db @ [g]\<rparr>) u =
      debt_of (add_debt db user (- off)) u"
    by (simp add: debt_of_def)
  with assms show ?thesis by (simp add: balance_def debt_of_add_debt)
qed

lemma issue_grant_posts:
  assumes "issue_grant db user q st si fk ts ex stamp ot oi parent = (g, db')"
  obtains key kind details where
    "db' = credit_event_row ((add_debt db user (- min (debt_of db user) q))
        \<lparr>db_drawn := Suc (db_drawn db), db_grants := db_grants db @ [g]\<rparr>)
      user key kind q st si stamp (Some ot) (Some oi) details"
    and "g_id g = ''cg'' @ ''_'' @ db_supply db (db_drawn db)" and "g_user_id g = Some user"
    and "g_remaining_credits g = q - min (debt_of db user) q" and "g_quantity g = q"
    and "g_expired_credits g = 0" and "g_source_type g = st" and "g_source_id g = si"
    and "g_issued_at g = stamp" and "g_expires_at g = ex" and "g_parent_grant_id g = parent"
    and "g_origin_type g = ot" and "g_origin_id g = oi"
proof -
  let ?kind = "if parent = None \<or> parent = Some [] then ''grant'' else ''restore''"
  have g: "g = fst (issue_grant db user q st si fk ts ex stamp ot oi parent)"
    and db': "db' = snd (issue_grant db user q st si fk ts ex stamp ot oi parent)"
    using assms by simp_all
  have "db' = credit_event_row ((add_debt db user (- min (debt_of db user) q))
        \<lparr>db_drawn := Suc (db_drawn db), db_grants := db_grants db @ [g]\<rparr>)
      user (''grant:'' @ g_id g) ?kind q st si stamp (Some ot) (Some oi)
      [''debt_offset'' \<mapsto> min (debt_of db user) q]"
    unfolding db' g issue_grant_eq Let_def fst_conv snd_conv by (rule refl)
  moreover have "g_id g = ''cg'' @ ''_'' @ db_supply db (db_drawn db)" "g_user_id g = Some user"
    "g_remaining_credits g = q - min (debt_of db user) q" "g_quantity g = q" "g_expired_credits g = 0"
    "g_source_type g = st" "g_source_id g = si" "g_issued_at g = stamp" "g_expires_at g = ex"
    "g_parent_grant_id g = parent" "g_origin_type g = ot" "g_origin_id g = oi"
    unfolding g issue_grant_eq Let_def by simp_all
  ultimately show ?thesis by (rule that)
qed

lemma extends_issue_grant:
  assumes "has_account db user" and "issue_grant db user q st si fk ts ex stamp ot oi parent = (g, db')"
  shows "extends_all db db'"
  using assms(2)
proof (rule issue_grant_posts)
  fix key kind details
  assume row: "db' = credit_event_row ((add_debt db user (- min (debt_of db user) q))
        \<lparr>db_drawn := Suc (db_drawn db), db_grants := db_grants db @ [g]\<rparr>)
      user key kind q st si stamp (Some ot) (Some oi) details"
    and g: "g_user_id g = Some user" "g_remaining_credits g = q - min (debt_of db user) q"
  show ?thesis unfolding row
    by (rule extends_all_event) (simp_all add: balance_insert_grant [OF assms(1) g(1)] g(2))
qed

lemma ids_ok_issue_grant:
  assumes "ids_ok db" and "issue_grant db user q st si fk ts ex stamp ot oi parent = (g, db')"
  shows "ids_ok db'"
  using assms(2)
proof (rule issue_grant_posts)
  fix key kind details
  assume row: "db' = credit_event_row ((add_debt db user (- min (debt_of db user) q))
        \<lparr>db_drawn := Suc (db_drawn db), db_grants := db_grants db @ [g]\<rparr>)
      user key kind q st si stamp (Some ot) (Some oi) details"
    and g: "g_id g = ''cg'' @ ''_'' @ db_supply db (db_drawn db)"
  show ?thesis unfolding row
  proof (rule ids_ok_event)
    show "ids_ok ((add_debt db user (- min (debt_of db user) q))
        \<lparr>db_drawn := Suc (db_drawn db), db_grants := db_grants db @ [g]\<rparr>)"
      using assms(1) fresh_rows_snoc [of "db_supply db" g_id "''cg''" "db_drawn db" "db_grants db" g] g
      by (simp add: ids_ok_def fresh_rows_Suc)
  qed
qed

lemma issue_grant_frame:
  assumes "issue_grant db user q st si fk ts ex stamp ot oi parent = (g, db')"
  shows "db_users db' = db_users db" "db_reservations db' = db_reservations db"
    "db_allocations db' = db_allocations db" "db_quotes db' = db_quotes db"
    "db_grants db' = db_grants db @ [g]" "has_account db' u = has_account db u"
proof -
  from assms have db': "db' = snd (issue_grant db user q st si fk ts ex stamp ot oi parent)"
    and g: "g = fst (issue_grant db user q st si fk ts ex stamp ot oi parent)" by simp_all
  show "db_users db' = db_users db" "db_reservations db' = db_reservations db"
    "db_allocations db' = db_allocations db" "db_quotes db' = db_quotes db"
    "db_grants db' = db_grants db @ [g]"
    by (simp_all add: db' g issue_grant_eq Let_def)
  have "acc_user_id ` set (db_accounts db') = acc_user_id ` set (db_accounts (add_debt db user (- min (debt_of db user) q)))"
    by (simp add: db' issue_grant_eq Let_def)
  then show "has_account db' u = has_account db u"
    by (metis has_account_add_debt has_account_def)
qed

text \<open>A grant keeps the ledger's contract, whether it inserts or finds its source.\<close>

lemma extends_grant_row:
  assumes "has_account db user"
    and "grant_row db user q st si fk ts ex stamp ot0 oi0 parent = Inr (g, db')"
  shows "extends_all db db'"
  using grant_row_Inr [OF assms(2)] extends_issue_grant [OF assms(1)]
  by (auto split: option.splits dest!: sym [of "(g, db')"])

lemma ids_ok_grant_row:
  assumes "ids_ok db" and "grant_row db user q st si fk ts ex stamp ot0 oi0 parent = Inr (g, db')"
  shows "ids_ok db'"
  using grant_row_Inr [OF assms(2)] ids_ok_issue_grant [OF assms(1)] assms(1)
  by (auto split: option.splits dest!: sym [of "(g, db')"])

lemma grant_row_frame:
  assumes "grant_row db user q st si fk ts ex stamp ot0 oi0 parent = Inr (g, db')"
  shows "db_users db' = db_users db" "db_reservations db' = db_reservations db"
    "db_allocations db' = db_allocations db" "db_quotes db' = db_quotes db"
    "has_account db' u = has_account db u"
  using grant_row_Inr [OF assms] issue_grant_frame
  by (auto split: option.splits dest!: sym [of "(g, db')"])

section \<open>Reservations\<close>

lemma allocate_lot_frame [simp]:
  "db_users (allocate_lot rid i n g db) = db_users db"
  "db_accounts (allocate_lot rid i n g db) = db_accounts db"
  "db_reservations (allocate_lot rid i n g db) = db_reservations db"
  "db_events (allocate_lot rid i n g db) = db_events db"
  "db_quotes (allocate_lot rid i n g db) = db_quotes db"
  "db_supply (allocate_lot rid i n g db) = db_supply db"
  "db_drawn (allocate_lot rid i n g db) = Suc (db_drawn db)"
  by (simp_all add: allocate_lot_def public_id_def)

lemma allocate_lot_grants:
  "db_grants (allocate_lot rid i n g db) = update_by g_id (g_id g)
     (\<lambda>g. g\<lparr>g_remaining_credits := g_remaining_credits g - n\<rparr>) (db_grants db)"
  by (simp add: allocate_lot_def public_id_def)

lemma allocate_lot_allocations:
  "db_allocations (allocate_lot rid i n g db) = db_allocations db @
     [\<lparr>al_id = ''ca'' @ ''_'' @ db_supply db (db_drawn db), al_reservation_id = rid,
       al_grant_id = g_id g, al_ordinal = i, al_quantity = n, al_committed_credits = 0,
       al_released_credits = 0\<rparr>]"
  by (simp add: allocate_lot_def public_id_def)

lemma balance_allocate_lot:
  assumes "ids_ok db" and "g \<in> set (db_grants db)" and "g_user_id g = Some user"
  shows "balance (allocate_lot rid i n g db) u = balance db u - (if u = user then n else 0)"
proof -
  have "balance (allocate_lot rid i n g db) u =
    balance (db\<lparr>db_grants := update_by g_id (g_id g)
      (\<lambda>g. g\<lparr>g_remaining_credits := g_remaining_credits g - n\<rparr>) (db_grants db)\<rparr>) u"
    by (rule balance_cong) (simp_all add: allocate_lot_grants)
  with balance_update_grant [OF ids_ok_grants [OF assms(1)] assms(2,3)] show ?thesis by simp
qed

lemma ids_ok_allocate_lot: "ids_ok db \<Longrightarrow> ids_ok (allocate_lot rid i n g db)"
  unfolding ids_ok_def
  by (auto simp: allocate_lot_grants allocate_lot_allocations fresh_rows_update_by
      intro: fresh_rows_Suc fresh_rows_snoc)

lemma allocate_lots_rule:
  assumes "allocate_lots rid i rem lots db = (left, db')"
    and "ids_ok db" and "distinct (map g_id lots)" and "set lots \<subseteq> set (db_grants db)"
    and "P rem i lots db" and "0 < rem"
    and step: "\<And>db g gs rem i. P rem i (g # gs) db \<Longrightarrow> ids_ok db \<Longrightarrow> 0 < rem \<Longrightarrow> g \<in> set (db_grants db)
      \<Longrightarrow> set (g # gs) \<subseteq> set lots \<Longrightarrow> g_id g \<notin> g_id ` set gs
      \<Longrightarrow> P (rem - min rem (g_remaining_credits g)) (Suc i) gs
            (allocate_lot rid i (min rem (g_remaining_credits g)) g db)"
  shows "ids_ok db' \<and> (\<exists>j rest. P left j rest db')"
  using assms
proof (induction lots arbitrary: i rem db)
  case Nil
  then show ?case by auto
next
  case (Cons g gs)
  let ?n = "min rem (g_remaining_credits g)"
  let ?db = "allocate_lot rid i ?n g db"
  have ids: "ids_ok ?db" using Cons.prems(2) by (rule ids_ok_allocate_lot)
  have P: "P (rem - ?n) (Suc i) gs ?db"
    using Cons.prems by (intro Cons.prems(7)) auto
  show ?case
  proof (cases "rem - ?n = 0")
    case True
    with Cons.prems(1) have "left = rem - ?n" "db' = ?db" by (auto simp: Let_def)
    with ids P show ?thesis by blast
  next
    case False
    then have more: "allocate_lots rid (Suc i) (rem - ?n) gs ?db = (left, db')" and pos: "0 < rem - ?n"
      using Cons.prems(1) by (auto simp: Let_def split: if_splits)
    have "set gs \<subseteq> set (db_grants ?db)"
    proof
      fix h
      assume "h \<in> set gs"
      with Cons.prems have "h \<in> set (db_grants db)" and "g_id h \<noteq> g_id g" by (auto simp: rev_image_eqI)
      then show "h \<in> set (db_grants ?db)" unfolding allocate_lot_grants by (rule mem_update_by_other)
    qed
    moreover have "distinct (map g_id gs)" using Cons.prems(3) by simp
    ultimately show ?thesis
    proof (intro Cons.IH [OF more ids _ _ P pos])
      fix d h hs r k
      assume "P r k (h # hs) d" "ids_ok d" "0 < r" "h \<in> set (db_grants d)" "set (h # hs) \<subseteq> set gs"
        "g_id h \<notin> g_id ` set hs"
      then show "P (r - min r (g_remaining_credits h)) (Suc k) hs
          (allocate_lot rid k (min r (g_remaining_credits h)) h d)"
        by (intro Cons.prems(7)) auto
    qed
  qed
qed

text \<open>What the loop leaves uncovered depends on the lots alone.\<close>

lemma allocate_lots_left:
  assumes "\<And>g. g \<in> set lots \<Longrightarrow> 0 < g_remaining_credits g" and "0 < rem"
  shows "fst (allocate_lots rid i rem lots db) = max 0 (rem - sum_list (map g_remaining_credits lots))"
  using assms
proof (induction lots arbitrary: i rem db)
  case Nil
  then show ?case by simp
next
  case (Cons g gs)
  have g: "0 < g_remaining_credits g" using Cons.prems(1) by simp
  have gs: "0 \<le> sum_list (map g_remaining_credits gs)"
    using Cons.prems(1) by (intro sum_list_nonneg) (auto intro: less_imp_le)
  show ?case
  proof (cases "rem \<le> g_remaining_credits g")
    case True
    with g gs Cons.prems(2) show ?thesis by (simp add: Let_def)
  next
    case False
    with g gs Cons.prems(2) Cons.IH [of "rem - g_remaining_credits g"] Cons.prems(1)
    show ?thesis by (simp add: Let_def)
  qed
qed

definition usable :: "int \<Rightarrow> int \<Rightarrow> credit_grant \<Rightarrow> bool" where
  "usable user stamp g \<longleftrightarrow> g_user_id g = Some user \<and> g_remaining_credits g > 0 \<and>
     (case g_expires_at g of None \<Rightarrow> True | Some e \<Rightarrow> e > stamp)"

lemma set_usable_lots: "set (usable_lots db user stamp) = {g \<in> set (db_grants db). usable user stamp g}"
  by (auto simp: usable_lots_def usable_def)

lemma distinct_usable_lots: "ids_ok db \<Longrightarrow> distinct (map g_id (usable_lots db user stamp))"
  unfolding usable_lots_def by (rule distinct_map_filter_sort) (rule ids_ok_grants)

lemma balance_allocate_lots:
  assumes "allocate_lots rid 0 credits (usable_lots db user stamp) db = (left, db')"
    and "ids_ok db" and "0 < credits"
  shows "ids_ok db' \<and> db_events db' = db_events db \<and>
    (\<forall>u. balance db' u = balance db u - (if u = user then credits - left else 0))"
proof -
  let ?P = "\<lambda>rem (i :: nat) (todo :: credit_grant list) d. db_events d = db_events db \<and>
    (\<forall>u. balance d u = balance db u - (if u = user then credits - rem else 0))"
  have "ids_ok db' \<and> (\<exists>j rest. ?P left j rest db')"
    using assms(1)
  proof (rule allocate_lots_rule [where P = ?P])
    fix d g gs rem i
    assume "?P rem i (g # gs) d" and "ids_ok d" and "g \<in> set (db_grants d)"
      and "set (g # gs) \<subseteq> set (usable_lots db user stamp)"
    then show "?P (rem - min rem (g_remaining_credits g)) (Suc i) gs
        (allocate_lot rid i (min rem (g_remaining_credits g)) g d)"
      by (auto simp: balance_allocate_lot set_usable_lots usable_def)
  qed (use assms in \<open>auto simp: distinct_usable_lots set_usable_lots\<close>)
  then show ?thesis by blast
qed

lemma book_reservation_Inr:
  assumes "book_reservation db user operation source_id key credits fp snap allowance stamp = Inr (row, db')"
  obtains db1 db2 where
    "row = \<lparr>r_id = ''cr'' @ ''_'' @ db_supply db (db_drawn db), r_user_id = Some user,
       r_idempotency_key = key, r_operation = operation, r_source_id = source_id,
       r_input_fingerprint = fp, r_quote_snapshot = snap, r_execution_allowance_minor = allowance,
       r_reserved_credits = credits, r_committed_credits = 0, r_released_credits = 0,
       r_state = Reserved, r_created_at = stamp, r_settled_at = None\<rparr>"
    and "db1 = db\<lparr>db_drawn := Suc (db_drawn db), db_reservations := db_reservations db @ [row]\<rparr>"
    and "allocate_lots (r_id row) 0 credits (usable_lots db1 user stamp) db1 = (0, db2)"
    and "db' = credit_event_row db2 user (''reserve:'' @ r_id row) ''reserve'' (- credits)
           ''credit_reservation'' (r_id row) stamp None None Map.empty"
  using assms by (auto simp: book_reservation_def public_id_def Let_def result_simps split: prod.splits)

definition same_terms ::
  "credit_reservation \<Rightarrow> string \<Rightarrow> string \<Rightarrow> int \<Rightarrow> string \<Rightarrow> json \<Rightarrow> int \<Rightarrow> bool" where
  "same_terms r operation source_id credits fp snap allowance \<longleftrightarrow>
     (r_operation r, r_source_id r, r_reserved_credits r, r_input_fingerprint r, r_quote_snapshot r,
      r_execution_allowance_minor r) = (operation, source_id, credits, fp, snap, allowance)"

lemma reserve_credits_Inr:
  assumes "reserve_credits db user operation source_id key credits fp snap allowance stamp = Inr (row, db')"
  obtains db1 where "lock_account db user = Inr db1" and "0 < credits" and "credits \<le> 10 ^ 9"
    and "0 \<le> allowance" and "allowance \<le> credits * EXECUTION_MINOR_PER_CREDIT"
    and "prior_reservations db1 user key operation source_id = [row] \<and> db' = db1 \<and>
           same_terms row operation source_id credits fp snap allowance \<or>
         prior_reservations db1 user key operation source_id = [] \<and>
           credits \<le> balance (expire db1 user stamp) user \<and>
           book_reservation (expire db1 user stamp) user operation source_id key credits fp snap
             allowance stamp = Inr (row, db')"
proof -
  from assms obtain db1 where lock: "lock_account db user = Inr db1"
    and basic: "0 < credits" "credits \<le> 10 ^ 9" "0 \<le> allowance"
       "allowance \<le> credits * EXECUTION_MINOR_PER_CREDIT"
    by (auto simp: reserve_credits_def result_simps)
  show ?thesis
    using assms lock basic
    by (intro that [OF lock basic], cases "prior_reservations db1 user key operation source_id")
       (auto simp: reserve_credits_def result_simps Let_def same_terms_def)
qed

lemma book_reservation_effect:
  assumes "ids_ok db" and "0 < credits"
    and "book_reservation db user operation source_id key credits fp snap allowance stamp = Inr (row, db')"
  shows "ids_ok db'" and "balance db' u = balance db u - (if u = user then credits else 0)"
    and "extends_all db db'"
proof -
  from assms(3) obtain db1 db2 where
    row: "r_id row = ''cr'' @ ''_'' @ db_supply db (db_drawn db)"
    and db1: "db1 = db\<lparr>db_drawn := Suc (db_drawn db), db_reservations := db_reservations db @ [row]\<rparr>"
    and alloc: "allocate_lots (r_id row) 0 credits (usable_lots db1 user stamp) db1 = (0, db2)"
    and db': "db' = credit_event_row db2 user (''reserve:'' @ r_id row) ''reserve'' (- credits)
           ''credit_reservation'' (r_id row) stamp None None Map.empty"
    by (rule book_reservation_Inr) auto
  have "ids_ok db1"
    using assms(1) fresh_rows_snoc [of "db_supply db" r_id "''cr''" "db_drawn db" "db_reservations db" row] row
    by (simp add: ids_ok_def db1 fresh_rows_Suc)
  note eff = balance_allocate_lots [OF alloc this assms(2)]
  have same: "balance db1 u = balance db u" for u by (rule balance_cong) (simp_all add: db1)
  show "ids_ok db'" using eff by (simp add: db')
  show "balance db' u = balance db u - (if u = user then credits else 0)"
    using eff by (simp add: db' same)
  show "extends_all db db'"
    unfolding db' by (rule extends_all_event) (use eff in \<open>simp_all add: same, simp add: db1\<close>)
qed

text \<open>Reserving, at the level of the whole operation.\<close>

lemma reserve_credits_effect:
  assumes "ids_ok db"
    and "reserve_credits db user operation source_id key credits fp snap allowance stamp = Inr (row, db')"
  shows "ids_ok db' \<and> extends_all db db'"
  using assms(2)
proof (rule reserve_credits_Inr)
  fix db1
  assume lock: "lock_account db user = Inr db1" and pos: "0 < credits"
    and cases: "prior_reservations db1 user key operation source_id = [row] \<and> db' = db1 \<and>
           same_terms row operation source_id credits fp snap allowance \<or>
         prior_reservations db1 user key operation source_id = [] \<and>
           credits \<le> balance (expire db1 user stamp) user \<and>
           book_reservation (expire db1 user stamp) user operation source_id key credits fp snap
             allowance stamp = Inr (row, db')"
  have ids: "ids_ok db1" using lock assms(1) by (rule ids_ok_lock_account)
  note ext = extends_all_trans [OF extends_lock_account [OF lock] extends_expire [OF ids]]
  from cases show ?thesis
  proof
    assume "prior_reservations db1 user key operation source_id = [row] \<and> db' = db1 \<and>
      same_terms row operation source_id credits fp snap allowance"
    with ids extends_lock_account [OF lock] show ?thesis by simp
  next
    assume "prior_reservations db1 user key operation source_id = [] \<and>
      credits \<le> balance (expire db1 user stamp) user \<and>
      book_reservation (expire db1 user stamp) user operation source_id key credits fp snap
             allowance stamp = Inr (row, db')"
    then have book: "book_reservation (expire db1 user stamp) user operation source_id key credits fp snap
             allowance stamp = Inr (row, db')" by simp
    note eff = book_reservation_effect [OF ids_ok_expire [OF ids] pos book]
    from eff(1) extends_all_trans [OF ext eff(3)] show ?thesis by blast
  qed
qed

section \<open>Settlement\<close>

lemma mark_allocation_frame [simp]:
  "db_users (mark_allocation aid c r db) = db_users db"
  "db_accounts (mark_allocation aid c r db) = db_accounts db"
  "db_grants (mark_allocation aid c r db) = db_grants db"
  "db_reservations (mark_allocation aid c r db) = db_reservations db"
  "db_events (mark_allocation aid c r db) = db_events db"
  "db_quotes (mark_allocation aid c r db) = db_quotes db"
  "db_supply (mark_allocation aid c r db) = db_supply db"
  "db_drawn (mark_allocation aid c r db) = db_drawn db"
  by (simp_all add: mark_allocation_def)

lemma ids_ok_mark_allocation [simp]: "ids_ok (mark_allocation aid c r db) = ids_ok db"
  by (simp add: ids_ok_def mark_allocation_def fresh_rows_update_by)

lemma extends_mark_allocation: "extends_all db (mark_allocation aid c r db)"
  by (rule extends_all_same, simp) (rule balance_cong, simp_all)

lemma has_account_mark [simp]: "has_account (mark_allocation aid c r db) u = has_account db u"
  by (rule has_account_cong) simp

lemma settle_allocation_Inr:
  assumes "settle_allocation user stamp a (rem, db) = Inr (left, db')"
  obtains grant where "owned_grant db user (al_grant_id a) = Some grant"
    and "left = rem - min rem (al_quantity a)"
    and "al_quantity a - min rem (al_quantity a) = 0 \<and>
           db' = mark_allocation (al_id a) (min rem (al_quantity a)) 0 db \<or>
         (\<exists>g. grant_row (mark_allocation (al_id a) (min rem (al_quantity a))
                   (al_quantity a - min rem (al_quantity a)) db) user
                 (al_quantity a - min rem (al_quantity a)) ''reservation_release'' (al_id a)
                 (g_funding_kind grant) (g_terms_snapshot grant) (restored_expiry grant stamp) stamp
                 (Some (g_origin_type grant)) (Some (g_origin_id grant)) (Some (g_id grant))
               = Inr (g, db'))"
proof (cases "owned_grant db user (al_grant_id a)")
  case None
  with assms show ?thesis by (simp add: settle_allocation_def)
next
  case (Some grant)
  define c where "c = min rem (al_quantity a)"
  note unfold = settle_allocation_def Let_def split option.case c_def [symmetric]
  show ?thesis
  proof (cases "al_quantity a - c = 0")
    case True
    from assms have "left = rem - c \<and> db' = mark_allocation (al_id a) c 0 db"
      unfolding unfold Some True by simp
    with True show ?thesis by (intro that [OF Some]) (auto simp only: c_def [symmetric])
  next
    case False
    from assms have "bindE (grant_row (mark_allocation (al_id a) c (al_quantity a - c) db) user
         (al_quantity a - c) ''reservation_release'' (al_id a)
         (g_funding_kind grant) (g_terms_snapshot grant) (restored_expiry grant stamp) stamp
         (Some (g_origin_type grant)) (Some (g_origin_id grant)) (Some (g_id grant)))
       (\<lambda>(_, db2). Inr (rem - c, db2)) = Inr (left, db')"
      unfolding unfold Some by (simp only: False if_False)
    then obtain g where "grant_row (mark_allocation (al_id a) c (al_quantity a - c) db) user
         (al_quantity a - c) ''reservation_release'' (al_id a)
         (g_funding_kind grant) (g_terms_snapshot grant) (restored_expiry grant stamp) stamp
         (Some (g_origin_type grant)) (Some (g_origin_id grant)) (Some (g_id grant)) = Inr (g, db')"
      and "left = rem - c"
      by (auto simp: bindE_eq_Inr)
    then show ?thesis by (intro that [OF Some]) (auto simp only: c_def [symmetric])
  qed
qed

lemma settle_allocation_effect:
  assumes "ids_ok db" and "has_account db user"
    and "settle_allocation user stamp a (rem, db) = Inr (left, db')"
  shows "ids_ok db' \<and> extends_all db db' \<and> has_account db' user \<and> db_users db' = db_users db \<and>
    db_reservations db' = db_reservations db \<and> db_quotes db' = db_quotes db \<and>
    left = rem - min rem (al_quantity a)"
  using assms(3)
proof (rule settle_allocation_Inr)
  fix grant
  let ?c = "min rem (al_quantity a)"
  let ?m = "mark_allocation (al_id a) ?c (al_quantity a - ?c) db"
  assume left: "left = rem - ?c"
  assume "al_quantity a - ?c = 0 \<and> db' = mark_allocation (al_id a) ?c 0 db \<or>
    (\<exists>g. grant_row ?m user (al_quantity a - ?c) ''reservation_release'' (al_id a)
       (g_funding_kind grant) (g_terms_snapshot grant)
       (restored_expiry grant stamp) stamp
       (Some (g_origin_type grant)) (Some (g_origin_id grant)) (Some (g_id grant)) = Inr (g, db'))"
  then show ?thesis
  proof (elim disjE exE)
    assume "al_quantity a - ?c = 0 \<and> db' = mark_allocation (al_id a) ?c 0 db"
    then show ?thesis using left assms(1,2) by (simp add: extends_mark_allocation)
  next
    fix g
    assume row: "grant_row ?m user (al_quantity a - ?c) ''reservation_release'' (al_id a)
       (g_funding_kind grant) (g_terms_snapshot grant)
       (restored_expiry grant stamp) stamp
       (Some (g_origin_type grant)) (Some (g_origin_id grant)) (Some (g_id grant)) = Inr (g, db')"
    have "has_account ?m user" and "ids_ok ?m" using assms(1,2) by simp_all
    then show ?thesis
      using left assms(2) grant_row_frame [OF row] ids_ok_grant_row [OF _ row]
        extends_all_trans [OF extends_mark_allocation extends_grant_row [OF _ row]] by simp
  qed
qed

lemma settle_allocations_effect:
  assumes "ids_ok db" and "has_account db user"
    and "settle_allocations user stamp as (rem, db) = Inr (left, db')"
  shows "ids_ok db' \<and> extends_all db db' \<and> has_account db' user \<and> db_users db' = db_users db \<and>
    db_reservations db' = db_reservations db \<and> db_quotes db' = db_quotes db"
  using assms
proof (induction as arbitrary: rem db)
  case Nil
  then show ?case by simp
next
  case (Cons a as)
  from Cons.prems(3) obtain rem1 db1 where
    one: "settle_allocation user stamp a (rem, db) = Inr (rem1, db1)"
    and rest: "settle_allocations user stamp as (rem1, db1) = Inr (left, db')"
    by (auto simp: result_simps)
  note eff = settle_allocation_effect [OF Cons.prems(1,2) one]
  have "ids_ok db' \<and> extends_all db1 db' \<and> has_account db' user \<and> db_users db' = db_users db1 \<and>
    db_reservations db' = db_reservations db1 \<and> db_quotes db' = db_quotes db1"
    by (rule Cons.IH) (use eff rest in simp_all)
  with eff show ?case using extends_all_trans [of db db1 db'] by simp
qed

lemma finish_reservation_id [simp]: "r_id (finish_reservation c l s r) = r_id r"
  by (simp add: finish_reservation_def)

lemma close_reservation_Inr:
  assumes "close_reservation db user row committed stamp = Inr (row', db')"
  obtains left db2 details where
    "sum_list (map al_quantity (reservation_allocations (expire db user stamp) (r_id row))) = r_reserved_credits row"
    and "settle_allocations user stamp (reservation_allocations (expire db user stamp) (r_id row))
           (committed, expire db user stamp) = Inr (left, db2)"
    and "row' = finish_reservation committed (r_reserved_credits row - committed) stamp row"
    and "db' = credit_event_row (db2\<lparr>db_reservations := update_by r_id (r_id row)
             (finish_reservation committed (r_reserved_credits row - committed) stamp) (db_reservations db2)\<rparr>)
           user (''settle:'' @ r_id row) ''settle'' 0 ''credit_reservation'' (r_id row) stamp None None details"
  using assms
  by (auto simp: close_reservation_def Let_def result_simps split: prod.splits)

lemma close_reservation_effect:
  assumes "ids_ok db" and "has_account db user"
    and "close_reservation db user row committed stamp = Inr (row', db')"
  shows "ids_ok db' \<and> extends_all db db'"
  using assms(3)
proof (rule close_reservation_Inr)
  fix left and db2 :: credit_db and details
  let ?f = "finish_reservation committed (r_reserved_credits row - committed) stamp"
  let ?db3 = "db2\<lparr>db_reservations := update_by r_id (r_id row) ?f (db_reservations db2)\<rparr>"
  assume loop: "settle_allocations user stamp (reservation_allocations (expire db user stamp) (r_id row))
           (committed, expire db user stamp) = Inr (left, db2)"
    and db': "db' = credit_event_row ?db3 user (''settle:'' @ r_id row) ''settle'' 0
           ''credit_reservation'' (r_id row) stamp None None details"
  have ids: "ids_ok (expire db user stamp)" and acc: "has_account (expire db user stamp) user"
    using assms(1,2) by (simp_all add: ids_ok_expire)
  note eff = settle_allocations_effect [OF ids acc loop]
  have "balance ?db3 u = balance db2 u" for u by (rule balance_cong) simp_all
  then have "extends_all db2 db'"
    unfolding db' by (intro extends_all_event) simp_all
  moreover have "ids_ok ?db3" using conjunct1 [OF eff] by (simp add: ids_ok_def fresh_rows_update_by)
  ultimately show ?thesis
    using eff extends_all_trans [OF extends_expire [OF assms(1)]] by (auto simp: db' intro: extends_all_trans)
qed

lemma settle_reservation_Inr:
  assumes "settle_reservation db user rid committed stamp = Inr (row', db')"
  obtains db1 row where "lock_account db user = Inr db1" and "0 \<le> committed"
    and "owned_reservation db1 user rid = Some row"
    and "r_state row = Settled \<and> r_committed_credits row = committed \<and> row' = row \<and> db' = db1 \<or>
         r_state row = Reserved \<and> committed \<le> r_reserved_credits row \<and>
           close_reservation db1 user row committed stamp = Inr (row', db')"
proof -
  from assms obtain db1 where lock: "lock_account db user = Inr db1" and nonneg: "0 \<le> committed"
    by (auto simp: settle_reservation_def result_simps)
  show ?thesis
  proof (cases "owned_reservation db1 user rid")
    case None
    with assms lock show ?thesis by (simp add: settle_reservation_def result_simps)
  next
    case (Some row)
    with assms lock show ?thesis
      by (intro that [OF lock nonneg Some], cases "r_state row")
         (auto simp: settle_reservation_def result_simps)
  qed
qed

lemma settle_reservation_effect:
  assumes "ids_ok db" and "settle_reservation db user rid committed stamp = Inr (row', db')"
  shows "ids_ok db' \<and> extends_all db db'"
  using assms(2)
proof (rule settle_reservation_Inr)
  fix db1 row
  assume lock: "lock_account db user = Inr db1"
    and cases: "r_state row = Settled \<and> r_committed_credits row = committed \<and> row' = row \<and> db' = db1 \<or>
         r_state row = Reserved \<and> committed \<le> r_reserved_credits row \<and>
           close_reservation db1 user row committed stamp = Inr (row', db')"
  have ids: "ids_ok db1" using lock assms(1) by (rule ids_ok_lock_account)
  have acc: "has_account db1 user" using lock_account_Inr [OF lock] by blast
  from cases show ?thesis
    using ids extends_lock_account [OF lock] close_reservation_effect [OF ids acc]
      extends_all_trans by (elim disjE) auto
qed

section \<open>Revocation\<close>

lemma revoke_lot_frame [simp]:
  "db_users (revoke_lot n g db) = db_users db" "db_accounts (revoke_lot n g db) = db_accounts db"
  "db_reservations (revoke_lot n g db) = db_reservations db"
  "db_allocations (revoke_lot n g db) = db_allocations db" "db_events (revoke_lot n g db) = db_events db"
  "db_quotes (revoke_lot n g db) = db_quotes db" "db_supply (revoke_lot n g db) = db_supply db"
  "db_drawn (revoke_lot n g db) = db_drawn db"
  by (simp_all add: revoke_lot_def)

lemma revoke_lot_grants:
  "db_grants (revoke_lot n g db) = update_by g_id (g_id g)
     (\<lambda>g. g\<lparr>g_remaining_credits := g_remaining_credits g - n\<rparr>) (db_grants db)"
  by (simp add: revoke_lot_def)

lemma ids_ok_revoke_lot [simp]: "ids_ok (revoke_lot n g db) = ids_ok db"
  unfolding revoke_lot_def by (rule ids_ok_update_grant) simp

lemma balance_revoke_lot:
  assumes "ids_ok db" and "g \<in> set (db_grants db)" and "g_user_id g = Some user"
  shows "balance (revoke_lot n g db) u = balance db u - (if u = user then n else 0)"
  unfolding revoke_lot_def
  using balance_update_grant [OF ids_ok_grants [OF assms(1)] assms(2,3),
    of "\<lambda>g. g\<lparr>g_remaining_credits := g_remaining_credits g - n\<rparr>" u] by simp

lemma revoke_lots_rule:
  assumes "revoke_lots rem lots db = (left, db')" and "ids_ok db" and "distinct (map g_id lots)"
    and "set lots \<subseteq> set (db_grants db)" and "P rem lots db"
    and step: "\<And>db g gs rem. P rem (g # gs) db \<Longrightarrow> ids_ok db \<Longrightarrow> g \<in> set (db_grants db)
      \<Longrightarrow> set (g # gs) \<subseteq> set lots \<Longrightarrow> g_id g \<notin> g_id ` set gs
      \<Longrightarrow> P (rem - min rem (g_remaining_credits g)) gs (revoke_lot (min rem (g_remaining_credits g)) g db)"
  shows "ids_ok db' \<and> P left [] db'"
  using assms
proof (induction lots arbitrary: rem db)
  case Nil
  then show ?case by simp
next
  case (Cons g gs)
  let ?n = "min rem (g_remaining_credits g)"
  let ?db = "revoke_lot ?n g db"
  have more: "revoke_lots (rem - ?n) gs ?db = (left, db')"
    using Cons.prems(1) by (simp add: Let_def)
  have P: "P (rem - ?n) gs ?db" using Cons.prems by (intro Cons.prems(6)) auto
  have sub: "set gs \<subseteq> set (db_grants ?db)"
  proof
    fix h
    assume "h \<in> set gs"
    with Cons.prems have "h \<in> set (db_grants db)" and "g_id h \<noteq> g_id g" by (auto simp: rev_image_eqI)
    then show "h \<in> set (db_grants ?db)" unfolding revoke_lot_grants by (rule mem_update_by_other)
  qed
  show ?case
  proof (rule Cons.IH [OF more _ _ sub P])
    show "ids_ok ?db" "distinct (map g_id gs)" using Cons.prems(2,3) by simp_all
    fix d h hs r
    assume "P r (h # hs) d" "ids_ok d" "h \<in> set (db_grants d)" "set (h # hs) \<subseteq> set gs"
      "g_id h \<notin> g_id ` set hs"
    then show "P (r - min r (g_remaining_credits h)) hs (revoke_lot (min r (g_remaining_credits h)) h d)"
      by (intro Cons.prems(6)) auto
  qed
qed

lemma revoke_lots_left:
  assumes "\<And>g. g \<in> set lots \<Longrightarrow> 0 \<le> g_remaining_credits g" and "0 \<le> rem"
  shows "fst (revoke_lots rem lots db) = max 0 (rem - sum_list (map g_remaining_credits lots))"
  using assms
proof (induction lots arbitrary: rem db)
  case Nil
  then show ?case by simp
next
  case (Cons g gs)
  have g: "0 \<le> g_remaining_credits g" using Cons.prems(1) by simp
  have gs: "0 \<le> sum_list (map g_remaining_credits gs)"
    using Cons.prems(1) by (intro sum_list_nonneg) auto
  have "fst (revoke_lots (rem - min rem (g_remaining_credits g)) gs
      (revoke_lot (min rem (g_remaining_credits g)) g db)) =
    max 0 (rem - min rem (g_remaining_credits g) - sum_list (map g_remaining_credits gs))"
    by (rule Cons.IH) (use Cons.prems in auto)
  with g gs Cons.prems(2) show ?case by (simp add: Let_def)
qed

lemma set_origin_grants:
  "set (origin_grants db user ot oi) =
     {g \<in> set (db_grants db). g_user_id g = Some user \<and> g_origin_type g = ot \<and> g_origin_id g = oi}"
  by (auto simp: origin_grants_def)

lemma distinct_origin_grants: "ids_ok db \<Longrightarrow> distinct (map g_id (origin_grants db user ot oi))"
  unfolding origin_grants_def by (rule distinct_map_filter_sort) (rule ids_ok_grants)

lemma balance_revoke_lots:
  assumes "revoke_lots delta (origin_grants db user ot oi) db = (left, db')" and "ids_ok db"
  shows "ids_ok db' \<and> db_events db' = db_events db \<and> db_accounts db' = db_accounts db \<and>
    (\<forall>u. balance db' u = balance db u - (if u = user then delta - left else 0))"
proof -
  let ?P = "\<lambda>rem (todo :: credit_grant list) d. db_events d = db_events db \<and> db_accounts d = db_accounts db \<and>
    (\<forall>u. balance d u = balance db u - (if u = user then delta - rem else 0))"
  have "ids_ok db' \<and> ?P left [] db'"
    using assms(1)
  proof (rule revoke_lots_rule [where P = ?P])
    fix d g gs rem
    assume "?P rem (g # gs) d" and "ids_ok d" and "g \<in> set (db_grants d)"
      and "set (g # gs) \<subseteq> set (origin_grants db user ot oi)"
    then show "?P (rem - min rem (g_remaining_credits g)) gs
        (revoke_lot (min rem (g_remaining_credits g)) g d)"
      by (auto simp: balance_revoke_lot set_origin_grants)
  qed (use assms in \<open>auto simp: distinct_origin_grants set_origin_grants\<close>)
  then show ?thesis by blast
qed

lemma apply_revocation_effect:
  fixes db user ot oi previous root target delta stamp
  defines "grants \<equiv> origin_grants db user ot oi"
    and "db' \<equiv> apply_revocation db user ot oi (origin_grants db user ot oi) previous root target delta stamp"
    and "left \<equiv> fst (revoke_lots delta (origin_grants db user ot oi) db)"
  defines "absorbed \<equiv> min left (max 0 (sum_list (map g_expired_credits grants)
              - sum_list (map expired_offset_of previous)))"
  assumes "ids_ok db" and "has_account db user"
  shows "ids_ok db'" and "extends_all db db'"
    and "balance db' u = balance db u - (if u = user then delta - absorbed else 0)"
proof -
  obtain db1 where loop: "revoke_lots delta grants db = (left, db1)"
    unfolding left_def grants_def by (cases "revoke_lots delta (origin_grants db user ot oi) db") simp
  let ?db2 = "add_debt db1 user (left - absorbed)"
  have db': "db' = credit_event_row ?db2 user (''revoke:'' @ g_id root @ '':'' @ decimal target)
      ''revoke'' (- (delta - absorbed)) ''credit_grant'' (g_id root) stamp (Some ot) (Some oi)
      [''target_credits'' \<mapsto> target, ''expired_offset'' \<mapsto> absorbed, ''debt_added'' \<mapsto> left - absorbed]"
    using loop unfolding db'_def apply_revocation_def grants_def absorbed_def by (simp add: Let_def)
  note eff = balance_revoke_lots [OF loop [unfolded grants_def] assms(5)]
  have acc: "has_account db1 user" using eff assms(6) by (simp add: has_account_def)
  have bal: "balance ?db2 v = balance db v + (if v = user then - (delta - absorbed) else 0)" for v
  proof -
    have "balance ?db2 v = balance db1 v - (if v = user then left - absorbed else 0)"
      by (simp add: balance_def debt_of_add_debt [OF acc])
    with eff show ?thesis by simp
  qed
  show "ids_ok db'" using eff by (simp add: db')
  show "extends_all db db'"
    unfolding db' by (rule extends_all_event) (use eff in \<open>simp_all add: bal\<close>)
  show "balance db' u = balance db u - (if u = user then delta - absorbed else 0)"
    by (simp add: db' bal)
qed

lemma revoke_origin_Inr:
  assumes "revoke_origin db user ot oi target stamp = Inr (delta, db')"
  obtains db1 db2 root targets revoked where "lock_account db user = Inr db1"
    and "db2 = expire db1 user stamp" and "0 \<le> target"
    and "filter (\<lambda>g. g_parent_grant_id g = None) (origin_grants db2 user ot oi) = [root]"
    and "target \<le> g_quantity root"
    and "details_target (revoke_events db2 user ot oi) = Inr targets"
    and "revoked = (if targets = [] then 0 else Max (set targets))" and "revoked \<le> target"
    and "delta = target - revoked"
    and "db' = (if delta = 0 then db2 else apply_revocation db2 user ot oi (origin_grants db2 user ot oi)
           (revoke_events db2 user ot oi) root target delta stamp)"
proof -
  from assms obtain db1 where lock: "lock_account db user = Inr db1" and nonneg: "0 \<le> target"
    by (auto simp: revoke_origin_def result_simps)
  define db2 where "db2 = expire db1 user stamp"
  note step = that [OF lock db2_def nonneg]
  show ?thesis
  proof (cases "filter (\<lambda>g. g_parent_grant_id g = None) (origin_grants db2 user ot oi)")
    case Nil
    with assms lock show ?thesis
      by (simp add: revoke_origin_def result_simps Let_def db2_def [symmetric])
  next
    case (Cons root more)
    show ?thesis
    proof (cases more)
      case Nil
      with assms lock Cons obtain targets where quantity: "target \<le> g_quantity root"
        and targets: "details_target (revoke_events db2 user ot oi) = Inr targets"
        by (auto simp: revoke_origin_def result_simps Let_def db2_def [symmetric])
      define revoked where "revoked = (if targets = [] then 0 else Max (set targets))"
      note run = assms [unfolded revoke_origin_def Let_def, simplified lock bindE_Inr, folded db2_def]
      have "credit_count target False = Inr target"
        using assms by (auto simp: revoke_origin_def result_simps)
      with run Cons Nil targets have "revoked \<le> target \<and> delta = target - revoked \<and>
        db' = (if delta = 0 then db2 else apply_revocation db2 user ot oi (origin_grants db2 user ot oi)
           (revoke_events db2 user ot oi) root target delta stamp)"
        by (auto simp: revoked_def [symmetric] result_simps split: if_split_asm)
      then show ?thesis
        using Cons Nil quantity targets by (intro step [OF _ quantity targets revoked_def]) simp_all
    next
      case (Cons a list)
      with assms lock \<open>filter _ _ = root # more\<close> show ?thesis
        by (simp add: revoke_origin_def result_simps Let_def db2_def [symmetric])
    qed
  qed
qed

lemma revoke_origin_effect:
  assumes "ids_ok db" and "revoke_origin db user ot oi target stamp = Inr (delta, db')"
  shows "ids_ok db' \<and> extends_all db db'"
  using assms(2)
proof (rule revoke_origin_Inr)
  fix db1 db2 root targets revoked
  assume lock: "lock_account db user = Inr db1" and db2: "db2 = expire db1 user stamp"
    and db': "db' = (if delta = 0 then db2 else apply_revocation db2 user ot oi (origin_grants db2 user ot oi)
           (revoke_events db2 user ot oi) root target delta stamp)"
  have ids: "ids_ok db1" using lock assms(1) by (rule ids_ok_lock_account)
  have ids2: "ids_ok db2" unfolding db2 using ids by (rule ids_ok_expire)
  have acc: "has_account db2 user" using lock_account_Inr [OF lock] by (simp add: db2)
  have ext: "extends_all db db2"
    unfolding db2 by (rule extends_all_trans [OF extends_lock_account [OF lock] extends_expire [OF ids]])
  show ?thesis
    using ids2 ext apply_revocation_effect(1,2) [OF ids2 acc] extends_all_trans [OF ext]
    by (cases "delta = 0") (simp_all add: db')
qed

section \<open>The ledger as a provider of the contract\<close>

lemma expire_credits_effect:
  assumes "ids_ok db" and "expire_credits db user stamp = Inr db'"
  shows "ids_ok db' \<and> extends_all db db'"
proof -
  from assms(2) obtain db1 where lock: "lock_account db user = Inr db1" and db': "db' = expire db1 user stamp"
    by (auto simp: expire_credits_def result_simps)
  have ids: "ids_ok db1" using lock assms(1) by (rule ids_ok_lock_account)
  show ?thesis
    unfolding db' using ids_ok_expire [OF ids]
      extends_all_trans [OF extends_lock_account [OF lock] extends_expire [OF ids]] by blast
qed

lemma grant_credits_effect:
  assumes "ids_ok db" and "grant_credits db user q st si fk ts ex stamp = Inr (g, db')"
  shows "ids_ok db' \<and> extends_all db db'"
proof -
  from assms(2) obtain db1 where lock: "lock_account db user = Inr db1"
    and row: "grant_row (expire db1 user stamp) user q st si fk ts ex stamp None None None = Inr (g, db')"
    by (auto simp: grant_credits_def result_simps Let_def)
  have ids: "ids_ok db1" using lock assms(1) by (rule ids_ok_lock_account)
  have acc: "has_account (expire db1 user stamp) user" using lock_account_Inr [OF lock] by simp
  show ?thesis
    using ids_ok_grant_row [OF ids_ok_expire [OF ids] row] extends_grant_row [OF acc row]
      extends_all_trans [OF extends_lock_account [OF lock] extends_expire [OF ids]] extends_all_trans by blast
qed

lemma fulfill_Inr:
  assumes "fulfill_purchase_quote db user qid order captured stamp = Inr (g, db')"
  obtains db1 quote where "lock_account db user = Inr db1" and "owned_quote db1 user qid = Some quote"
    and "q_state quote = Accepted" and "q_accepted_order_id quote = Some order"
    and "q_created_at quote \<le> captured" and "captured \<le> stamp"
    and "grant_row (expire db1 user stamp) user (qt_credits (q_snapshot quote)) ''payment_order'' order
           ''paid'' (QuoteTerms (q_snapshot quote))
           (Some (max (max (qt_pass_expires_at (q_snapshot quote)) (captured + PASS_LIFETIME))
                    (stamp + PASS_LIFETIME))) stamp None None None = Inr (g, db')"
proof -
  from assms obtain db1 where lock: "lock_account db user = Inr db1"
    by (auto simp: fulfill_purchase_quote_def result_simps)
  show ?thesis
  proof (cases "owned_quote db1 user qid")
    case None
    with assms lock show ?thesis by (simp add: fulfill_purchase_quote_def)
  next
    case (Some quote)
    with assms lock show ?thesis
      by (intro that [OF lock Some])
         (auto simp: fulfill_purchase_quote_def result_simps Let_def quote_response_def
            purchase_quote_terms.extend_def purchase_quote_view.fields_def)
  qed
qed

lemma fulfill_effect:
  assumes "ids_ok db" and "fulfill_purchase_quote db user qid order captured stamp = Inr (g, db')"
  shows "ids_ok db' \<and> extends_all db db'"
  using assms(2)
proof (rule fulfill_Inr)
  fix db1 quote
  let ?ex = "Some (max (max (qt_pass_expires_at (q_snapshot quote)) (captured + PASS_LIFETIME))
                    (stamp + PASS_LIFETIME))"
  assume lock: "lock_account db user = Inr db1"
    and row: "grant_row (expire db1 user stamp) user (qt_credits (q_snapshot quote)) ''payment_order'' order
           ''paid'' (QuoteTerms (q_snapshot quote)) ?ex stamp None None None = Inr (g, db')"
  have ids: "ids_ok db1" using lock assms(1) by (rule ids_ok_lock_account)
  have acc: "has_account (expire db1 user stamp) user" using lock_account_Inr [OF lock] by simp
  show ?thesis
    using ids_ok_grant_row [OF ids_ok_expire [OF ids] row] extends_grant_row [OF acc row]
      extends_all_trans [OF extends_lock_account [OF lock] extends_expire [OF ids]] extends_all_trans by blast
qed

text \<open>One successful call of a mutating primitive, on behalf of any owner.\<close>

inductive credit_step :: "credit_db \<Rightarrow> credit_db \<Rightarrow> bool" where
  expiry: "expire_credits db user stamp = Inr db' \<Longrightarrow> credit_step db db'"
| grant: "grant_credits db user q st si fk ts ex stamp = Inr (g, db') \<Longrightarrow> credit_step db db'"
| fulfil: "fulfill_purchase_quote db user qid order captured stamp = Inr (g, db') \<Longrightarrow> credit_step db db'"
| reserve: "reserve_credits db user operation source key credits fp snap allowance stamp = Inr (row, db')
    \<Longrightarrow> credit_step db db'"
| settle: "settle_reservation db user rid committed stamp = Inr (row, db') \<Longrightarrow> credit_step db db'"
| revoke: "revoke_origin db user ot oi target stamp = Inr (delta, db') \<Longrightarrow> credit_step db db'"

lemma credit_step_effect:
  assumes "credit_step db db'" and "ids_ok db"
  shows "ids_ok db' \<and> extends_all db db'"
  using assms
  by (induction rule: credit_step.induct)
     (blast dest: expire_credits_effect grant_credits_effect fulfill_effect reserve_credits_effect
        settle_reservation_effect revoke_origin_effect)+

interpretation credits: reconciled_ledger ids_ok balance credit_history credit_step
  by unfold_locales (use credit_step_effect in \<open>auto simp: extends_all_def\<close>)

end
