(* ===== verification/Credit_Safety.thy ===== *)
theory Credit_Safety
  imports Credit_History
begin

text \<open>
  The CHECK constraints of the credit tables, as an invariant of the ledger: no operation
  writes a row the database would reject. The invariant is stronger than the schema where
  the schema is not inductive (a grant's remaining and expired credits together stay within
  its quantity), and it carries the funding kinds that a restored lot inherits.
\<close>

section \<open>The row invariant\<close>

definition grant_ok :: "credit_grant \<Rightarrow> bool" where
  "grant_ok g \<longleftrightarrow> grant_check g \<and> g_remaining_credits g + g_expired_credits g \<le> g_quantity g \<and>
     g_funding_kind g \<in> {''paid'', ''promotion'', ''legacy''}"

definition allocation_ok :: "credit_allocation \<Rightarrow> bool" where
  "allocation_ok a \<longleftrightarrow> allocation_check a \<and> al_quantity a \<le> 10 ^ 9"

definition reservation_ok :: "credit_reservation \<Rightarrow> bool" where
  "reservation_ok r \<longleftrightarrow> reservation_check r \<and>
     (r_state r = Settled \<longrightarrow> r_committed_credits r + r_released_credits r = r_reserved_credits r)"

definition rows_ok :: "credit_db \<Rightarrow> bool" where
  "rows_ok db \<longleftrightarrow>
     (\<forall>a \<in> set (db_accounts db). account_check a) \<and> (\<forall>g \<in> set (db_grants db). grant_ok g) \<and>
     (\<forall>r \<in> set (db_reservations db). reservation_ok r) \<and> (\<forall>a \<in> set (db_allocations db). allocation_ok a)"

lemma rows_ok_grant: "rows_ok db \<Longrightarrow> g \<in> set (db_grants db) \<Longrightarrow> grant_ok g"
  by (simp add: rows_ok_def)

lemma grant_ok_bounds:
  "grant_ok g \<Longrightarrow> 0 < g_quantity g \<and> 0 \<le> g_remaining_credits g \<and> 0 \<le> g_expired_credits g \<and>
     g_remaining_credits g + g_expired_credits g \<le> g_quantity g"
  by (simp add: grant_ok_def grant_check_def)

lemma grant_ok_same_terms:
  assumes "grant_ok g" and "g_quantity h = g_quantity g" and "g_funding_kind h = g_funding_kind g"
    and "g_issued_at h = g_issued_at g" and "g_expires_at h = g_expires_at g"
    and "0 \<le> g_remaining_credits h" and "0 \<le> g_expired_credits h"
    and "g_remaining_credits h + g_expired_credits h \<le> g_quantity g"
  shows "grant_ok h"
  using assms by (simp add: grant_ok_def grant_check_def) (cases "g_expires_at g"; simp)

section \<open>Primitives keep it\<close>

lemma rows_ok_event [simp]:
  "rows_ok (credit_event_row db user key kind amount st si stamp ot oi details) = rows_ok db"
  by (simp add: rows_ok_def)

lemma rows_ok_update_grant:
  assumes "rows_ok db" and "ids_ok db" and "g \<in> set (db_grants db)" and "grant_ok (f g)"
  shows "rows_ok (db\<lparr>db_grants := update_by g_id (g_id g) f (db_grants db)\<rparr>)"
  using assms(1) ball_update_by [OF ids_ok_grants [OF assms(2)] assms(3), of grant_ok f] assms(4)
  by (simp add: rows_ok_def)

lemma rows_ok_add_debt:
  assumes "rows_ok db" and "ids_ok db" and "0 \<le> debt_of db user + n"
  shows "rows_ok (add_debt db user n)"
proof -
  have dist: "distinct (map acc_user_id (db_accounts db))" using assms(2) by (simp add: ids_ok_def)
  have all: "\<forall>a \<in> set (db_accounts db). account_check a" using assms(1) by (simp add: rows_ok_def)
  let ?f = "\<lambda>a. a\<lparr>acc_debt_credits := acc_debt_credits a + n\<rparr>"
  have "\<forall>a \<in> set (update_by acc_user_id user ?f (db_accounts db)). account_check a"
  proof (cases "row_at acc_user_id user (db_accounts db)")
    case None
    then show ?thesis using all by (simp add: row_at_None update_by_absent)
  next
    case (Some a)
    then have a: "a \<in> set (db_accounts db)" "acc_user_id a = user" using row_at_SomeD by fast+
    from Some assms(3) have "account_check (?f a)" by (simp add: debt_of_def account_check_def)
    with ball_update_by [OF dist a(1) all, of ?f] a(2) show ?thesis by simp
  qed
  with assms(1) show ?thesis by (simp add: rows_ok_def add_debt_def)
qed

lemma debt_nonneg: "rows_ok db \<Longrightarrow> 0 \<le> debt_of db user"
  by (auto simp: debt_of_def rows_ok_def account_check_def split: option.splits dest!: row_at_SomeD)

lemma rows_ok_lock_account: "lock_account db user = Inr db1 \<Longrightarrow> rows_ok db \<Longrightarrow> rows_ok db1"
  by (drule lock_account_Inr) (auto simp: rows_ok_def account_check_def)

lemma rows_ok_expire_one:
  assumes "rows_ok db" and "ids_ok db" and "g \<in> set (db_grants db)"
  shows "rows_ok (expire_one user stamp g db)"
  unfolding expire_one_def Let_def rows_ok_event
proof (rule rows_ok_update_grant [OF assms])
  from rows_ok_grant [OF assms(1,3)] have ok: "grant_ok g" .
  then show "grant_ok (g\<lparr>g_remaining_credits := 0, g_expired_credits := g_expired_credits g + g_remaining_credits g\<rparr>)"
    by (rule grant_ok_same_terms) (use grant_ok_bounds [OF ok] in simp_all)
qed

lemma rows_ok_expire: "rows_ok db \<Longrightarrow> ids_ok db \<Longrightarrow> rows_ok (expire db user stamp)"
  by (rule expire_rule) (auto intro: rows_ok_expire_one)

lemma rows_ok_issue_grant:
  assumes "rows_ok db" and "ids_ok db" and "0 < q" and "fk \<in> {''paid'', ''promotion'', ''legacy''}"
    and "\<forall>e. ex = Some e \<longrightarrow> stamp < e"
    and "issue_grant db user q st si fk ts ex stamp ot oi parent = (g, db')"
  shows "rows_ok db'"
proof -
  let ?off = "min (debt_of db user) q"
  have off: "0 \<le> ?off" "?off \<le> q" "0 \<le> debt_of db user + - ?off"
    using debt_nonneg [OF assms(1), of user] assms(3) by auto
  have fk: "g_funding_kind g = fk" using assms(6) by (auto simp: issue_grant_eq Let_def)
  from assms(6) show ?thesis
  proof (rule issue_grant_posts)
    fix key kind details
    let ?db = "(add_debt db user (- ?off))\<lparr>db_drawn := Suc (db_drawn db), db_grants := db_grants db @ [g]\<rparr>"
    assume db': "db' = credit_event_row ?db user key kind q st si stamp (Some ot) (Some oi) details"
      and g: "g_remaining_credits g = q - ?off" "g_quantity g = q" "g_expired_credits g = 0"
        "g_issued_at g = stamp" "g_expires_at g = ex"
    have "grant_ok g"
      using g off assms(3-5) fk by (auto simp: grant_ok_def grant_check_def split: option.splits)
    moreover have "rows_ok (add_debt db user (- ?off))"
      by (rule rows_ok_add_debt) (use assms off in auto)
    ultimately have "rows_ok ?db" by (simp add: rows_ok_def)
    then show ?thesis by (simp add: db')
  qed
qed

lemma grant_row_funding:
  "grant_row db user q st si fk ts ex stamp ot0 oi0 parent = Inr x \<Longrightarrow>
     fk \<in> {''paid'', ''promotion'', ''legacy''}"
  by (simp add: grant_row_def bindE_eq_Inr require_eq_Inr)

lemma rows_ok_grant_row:
  assumes "rows_ok db" and "ids_ok db"
    and "grant_row db user q st si fk ts ex stamp ot0 oi0 parent = Inr (g, db')"
  shows "rows_ok db'"
proof (cases "grant_by_source db user st si")
  case None
  with grant_row_Inr [OF assms(3)] have q: "0 < q" and ex: "\<forall>e. ex = Some e \<longrightarrow> stamp < e"
    and issue: "issue_grant db user q st si fk ts ex stamp (str_or ot0 st) (str_or oi0 si) parent = (g, db')"
    by auto
  from rows_ok_issue_grant [OF assms(1,2) q grant_row_funding [OF assms(3)] ex issue] show ?thesis .
next
  case (Some g')
  with grant_row_Inr [OF assms(3)] assms(1) show ?thesis by simp
qed

section \<open>Loops keep it\<close>

lemma rows_ok_allocate_lot:
  assumes "rows_ok db" and "ids_ok db" and "g \<in> set (db_grants db)" and "0 < n"
    and "n \<le> g_remaining_credits g" and "n \<le> 10 ^ 9"
  shows "rows_ok (allocate_lot rid i n g db)"
proof -
  let ?f = "\<lambda>g. g\<lparr>g_remaining_credits := g_remaining_credits g - n\<rparr>"
  from rows_ok_grant [OF assms(1,3)] have ok: "grant_ok g" .
  then have "grant_ok (?f g)"
    by (rule grant_ok_same_terms) (use grant_ok_bounds [OF ok] assms(4,5) in simp_all)
  then have "rows_ok (db\<lparr>db_grants := update_by g_id (g_id g) ?f (db_grants db)\<rparr>)"
    by (rule rows_ok_update_grant [OF assms(1-3)])
  then show ?thesis
    using assms(4,6) by (simp add: rows_ok_def allocate_lot_def public_id_def allocation_ok_def allocation_check_def)
qed

lemma rows_ok_allocate_lots:
  assumes "allocate_lots rid 0 credits (usable_lots db user stamp) db = (left, db')"
    and "rows_ok db" and "ids_ok db" and "0 < credits" and "credits \<le> 10 ^ 9"
  shows "rows_ok db'"
proof -
  let ?P = "\<lambda>(rem :: int) (i :: nat) (todo :: credit_grant list) d. rows_ok d \<and> rem \<le> 10 ^ 9"
  have "ids_ok db' \<and> (\<exists>j rest. ?P left j rest db')"
    using assms(1)
  proof (rule allocate_lots_rule [where P = ?P])
    fix d g gs rem i
    assume "?P rem i (g # gs) d" "ids_ok d" "0 < rem" "g \<in> set (db_grants d)"
      and lots: "set (g # gs) \<subseteq> set (usable_lots db user stamp)"
    moreover have "0 < g_remaining_credits g" using lots by (auto simp: set_usable_lots usable_def)
    ultimately show "?P (rem - min rem (g_remaining_credits g)) (Suc i) gs
        (allocate_lot rid i (min rem (g_remaining_credits g)) g d)"
      by (auto intro!: rows_ok_allocate_lot)
  qed (use assms in \<open>auto simp: distinct_usable_lots set_usable_lots\<close>)
  then show ?thesis by blast
qed

lemma rows_ok_book_reservation:
  assumes "rows_ok db" and "ids_ok db" and "0 < credits" and "credits \<le> 10 ^ 9" and "0 \<le> allowance"
    and "book_reservation db user operation source_id key credits fp snap allowance stamp = Inr (row, db')"
  shows "rows_ok db'"
  using assms(6)
proof (rule book_reservation_Inr)
  fix db1 db2 :: credit_db
  assume row: "row = \<lparr>r_id = ''cr'' @ ''_'' @ db_supply db (db_drawn db), r_user_id = Some user,
       r_idempotency_key = key, r_operation = operation, r_source_id = source_id,
       r_input_fingerprint = fp, r_quote_snapshot = snap, r_execution_allowance_minor = allowance,
       r_reserved_credits = credits, r_committed_credits = 0, r_released_credits = 0,
       r_state = Reserved, r_created_at = stamp, r_settled_at = None\<rparr>"
    and db1: "db1 = db\<lparr>db_drawn := Suc (db_drawn db), db_reservations := db_reservations db @ [row]\<rparr>"
    and alloc: "allocate_lots (r_id row) 0 credits (usable_lots db1 user stamp) db1 = (0, db2)"
    and db': "db' = credit_event_row db2 user (''reserve:'' @ r_id row) ''reserve'' (- credits)
           ''credit_reservation'' (r_id row) stamp None None Map.empty"
  have "reservation_ok row" using assms(3,5) by (simp add: row reservation_ok_def reservation_check_def)
  with assms(1) have rows: "rows_ok db1" by (simp add: db1 rows_ok_def)
  have "r_id row = ''cr'' @ ''_'' @ db_supply db (db_drawn db)" by (simp add: row)
  then have ids: "ids_ok db1"
    using assms(2) fresh_rows_snoc [of "db_supply db" r_id "''cr''" "db_drawn db" "db_reservations db" row]
    by (simp add: ids_ok_def db1 fresh_rows_Suc)
  show ?thesis using rows_ok_allocate_lots [OF alloc rows ids assms(3,4)] by (simp add: db')
qed

lemma rows_ok_reserve_credits:
  assumes "rows_ok db" and "ids_ok db"
    and "reserve_credits db user operation source_id key credits fp snap allowance stamp = Inr (row, db')"
  shows "rows_ok db'"
  using assms(3)
proof (rule reserve_credits_Inr)
  fix db1
  assume lock: "lock_account db user = Inr db1" and basic: "0 < credits" "credits \<le> 10 ^ 9" "0 \<le> allowance"
    and cases: "prior_reservations db1 user key operation source_id = [row] \<and> db' = db1 \<and>
           same_terms row operation source_id credits fp snap allowance \<or>
         prior_reservations db1 user key operation source_id = [] \<and>
           credits \<le> balance (expire db1 user stamp) user \<and>
           book_reservation (expire db1 user stamp) user operation source_id key credits fp snap
             allowance stamp = Inr (row, db')"
  have rows: "rows_ok db1" and ids: "ids_ok db1"
    using lock assms(1,2) by (auto intro: rows_ok_lock_account ids_ok_lock_account)
  from cases show ?thesis
    using rows rows_ok_book_reservation [OF rows_ok_expire [OF rows ids] ids_ok_expire [OF ids] basic] by blast
qed

lemma rows_ok_mark_allocation:
  assumes "rows_ok db" and "ids_ok db" and "0 \<le> rem"
    and "a \<in> set (db_allocations db)"
  shows "rows_ok (mark_allocation (al_id a) (min rem (al_quantity a)) (al_quantity a - min rem (al_quantity a)) db)"
proof -
  let ?f = "\<lambda>b. b\<lparr>al_committed_credits := min rem (al_quantity a),
                   al_released_credits := al_quantity a - min rem (al_quantity a)\<rparr>"
  have ok: "\<forall>b \<in> set (db_allocations db). allocation_ok b" using assms(1) by (simp add: rows_ok_def)
  with assms(3,4) have "allocation_ok (?f a)" by (auto simp: allocation_ok_def allocation_check_def)
  with ball_update_by [of al_id, OF _ assms(4) ok, of ?f] assms(2)
  have "\<forall>b \<in> set (update_by al_id (al_id a) ?f (db_allocations db)). allocation_ok b"
    by (simp add: ids_ok_def fresh_rows_def)
  with assms(1) show ?thesis by (simp add: rows_ok_def mark_allocation_def)
qed

lemma settle_allocation_allocations:
  assumes "settle_allocation user stamp a (rem, db) = Inr (left, db')"
  shows "db_allocations db' = db_allocations (mark_allocation (al_id a) (min rem (al_quantity a))
           (al_quantity a - min rem (al_quantity a)) db)"
  using assms
proof (rule settle_allocation_Inr)
  fix grant
  let ?c = "min rem (al_quantity a)"
  let ?m = "mark_allocation (al_id a) ?c (al_quantity a - ?c) db"
  assume "al_quantity a - ?c = 0 \<and> db' = mark_allocation (al_id a) ?c 0 db \<or>
    (\<exists>g. grant_row ?m user (al_quantity a - ?c) ''reservation_release'' (al_id a)
       (g_funding_kind grant) (g_terms_snapshot grant) (restored_expiry grant stamp) stamp
       (Some (g_origin_type grant)) (Some (g_origin_id grant)) (Some (g_id grant)) = Inr (g, db'))"
  then show ?thesis
    by (elim disjE exE) (simp_all add: grant_row_frame)
qed

lemma settle_allocations_rule:
  assumes "settle_allocations user stamp as (rem, db) = Inr (left, db')"
    and "ids_ok db" and "has_account db user" and "0 \<le> rem"
    and "distinct (map al_id as)" and "set as \<subseteq> set (db_allocations db)" and "P rem as db"
    and step: "\<And>rem a rest db rem' db'. P rem (a # rest) db \<Longrightarrow> ids_ok db \<Longrightarrow> has_account db user
      \<Longrightarrow> 0 \<le> rem \<Longrightarrow> a \<in> set (db_allocations db) \<Longrightarrow> set (a # rest) \<subseteq> set as
      \<Longrightarrow> al_id a \<notin> al_id ` set rest
      \<Longrightarrow> settle_allocation user stamp a (rem, db) = Inr (rem', db') \<Longrightarrow> P rem' rest db'"
  shows "P left [] db'"
  using assms
proof (induction as arbitrary: rem db)
  case Nil
  then show ?case by simp
next
  case (Cons a as)
  from Cons.prems(1) obtain rem1 db1 where
    one: "settle_allocation user stamp a (rem, db) = Inr (rem1, db1)"
    and rest: "settle_allocations user stamp as (rem1, db1) = Inr (left, db')"
    by (auto simp: result_simps)
  note eff = settle_allocation_effect [OF Cons.prems(2,3) one]
  have sub: "set as \<subseteq> set (db_allocations db1)"
  proof
    fix b
    assume "b \<in> set as"
    with Cons.prems have "b \<in> set (db_allocations db)" and "al_id b \<noteq> al_id a" by (auto simp: rev_image_eqI)
    then show "b \<in> set (db_allocations db1)"
      using mem_update_by_other [of b "db_allocations db" al_id "al_id a"]
      by (simp add: settle_allocation_allocations [OF one] mark_allocation_def)
  qed
  have P: "P rem1 as db1"
    by (rule Cons.prems(8)) (use Cons.prems one in auto)
  show ?case
  proof (rule Cons.IH [OF rest _ _ _ _ sub P])
    show "ids_ok db1" and "has_account db1 user" using eff by blast+
    show "distinct (map al_id as)" using Cons.prems(5) by simp
    have "rem1 = rem - min rem (al_quantity a)" using eff by blast
    then show "0 \<le> rem1" by simp
    fix r b bs d r' d'
    assume now: "P r (b # bs) d" "ids_ok d" "has_account d user" "0 \<le> r" "b \<in> set (db_allocations d)"
      and sub: "set (b # bs) \<subseteq> set as" and new: "al_id b \<notin> al_id ` set bs"
      and one: "settle_allocation user stamp b (r, d) = Inr (r', d')"
    from sub have "set (b # bs) \<subseteq> set (a # as)" by auto
    from Cons.prems(8) [OF now this new one] show "P r' bs d'" .
  qed
qed

lemma rows_ok_settle_allocation:
  assumes "rows_ok db" and "ids_ok db" and "0 \<le> rem" and "a \<in> set (db_allocations db)"
    and "settle_allocation user stamp a (rem, db) = Inr (left, db')"
  shows "rows_ok db'"
  using assms(5)
proof (rule settle_allocation_Inr)
  fix grant
  let ?c = "min rem (al_quantity a)"
  let ?m = "mark_allocation (al_id a) ?c (al_quantity a - ?c) db"
  have ok: "rows_ok ?m" by (rule rows_ok_mark_allocation [OF assms(1-4)])
  assume "al_quantity a - ?c = 0 \<and> db' = mark_allocation (al_id a) ?c 0 db \<or>
    (\<exists>g. grant_row ?m user (al_quantity a - ?c) ''reservation_release'' (al_id a)
       (g_funding_kind grant) (g_terms_snapshot grant) (restored_expiry grant stamp) stamp
       (Some (g_origin_type grant)) (Some (g_origin_id grant)) (Some (g_id grant)) = Inr (g, db'))"
  then show ?thesis
  proof (elim disjE exE)
    assume "al_quantity a - ?c = 0 \<and> db' = mark_allocation (al_id a) ?c 0 db"
    with ok show ?thesis by simp
  next
    fix g
    assume "grant_row ?m user (al_quantity a - ?c) ''reservation_release'' (al_id a)
       (g_funding_kind grant) (g_terms_snapshot grant) (restored_expiry grant stamp) stamp
       (Some (g_origin_type grant)) (Some (g_origin_id grant)) (Some (g_id grant)) = Inr (g, db')"
    with ok assms(2) show ?thesis by (auto intro: rows_ok_grant_row)
  qed
qed

lemma set_reservation_allocations:
  "set (reservation_allocations db rid) = {a \<in> set (db_allocations db). al_reservation_id a = rid}"
  by (auto simp: reservation_allocations_def)

lemma distinct_reservation_allocations:
  "ids_ok db \<Longrightarrow> distinct (map al_id (reservation_allocations db rid))"
  unfolding reservation_allocations_def
  by (rule distinct_map_filter_sort) (simp add: ids_ok_def fresh_rows_def)

lemma rows_ok_close_reservation:
  assumes "rows_ok db" and "ids_ok db" and "has_account db user" and "row \<in> set (db_reservations db)"
    and "0 \<le> committed" and "committed \<le> r_reserved_credits row"
    and "close_reservation db user row committed stamp = Inr (row', db')"
  shows "rows_ok db'"
  using assms(7)
proof (rule close_reservation_Inr)
  fix left and db2 :: credit_db and details
  let ?f = "finish_reservation committed (r_reserved_credits row - committed) stamp"
  let ?e = "expire db user stamp"
  assume loop: "settle_allocations user stamp (reservation_allocations ?e (r_id row)) (committed, ?e) = Inr (left, db2)"
    and db': "db' = credit_event_row (db2\<lparr>db_reservations := update_by r_id (r_id row) ?f (db_reservations db2)\<rparr>)
           user (''settle:'' @ r_id row) ''settle'' 0 ''credit_reservation'' (r_id row) stamp None None details"
  have e: "rows_ok ?e" "ids_ok ?e" "has_account ?e user"
    using assms(1-3) by (simp_all add: rows_ok_expire ids_ok_expire)
  have "rows_ok db2"
    using loop e(2,3) assms(5)
  proof (rule settle_allocations_rule [where P = "\<lambda>_ _. rows_ok"])
    show "distinct (map al_id (reservation_allocations ?e (r_id row)))"
      by (rule distinct_reservation_allocations [OF e(2)])
  qed (auto simp: set_reservation_allocations e(1) intro: rows_ok_settle_allocation)
  moreover have res: "db_reservations db2 = db_reservations db"
    using settle_allocations_effect [OF e(2,3) loop] by simp
  moreover have "\<forall>r \<in> set (update_by r_id (r_id row) ?f (db_reservations db)). reservation_ok r"
  proof (rule ball_update_by [OF _ assms(4)])
    show "distinct (map r_id (db_reservations db))" using assms(2) by (simp add: ids_ok_def fresh_rows_def)
    show all: "\<forall>r \<in> set (db_reservations db). reservation_ok r" using assms(1) by (simp add: rows_ok_def)
    with assms(4) have "reservation_check row" by (simp add: reservation_ok_def)
    with assms(5,6) show "reservation_ok (?f row)"
      by (simp add: reservation_ok_def reservation_check_def finish_reservation_def)
  qed
  ultimately show ?thesis by (simp add: db' rows_ok_def)
qed

lemma owned_reservation_mem:
  "owned_reservation db user rid = Some row \<Longrightarrow>
     row \<in> set (db_reservations db) \<and> r_id row = rid \<and> r_user_id row = Some user"
  by (auto simp: owned_reservation_def find_Some_iff)

lemma rows_ok_settle_reservation:
  assumes "rows_ok db" and "ids_ok db" and "settle_reservation db user rid committed stamp = Inr (row', db')"
  shows "rows_ok db'"
  using assms(3)
proof (rule settle_reservation_Inr)
  fix db1 row
  assume lock: "lock_account db user = Inr db1" and nonneg: "0 \<le> committed"
    and row: "owned_reservation db1 user rid = Some row"
    and cases: "r_state row = Settled \<and> r_committed_credits row = committed \<and> row' = row \<and> db' = db1 \<or>
         r_state row = Reserved \<and> committed \<le> r_reserved_credits row \<and>
           close_reservation db1 user row committed stamp = Inr (row', db')"
  have rows: "rows_ok db1" and ids: "ids_ok db1" and acc: "has_account db1 user"
    using lock assms(1,2) lock_account_Inr [OF lock] by (auto intro: rows_ok_lock_account ids_ok_lock_account)
  from cases show ?thesis
    using rows rows_ok_close_reservation [OF rows ids acc conjunct1 [OF owned_reservation_mem [OF row]] nonneg]
    by blast
qed

lemma rows_ok_revoke_lots:
  assumes "revoke_lots delta (origin_grants db user ot oi) db = (left, db')" and "0 \<le> delta"
    and "rows_ok db" and "ids_ok db"
  shows "rows_ok db' \<and> 0 \<le> left"
proof -
  let ?P = "\<lambda>(rem :: int) (todo :: credit_grant list) d. rows_ok d \<and> 0 \<le> rem"
  have "ids_ok db' \<and> ?P left [] db'"
    using assms(1)
  proof (rule revoke_lots_rule [where P = ?P])
    fix d :: credit_db and g :: credit_grant and gs rem
    let ?n = "min rem (g_remaining_credits g)"
    assume P: "?P rem (g # gs) d" and ids: "ids_ok d" and g: "g \<in> set (db_grants d)"
    have ok: "grant_ok g" using P g by (auto intro: rows_ok_grant)
    then have "grant_ok (g\<lparr>g_remaining_credits := g_remaining_credits g - ?n\<rparr>)"
      by (rule grant_ok_same_terms) (use P grant_ok_bounds [OF ok] in auto)
    then have "rows_ok (revoke_lot ?n g d)"
      unfolding revoke_lot_def using P ids g by (intro rows_ok_update_grant) auto
    with P show "?P (rem - ?n) gs (revoke_lot ?n g d)" by simp
  qed (use assms in \<open>auto simp: distinct_origin_grants set_origin_grants\<close>)
  then show ?thesis by blast
qed

lemma rows_ok_apply_revocation:
  assumes "rows_ok db" and "ids_ok db" and "has_account db user" and "0 \<le> delta"
  shows "rows_ok (apply_revocation db user ot oi (origin_grants db user ot oi) previous root target delta stamp)"
proof -
  let ?gs = "origin_grants db user ot oi"
  obtain left db1 where loop: "revoke_lots delta ?gs db = (left, db1)" by (cases "revoke_lots delta ?gs db")
  let ?off = "min left (max 0 (sum_list (map g_expired_credits ?gs) - sum_list (map expired_offset_of previous)))"
  have db1: "rows_ok db1" "0 \<le> left" using rows_ok_revoke_lots [OF loop assms(4,1,2)] by simp_all
  have ids: "ids_ok db1" using balance_revoke_lots [OF loop assms(2)] by simp
  have "rows_ok (add_debt db1 user (left - ?off))"
    by (rule rows_ok_add_debt [OF db1(1) ids]) (use debt_nonneg [OF db1(1), of user] in auto)
  then show ?thesis by (simp add: apply_revocation_def loop Let_def)
qed

lemma rows_ok_revoke_origin:
  assumes "rows_ok db" and "ids_ok db" and "revoke_origin db user ot oi target stamp = Inr (delta, db')"
  shows "rows_ok db'"
  using assms(3)
proof (rule revoke_origin_Inr)
  fix db1 db2 root targets revoked
  assume lock: "lock_account db user = Inr db1" and db2: "db2 = expire db1 user stamp"
    and le: "revoked \<le> target" and delta: "delta = target - revoked"
    and db': "db' = (if delta = 0 then db2 else apply_revocation db2 user ot oi (origin_grants db2 user ot oi)
           (revoke_events db2 user ot oi) root target delta stamp)"
  have rows: "rows_ok db1" and ids: "ids_ok db1"
    using lock assms(1,2) by (auto intro: rows_ok_lock_account ids_ok_lock_account)
  have "rows_ok db2" "ids_ok db2" "has_account db2 user"
    using rows ids lock_account_Inr [OF lock] by (simp_all add: db2 rows_ok_expire ids_ok_expire)
  then show ?thesis using le delta rows_ok_apply_revocation [of db2 user delta] by (simp add: db')
qed

lemma credit_step_rows_ok:
  assumes "credit_step db db'" and "rows_ok db" and "ids_ok db"
  shows "rows_ok db'"
  using assms
proof (induction rule: credit_step.induct)
  case (expiry db user stamp db')
  then show ?case
    by (auto simp: expire_credits_def bindE_eq_Inr intro: rows_ok_expire rows_ok_lock_account ids_ok_lock_account)
next
  case (grant db user q st si fk ts ex stamp g db')
  then obtain db1 where lock: "lock_account db user = Inr db1"
    and row: "grant_row (expire db1 user stamp) user q st si fk ts ex stamp None None None = Inr (g, db')"
    by (auto simp: grant_credits_def bindE_eq_Inr Let_def)
  have "rows_ok db1" and "ids_ok db1"
    using lock grant.prems by (auto intro: rows_ok_lock_account ids_ok_lock_account)
  then show ?case using row by (auto intro: rows_ok_grant_row rows_ok_expire ids_ok_expire)
next
  case (fulfil db user qid order captured stamp g db')
  from fulfil.hyps show ?case
  proof (rule fulfill_Inr)
    fix db1 quote
    assume lock: "lock_account db user = Inr db1"
      and row: "grant_row (expire db1 user stamp) user (qt_credits (q_snapshot quote)) ''payment_order'' order
           ''paid'' (QuoteTerms (q_snapshot quote))
           (Some (max (max (qt_pass_expires_at (q_snapshot quote)) (captured + PASS_LIFETIME))
                    (stamp + PASS_LIFETIME))) stamp None None None = Inr (g, db')"
    have "rows_ok db1" and "ids_ok db1"
      using lock fulfil.prems by (auto intro: rows_ok_lock_account ids_ok_lock_account)
    then show ?thesis using row by (auto intro: rows_ok_grant_row rows_ok_expire ids_ok_expire)
  qed
qed (auto intro: rows_ok_reserve_credits rows_ok_settle_reservation rows_ok_revoke_origin)

lemma run_rows_ok:
  assumes "credit_step\<^sup>*\<^sup>* db db'" and "rows_ok db" and "ids_ok db"
  shows "rows_ok db'"
  using assms(1)
proof (induction rule: rtranclp_induct)
  case base
  show ?case by (rule assms(2))
next
  case (step t t')
  from credits.run_inv [OF step.hyps(1) assms(3)] step.IH credit_step_rows_ok [OF step.hyps(2)]
  show ?case by blast
qed

end
