(* ===== verification/Credit_Contract.thy ===== *)
theory Credit_Contract
  imports Credit_Safety
begin

text \<open>
  The contract of the ledger's operations: expiry in closed form, reservation succeeds
  exactly when the wallet covers it and takes the lots in their order, settlement of an
  open reservation always succeeds and restores what was not delivered, retries are
  idempotent, revocation is cumulative.
\<close>

section \<open>Expiry in closed form\<close>

definition expire_grant :: "credit_grant \<Rightarrow> credit_grant" where
  "expire_grant g = g\<lparr>g_remaining_credits := 0, g_expired_credits := g_expired_credits g + g_remaining_credits g\<rparr>"

lemma expire_one_closed:
  assumes "ids_ok db" and "g \<in> set (db_grants db)"
  shows "db_grants (expire_one user stamp g db) = map (\<lambda>r. if r = g then expire_grant g else r) (db_grants db)"
  unfolding expire_one_grants update_by_def
proof (rule map_cong [OF refl])
  fix r
  assume "r \<in> set (db_grants db)"
  then have "g_id r = g_id g \<longleftrightarrow> r = g"
    using distinct_key_eq [OF ids_ok_grants [OF assms(1)] _ assms(2)] by blast
  then show "(if g_id r = g_id g then r\<lparr>g_remaining_credits := 0,
      g_expired_credits := g_expired_credits r + g_remaining_credits g\<rparr> else r) = (if r = g then expire_grant g else r)"
    by (simp add: expire_grant_def)
qed

lemma expire_grant_id [simp]: "g_id (expire_grant g) = g_id g" "g_user_id (expire_grant g) = g_user_id g"
  "g_remaining_credits (expire_grant g) = 0"
  by (simp_all add: expire_grant_def)

lemma fold_expire_closed:
  assumes "ids_ok db" and "distinct (map g_id gs)" and "set gs \<subseteq> set (db_grants db)"
  shows "db_grants (fold (expire_one user stamp) gs db) =
    map (\<lambda>r. if r \<in> set gs then expire_grant r else r) (db_grants db)"
  using assms
proof (induction gs arbitrary: db)
  case Nil
  then show ?case by simp
next
  case (Cons g gs)
  let ?db = "expire_one user stamp g db"
  have closed: "db_grants ?db = map (\<lambda>r. if r = g then expire_grant g else r) (db_grants db)"
    using Cons.prems by (intro expire_one_closed) auto
  have "set gs \<subseteq> set (db_grants ?db)"
    unfolding closed using Cons.prems by (auto simp: image_iff)
  then have "db_grants (fold (expire_one user stamp) gs ?db) =
      map (\<lambda>r. if r \<in> set gs then expire_grant r else r) (db_grants ?db)"
    using Cons.prems by (intro Cons.IH ids_ok_expire_one) auto
  also have "\<dots> = map (\<lambda>r. if r \<in> set (g # gs) then expire_grant r else r) (db_grants db)"
  proof -
    have "expire_grant g \<notin> set gs" using Cons.prems(2) by (metis distinct.simps(2) expire_grant_id(1)
      image_eqI list.simps(9) list.set_map)
    moreover have "g \<notin> set gs" using Cons.prems(2) by auto
    ultimately show ?thesis unfolding closed by simp
  qed
  finally show ?case by simp
qed

lemma expire_closed:
  assumes "ids_ok db"
  shows "db_grants (expire db user stamp) = map (\<lambda>g. if stale user stamp g then expire_grant g else g) (db_grants db)"
proof -
  have "distinct (map g_id (expirable db user stamp))"
    unfolding expirable_def by (rule distinct_map_filter_sort) (rule ids_ok_grants [OF assms])
  then have "db_grants (expire db user stamp) =
      map (\<lambda>r. if r \<in> set (expirable db user stamp) then expire_grant r else r) (db_grants db)"
    unfolding expire_def using assms by (intro fold_expire_closed) (auto simp: set_expirable)
  also have "\<dots> = map (\<lambda>g. if stale user stamp g then expire_grant g else g) (db_grants db)"
    by (rule map_cong) (auto simp: set_expirable)
  finally show ?thesis .
qed

lemma not_stale_after_expire:
  assumes "ids_ok db" and "g \<in> set (db_grants (expire db user stamp))"
  shows "\<not> stale user stamp g"
  using assms(2) unfolding expire_closed [OF assms(1)] by (auto simp: stale_def split: if_splits)

lemma expire_nothing:
  assumes "\<And>g. g \<in> set (db_grants db) \<Longrightarrow> \<not> stale user stamp g"
  shows "expire db user stamp = db"
proof -
  have "set (expirable db user stamp) = {}" using assms by (auto simp: set_expirable)
  then show ?thesis by (simp add: expire_def)
qed

text \<open>Expiring twice at the same instant is expiring once.\<close>

lemma expire_idem: "ids_ok db \<Longrightarrow> expire (expire db user stamp) user stamp = expire db user stamp"
  by (rule expire_nothing) (rule not_stale_after_expire)

section \<open>What the wallet shows is what a reservation may take\<close>

lemma sum_list_sort_filter: "sum_list (map h (sort_key k (filter p rows))) = total p (h :: 'r \<Rightarrow> int) rows"
proof -
  have "sum_list (map h (sort_key k (filter p rows))) = total (\<lambda>_. True) h (sort_key k (filter p rows))"
    by (simp add: total_def)
  also have "\<dots> = total p h rows" by (simp add: total_filter)
  finally show ?thesis .
qed

lemma sum_usable_lots:
  "sum_list (map g_remaining_credits (usable_lots db user stamp)) = total (usable user stamp) g_remaining_credits (db_grants db)"
  unfolding usable_lots_def sum_list_sort_filter by (simp add: usable_def [abs_def])

text \<open>Where nothing is stale, every credit of the owner is usable.\<close>

lemma total_usable:
  assumes "rows_ok db" and "\<And>g. g \<in> set (db_grants db) \<Longrightarrow> \<not> stale user stamp g"
  shows "total (usable user stamp) g_remaining_credits (db_grants db) = balance db user + debt_of db user"
proof -
  have "total (usable user stamp) g_remaining_credits gs =
      total (\<lambda>g. g_user_id g = Some user) g_remaining_credits gs" if "set gs \<subseteq> set (db_grants db)" for gs
    using that
  proof (induction gs)
    case (Cons g gs)
    have "0 \<le> g_remaining_credits g" and "\<not> stale user stamp g"
      using Cons.prems grant_ok_bounds [of g] rows_ok_grant [OF assms(1), of g] assms(2) [of g] by auto
    then have "(if usable user stamp g then g_remaining_credits g else 0) =
        (if g_user_id g = Some user then g_remaining_credits g else 0)"
      by (auto simp: usable_def stale_def split: option.splits)
    with Cons show ?case by simp
  qed simp
  then show ?thesis by (simp add: balance_def)
qed

lemma total_usable_expire:
  assumes "ids_ok db"
  shows "total (usable user stamp) g_remaining_credits (db_grants (expire db user stamp)) =
    total (usable user stamp) g_remaining_credits (db_grants db)"
  unfolding expire_closed [OF assms] total_map
  by (rule total_cong) (auto simp: usable_def stale_def split: option.splits)

definition available :: "credit_db \<Rightarrow> int \<Rightarrow> int \<Rightarrow> int" where
  "available db user stamp = max 0 (balance (expire db user stamp) user)"

lemma debt_expire [simp]: "debt_of (expire db user stamp) u = debt_of db u"
  by (simp add: debt_of_def)

lemma balance_after_expire:
  assumes "ids_ok db" and "rows_ok db"
  shows "balance (expire db user stamp) user =
    total (usable user stamp) g_remaining_credits (db_grants db) - debt_of db user"
proof -
  have "total (usable user stamp) g_remaining_credits (db_grants (expire db user stamp)) =
      balance (expire db user stamp) user + debt_of (expire db user stamp) user"
    by (rule total_usable [OF rows_ok_expire [OF assms(2,1)]]) (rule not_stale_after_expire [OF assms(1)])
  then show ?thesis by (simp add: total_usable_expire [OF assms(1)])
qed

text \<open>
  \<open>wallet\<close> reads without expiring, \<open>reserve_credits\<close> expires before it looks: both see
  the same available credits.
\<close>

lemma wallet_available:
  assumes "ids_ok db" and "rows_ok db"
  shows "\<exists>w. wallet db user stamp None = Inr w \<and> w_available_credits w = available db user stamp"
  by (simp add: wallet_def Let_def sum_usable_lots available_def balance_after_expire [OF assms])

section \<open>Reservation\<close>

text \<open>The lots a request of \<open>n\<close> credits takes: every lot but the last is taken whole.\<close>

fun spread :: "int \<Rightarrow> credit_grant list \<Rightarrow> (credit_grant \<times> int) list" where
  "spread n [] = []"
| "spread n (g # gs) =
     (let k = min n (g_remaining_credits g)
      in (g, k) # (if n - k = 0 then [] else spread (n - k) gs))"

fun allocation_rows :: "string \<Rightarrow> nat \<Rightarrow> (nat \<Rightarrow> string) \<Rightarrow> nat \<Rightarrow> (credit_grant \<times> int) list \<Rightarrow> credit_allocation list" where
  "allocation_rows rid i s d [] = []"
| "allocation_rows rid i s d ((g, n) # ps) =
     \<lparr>al_id = ''ca'' @ ''_'' @ s d, al_reservation_id = rid, al_grant_id = g_id g, al_ordinal = i,
      al_quantity = n, al_committed_credits = 0, al_released_credits = 0\<rparr>
     # allocation_rows rid (Suc i) s (Suc d) ps"

text \<open>The loop writes exactly the rows of that specification.\<close>

lemma allocate_lots_rows:
  "db_allocations (snd (allocate_lots rid i n lots db)) =
     db_allocations db @ allocation_rows rid i (db_supply db) (db_drawn db) (spread n lots)"
proof (induction lots arbitrary: i n db)
  case (Cons g gs)
  then show ?case by (simp add: Let_def allocate_lot_allocations)
qed simp

lemma sum_spread:
  assumes "\<And>g. g \<in> set lots \<Longrightarrow> 0 < g_remaining_credits g" and "0 < n"
    and "n \<le> sum_list (map g_remaining_credits lots)"
  shows "sum_list (map snd (spread n lots)) = n"
  using assms
proof (induction lots arbitrary: n)
  case (Cons g gs)
  show ?case
  proof (cases "n \<le> g_remaining_credits g")
    case False
    with Cons.prems have "sum_list (map snd (spread (n - g_remaining_credits g) gs)) = n - g_remaining_credits g"
      by (intro Cons.IH) auto
    with False show ?thesis by (simp add: Let_def min_def)
  qed (simp add: Let_def)
qed simp

lemma spread_in_order:
  assumes "\<And>g. g \<in> set lots \<Longrightarrow> 0 < g_remaining_credits g" and "0 < n"
  shows "\<exists>rest. map fst (spread n lots) @ rest = lots \<and>
    (\<forall>(g, k) \<in> set (spread n lots). 0 < k \<and> k \<le> g_remaining_credits g) \<and>
    (\<forall>(g, k) \<in> set (butlast (spread n lots)). k = g_remaining_credits g)"
  using assms
proof (induction lots arbitrary: n)
  case (Cons g gs)
  have g: "0 < g_remaining_credits g" using Cons.prems(1) by simp
  show ?case
  proof (cases "n \<le> g_remaining_credits g")
    case True
    with Cons.prems(2) show ?thesis by (simp add: Let_def)
  next
    case False
    with Cons.prems obtain rest where rest: "map fst (spread (n - g_remaining_credits g) gs) @ rest = gs"
      and small: "\<forall>(h, k) \<in> set (spread (n - g_remaining_credits g) gs). 0 < k \<and> k \<le> g_remaining_credits h"
      and whole: "\<forall>(h, k) \<in> set (butlast (spread (n - g_remaining_credits g) gs)). k = g_remaining_credits h"
      using Cons.IH [of "n - g_remaining_credits g"] by auto
    have eq: "spread n (g # gs) = (g, g_remaining_credits g) # spread (n - g_remaining_credits g) gs"
      using False by (simp add: Let_def min_def)
    show ?thesis
      unfolding eq by (rule exI [of _ rest]) (use rest small whole g in auto)
  qed
qed simp

lemma book_reservation_succeeds:
  assumes "ids_ok db" and "rows_ok db" and "\<And>g. g \<in> set (db_grants db) \<Longrightarrow> \<not> stale user stamp g"
    and "0 < credits" and "credits \<le> balance db user"
  shows "\<exists>row db'. book_reservation db user operation source_id key credits fp snap allowance stamp = Inr (row, db')"
proof -
  let ?row = "\<lparr>r_id = ''cr'' @ ''_'' @ db_supply db (db_drawn db), r_user_id = Some user,
       r_idempotency_key = key, r_operation = operation, r_source_id = source_id,
       r_input_fingerprint = fp, r_quote_snapshot = snap, r_execution_allowance_minor = allowance,
       r_reserved_credits = credits, r_committed_credits = 0, r_released_credits = 0,
       r_state = Reserved, r_created_at = stamp, r_settled_at = None\<rparr>"
  let ?db1 = "db\<lparr>db_drawn := Suc (db_drawn db), db_reservations := db_reservations db @ [?row]\<rparr>"
  have lots: "usable_lots ?db1 user stamp = usable_lots db user stamp" by (simp add: usable_lots_def)
  have "credits \<le> sum_list (map g_remaining_credits (usable_lots db user stamp))"
    using total_usable [OF assms(2,3)] debt_nonneg [OF assms(2), of user] assms(5)
    by (simp add: sum_usable_lots)
  then have "fst (allocate_lots (r_id ?row) 0 credits (usable_lots ?db1 user stamp) ?db1) = 0"
    using assms(4) unfolding lots by (subst allocate_lots_left) (auto simp: set_usable_lots usable_def)
  then show ?thesis
    by (cases "allocate_lots (r_id ?row) 0 credits (usable_lots ?db1 user stamp) ?db1")
       (simp add: book_reservation_def public_id_def Let_def)
qed

lemma stale_book_reservation:
  assumes "ids_ok db" and "\<And>g. g \<in> set (db_grants db) \<Longrightarrow> \<not> stale user stamp g" and "0 < credits"
    and "book_reservation db user operation source_id key credits fp snap allowance stamp = Inr (row, db')"
    and "g \<in> set (db_grants db')"
  shows "\<not> stale user stamp g"
  using assms(4)
proof (rule book_reservation_Inr)
  fix db1 db2 :: credit_db
  assume row: "row = \<lparr>r_id = ''cr'' @ ''_'' @ db_supply db (db_drawn db), r_user_id = Some user,
       r_idempotency_key = key, r_operation = operation, r_source_id = source_id,
       r_input_fingerprint = fp, r_quote_snapshot = snap, r_execution_allowance_minor = allowance,
       r_reserved_credits = credits, r_committed_credits = 0, r_released_credits = 0,
       r_state = Reserved, r_created_at = stamp, r_settled_at = None\<rparr>"
    and db1: "db1 = db\<lparr>db_drawn := Suc (db_drawn db), db_reservations := db_reservations db @ [row]\<rparr>"
    and alloc: "allocate_lots (r_id row) 0 credits (usable_lots db1 user stamp) db1 = (0, db2)"
    and db': "db' = credit_event_row db2 user (''reserve:'' @ r_id row) ''reserve'' (- credits)
           ''credit_reservation'' (r_id row) stamp None None Map.empty"
  have rid: "r_id row = ''cr'' @ ''_'' @ db_supply db (db_drawn db)" by (simp add: row)
  have ids: "ids_ok db1"
    using assms(1) fresh_rows_snoc [of "db_supply db" r_id "''cr''" "db_drawn db" "db_reservations db" row] rid
    by (simp add: ids_ok_def db1 fresh_rows_Suc)
  let ?P = "\<lambda>(rem :: int) (i :: nat) (todo :: credit_grant list) d.
    \<forall>g \<in> set (db_grants d). \<not> stale user stamp g"
  have "ids_ok db2 \<and> (\<exists>j rest. ?P 0 j rest db2)"
    using alloc
  proof (rule allocate_lots_rule [where P = ?P])
    fix d :: credit_db and h :: credit_grant and gs rem i
    assume P: "?P rem (i :: nat) (h # gs) d" and "0 < rem" and h: "set (h # gs) \<subseteq> set (usable_lots db1 user stamp)"
    have pos: "0 \<le> min rem (g_remaining_credits h)"
      using h \<open>0 < rem\<close> by (auto simp: set_usable_lots usable_def)
    show "?P (rem - min rem (g_remaining_credits h)) (Suc i) gs
        (allocate_lot (r_id row) i (min rem (g_remaining_credits h)) h d)"
      unfolding allocate_lot_grants
      using P pos by (auto simp: set_update_by stale_def split: option.splits)
  qed (use assms(2,3) ids in \<open>auto simp: distinct_usable_lots set_usable_lots db1\<close>)
  then show ?thesis using assms(5) by (simp add: db')
qed

text \<open>The checks of \<open>reserve_credits\<close> on its arguments alone.\<close>

definition request_ok :: "string \<Rightarrow> string \<Rightarrow> string \<Rightarrow> int \<Rightarrow> string \<Rightarrow> int \<Rightarrow> bool" where
  "request_ok operation source_id key credits fp allowance \<longleftrightarrow>
     credit_count credits True = Inr credits \<and> credit_count allowance False = Inr allowance \<and>
     credit_key operation 64 = Inr operation \<and> credit_key source_id 64 = Inr source_id \<and>
     credit_key key 160 = Inr key \<and> is_sha256_hex fp \<and> allowance \<le> credits * EXECUTION_MINOR_PER_CREDIT"

lemma credit_key_Inr: "credit_key s n = Inr t \<Longrightarrow> t = s"
  by (simp add: credit_key_def split: if_splits)

lemma reserve_credits_request:
  "request_ok operation source_id key credits fp allowance \<Longrightarrow> lock_account db user = Inr db1 \<Longrightarrow>
   reserve_credits db user operation source_id key credits fp snap allowance stamp =
     (case prior_reservations db1 user key operation source_id of
       row # others \<Rightarrow>
         bindE (require (others = [])
           (CreditContractError ''The operation and request identities conflict.'')) (\<lambda>_.
         bindE (require (same_terms row operation source_id credits fp snap allowance)
           (CreditContractError ''This reservation already has different accepted terms.''))
           (\<lambda>_. Inr (row, db1)))
     | [] \<Rightarrow>
         bindE (require (\<not> credits > available db1 user stamp)
             (InsufficientCredits (available db1 user stamp) credits)) (\<lambda>_.
         book_reservation (expire db1 user stamp) user operation source_id key credits fp snap allowance stamp))"
  by (simp add: reserve_credits_def request_ok_def same_terms_def available_def Let_def del: Product_Type.prod.inject
      split: list.splits)

lemma reserve_credits_request_ok:
  assumes "reserve_credits db user operation source_id key credits fp snap allowance stamp = Inr x"
  shows "request_ok operation source_id key credits fp allowance"
proof -
  have "credit_key operation 64 = Inr operation \<and> credit_key source_id 64 = Inr source_id \<and>
      credit_key key 160 = Inr key \<and> is_sha256_hex fp \<and> \<not> allowance > credits * EXECUTION_MINOR_PER_CREDIT"
    using assms unfolding reserve_credits_def bindE_eq_Inr require_eq_Inr
    by (blast dest: credit_key_Inr)
  moreover have "credit_count credits True = Inr credits \<and> credit_count allowance False = Inr allowance"
    using assms unfolding reserve_credits_def bindE_eq_Inr credit_count_Inr by blast
  ultimately show ?thesis by (simp add: request_ok_def)
qed

lemma lock_account_exists: "user \<in> set (db_users db) \<Longrightarrow> \<exists>db1. lock_account db user = Inr db1"
  by (simp add: lock_account_def lock_owner_def)

lemma lock_account_again:
  assumes "user \<in> set (db_users db)" and "has_account db user"
  shows "lock_account db user = Inr db"
proof -
  have "row_at acc_user_id user (db_accounts db) \<noteq> None" using assms(2) by (simp add: row_at_None has_account_def)
  with assms(1) show ?thesis by (auto simp: lock_account_def lock_owner_def)
qed

lemma available_lock_account:
  assumes "lock_account db user = Inr db1" and "ids_ok db" and "rows_ok db"
  shows "available db1 u stamp = available db u stamp"
  using balance_after_expire [OF ids_ok_lock_account [OF assms(1,2)] rows_ok_lock_account [OF assms(1,3)]]
    balance_after_expire [OF assms(2,3)]
  by (simp add: available_def lock_account_frame [OF assms(1)] debt_lock_account [OF assms(1)])

lemma prior_lock_account:
  "lock_account db user = Inr db1 \<Longrightarrow> prior_reservations db1 u k o1 s = prior_reservations db u k o1 s"
  by (simp add: prior_reservations_def lock_account_frame)

lemma book_reservations:
  assumes "book_reservation db user operation source_id key credits fp snap allowance stamp = Inr (row, db')"
  shows "db_reservations db' = db_reservations db @ [row] \<and> db_accounts db' = db_accounts db \<and>
    db_users db' = db_users db \<and>
    db_allocations db' = db_allocations db @ allocation_rows (r_id row) 0 (db_supply db) (Suc (db_drawn db))
      (spread credits (usable_lots db user stamp)) \<and>
    same_terms row operation source_id credits fp snap allowance \<and> r_user_id row = Some user \<and>
    r_idempotency_key row = key \<and> r_state row = Reserved"
  using assms
proof (rule book_reservation_Inr)
  fix db1 db2 :: credit_db
  assume row: "row = \<lparr>r_id = ''cr'' @ ''_'' @ db_supply db (db_drawn db), r_user_id = Some user,
       r_idempotency_key = key, r_operation = operation, r_source_id = source_id,
       r_input_fingerprint = fp, r_quote_snapshot = snap, r_execution_allowance_minor = allowance,
       r_reserved_credits = credits, r_committed_credits = 0, r_released_credits = 0,
       r_state = Reserved, r_created_at = stamp, r_settled_at = None\<rparr>"
    and db1: "db1 = db\<lparr>db_drawn := Suc (db_drawn db), db_reservations := db_reservations db @ [row]\<rparr>"
    and alloc: "allocate_lots (r_id row) 0 credits (usable_lots db1 user stamp) db1 = (0, db2)"
    and db': "db' = credit_event_row db2 user (''reserve:'' @ r_id row) ''reserve'' (- credits)
           ''credit_reservation'' (r_id row) stamp None None Map.empty"
  have frame: "db_reservations (snd (allocate_lots rid i n lots d)) = db_reservations d \<and>
    db_accounts (snd (allocate_lots rid i n lots d)) = db_accounts d \<and>
    db_users (snd (allocate_lots rid i n lots d)) = db_users d" for rid i n lots d
    by (induction lots arbitrary: i n d) (simp_all add: Let_def)
  have rows: "db_allocations db2 = db_allocations db1 @ allocation_rows (r_id row) 0 (db_supply db1) (db_drawn db1)
      (spread credits (usable_lots db1 user stamp))"
    using allocate_lots_rows [of "r_id row" 0 credits "usable_lots db1 user stamp" db1] alloc by simp
  have "usable_lots db1 user stamp = usable_lots db user stamp" by (simp add: db1 usable_lots_def)
  then show ?thesis
    using frame [of "r_id row" 0 credits "usable_lots db1 user stamp" db1] alloc rows
    by (simp add: db' db1) (simp add: row same_terms_def)
qed

text \<open>Reservation decides by the wallet, and takes exactly what was asked.\<close>

lemma reserve_decides:
  assumes ids: "ids_ok db" and rows: "rows_ok db" and user: "user \<in> set (db_users db)"
    and request: "request_ok operation source_id key credits fp allowance"
    and new: "prior_reservations db user key operation source_id = []"
  shows "if credits \<le> available db user stamp
     then \<exists>row db'. reserve_credits db user operation source_id key credits fp snap allowance stamp = Inr (row, db') \<and>
            available db' user stamp = available db user stamp - credits
     else reserve_credits db user operation source_id key credits fp snap allowance stamp
            = Inl (InsufficientCredits (available db user stamp) credits)"
proof -
  obtain db1 where lock: "lock_account db user = Inr db1" using lock_account_exists [OF user] by blast
  have ids1: "ids_ok db1" and rows1: "rows_ok db1"
    using lock ids rows by (auto intro: ids_ok_lock_account rows_ok_lock_account)
  let ?e = "expire db1 user stamp"
  have e: "ids_ok ?e" "rows_ok ?e" using ids1 rows1 by (simp_all add: ids_ok_expire rows_ok_expire)
  have stale: "\<And>g. g \<in> set (db_grants ?e) \<Longrightarrow> \<not> stale user stamp g" by (rule not_stale_after_expire [OF ids1])
  have av: "available db1 user stamp = available db user stamp" by (rule available_lock_account [OF lock ids rows])
  have pos: "0 < credits" using request by (simp add: request_ok_def credit_count_Inr)
  have run: "reserve_credits db user operation source_id key credits fp snap allowance stamp =
      bindE (require (\<not> credits > available db user stamp) (InsufficientCredits (available db user stamp) credits))
        (\<lambda>_. book_reservation ?e user operation source_id key credits fp snap allowance stamp)"
    by (simp add: reserve_credits_request [OF request lock] prior_lock_account [OF lock] new av)
  show ?thesis
  proof (cases "credits \<le> available db user stamp")
    case True
    then have enough: "credits \<le> balance ?e user" using pos av by (simp add: available_def)
    obtain row db' where book: "book_reservation ?e user operation source_id key credits fp snap allowance stamp = Inr (row, db')"
      using book_reservation_succeeds [OF e stale pos enough] by blast
    have "expire db' user stamp = db'"
      by (rule expire_nothing) (rule stale_book_reservation [OF e(1) stale pos book])
    then have "available db' user stamp = available db user stamp - credits"
      using book_reservation_effect(2) [OF e(1) pos book, of user] enough av pos
      by (simp add: available_def max_def split: if_splits)
    with True book show ?thesis by (simp add: run)
  next
    case False
    then show ?thesis by (simp add: run)
  qed
qed

text \<open>A retry of a reservation returns the same row and changes nothing.\<close>

lemma reserve_retry:
  assumes "reserve_credits db user operation source_id key credits fp snap allowance stamp = Inr (row, db')"
  shows "reserve_credits db' user operation source_id key credits fp snap allowance stamp' = Inr (row, db')"
proof -
  note request = reserve_credits_request_ok [OF assms]
  from assms show ?thesis
  proof (rule reserve_credits_Inr)
    fix db1
    assume lock: "lock_account db user = Inr db1"
      and cases: "prior_reservations db1 user key operation source_id = [row] \<and> db' = db1 \<and>
           same_terms row operation source_id credits fp snap allowance \<or>
         prior_reservations db1 user key operation source_id = [] \<and>
           credits \<le> balance (expire db1 user stamp) user \<and>
           book_reservation (expire db1 user stamp) user operation source_id key credits fp snap
             allowance stamp = Inr (row, db')"
    have user: "user \<in> set (db_users db1)" and acc: "has_account db1 user"
      using lock_account_Inr [OF lock] lock_account_frame [OF lock] by auto
    from cases show ?thesis
    proof (elim disjE conjE)
      assume "prior_reservations db1 user key operation source_id = [row]" "db' = db1"
        "same_terms row operation source_id credits fp snap allowance"
      then show ?thesis by (simp add: reserve_credits_request [OF request lock_account_again] user acc)
    next
      assume prior: "prior_reservations db1 user key operation source_id = []"
        and book: "book_reservation (expire db1 user stamp) user operation source_id key credits fp snap
             allowance stamp = Inr (row, db')"
      note after = book_reservations [OF book]
      have "lock_account db' user = Inr db'"
        using after user acc by (intro lock_account_again) (simp_all add: has_account_def)
      moreover have "prior_reservations db' user key operation source_id = [row]"
        using after prior by (simp add: prior_reservations_def)
      ultimately show ?thesis using after by (simp add: reserve_credits_request [OF request])
    qed
  qed
qed

end
