(* ===== verification/Credit_Settlement.thy ===== *)
theory Credit_Settlement
  imports Credit_Contract
begin

text \<open>
  Settlement always succeeds on an open reservation of a well-formed ledger, whatever
  part of it was delivered, and it gives back exactly the rest. What this needs beyond the
  row invariant is that allocations add up to their reservation and point to grants of its
  owner: an invariant of every operation.
\<close>

section \<open>Allocations belong to their reservation\<close>

definition reservation_sig :: "credit_db \<Rightarrow> (string \<times> int option \<times> int) list" where
  "reservation_sig db = map (\<lambda>r. (r_id r, r_user_id r, r_reserved_credits r)) (db_reservations db)"

definition allocation_sig :: "credit_db \<Rightarrow> (string \<times> string \<times> int) list" where
  "allocation_sig db = map (\<lambda>a. (al_reservation_id a, al_grant_id a, al_quantity a)) (db_allocations db)"

definition grant_sig :: "credit_db \<Rightarrow> (string \<times> int option) set" where
  "grant_sig db = (\<lambda>g. (g_id g, g_user_id g)) ` set (db_grants db)"

definition links_ok :: "credit_db \<Rightarrow> bool" where
  "links_ok db \<longleftrightarrow>
     (\<forall>(rid, u, n) \<in> set (reservation_sig db).
        total (\<lambda>(r, _, _). r = rid) (\<lambda>(_, _, q). q) (allocation_sig db) = n) \<and>
     (\<forall>(rid, gid, q) \<in> set (allocation_sig db).
        \<exists>u n. (rid, u, n) \<in> set (reservation_sig db) \<and> (gid, u) \<in> grant_sig db)"

lemma links_ok_mono:
  assumes "links_ok db" and "reservation_sig db' = reservation_sig db"
    and "allocation_sig db' = allocation_sig db" and "grant_sig db \<subseteq> grant_sig db'"
  shows "links_ok db'"
  using assms unfolding links_ok_def by (auto; blast)

lemma grant_sig_update_by:
  assumes "\<And>g. g_id (f g) = g_id g" and "\<And>g. g_user_id (f g) = g_user_id g"
  shows "grant_sig (db\<lparr>db_grants := update_by g_id k f (db_grants db)\<rparr>) = grant_sig db"
proof -
  have "map (\<lambda>g. (g_id g, g_user_id g)) (update_by g_id k f (db_grants db)) =
      map (\<lambda>g. (g_id g, g_user_id g)) (db_grants db)"
    by (rule map_update_by) (simp add: assms)
  from arg_cong [OF this, of set] show ?thesis by (simp add: grant_sig_def)
qed

text \<open>What an operation other than booking does to those signatures: nothing but new grants.\<close>

definition keeps_links :: "credit_db \<Rightarrow> credit_db \<Rightarrow> bool" where
  "keeps_links db db' \<longleftrightarrow> reservation_sig db' = reservation_sig db \<and>
     allocation_sig db' = allocation_sig db \<and> grant_sig db \<subseteq> grant_sig db'"

lemma keeps_links_trans [trans]: "keeps_links a b \<Longrightarrow> keeps_links b c \<Longrightarrow> keeps_links a c"
  by (auto simp: keeps_links_def)

lemma keeps_links_refl [simp]: "keeps_links db db"
  by (simp add: keeps_links_def)

lemma keeps_links_same:
  "db_reservations db' = db_reservations db \<Longrightarrow> db_allocations db' = db_allocations db \<Longrightarrow>
     set (db_grants db) \<subseteq> set (db_grants db') \<Longrightarrow> keeps_links db db'"
  by (auto simp: keeps_links_def reservation_sig_def allocation_sig_def grant_sig_def)

lemma links_ok_keeps: "keeps_links db db' \<Longrightarrow> links_ok db \<Longrightarrow> links_ok db'"
  unfolding keeps_links_def by (rule links_ok_mono) auto

lemma keeps_links_lock: "lock_account db user = Inr db1 \<Longrightarrow> keeps_links db db1"
  by (rule keeps_links_same) (simp_all add: lock_account_frame)

lemma keeps_links_expire:
  assumes "ids_ok db"
  shows "keeps_links db (expire db user stamp)"
proof -
  have "grant_sig (expire db user stamp) = grant_sig db"
    unfolding grant_sig_def expire_closed [OF assms] set_map image_image
    by (rule image_cong) auto
  then show ?thesis by (simp add: keeps_links_def reservation_sig_def allocation_sig_def)
qed

lemma keeps_links_grant_row:
  assumes "grant_row db user q st si fk ts ex stamp ot0 oi0 parent = Inr (g, db')"
  shows "keeps_links db db'"
proof (rule keeps_links_same)
  show "db_reservations db' = db_reservations db" "db_allocations db' = db_allocations db"
    using grant_row_frame [OF assms] by simp_all
  show "set (db_grants db) \<subseteq> set (db_grants db')"
    using grant_row_Inr [OF assms] issue_grant_frame(5)
    by (auto split: option.splits dest!: sym [of "(g, db')"])
qed

lemma allocation_sig_mark [simp]: "allocation_sig (mark_allocation aid c r db) = allocation_sig db"
  by (simp add: allocation_sig_def mark_allocation_def map_update_by)

lemma keeps_links_mark: "keeps_links db (mark_allocation aid c r db)"
  by (simp add: keeps_links_def reservation_sig_def grant_sig_def)

lemma keeps_links_settle_allocation:
  assumes "settle_allocation user stamp a (rem, db) = Inr (left, db')"
  shows "keeps_links db db'"
  using assms
proof (rule settle_allocation_Inr)
  fix grant
  let ?c = "min rem (al_quantity a)"
  let ?m = "mark_allocation (al_id a) ?c (al_quantity a - ?c) db"
  assume "al_quantity a - ?c = 0 \<and> db' = mark_allocation (al_id a) ?c 0 db \<or>
    (\<exists>g. grant_row ?m user (al_quantity a - ?c) ''reservation_release'' (al_id a)
       (g_funding_kind grant) (g_terms_snapshot grant) (restored_expiry grant stamp) stamp
       (Some (g_origin_type grant)) (Some (g_origin_id grant)) (Some (g_id grant)) = Inr (g, db'))"
  then show ?thesis
    by (elim disjE exE) (auto intro: keeps_links_mark keeps_links_trans [OF keeps_links_mark keeps_links_grant_row])
qed

lemma keeps_links_settle_allocations:
  "settle_allocations user stamp as (rem, db) = Inr (left, db') \<Longrightarrow> keeps_links db db'"
proof (induction as arbitrary: rem db)
  case (Cons a as)
  from Cons.prems obtain rem1 db1 where "settle_allocation user stamp a (rem, db) = Inr (rem1, db1)"
    and "settle_allocations user stamp as (rem1, db1) = Inr (left, db')"
    by (auto simp: bindE_eq_Inr)
  with Cons.IH keeps_links_settle_allocation show ?case by (blast intro: keeps_links_trans)
qed simp

lemma keeps_links_close:
  assumes "ids_ok db" and "close_reservation db user row committed stamp = Inr (row', db')"
  shows "keeps_links db db'"
  using assms(2)
proof (rule close_reservation_Inr)
  fix left and db2 :: credit_db and details
  let ?f = "finish_reservation committed (r_reserved_credits row - committed) stamp"
  let ?db3 = "db2\<lparr>db_reservations := update_by r_id (r_id row) ?f (db_reservations db2)\<rparr>"
  assume loop: "settle_allocations user stamp (reservation_allocations (expire db user stamp) (r_id row))
           (committed, expire db user stamp) = Inr (left, db2)"
    and db': "db' = credit_event_row ?db3 user (''settle:'' @ r_id row) ''settle'' 0
           ''credit_reservation'' (r_id row) stamp None None details"
  have "keeps_links db db2"
    using keeps_links_trans [OF keeps_links_expire [OF assms(1)] keeps_links_settle_allocations [OF loop]] .
  moreover have "keeps_links db2 db'"
    by (simp add: db' keeps_links_def reservation_sig_def allocation_sig_def grant_sig_def
        map_update_by finish_reservation_def)
  ultimately show ?thesis by (rule keeps_links_trans)
qed

lemma keeps_links_settle:
  assumes "ids_ok db" and "settle_reservation db user rid committed stamp = Inr (row', db')"
  shows "keeps_links db db'"
  using assms(2)
proof (rule settle_reservation_Inr)
  fix db1 row
  assume lock: "lock_account db user = Inr db1"
    and cases: "r_state row = Settled \<and> r_committed_credits row = committed \<and> row' = row \<and> db' = db1 \<or>
         r_state row = Reserved \<and> committed \<le> r_reserved_credits row \<and>
           close_reservation db1 user row committed stamp = Inr (row', db')"
  from cases show ?thesis
    using keeps_links_lock [OF lock] keeps_links_close [OF ids_ok_lock_account [OF lock assms(1)]]
      keeps_links_trans by blast
qed

lemma keeps_links_revoke_lots: "keeps_links db (snd (revoke_lots rem lots db))"
proof (induction lots arbitrary: rem db)
  case (Cons g gs)
  have "keeps_links db (revoke_lot n g db)" for n
    using grant_sig_update_by [of "\<lambda>g. g\<lparr>g_remaining_credits := g_remaining_credits g - n\<rparr>" "g_id g" db]
    by (simp add: revoke_lot_def keeps_links_def reservation_sig_def allocation_sig_def)
  with Cons.IH show ?case by (simp add: Let_def) (blast intro: keeps_links_trans)
qed simp

lemma keeps_links_revoke:
  assumes "ids_ok db" and "revoke_origin db user ot oi target stamp = Inr (delta, db')"
  shows "keeps_links db db'"
  using assms(2)
proof (rule revoke_origin_Inr)
  fix db1 db2 root targets revoked
  assume lock: "lock_account db user = Inr db1" and db2: "db2 = expire db1 user stamp"
    and db': "db' = (if delta = 0 then db2 else apply_revocation db2 user ot oi (origin_grants db2 user ot oi)
           (revoke_events db2 user ot oi) root target delta stamp)"
  have "keeps_links db db2" unfolding db2
    by (rule keeps_links_trans [OF keeps_links_lock [OF lock] keeps_links_expire])
       (rule ids_ok_lock_account [OF lock assms(1)])
  moreover have "keeps_links db2 (apply_revocation db2 user ot oi gs prev root target delta stamp)" for gs prev
    using keeps_links_revoke_lots [of db2 delta gs]
    by (cases "revoke_lots delta gs db2")
       (simp add: apply_revocation_def Let_def keeps_links_def reservation_sig_def allocation_sig_def grant_sig_def)
  ultimately show ?thesis unfolding db' by (auto intro: keeps_links_trans)
qed

lemma total_allocation_rows:
  "total (\<lambda>(r, _, _). r = rid) (\<lambda>(_, _, q). q)
     (map (\<lambda>a. (al_reservation_id a, al_grant_id a, al_quantity a)) (allocation_rows rid' i s d ps)) =
   (if rid' = rid then sum_list (map snd ps) else 0)"
  by (induction rid' i s d ps rule: allocation_rows.induct) auto

lemma set_allocation_rows:
  "(r, gid, q) \<in> (\<lambda>a. (al_reservation_id a, al_grant_id a, al_quantity a)) ` set (allocation_rows rid i s d ps)
     \<Longrightarrow> r = rid \<and> gid \<in> g_id ` fst ` set ps"
  by (induction rid i s d ps rule: allocation_rows.induct) auto

lemma set_spread: "fst ` set (spread n lots) \<subseteq> set lots"
  by (induction n lots rule: spread.induct) (auto simp: Let_def split: if_splits)

lemma links_ok_book:
  assumes "links_ok db" and "ids_ok db" and "rows_ok db"
    and stale: "\<And>g. g \<in> set (db_grants db) \<Longrightarrow> \<not> stale user stamp g"
    and "0 < credits" and "credits \<le> balance db user"
    and book: "book_reservation db user operation source_id key credits fp snap allowance stamp = Inr (row, db')"
  shows "links_ok db'"
proof -
  let ?ps = "spread credits (usable_lots db user stamp)"
  note after = book_reservations [OF book]
  have res: "reservation_sig db' = reservation_sig db @ [(r_id row, Some user, credits)]"
    using after by (simp add: reservation_sig_def same_terms_def)
  have alloc: "allocation_sig db' = allocation_sig db @
      map (\<lambda>a. (al_reservation_id a, al_grant_id a, al_quantity a))
        (allocation_rows (r_id row) 0 (db_supply db) (Suc (db_drawn db)) ?ps)"
    using after by (simp add: allocation_sig_def)
  have rid: "r_id row = ''cr'' @ ''_'' @ db_supply db (db_drawn db)"
    using book by (rule book_reservation_Inr) simp
  have fresh: "r_id row \<notin> fst ` set (reservation_sig db)"
    using assms(2) fresh_rows_new [of r_id "''cr''" "db_supply db" "db_drawn db" "db_reservations db"]
    by (auto simp: rid ids_ok_def reservation_sig_def)
  have unused: "(r_id row, gid, q) \<notin> set (allocation_sig db)" for gid q
    using assms(1) fresh unfolding links_ok_def by (force simp: image_iff)
  then have "total (\<lambda>(r, _, _). r = r_id row) (\<lambda>(_, _, q). q) (allocation_sig db) = 0"
    unfolding total_def by (subst filter_False) auto
  moreover have "sum_list (map snd ?ps) = credits"
  proof (rule sum_spread)
    show "credits \<le> sum_list (map g_remaining_credits (usable_lots db user stamp))"
      using total_usable [OF assms(3) stale] debt_nonneg [OF assms(3), of user] assms(6)
      by (simp add: sum_usable_lots)
  qed (use assms(5) in \<open>auto simp: set_usable_lots usable_def\<close>)
  ultimately have sums: "\<forall>(rid, u, n) \<in> set (reservation_sig db').
        total (\<lambda>(r, _, _). r = rid) (\<lambda>(_, _, q). q) (allocation_sig db') = n"
    using assms(1) fresh unfolding res alloc links_ok_def
    by (auto simp: total_allocation_rows rev_image_eqI)
  have grants: "grant_sig db \<subseteq> grant_sig db'"
  proof -
    have lot: "grant_sig (allocate_lot rid i n g d) = grant_sig d" for rid i n g d
      using grant_sig_update_by [of "\<lambda>g. g\<lparr>g_remaining_credits := g_remaining_credits g - n\<rparr>" "g_id g" d]
      by (simp add: grant_sig_def allocate_lot_grants)
    have loop: "grant_sig (snd (allocate_lots rid i n lots d)) = grant_sig d" for rid i n lots d
      by (induction lots arbitrary: i n d) (simp_all add: Let_def lot)
    from book show ?thesis
    proof (rule book_reservation_Inr)
      fix db1 db2 :: credit_db
      assume "db1 = db\<lparr>db_drawn := Suc (db_drawn db), db_reservations := db_reservations db @ [row]\<rparr>"
        and "allocate_lots (r_id row) 0 credits (usable_lots db1 user stamp) db1 = (0, db2)"
        and "db' = credit_event_row db2 user (''reserve:'' @ r_id row) ''reserve'' (- credits)
           ''credit_reservation'' (r_id row) stamp None None Map.empty"
      with loop [of "r_id row" 0 credits "usable_lots db1 user stamp" db1] show ?thesis
        by (simp add: grant_sig_def)
    qed
  qed
  have owned: "(gid, Some user) \<in> grant_sig db" if "gid \<in> g_id ` fst ` set ?ps" for gid
    using that set_spread [of credits "usable_lots db user stamp"]
    by (force simp: grant_sig_def set_usable_lots usable_def image_iff)
  have "\<exists>u n. (rid, u, n) \<in> set (reservation_sig db') \<and> (gid, u) \<in> grant_sig db'"
    if sig: "(rid, gid, q) \<in> set (allocation_sig db')" for rid gid q
  proof (cases "(rid, gid, q) \<in> set (allocation_sig db)")
    case True
    with assms(1) obtain u n where "(rid, u, n) \<in> set (reservation_sig db)" "(gid, u) \<in> grant_sig db"
      unfolding links_ok_def by fast
    with grants show ?thesis unfolding res by auto
  next
    case False
    with sig have "(rid, gid, q) \<in> (\<lambda>a. (al_reservation_id a, al_grant_id a, al_quantity a)) `
        set (allocation_rows (r_id row) 0 (db_supply db) (Suc (db_drawn db)) ?ps)"
      unfolding alloc set_append set_map by blast
    then have "rid = r_id row \<and> gid \<in> g_id ` fst ` set ?ps" by (rule set_allocation_rows)
    with owned grants show ?thesis unfolding res by auto
  qed
  then have "\<forall>(rid, gid, q) \<in> set (allocation_sig db').
        \<exists>u n. (rid, u, n) \<in> set (reservation_sig db') \<and> (gid, u) \<in> grant_sig db'"
    by fast
  with sums show ?thesis unfolding links_ok_def by blast
qed

section \<open>One allocation is always settled\<close>

text \<open>
  What is left to ask of the data: the restored grants of these allocations do not exist
  yet, and allocation ids are legal identifiers.
\<close>

definition unreleased :: "credit_db \<Rightarrow> int \<Rightarrow> string \<Rightarrow> bool" where
  "unreleased db user aid \<longleftrightarrow>
     credit_key aid 160 = Inr aid \<and> grant_by_source db user ''reservation_release'' aid = None"

lemma owned_grant_exists:
  assumes "(gid, Some user) \<in> grant_sig db"
  obtains g where "owned_grant db user gid = Some g" and "g \<in> set (db_grants db)"
proof -
  from assms have "\<exists>g \<in> set (db_grants db). g_id g = gid \<and> g_user_id g = Some user"
    by (auto simp: grant_sig_def)
  then have "owned_grant db user gid \<noteq> None" by (auto simp: owned_grant_def find_None_iff)
  then obtain g where g: "owned_grant db user gid = Some g" by blast
  then have "g \<in> set (db_grants db)" by (auto simp: owned_grant_def find_Some_iff)
  with g show ?thesis by (rule that)
qed

lemma restored_expiry_later: "restored_expiry g stamp = Some e \<Longrightarrow> stamp < e"
  by (auto simp: restored_expiry_def RESTORATION_LIFETIME_def time_defs max_def split: option.splits if_splits)

lemma grant_row_fresh:
  assumes "0 < q" and "q \<le> 10 ^ 9" and "credit_key st 40 = Inr st" and "credit_key si 160 = Inr si"
    and "fk \<in> {''paid'', ''promotion'', ''legacy''}" and "grant_by_source db user st si = None"
    and "\<And>e. ex = Some e \<Longrightarrow> stamp < e"
  shows "grant_row db user q st si fk ts ex stamp ot oi parent =
    Inr (issue_grant db user q st si fk ts ex stamp (str_or ot st) (str_or oi si) parent)"
  using assms by (auto simp: grant_row_def credit_count_def Let_def split: option.splits)

lemma balance_issue_grant:
  assumes "has_account db user" and "issue_grant db user q st si fk ts ex stamp ot oi parent = (g, db')"
  shows "balance db' u = balance db u + (if u = user then q else 0)"
  using assms(2)
proof (rule issue_grant_posts)
  fix key kind details
  assume "db' = credit_event_row ((add_debt db user (- min (debt_of db user) q))
        \<lparr>db_drawn := Suc (db_drawn db), db_grants := db_grants db @ [g]\<rparr>)
      user key kind q st si stamp (Some ot) (Some oi) details"
    and "g_user_id g = Some user" "g_remaining_credits g = q - min (debt_of db user) q"
  then show ?thesis by (simp only: balance_event balance_insert_grant [OF assms(1)]) simp
qed

lemma balance_mark [simp]: "balance (mark_allocation aid c r db) u = balance db u"
  by (rule balance_cong) (simp_all add: mark_allocation_def)

lemma release_source_key: "credit_key ''reservation_release'' 40 = Inr ''reservation_release''"
  by code_simp

lemma settle_allocation_progress:
  assumes ids: "ids_ok db" and rows: "rows_ok db" and acc: "has_account db user" and "0 \<le> rem"
    and mem: "a \<in> set (db_allocations db)" and link: "(al_grant_id a, Some user) \<in> grant_sig db"
    and free: "unreleased db user (al_id a)"
  shows "\<exists>db'. settle_allocation user stamp a (rem, db) = Inr (rem - min rem (al_quantity a), db') \<and>
    balance db' user = balance db user + (al_quantity a - min rem (al_quantity a)) \<and>
    (\<forall>x. x \<noteq> al_id a \<longrightarrow> unreleased db user x \<longrightarrow> unreleased db' user x)"
proof -
  let ?c = "min rem (al_quantity a)"
  let ?m = "mark_allocation (al_id a) ?c (al_quantity a - ?c) db"
  obtain g where g: "owned_grant db user (al_grant_id a) = Some g" "g \<in> set (db_grants db)"
    using link by (rule owned_grant_exists)
  have src: "grant_by_source (mark_allocation i c r db) user st x = grant_by_source db user st x" for i c r st x
    by (simp add: grant_by_source_def mark_allocation_def)
  show ?thesis
  proof (cases "al_quantity a - ?c = 0")
    case True
    then show ?thesis
      by (intro exI [of _ ?m] conjI) (simp_all add: settle_allocation_def Let_def g src unreleased_def)
  next
    case False
    have bounds: "al_quantity a \<le> 10 ^ 9" "0 \<le> ?c"
      using rows mem assms(4) by (auto simp: rows_ok_def allocation_ok_def allocation_check_def)
    have kind: "g_funding_kind g \<in> {''paid'', ''promotion'', ''legacy''}"
      using rows_ok_grant [OF rows g(2)] by (simp add: grant_ok_def)
    obtain g' db' where issue: "issue_grant ?m user (al_quantity a - ?c) ''reservation_release'' (al_id a)
        (g_funding_kind g) (g_terms_snapshot g) (restored_expiry g stamp) stamp
        (str_or (Some (g_origin_type g)) ''reservation_release'') (str_or (Some (g_origin_id g)) (al_id a))
        (Some (g_id g)) = (g', db')"
      by (rule prod.exhaust)
    have row: "grant_row ?m user (al_quantity a - ?c) ''reservation_release'' (al_id a)
        (g_funding_kind g) (g_terms_snapshot g) (restored_expiry g stamp) stamp
        (Some (g_origin_type g)) (Some (g_origin_id g)) (Some (g_id g)) = Inr (g', db')"
      unfolding issue [symmetric]
    proof (rule grant_row_fresh)
      show "credit_key (al_id a) 160 = Inr (al_id a)" using free by (simp add: unreleased_def)
      show "grant_by_source ?m user ''reservation_release'' (al_id a) = None"
        using free by (simp add: src unreleased_def)
    qed (use False bounds kind release_source_key in \<open>auto intro: restored_expiry_later\<close>)
    have "has_account ?m user" using acc by (simp add: has_account_def mark_allocation_def)
    note bal = balance_issue_grant [OF this issue, of user]
    have other: "unreleased db' user x" if "x \<noteq> al_id a" "unreleased db user x" for x
    proof -
      have "g_source_id g' = al_id a" using issue by (rule issue_grant_posts) simp
      with that issue_grant_frame(5) [OF issue] show ?thesis
        by (auto simp: unreleased_def grant_by_source_def mark_allocation_def find_None_iff)
    qed
    have "settle_allocation user stamp a (rem, db) = Inr (rem - ?c, db')"
      unfolding settle_allocation_def Let_def split g option.case row if_not_P [OF False] by simp
    with bal other show ?thesis by (intro exI [of _ db'] conjI allI impI) simp_all
  qed
qed

lemma settle_allocations_progress:
  assumes "ids_ok db" and "rows_ok db" and "has_account db user" and "0 \<le> rem"
    and "distinct (map al_id as)" and "set as \<subseteq> set (db_allocations db)"
    and "\<forall>a \<in> set as. (al_grant_id a, Some user) \<in> grant_sig db"
    and "\<forall>a \<in> set as. unreleased db user (al_id a)"
  shows "\<exists>db'. settle_allocations user stamp as (rem, db) = Inr (rem - min rem (sum_list (map al_quantity as)), db') \<and>
    balance db' user = balance db user + (sum_list (map al_quantity as) - min rem (sum_list (map al_quantity as)))"
  using assms
proof (induction as arbitrary: rem db)
  case Nil
  then show ?case by simp
next
  case (Cons a as)
  let ?Q = "sum_list (map al_quantity as)"
  let ?c = "min rem (al_quantity a)"
  have pos: "0 < al_quantity b" if "b \<in> set (a # as)" for b
    using Cons.prems(2,6) that by (auto simp: rows_ok_def allocation_ok_def allocation_check_def)
  have Q: "0 \<le> ?Q" by (rule sum_list_nonneg) (use pos in fastforce)
  have mem: "a \<in> set (db_allocations db)" using Cons.prems(6) by simp
  obtain db1 where one: "settle_allocation user stamp a (rem, db) = Inr (rem - ?c, db1)"
    and bal: "balance db1 user = balance db user + (al_quantity a - ?c)"
    and other: "\<forall>x. x \<noteq> al_id a \<longrightarrow> unreleased db user x \<longrightarrow> unreleased db1 user x"
    using settle_allocation_progress [OF Cons.prems(1-4) mem, of stamp] Cons.prems(7,8)
    by (meson list.set_intros(1))
  note eff = settle_allocation_effect [OF Cons.prems(1,3) one]
  have rows1: "rows_ok db1"
    by (rule rows_ok_settle_allocation [OF Cons.prems(2,1,4) mem one])
  have sig: "grant_sig db \<subseteq> grant_sig db1"
    using keeps_links_settle_allocation [OF one] by (simp add: keeps_links_def)
  have ne: "al_id b \<noteq> al_id a" if "b \<in> set as" for b using Cons.prems(5) that by (auto simp: rev_image_eqI)
  have "set as \<subseteq> set (db_allocations db1)"
  proof
    fix b
    assume "b \<in> set as"
    with Cons.prems(6) ne show "b \<in> set (db_allocations db1)"
      using mem_update_by_other [of b "db_allocations db" al_id "al_id a"]
      by (auto simp: settle_allocation_allocations [OF one] mark_allocation_def)
  qed
  moreover have "distinct (map al_id as)" using Cons.prems(5) by simp
  moreover have "\<forall>b \<in> set as. (al_grant_id b, Some user) \<in> grant_sig db1" using Cons.prems(7) sig by auto
  moreover have "\<forall>b \<in> set as. unreleased db1 user (al_id b)" using Cons.prems(8) other ne by auto
  moreover have "ids_ok db1" "has_account db1 user" using eff by blast+
  ultimately obtain db' where rest: "settle_allocations user stamp as (rem - ?c, db1) =
        Inr (rem - ?c - min (rem - ?c) ?Q, db')"
    and bal': "balance db' user = balance db1 user + (?Q - min (rem - ?c) ?Q)"
    using Cons.IH [of db1 "rem - ?c"] rows1 by auto
  have "?c + min (rem - ?c) ?Q = min rem (al_quantity a + ?Q)" using Q pos [of a] by simp
  with one rest bal bal' show ?case by (intro exI [of _ db']) simp
qed

section \<open>Settlement of an open reservation\<close>

lemma reservation_link:
  assumes "links_ok db" and "ids_ok db" and "row \<in> set (db_reservations db)" and "r_user_id row = Some user"
    and "a \<in> set (reservation_allocations db (r_id row))"
  shows "(al_grant_id a, Some user) \<in> grant_sig db"
proof -
  have "(r_id row, al_grant_id a, al_quantity a) \<in> set (allocation_sig db)"
    using assms(5) unfolding allocation_sig_def set_map set_reservation_allocations
    by (intro image_eqI [where x = a]) auto
  with assms(1) obtain u n where res: "(r_id row, u, n) \<in> set (reservation_sig db)"
    and grant: "(al_grant_id a, u) \<in> grant_sig db"
    unfolding links_ok_def by fast
  from res obtain r where "r \<in> set (db_reservations db)" and "r_id r = r_id row" and u: "r_user_id r = u"
    by (auto simp: reservation_sig_def)
  moreover have "distinct (map r_id (db_reservations db))" using assms(2) by (simp add: ids_ok_def fresh_rows_def)
  ultimately have "r = row" using distinct_key_eq assms(3) by metis
  with u grant assms(4) show ?thesis by simp
qed

lemma reservation_sum:
  assumes "links_ok db" and "row \<in> set (db_reservations db)"
  shows "sum_list (map al_quantity (reservation_allocations db (r_id row))) = r_reserved_credits row"
proof -
  have "(r_id row, r_user_id row, r_reserved_credits row) \<in> set (reservation_sig db)"
    using assms(2) by (simp add: reservation_sig_def)
  with assms(1) have "total (\<lambda>(r, _, _). r = r_id row) (\<lambda>(_, _, q). q) (allocation_sig db) = r_reserved_credits row"
    unfolding links_ok_def by fast
  then show ?thesis
    unfolding reservation_allocations_def sum_list_sort_filter by (simp add: allocation_sig_def total_map)
qed

lemma unreleased_cong:
  assumes "map (\<lambda>g. (g_user_id g, g_source_type g, g_source_id g)) (db_grants db') =
      map (\<lambda>g. (g_user_id g, g_source_type g, g_source_id g)) (db_grants db)"
  shows "unreleased db' user x = unreleased db user x"
proof -
  have "grant_by_source d user st si = None \<longleftrightarrow>
      (Some user, st, si) \<notin> set (map (\<lambda>g. (g_user_id g, g_source_type g, g_source_id g)) (db_grants d))" for d st si
    by (force simp: grant_by_source_def find_None_iff image_iff)
  with assms show ?thesis by (simp only: unreleased_def)
qed

lemma unreleased_expire: "ids_ok db \<Longrightarrow> unreleased (expire db user stamp) u x = unreleased db u x"
  by (rule unreleased_cong) (auto simp: expire_closed expire_grant_def)

definition settles ::
  "credit_db \<Rightarrow> int \<Rightarrow> credit_reservation \<Rightarrow> int \<Rightarrow> int \<Rightarrow> bool" where
  "settles db user row committed stamp \<longleftrightarrow>
     (\<exists>row' db'. settle_reservation db user (r_id row) committed stamp = Inr (row', db') \<and>
        balance db' user = balance (expire db user stamp) user + (r_reserved_credits row - committed) \<and>
        row' = finish_reservation committed (r_reserved_credits row - committed) stamp row \<and>
        owned_reservation db' user (r_id row) = Some row')"

lemma owned_reservation_frame:
  "db_reservations db' = db_reservations db \<Longrightarrow> owned_reservation db' user rid = owned_reservation db user rid"
  by (simp add: owned_reservation_def)

lemma owned_finish:
  assumes "owned_reservation db user rid = Some row" and "distinct (map r_id (db_reservations db))"
  shows "find (\<lambda>r. r_id r = rid \<and> r_user_id r = Some user)
      (update_by r_id rid (finish_reservation c l stamp) (db_reservations db)) = Some (finish_reservation c l stamp row)"
proof -
  have row: "row \<in> set (db_reservations db)" "r_id row = rid" "r_user_id row = Some user"
    using owned_reservation_mem [OF assms(1)] by simp_all
  have "finish_reservation c l stamp row \<in> set (update_by r_id rid (finish_reservation c l stamp) (db_reservations db))"
    using row by (auto simp: set_update_by image_iff intro: bexI [of _ row])
  then have "find (\<lambda>r. r_id r = rid \<and> r_user_id r = Some user)
      (update_by r_id rid (finish_reservation c l stamp) (db_reservations db)) \<noteq> None"
    using row unfolding find_None_iff not_not
    by (intro exI [of _ "finish_reservation c l stamp row"]) (simp add: finish_reservation_def)
  then obtain r where r: "find (\<lambda>r. r_id r = rid \<and> r_user_id r = Some user)
      (update_by r_id rid (finish_reservation c l stamp) (db_reservations db)) = Some r" by blast
  then have "r \<in> set (update_by r_id rid (finish_reservation c l stamp) (db_reservations db))" "r_id r = rid"
    by (auto simp: find_Some_iff)
  then obtain r0 where "r0 \<in> set (db_reservations db)" "r_id r0 = rid" "r = finish_reservation c l stamp r0"
    by (auto simp: set_update_by split: if_splits)
  with r row distinct_key_eq [OF assms(2)] show ?thesis by metis
qed

theorem settle_always:
  assumes ids: "ids_ok db" and rows: "rows_ok db" and links: "links_ok db"
    and opened: "owned_reservation db user (r_id row) = Some row" "r_state row = Reserved"
    and owner: "user \<in> set (db_users db)"
    and amount: "0 \<le> committed" "committed \<le> r_reserved_credits row" "committed \<le> 10 ^ 9"
    and free: "\<forall>a \<in> set (reservation_allocations db (r_id row)). unreleased db user (al_id a)"
  shows "settles db user row committed stamp"
proof -
  obtain db1 where lock: "lock_account db user = Inr db1" using lock_account_exists [OF owner] by blast
  note frame = lock_account_frame [OF lock]
  let ?e = "expire db1 user stamp"
  let ?as = "reservation_allocations ?e (r_id row)"
  have ids1: "ids_ok db1" and e: "ids_ok ?e" "rows_ok ?e"
    using ids rows by (auto intro: ids_ok_lock_account [OF lock] rows_ok_lock_account [OF lock]
      ids_ok_expire rows_ok_expire)
  have links_e: "links_ok ?e"
    by (rule links_ok_keeps [OF keeps_links_trans [OF keeps_links_lock [OF lock] keeps_links_expire [OF ids1]] links])
  have owned1: "owned_reservation db1 user (r_id row) = Some row" "owned_reservation ?e user (r_id row) = Some row"
    using opened(1) by (simp_all add: owned_reservation_def frame)
  note mem = owned_reservation_mem [OF owned1(2)]
  have as: "?as = reservation_allocations db (r_id row)" by (simp add: reservation_allocations_def frame)
  have sum: "sum_list (map al_quantity ?as) = r_reserved_credits row"
    by (rule reservation_sum [OF links_e]) (use mem in blast)
  have free_e: "\<forall>a \<in> set ?as. unreleased ?e user (al_id a)"
    using free by (simp add: as unreleased_expire [OF ids1] unreleased_cong [of db1 db] frame)
  obtain db2 where loop: "settle_allocations user stamp ?as (committed, ?e) =
      Inr (committed - min committed (r_reserved_credits row), db2)"
    and bal: "balance db2 user = balance ?e user + (r_reserved_credits row - min committed (r_reserved_credits row))"
  proof -
    have "\<exists>db'. settle_allocations user stamp ?as (committed, ?e) =
        Inr (committed - min committed (sum_list (map al_quantity ?as)), db') \<and>
      balance db' user = balance ?e user + (sum_list (map al_quantity ?as) - min committed (sum_list (map al_quantity ?as)))"
    proof (rule settle_allocations_progress [OF e])
      show "has_account ?e user" using lock_account_Inr [OF lock] by simp
      show "distinct (map al_id ?as)" by (rule distinct_reservation_allocations [OF e(1)])
      show "set ?as \<subseteq> set (db_allocations ?e)" by (auto simp: set_reservation_allocations)
      show "\<forall>a \<in> set ?as. (al_grant_id a, Some user) \<in> grant_sig ?e"
        using reservation_link [OF links_e e(1)] mem by blast
    qed (use amount free_e in auto)
    then show ?thesis using that unfolding sum by blast
  qed
  have acc: "has_account ?e user" using lock_account_Inr [OF lock] by simp
  note eff = settle_allocations_effect [OF e(1) acc loop]
  let ?f = "finish_reservation committed (r_reserved_credits row - committed) stamp"
  let ?db3 = "db2\<lparr>db_reservations := update_by r_id (r_id row) ?f (db_reservations db2)\<rparr>"
  let ?db' = "credit_event_row ?db3 user (''settle:'' @ r_id row) ''settle'' 0 ''credit_reservation'' (r_id row)
      stamp None None [''committed_credits'' \<mapsto> committed,
        ''released_credits'' \<mapsto> r_reserved_credits row - committed]"
  have "close_reservation db1 user row committed stamp = Inr (?f row, ?db')"
    unfolding close_reservation_def Let_def sum loop by simp
  then have run: "settle_reservation db user (r_id row) committed stamp = Inr (?f row, ?db')"
    using amount opened(2) by (simp add: settle_reservation_def credit_count_def lock owned1)
  have "balance ?e user = balance (expire db user stamp) user"
    using balance_after_expire [OF ids1 rows_ok_lock_account [OF lock rows]] balance_after_expire [OF ids rows]
    by (simp add: frame debt_lock_account [OF lock])
  moreover have "balance ?db' user = balance db2 user"
    unfolding balance_event by (rule balance_cong) simp_all
  ultimately have "balance ?db' user = balance (expire db user stamp) user + (r_reserved_credits row - committed)"
    using bal amount by simp
  moreover have "owned_reservation ?db' user (r_id row) = Some (?f row)"
    using owned_finish [OF owned1(2)] e(1) eff by (simp add: owned_reservation_def ids_ok_def fresh_rows_def)
  ultimately show ?thesis using run unfolding settles_def by blast
qed

end
