(* ===== verification/Credit_Invariants.thy ===== *)
theory Credit_Invariants
  imports Credit_Settlement
begin

text \<open>
  The whole invariant of the ledger over runs of its operations, and what is left of
  their contracts: retries of a settlement, cumulative revocation, the validity of a
  purchased pass, and the isolation of owners.
\<close>

section \<open>The invariant of the ledger\<close>

definition ledger_ok :: "credit_db \<Rightarrow> bool" where
  "ledger_ok db \<longleftrightarrow> ids_ok db \<and> rows_ok db \<and> links_ok db"

lemma links_grant:
  assumes "ids_ok db" and "lock_account db user = Inr db1"
    and "grant_row (expire db1 user stamp) user q st si fk ts ex stamp None None None = Inr (g, db')"
  shows "keeps_links db db'"
  using keeps_links_trans [OF keeps_links_trans [OF keeps_links_lock [OF assms(2)]
    keeps_links_expire [OF ids_ok_lock_account [OF assms(2,1)]]] keeps_links_grant_row [OF assms(3)]] .

lemma links_reserve:
  assumes "ledger_ok db"
    and "reserve_credits db user operation source_id key credits fp snap allowance stamp = Inr (row, db')"
  shows "links_ok db'"
  using assms(2)
proof (rule reserve_credits_Inr)
  fix db1
  assume lock: "lock_account db user = Inr db1" and pos: "0 < credits"
    and cases: "prior_reservations db1 user key operation source_id = [row] \<and> db' = db1 \<and>
           same_terms row operation source_id credits fp snap allowance \<or>
         prior_reservations db1 user key operation source_id = [] \<and>
           credits \<le> balance (expire db1 user stamp) user \<and>
           book_reservation (expire db1 user stamp) user operation source_id key credits fp snap
             allowance stamp = Inr (row, db')"
  have ok: "ids_ok db1" "rows_ok db1" "links_ok db1"
    using assms(1) ids_ok_lock_account [OF lock] rows_ok_lock_account [OF lock]
      links_ok_keeps [OF keeps_links_lock [OF lock]] by (auto simp: ledger_ok_def)
  from cases show ?thesis
  proof (elim disjE conjE)
    assume "db' = db1"
    with ok show ?thesis by simp
  next
    assume "credits \<le> balance (expire db1 user stamp) user"
      and "book_reservation (expire db1 user stamp) user operation source_id key credits fp snap
             allowance stamp = Inr (row, db')"
    then show ?thesis
      using links_ok_book [OF links_ok_keeps [OF keeps_links_expire [OF ok(1)] ok(3)] ids_ok_expire [OF ok(1)]
          rows_ok_expire [OF ok(2,1)] not_stale_after_expire [OF ok(1)] pos] by blast
  qed
qed

lemma credit_step_links:
  assumes "credit_step db db'" and "ledger_ok db"
  shows "links_ok db'"
  using assms
proof (induction rule: credit_step.induct)
  case (expiry db user stamp db')
  then obtain db1 where lock: "lock_account db user = Inr db1" and db': "db' = expire db1 user stamp"
    by (auto simp: expire_credits_def bindE_eq_Inr)
  with expiry.prems show ?case
    using links_ok_keeps [OF keeps_links_trans [OF keeps_links_lock [OF lock]
      keeps_links_expire [OF ids_ok_lock_account [OF lock]]]] by (simp add: ledger_ok_def)
next
  case (grant db user q st si fk ts ex stamp g db')
  then obtain db1 where "lock_account db user = Inr db1"
    and "grant_row (expire db1 user stamp) user q st si fk ts ex stamp None None None = Inr (g, db')"
    by (auto simp: grant_credits_def bindE_eq_Inr Let_def)
  with grant.prems links_grant links_ok_keeps show ?case unfolding ledger_ok_def by blast
next
  case (fulfil db user qid order captured stamp g db')
  from fulfil.hyps show ?case
  proof (rule fulfill_Inr)
    fix db1 quote
    assume "lock_account db user = Inr db1"
      and "grant_row (expire db1 user stamp) user (qt_credits (q_snapshot quote)) ''payment_order'' order
           ''paid'' (QuoteTerms (q_snapshot quote))
           (Some (max (max (qt_pass_expires_at (q_snapshot quote)) (captured + PASS_LIFETIME))
                    (stamp + PASS_LIFETIME))) stamp None None None = Inr (g, db')"
    with fulfil.prems links_grant links_ok_keeps show ?thesis unfolding ledger_ok_def by blast
  qed
next
  case (reserve db user operation source key credits fp snap allowance stamp row db')
  then show ?case by (auto intro: links_reserve)
next
  case (settle db user rid committed stamp row db')
  then show ?case using keeps_links_settle links_ok_keeps unfolding ledger_ok_def by blast
next
  case (revoke db user ot oi target stamp delta db')
  then show ?case using keeps_links_revoke links_ok_keeps unfolding ledger_ok_def by blast
qed

lemma credit_step_ledger_ok: "credit_step db db' \<Longrightarrow> ledger_ok db \<Longrightarrow> ledger_ok db'"
  using credit_step_links credit_step_rows_ok credit_step_effect unfolding ledger_ok_def by blast

interpretation ledger: step_invariant credit_step ledger_ok
  by unfold_locales (rule credit_step_ledger_ok)

lemmas run_ledger_ok = ledger.run_ok

section \<open>Retries of a settlement\<close>

text \<open>A settled reservation answers the same settlement and refuses every other one.\<close>

lemma settle_settled:
  assumes "owned_reservation db user rid = Some row" and "r_state row = Settled"
    and "user \<in> set (db_users db)" and "has_account db user" and "0 \<le> committed" and "committed \<le> 10 ^ 9"
  shows "settle_reservation db user rid committed stamp =
    (if r_committed_credits row = committed then Inr (row, db)
     else Inl (CreditContractError ''This reservation already has a different final outcome.''))"
  using assms by (simp add: settle_reservation_def lock_account_again credit_count_def require_def)

lemma has_account_mono:
  assumes "set (map acc_user_id (db_accounts db)) \<subseteq> set (map acc_user_id (db_accounts db'))"
  shows "has_account db u \<Longrightarrow> has_account db' u"
  using assms by (auto simp: has_account_def)

lemma settle_reservation_owned:
  assumes "ids_ok db" and "settle_reservation db user rid committed stamp = Inr (row', db')"
  shows "owned_reservation db' user rid = Some row' \<and> r_state row' = Settled \<and>
    r_committed_credits row' = committed \<and> user \<in> set (db_users db') \<and> has_account db' user \<and> 0 \<le> committed"
  using assms(2)
proof (rule settle_reservation_Inr)
  fix db1 row
  assume lock: "lock_account db user = Inr db1" and pos: "0 \<le> committed"
    and owned: "owned_reservation db1 user rid = Some row"
    and cases: "r_state row = Settled \<and> r_committed_credits row = committed \<and> row' = row \<and> db' = db1 \<or>
         r_state row = Reserved \<and> committed \<le> r_reserved_credits row \<and>
           close_reservation db1 user row committed stamp = Inr (row', db')"
  have user: "user \<in> set (db_users db1)" "has_account db1 user"
    using lock_account_Inr [OF lock] lock_account_frame [OF lock] by auto
  have ids1: "ids_ok db1" using lock assms(1) by (rule ids_ok_lock_account)
  from cases show ?thesis
  proof (elim disjE conjE)
    assume "r_state row = Settled" "r_committed_credits row = committed" "row' = row" "db' = db1"
    with owned user pos show ?thesis by simp
  next
    assume "close_reservation db1 user row committed stamp = Inr (row', db')"
    then show ?thesis
    proof (rule close_reservation_Inr)
      fix left and db2 :: credit_db and details
      let ?f = "finish_reservation committed (r_reserved_credits row - committed) stamp"
      let ?e = "expire db1 user stamp"
      assume loop: "settle_allocations user stamp (reservation_allocations ?e (r_id row)) (committed, ?e) = Inr (left, db2)"
        and row': "row' = ?f row"
        and db': "db' = credit_event_row (db2\<lparr>db_reservations := update_by r_id (r_id row) ?f (db_reservations db2)\<rparr>)
           user (''settle:'' @ r_id row) ''settle'' 0 ''credit_reservation'' (r_id row) stamp None None details"
      have acc: "has_account ?e user" using user by simp
      have e: "ids_ok ?e" using ids1 by (rule ids_ok_expire)
      note eff = settle_allocations_effect [OF e acc loop]
      have rid: "r_id row = rid" using owned_reservation_mem [OF owned] by simp
      have owned_e: "owned_reservation ?e user rid = Some row" using owned by (simp add: owned_reservation_def)
      have "owned_reservation db' user rid = Some row'"
        using owned_finish [OF owned_e] e eff
        by (simp add: db' row' rid owned_reservation_def ids_ok_def fresh_rows_def)
      moreover have "user \<in> set (db_users db')" "has_account db' user"
        using eff user by (simp_all add: db' has_account_def)
      ultimately show ?thesis using pos by (simp add: row' finish_reservation_def)
    qed
  qed
qed

lemma settle_amount_bound:
  "settle_reservation db user rid committed stamp = Inr x \<Longrightarrow> committed \<le> 10 ^ 9"
  by (auto simp: settle_reservation_def bindE_eq_Inr credit_count_Inr)

section \<open>Revocation\<close>

text \<open>What the ledger has revoked of an origin so far.\<close>

definition revoked_total :: "credit_db \<Rightarrow> int \<Rightarrow> string \<Rightarrow> string \<Rightarrow> int" where
  "revoked_total db user ot oi =
     (case details_target (revoke_events db user ot oi) of
        Inr (t # ts) \<Rightarrow> Max (set (t # ts)) | _ \<Rightarrow> 0)"

lemma revoke_events_expire: "ids_ok db \<Longrightarrow> revoke_events (expire db user stamp) u ot oi = revoke_events db u ot oi"
  by (rule expire_rule [where P = "\<lambda>d. revoke_events d u ot oi = revoke_events db u ot oi"])
     (auto simp: expire_one_def Let_def revoke_events_def credit_event_row_eq)

lemma revoke_origin_delta:
  assumes "ids_ok db" and "revoke_origin db user ot oi target stamp = Inr (delta, db')"
  shows "delta = target - revoked_total db user ot oi \<and> 0 \<le> delta"
  using assms(2)
proof (rule revoke_origin_Inr)
  fix db1 db2 root targets revoked
  assume lock: "lock_account db user = Inr db1" and db2: "db2 = expire db1 user stamp"
    and targets: "details_target (revoke_events db2 user ot oi) = Inr targets"
    and revoked: "revoked = (if targets = [] then 0 else Max (set targets))"
    and "revoked \<le> target" and "delta = target - revoked"
  have "revoke_events db2 user ot oi = revoke_events db user ot oi"
    unfolding db2 revoke_events_expire [OF ids_ok_lock_account [OF lock assms(1)]]
    by (simp add: revoke_events_def lock_account_frame [OF lock])
  then have "revoked_total db user ot oi = revoked"
    using targets revoked by (simp add: revoked_total_def split: list.split)
  then show ?thesis using \<open>revoked \<le> target\<close> \<open>delta = target - revoked\<close> by simp
qed

lemma details_target_snoc:
  "details_target es = Inr ts \<Longrightarrow> ev_details e ''target_credits'' = Some t \<Longrightarrow>
     details_target (es @ [e]) = Inr (ts @ [t])"
  by (induction es arbitrary: ts) (auto simp: bindE_eq_Inr split: option.splits)

lemma apply_revocation_events:
  "revoke_events (apply_revocation db user ot oi grants previous root target delta stamp) user ot oi =
     revoke_events db user ot oi @
       [last (db_events (apply_revocation db user ot oi grants previous root target delta stamp))] \<and>
   ev_details (last (db_events (apply_revocation db user ot oi grants previous root target delta stamp)))
       ''target_credits'' = Some target"
proof (cases "revoke_lots delta grants db")
  case (Pair left db1)
  have "db_events (snd (revoke_lots n gs d)) = db_events d" for n gs d
    by (induction gs arbitrary: n d) (simp_all add: Let_def)
  from this [of delta grants db] Pair show ?thesis
    by (simp add: apply_revocation_def Let_def credit_event_row_eq revoke_events_def)
qed

text \<open>
  A revocation brings the revoked total of its origin to the refunded amount, and takes
  from the balance at most what it adds to that total: expired credits absorb the rest.
\<close>

lemma revoke_origin_exact:
  assumes "ids_ok db" and "rows_ok db" and "revoke_origin db user ot oi target stamp = Inr (delta, db')"
  shows "revoked_total db' user ot oi = target \<and>
    balance (expire db user stamp) user - delta \<le> balance db' user \<and>
    balance db' user \<le> balance (expire db user stamp) user"
  using assms(3)
proof (rule revoke_origin_Inr)
  fix db1 db2 root targets revoked
  assume lock: "lock_account db user = Inr db1" and db2: "db2 = expire db1 user stamp"
    and targets: "details_target (revoke_events db2 user ot oi) = Inr targets"
    and revoked: "revoked = (if targets = [] then 0 else Max (set targets))"
    and le: "revoked \<le> target" and delta: "delta = target - revoked"
    and db': "db' = (if delta = 0 then db2 else apply_revocation db2 user ot oi (origin_grants db2 user ot oi)
           (revoke_events db2 user ot oi) root target delta stamp)"
  have ids1: "ids_ok db1" and rows1: "rows_ok db1"
    using lock assms(1,2) by (auto intro: ids_ok_lock_account rows_ok_lock_account)
  have ids2: "ids_ok db2" and rows2: "rows_ok db2" and acc: "has_account db2 user"
    using lock_account_Inr [OF lock] ids1 rows1 by (auto simp: db2 intro: ids_ok_expire rows_ok_expire)
  have bal2: "balance db2 user = balance (expire db user stamp) user"
    using balance_after_expire [OF ids1 rows1] balance_after_expire [OF assms(1,2)]
    by (simp add: db2 lock_account_frame [OF lock] debt_lock_account [OF lock])
  show ?thesis
  proof (cases "delta = 0")
    case True
    with targets revoked delta have "revoked_total db2 user ot oi = target"
      by (simp add: revoked_total_def split: list.split)
    with True bal2 show ?thesis by (simp add: db')
  next
    case False
    let ?gs = "origin_grants db2 user ot oi" and ?prev = "revoke_events db2 user ot oi"
    let ?n = "apply_revocation db2 user ot oi ?gs ?prev root target delta stamp"
    have n: "db' = ?n" using False by (simp add: db')
    have rem: "0 \<le> g_remaining_credits g" if "g \<in> set ?gs" for g
      using rows_ok_grant [OF rows2, of g] grant_ok_bounds [of g] that by (auto simp: set_origin_grants)
    let ?left = "fst (revoke_lots delta ?gs db2)"
    have left: "?left = max 0 (delta - sum_list (map g_remaining_credits ?gs))"
      by (rule revoke_lots_left) (use rem le delta in auto)
    have "0 \<le> sum_list (map g_remaining_credits ?gs)" by (rule sum_list_nonneg) (use rem in auto)
    with left have small: "0 \<le> ?left" "?left \<le> delta" using le delta by auto
    have bal: "balance ?n user = balance db2 user -
        (delta - min ?left (max 0 (sum_list (map g_expired_credits ?gs) - sum_list (map expired_offset_of ?prev))))"
      using apply_revocation_effect(3) [OF ids2 acc, of ot oi ?prev root target delta stamp user] by simp
    note ev = apply_revocation_events [of db2 user ot oi ?gs ?prev root target delta stamp]
    have "details_target (revoke_events ?n user ot oi) = Inr (targets @ [target])"
      using details_target_snoc [OF targets] ev by simp
    moreover have "Max (set (targets @ [target])) = target"
      by (rule Max_eqI) (use revoked le in \<open>auto split: if_splits\<close>)
    ultimately have "revoked_total ?n user ot oi = target"
      by (cases targets) (simp_all add: revoked_total_def)
    moreover have "balance db2 user - delta \<le> balance ?n user" and "balance ?n user \<le> balance db2 user"
      using bal small by linarith+
    ultimately show ?thesis unfolding n bal2 by blast
  qed
qed

section \<open>The lots of a reservation\<close>

lemma usable_lots_expire:
  assumes "ids_ok db"
  shows "usable_lots (expire db user stamp) user stamp = usable_lots db user stamp"
proof -
  have "filter (usable user stamp) (map (\<lambda>g. if stale user stamp g then expire_grant g else g) gs) =
      filter (usable user stamp) gs" for gs
    by (induction gs) (auto simp: usable_def stale_def split: option.splits)
  then show ?thesis
    unfolding usable_lots_def expire_closed [OF assms] by (simp add: usable_def [abs_def])
qed

lemma filter_allocation_rows:
  "filter (\<lambda>a. al_reservation_id a = rid) (allocation_rows rid i s d ps) = allocation_rows rid i s d ps"
  by (induction rid i s d ps rule: allocation_rows.induct) auto

lemma sorted_allocation_rows: "sorted (map al_ordinal (allocation_rows rid i s d ps)) \<and>
    (\<forall>a \<in> set (allocation_rows rid i s d ps). i \<le> al_ordinal a)"
  by (induction rid i s d ps rule: allocation_rows.induct) force+

lemma map_allocation_rows:
  "map (\<lambda>a. (al_grant_id a, al_quantity a)) (allocation_rows rid i s d ps) = map (\<lambda>(g, k). (g_id g, k)) ps"
  by (induction rid i s d ps rule: allocation_rows.induct) auto

lemma book_allocations:
  assumes "ids_ok db" and "links_ok db"
    and book: "book_reservation db user operation source_id key credits fp snap allowance stamp = Inr (row, db')"
  shows "map (\<lambda>a. (al_grant_id a, al_quantity a)) (reservation_allocations db' (r_id row)) =
    map (\<lambda>(g, k). (g_id g, k)) (spread credits (usable_lots db user stamp))"
proof -
  let ?rows = "allocation_rows (r_id row) 0 (db_supply db) (Suc (db_drawn db))
      (spread credits (usable_lots db user stamp))"
  have rid: "r_id row = ''cr'' @ ''_'' @ db_supply db (db_drawn db)"
    using book by (rule book_reservation_Inr) simp
  have "r_id row \<notin> fst ` set (reservation_sig db)"
    using assms(1) fresh_rows_new [of r_id "''cr''" "db_supply db" "db_drawn db" "db_reservations db"]
    by (auto simp: rid ids_ok_def reservation_sig_def)
  then have "(r_id row, al_grant_id a, al_quantity a) \<notin> set (allocation_sig db)" for a
    using assms(2) unfolding links_ok_def by (force simp: image_iff)
  then have "\<forall>a \<in> set (db_allocations db). al_reservation_id a \<noteq> r_id row"
    by (force simp: allocation_sig_def image_iff)
  then have "filter (\<lambda>a. al_reservation_id a = r_id row) (db_allocations db') = ?rows"
    using book_reservations [OF book] by (simp add: filter_allocation_rows)
  moreover have "sort_key al_ordinal ?rows = ?rows"
    by (rule sort_key_id_if_sorted) (rule conjunct1 [OF sorted_allocation_rows])
  ultimately show ?thesis by (simp add: reservation_allocations_def map_allocation_rows)
qed

section \<open>The validity of a purchased pass\<close>

lemma fulfill_validity:
  assumes "fulfill_purchase_quote db user qid order captured stamp = Inr (g, db')"
    and "\<forall>h \<in> set (db_grants db). \<not> (g_user_id h = Some user \<and> g_source_type h = ''payment_order'' \<and> g_source_id h = order)"
    and "ids_ok db"
  shows "\<exists>e. g_expires_at g = Some e \<and> stamp + PASS_LIFETIME \<le> e \<and> captured + PASS_LIFETIME \<le> e \<and>
    g_source_id g = order \<and> g_funding_kind g = ''paid'' \<and> g_issued_at g = stamp"
  using assms(1)
proof (rule fulfill_Inr)
  fix db1 quote
  let ?ex = "max (max (qt_pass_expires_at (q_snapshot quote)) (captured + PASS_LIFETIME)) (stamp + PASS_LIFETIME)"
  assume lock: "lock_account db user = Inr db1"
    and row: "grant_row (expire db1 user stamp) user (qt_credits (q_snapshot quote)) ''payment_order'' order
           ''paid'' (QuoteTerms (q_snapshot quote)) (Some ?ex) stamp None None None = Inr (g, db')"
  have "grant_by_source (expire db1 user stamp) user ''payment_order'' order = None"
    using assms(2) expire_closed [OF ids_ok_lock_account [OF lock assms(3)]] lock_account_frame [OF lock]
    by (auto simp: grant_by_source_def find_None_iff expire_grant_def)
  with grant_row_Inr [OF row] have issue: "issue_grant (expire db1 user stamp) user (qt_credits (q_snapshot quote))
      ''payment_order'' order ''paid'' (QuoteTerms (q_snapshot quote)) (Some ?ex) stamp
      (str_or None ''payment_order'') (str_or None order) None = (g, db')" by simp
  then have "g_funding_kind g = ''paid''" by (auto simp: issue_grant_eq Let_def)
  moreover have "g_expires_at g = Some ?ex" "g_source_id g = order" "g_issued_at g = stamp"
    using issue by (rule issue_grant_posts, simp)+
  ultimately show ?thesis by auto
qed

end
