(* ===== verification/Credit_Properties.thy ===== *)
theory Credit_Properties
  imports Credit_Invariants
begin

text \<open>
  The properties of the credit ledger, each with its witness on a small ledger:
  \<open>one_lot\<close> has an owner with one unused lot, \<open>one_hold\<close> the same owner with an open
  reservation of 40 credits on it.
\<close>

section \<open>Two small ledgers\<close>

definition lot :: "string \<Rightarrow> int \<Rightarrow> int option \<Rightarrow> credit_grant" where
  "lot i n e = \<lparr>g_id = i, g_user_id = Some 1, g_source_type = ''payment_order'', g_source_id = i,
     g_origin_type = ''payment_order'', g_origin_id = i, g_funding_kind = ''paid'', g_quantity = 100,
     g_remaining_credits = n, g_expired_credits = 0, g_issued_at = 0, g_expires_at = e,
     g_terms_snapshot = DictTerms (JObj []), g_parent_grant_id = None\<rparr>"

definition one_lot :: credit_db where
  "one_lot = \<lparr>db_users = [1, 2], db_accounts = [], db_campaigns = [], db_quotes = [],
     db_grants = [lot ''cg_x'' 100 (Some 50)], db_reservations = [], db_allocations = [], db_events = [],
     db_supply = (\<lambda>n. replicate n (CHR ''a'')), db_drawn = 0\<rparr>"

definition held :: credit_reservation where
  "held = \<lparr>r_id = ''cr_x'', r_user_id = Some 1, r_idempotency_key = ''k'', r_operation = ''analysis'',
     r_source_id = ''s'', r_input_fingerprint = replicate 64 (CHR ''0''), r_quote_snapshot = JObj [],
     r_execution_allowance_minor = 0, r_reserved_credits = 40, r_committed_credits = 0,
     r_released_credits = 0, r_state = Reserved, r_created_at = 1, r_settled_at = None\<rparr>"

definition one_hold :: credit_db where
  "one_hold = one_lot\<lparr>db_grants := [lot ''cg_x'' 60 (Some 50)], db_reservations := [held],
     db_allocations := [\<lparr>al_id = ''ca_x'', al_reservation_id = ''cr_x'', al_grant_id = ''cg_x'',
       al_ordinal = 0, al_quantity = 40, al_committed_credits = 0, al_released_credits = 0\<rparr>]\<rparr>"

lemma inj_supply: "inj (\<lambda>n. replicate n (CHR ''a''))"
  by (rule injI) (metis length_replicate)

lemma one_lot_ok: "ledger_ok one_lot"
proof -
  have "CHR ''x'' # [] \<noteq> replicate k (CHR ''a'')" for k by (cases k) simp_all
  then show ?thesis
    by (simp add: ledger_ok_def ids_ok_def fresh_rows_def one_lot_def lot_def inj_supply rows_ok_def grant_ok_def
        grant_check_def links_ok_def reservation_sig_def allocation_sig_def)
qed

lemma one_hold_ok: "ledger_ok one_hold"
proof -
  have "CHR ''x'' # [] \<noteq> replicate k (CHR ''a'')" for k by (cases k) simp_all
  then show ?thesis
    by (simp add: ledger_ok_def ids_ok_def fresh_rows_def one_lot_def one_hold_def lot_def held_def inj_supply
        rows_ok_def grant_ok_def grant_check_def reservation_ok_def reservation_check_def allocation_ok_def
        allocation_check_def links_ok_def reservation_sig_def allocation_sig_def grant_sig_def total_def)
qed

lemma one_lot_available: "available one_lot 1 10 = 100"
  by code_simp

lemma request_40: "request_ok ''analysis'' ''s'' ''k'' 40 (replicate 64 (CHR ''0'')) 0"
  by code_simp

definition after_hold :: credit_db where
  "after_hold = (case reserve_credits one_lot 1 ''analysis'' ''s'' ''k'' 40 (replicate 64 (CHR ''0'')) (JObj []) 0 10
     of Inr (row, db) \<Rightarrow> db | Inl _ \<Rightarrow> one_lot)"

lemma after_hold_rows: "map r_reserved_credits (db_reservations after_hold) = [40]"
  by code_simp

lemma one_lot_run:
  "\<exists>row. reserve_credits one_lot 1 ''analysis'' ''s'' ''k'' 40 (replicate 64 (CHR ''0'')) (JObj []) 0 10
     = Inr (row, after_hold)"
proof (cases "reserve_credits one_lot 1 ''analysis'' ''s'' ''k'' 40 (replicate 64 (CHR ''0'')) (JObj []) 0 10")
  case (Inl e)
  with after_hold_rows show ?thesis by (simp add: after_hold_def one_lot_def)
next
  case (Inr x)
  then show ?thesis by (cases x) (simp add: after_hold_def)
qed

lemma one_lot_steps: "credit_step\<^sup>*\<^sup>* one_lot after_hold"
  using one_lot_run by (auto intro: credit_step.reserve)

section \<open>The ledger over a run\<close>

text \<open>
  C1. In every state that any sequence of the ledger's operations reaches from a
  well-formed ledger whose events explain an owner's balance, the events still explain it:
  the balance is the sum of the amounts, and every event records the balance it left.
\<close>

theorem ledger_reconciled:
  assumes "credit_step\<^sup>*\<^sup>* s t" and "ledger_ok s" and "chained b0 (credit_history s u)"
    and "balance s u = b0 + amounts (credit_history s u)"
  shows "balance t u = b0 + amounts (credit_history t u) \<and> chained b0 (credit_history t u)"
  using credits.run_reconciled assms unfolding ledger_ok_def by blast

lemma one_lot_history: "credit_history one_lot 1 = []" "balance one_lot 1 = 100"
  by code_simp+

lemma ledger_reconciled_witness: "balance after_hold 1 = 100 + amounts (credit_history after_hold 1)"
  using ledger_reconciled [OF one_lot_steps one_lot_ok, of 100 1] by (simp add: one_lot_history)



section \<open>Reservations\<close>

text \<open>
  C3. A new, well-formed request is granted exactly when the owner's available credits cover
  it, and then takes exactly what it asked for; otherwise it is refused with the available
  and the required amount. No other outcome (such as a lot that cannot be reconciled) is
  possible.
\<close>

theorem reservation_decided_by_availability:
  assumes "ledger_ok db" and "user \<in> set (db_users db)"
    and "request_ok operation source_id key credits fp allowance"
    and "prior_reservations db user key operation source_id = []"
  shows "if credits \<le> available db user stamp
     then \<exists>row db'. reserve_credits db user operation source_id key credits fp snap allowance stamp = Inr (row, db') \<and>
            available db' user stamp = available db user stamp - credits
     else reserve_credits db user operation source_id key credits fp snap allowance stamp
            = Inl (InsufficientCredits (available db user stamp) credits)"
  using reserve_decides assms unfolding ledger_ok_def by blast

lemma reservation_decided_by_availability_witness:
  "\<exists>row db'. reserve_credits one_lot 1 ''analysis'' ''s'' ''k'' 40 (replicate 64 (CHR ''0'')) (JObj []) 0 10
     = Inr (row, db') \<and> available db' 1 10 = 60"
proof -
  have "prior_reservations one_lot 1 ''k'' ''analysis'' ''s'' = []" by code_simp
  moreover have "(1::int) \<in> set (db_users one_lot)" by code_simp
  ultimately show ?thesis
    using reservation_decided_by_availability [OF one_lot_ok _ request_40, where user = 1 and stamp = 10 and snap = "JObj []"]
    by (simp add: one_lot_available)
qed

text \<open>
  C4. A retried reservation (same identities and terms, at any later time) returns the row of
  the first call and leaves the ledger as it is: nothing is charged twice.
\<close>

theorem reservation_retry_idempotent:
  assumes "reserve_credits db user operation source_id key credits fp snap allowance stamp = Inr (row, db')"
  shows "reserve_credits db' user operation source_id key credits fp snap allowance stamp' = Inr (row, db')"
  using assms by (rule reserve_retry)

lemma reservation_retry_idempotent_witness:
  "\<exists>row. reserve_credits after_hold 1 ''analysis'' ''s'' ''k'' 40 (replicate 64 (CHR ''0'')) (JObj []) 0 99
     = Inr (row, after_hold)"
  using one_lot_run reservation_retry_idempotent by blast

text \<open>
  C5. A new reservation takes the owner's usable lots in their order (earliest expiry first,
  lots without expiry last): each lot of a prefix of that order gives something it has, all
  but the last one give all they have, and together they give what was reserved.
\<close>

theorem lots_taken_in_order:
  assumes "ledger_ok db" and "prior_reservations db user key operation source_id = []"
    and "reserve_credits db user operation source_id key credits fp snap allowance stamp = Inr (row, db')"
  shows "\<exists>ps rest. map (\<lambda>a. (al_grant_id a, al_quantity a)) (reservation_allocations db' (r_id row))
        = map (\<lambda>(g, k). (g_id g, k)) ps \<and>
     map fst ps @ rest = usable_lots db user stamp \<and>
     (\<forall>(g, k) \<in> set ps. 0 < k \<and> k \<le> g_remaining_credits g) \<and>
     (\<forall>(g, k) \<in> set (butlast ps). k = g_remaining_credits g) \<and> sum_list (map snd ps) = credits"
  using assms(3)
proof (rule reserve_credits_Inr)
  fix db1
  assume lock: "lock_account db user = Inr db1" and pos: "0 < credits"
    and cases: "prior_reservations db1 user key operation source_id = [row] \<and> db' = db1 \<and>
           same_terms row operation source_id credits fp snap allowance \<or>
         prior_reservations db1 user key operation source_id = [] \<and>
           credits \<le> balance (expire db1 user stamp) user \<and>
           book_reservation (expire db1 user stamp) user operation source_id key credits fp snap
             allowance stamp = Inr (row, db')"
  have ids: "ids_ok db1" and rows: "rows_ok db1" and links: "links_ok (expire db1 user stamp)"
    using ids_ok_lock_account [OF lock] rows_ok_lock_account [OF lock] assms(1)
      links_ok_keeps [OF keeps_links_trans [OF keeps_links_lock [OF lock] keeps_links_expire]]
    by (simp_all add: ledger_ok_def)
  let ?lots = "usable_lots db user stamp"
  have lots: "usable_lots (expire db1 user stamp) user stamp = ?lots"
    unfolding usable_lots_expire [OF ids] by (simp add: usable_lots_def lock_account_frame [OF lock])
  have book: "book_reservation (expire db1 user stamp) user operation source_id key credits fp snap
      allowance stamp = Inr (row, db')" and enough: "credits \<le> balance (expire db1 user stamp) user"
    using cases assms(2) prior_lock_account [OF lock] by auto
  have some: "\<And>g. g \<in> set ?lots \<Longrightarrow> 0 < g_remaining_credits g" by (simp add: set_usable_lots usable_def)
  have "balance (expire db1 user stamp) user \<le> sum_list (map g_remaining_credits ?lots)"
    using balance_after_expire [OF ids rows] debt_nonneg [OF rows, of user]
    by (simp add: sum_usable_lots lock_account_frame [OF lock])
  with enough have sum: "sum_list (map snd (spread credits ?lots)) = credits"
    by (intro sum_spread) (use some pos in auto)
  have "\<exists>rest. map fst (spread credits ?lots) @ rest = ?lots \<and>
      (\<forall>(g, k) \<in> set (spread credits ?lots). 0 < k \<and> k \<le> g_remaining_credits g) \<and>
      (\<forall>(g, k) \<in> set (butlast (spread credits ?lots)). k = g_remaining_credits g)"
    by (rule spread_in_order) (use some pos in auto)
  then obtain rest where "map fst (spread credits ?lots) @ rest = ?lots"
    and "\<forall>(g, k) \<in> set (spread credits ?lots). 0 < k \<and> k \<le> g_remaining_credits g"
    and "\<forall>(g, k) \<in> set (butlast (spread credits ?lots)). k = g_remaining_credits g"
    by (elim exE conjE) (rule that)
  then show ?thesis
    by (rule_tac exI [of _ "spread credits ?lots"], rule_tac exI [of _ rest])
       (intro conjI sum book_allocations [OF ids_ok_expire [OF ids] links book, unfolded lots])
qed

lemma lots_taken_in_order_witness:
  "\<exists>row ps rest. reserve_credits one_lot 1 ''analysis'' ''s'' ''k'' 40 (replicate 64 (CHR ''0'')) (JObj []) 0 10
     = Inr (row, after_hold) \<and> map fst ps @ rest = usable_lots one_lot 1 10 \<and> sum_list (map snd ps) = (40::int)"
proof -
  obtain row where run: "reserve_credits one_lot 1 ''analysis'' ''s'' ''k'' 40 (replicate 64 (CHR ''0'')) (JObj []) 0 10
      = Inr (row, after_hold)" using one_lot_run by blast
  have "prior_reservations one_lot 1 ''k'' ''analysis'' ''s'' = []" by code_simp
  from lots_taken_in_order [OF one_lot_ok this run] obtain ps rest
    where "map fst ps @ rest = usable_lots one_lot 1 10" and "sum_list (map snd ps) = (40::int)" by (elim exE conjE) (rule that)
  with run show ?thesis by (intro exI conjI)
qed

text \<open>
  C6. The wallet an owner reads shows as available exactly what a reservation at the same
  instant may take, although it does not write the pending expiries.
\<close>

theorem wallet_shows_what_is_available:
  assumes "ledger_ok db"
  shows "\<exists>w. wallet db user stamp None = Inr w \<and> w_available_credits w = available db user stamp \<and>
    w_debt_credits w = debt_of db user"
  using assms unfolding ledger_ok_def
  by (simp add: wallet_def Let_def sum_usable_lots available_def balance_after_expire)

lemma wallet_shows_what_is_available_witness:
  "\<exists>w. wallet one_hold 1 20 None = Inr w \<and> w_available_credits w = 60"
proof -
  have "available one_hold 1 20 = 60" by code_simp
  with wallet_shows_what_is_available [OF one_hold_ok, of 1 20] show ?thesis by auto
qed

section \<open>Settlement\<close>



text \<open>
  C8. A settlement is final: the same settlement again returns the settled row and changes
  nothing, and a different delivered amount is refused.
\<close>

theorem settlement_final:
  assumes "ledger_ok db" and "settle_reservation db user rid committed stamp = Inr (row', db')"
    and "0 \<le> again" and "again \<le> 10 ^ 9"
  shows "settle_reservation db' user rid again stamp' =
    (if again = committed then Inr (row', db')
     else Inl (CreditContractError ''This reservation already has a different final outcome.''))"
  using settle_reservation_owned [OF _ assms(2)] assms settle_settled [of db' user rid row' again stamp']
  by (auto simp: ledger_ok_def)

lemma settlement_final_witness:
  "\<exists>row' db'. settle_reservation one_hold 1 ''cr_x'' 15 20 = Inr (row', db') \<and>
     settle_reservation db' 1 ''cr_x'' 15 70 = Inr (row', db') \<and>
     settle_reservation db' 1 ''cr_x'' 14 70 =
       Inl (CreditContractError ''This reservation already has a different final outcome.'')"
proof -
  have "isl (settle_reservation one_hold 1 ''cr_x'' 15 20) = False" by code_simp
  then obtain row' db' where run: "settle_reservation one_hold 1 ''cr_x'' 15 20 = Inr (row', db')"
    by (cases "settle_reservation one_hold 1 ''cr_x'' 15 20") auto
  from settlement_final [OF one_hold_ok run, of 15 70] settlement_final [OF one_hold_ok run, of 14 70] run
  show ?thesis by simp
qed

section \<open>Refunds and purchases\<close>

text \<open>
  C9. A verified refund takes the credits of its origin that it has not revoked before: the
  revoked total becomes the refunded amount, the balance falls by at most the difference
  (already expired credits absorb the rest), and it never rises.
\<close>

theorem refund_exact:
  assumes "ledger_ok db" and "revoke_origin db user ot oi target stamp = Inr (delta, db')"
  shows "delta = target - revoked_total db user ot oi \<and> 0 \<le> delta \<and>
     revoked_total db' user ot oi = target \<and>
     balance (expire db user stamp) user - delta \<le> balance db' user \<and>
     balance db' user \<le> balance (expire db user stamp) user"
  using revoke_origin_delta revoke_origin_exact assms unfolding ledger_ok_def by blast

lemma refund_exact_witness:
  "\<exists>db'. revoke_origin one_hold 1 ''payment_order'' ''cg_x'' 70 20 = Inr (70, db') \<and>
     revoked_total db' 1 ''payment_order'' ''cg_x'' = 70 \<and> -10 \<le> balance db' 1"
proof -
  have "isl (revoke_origin one_hold 1 ''payment_order'' ''cg_x'' 70 20) = False" by code_simp
  then obtain delta db' where run: "revoke_origin one_hold 1 ''payment_order'' ''cg_x'' 70 20 = Inr (delta, db')"
    by (cases "revoke_origin one_hold 1 ''payment_order'' ''cg_x'' 70 20") auto
  have "revoked_total one_hold 1 ''payment_order'' ''cg_x'' = 0" "balance (expire one_hold 1 20) 1 = 60"
    by code_simp+
  with refund_exact [OF one_hold_ok run] run show ?thesis by auto
qed

text \<open>
  A captured payment for an accepted quote, seen for the first time, issues a paid grant
  that is valid for at least thirty days from its fulfilment and from its capture.
\<close>

theorem purchase_valid_thirty_days:
  assumes "ledger_ok db" and "fulfill_purchase_quote db user qid order captured stamp = Inr (g, db')"
    and "\<forall>h \<in> set (db_grants db).
           \<not> (g_user_id h = Some user \<and> g_source_type h = ''payment_order'' \<and> g_source_id h = order)"
  shows "\<exists>e. g_expires_at g = Some e \<and> stamp + days 30 \<le> e \<and> captured + days 30 \<le> e \<and>
    g_source_id g = order \<and> g_funding_kind g = ''paid''"
  using fulfill_validity [OF assms(2,3)] assms(1) by (auto simp: ledger_ok_def PASS_LIFETIME_def)

definition one_order :: credit_db where
  "one_order = one_lot\<lparr>db_quotes := [\<lparr>q_id = ''cq_x'', q_user_id = 1, q_idempotency_key = ''k'',
     q_sku = ''starter_pass'', q_snapshot = \<lparr>qt_schema_version = SCHEMA_VERSION, qt_quote_id = ''cq_x'',
       qt_sku = ''starter_pass'', qt_name = ''Starter'', qt_catalog_version = ''v'', qt_terms_version = ''t'',
       qt_amount_minor = 5900, qt_currency = ''INR'', qt_credits = 40, qt_duration_days = 30,
       qt_auto_renews = False, qt_created_at = 5, qt_expires_at = 100, qt_pass_expires_at = 100,
       qt_campaign = None, qt_eligible_services = []\<rparr>, q_created_at = 5, q_expires_at = 100,
     q_state = Accepted, q_accepted_order_id = Some ''order_1'', q_accepted_at = Some 6\<rparr>]\<rparr>"

lemma purchase_valid_thirty_days_witness:
  "\<exists>g db' e. fulfill_purchase_quote one_order 1 ''cq_x'' ''order_1'' 7 10 = Inr (g, db') \<and>
     g_expires_at g = Some e \<and> 10 + days 30 \<le> e"
proof -
  have ok: "ledger_ok one_order"
    using one_lot_ok by (simp add: ledger_ok_def ids_ok_def rows_ok_def links_ok_def reservation_sig_def
        allocation_sig_def grant_sig_def one_order_def)
  have "isl (fulfill_purchase_quote one_order 1 ''cq_x'' ''order_1'' 7 10) = False" by code_simp
  then obtain g db' where run: "fulfill_purchase_quote one_order 1 ''cq_x'' ''order_1'' 7 10 = Inr (g, db')"
    by (cases "fulfill_purchase_quote one_order 1 ''cq_x'' ''order_1'' 7 10") auto
  have "\<forall>h \<in> set (db_grants one_order).
      \<not> (g_user_id h = Some 1 \<and> g_source_type h = ''payment_order'' \<and> g_source_id h = ''order_1'')" by code_simp
  from purchase_valid_thirty_days [OF ok run this] run show ?thesis by blast
qed

end
