(* ===== verification/Documents.thy ===== *)
theory Documents
  imports Prelude "HOL-Library.AList"
begin

text \<open>
  What the program reads out of strings and JSON documents: numerals, prefixes, SQL's LIKE,
  members of an object. A document is read and overlaid by key only, so the order of its
  members does not matter where these functions are used.
\<close>

section \<open>Numerals\<close>

definition is_digit :: "char \<Rightarrow> bool" where
  "is_digit c \<longleftrightarrow> (48 :: nat) \<le> of_char c \<and> of_char c \<le> (57 :: nat)"

fun digits_value_acc :: "nat \<Rightarrow> string \<Rightarrow> nat" where
  "digits_value_acc n [] = n"
| "digits_value_acc n (c # cs) = digits_value_acc (10 * n + (of_char c - 48)) cs"

text \<open>\<open>int(s)\<close> of a string of digits.\<close>

definition digits_value :: "string \<Rightarrow> int" where
  "digits_value s = int (digits_value_acc 0 s)"

lemma digits_value_acc_append:
  "digits_value_acc n (xs @ ys) = digits_value_acc (digits_value_acc n xs) ys"
  by (induction n xs rule: digits_value_acc.induct) simp_all

lemma of_digit_char: "d < 10 \<Longrightarrow> of_char (digit_char d) = 48 + d"
  by (simp add: digit_char_def)

lemma is_digit_digit_char: "d < 10 \<Longrightarrow> is_digit (digit_char d)"
  by (simp add: is_digit_def of_digit_char)

lemma digits_decimal_nat: "digits_value_acc 0 (decimal_nat n) = n"
proof (induction n rule: decimal_nat.induct)
  case (1 n)
  show ?case
  proof (cases "n < 10")
    case False
    with 1 show ?thesis
      by (subst decimal_nat.simps) (simp add: digits_value_acc_append of_digit_char)
  qed (subst decimal_nat.simps, simp add: of_digit_char)
qed

lemma is_digit_decimal_nat: "c \<in> set (decimal_nat n) \<Longrightarrow> is_digit c"
proof (induction n rule: decimal_nat.induct)
  case (1 n)
  then show ?case
    by (cases "n < 10") (auto simp: decimal_nat.simps [of n] is_digit_digit_char)
qed

lemma digits_value_decimal: "0 \<le> n \<Longrightarrow> digits_value (decimal n) = n"
  by (simp add: digits_value_def decimal_def digits_decimal_nat)

lemma is_digit_decimal: "0 \<le> n \<Longrightarrow> c \<in> set (decimal n) \<Longrightarrow> is_digit c"
  by (simp add: decimal_def is_digit_decimal_nat)

lemma decimal_nonempty: "decimal n \<noteq> []"
  by (simp add: decimal_def decimal_nat_nonempty)

lemma takeWhile_digits:
  assumes "0 \<le> n" and "\<not> is_digit c"
  shows "takeWhile is_digit (decimal n @ c # rest) = decimal n"
    and "dropWhile is_digit (decimal n @ c # rest) = c # rest"
  using assms is_digit_decimal [OF assms(1)] by (simp_all add: takeWhile_append dropWhile_append)

section \<open>Prefixes and patterns\<close>

definition starts_with :: "string \<Rightarrow> string \<Rightarrow> bool" where
  "starts_with p s \<longleftrightarrow> take (length p) s = p"

lemma starts_with_append [simp]: "starts_with p (p @ s)"
  by (simp add: starts_with_def)

text \<open>SQL's \<open>LIKE\<close> for patterns whose only wildcard is \<open>%\<close>.\<close>

fun sql_like :: "string \<Rightarrow> string \<Rightarrow> bool" where
  "sql_like [] s \<longleftrightarrow> s = []"
| "sql_like (a # p) [] \<longleftrightarrow> a = CHR ''%'' \<and> sql_like p []"
| "sql_like (a # p) (c # s) \<longleftrightarrow>
     (if a = CHR ''%'' then sql_like p (c # s) \<or> sql_like (a # p) s else a = c \<and> sql_like p s)"

lemma sql_like_any: "sql_like p t \<Longrightarrow> sql_like (CHR ''%'' # p) (s @ t)"
proof (induction s)
  case Nil
  then show ?case by (cases t) simp_all
qed simp

lemma sql_like_literal: "CHR ''%'' \<notin> set q \<Longrightarrow> sql_like (q @ p) (q @ s) = sql_like p s"
  by (induction q) auto

lemma sql_like_all: "sql_like ''%'' s"
  using sql_like_any [of "[]" "[]" s] by simp

section \<open>Objects\<close>

fun json_get :: "string \<Rightarrow> json \<Rightarrow> json option" where
  "json_get k (JObj ms) = map_of ms k"
| "json_get k _ = None"

text \<open>\<open>dict(doc) | {k: v}\<close>\<close>

fun json_put :: "string \<Rightarrow> json \<Rightarrow> json \<Rightarrow> json" where
  "json_put k v (JObj ms) = JObj (AList.update k v ms)"
| "json_put k v _ = JObj [(k, v)]"

lemma json_get_put: "json_get k' (json_put k v d) = (if k' = k then Some v else json_get k' d)"
  by (cases d) (simp_all add: update_conv')

text \<open>Python's truth value of a document, and \<open>int(doc.get(k, 0))\<close> of a member that the server wrote.\<close>

fun json_truthy :: "json option \<Rightarrow> bool" where
  "json_truthy None = False"
| "json_truthy (Some JNull) = False"
| "json_truthy (Some (JBool b)) = b"
| "json_truthy (Some (JInt n)) = (n \<noteq> 0)"
| "json_truthy (Some (JStr s)) = (s \<noteq> [])"
| "json_truthy (Some (JArr xs)) = (xs \<noteq> [])"
| "json_truthy (Some (JObj ms)) = (ms \<noteq> [])"

definition json_int :: "string \<Rightarrow> json \<Rightarrow> int option" where
  "json_int k d =
     (case json_get k d of None \<Rightarrow> Some 0 | Some (JInt n) \<Rightarrow> Some n | Some (JBool b) \<Rightarrow> Some (of_bool b) | _ \<Rightarrow> None)"

text \<open>\<open>math.ceil(Fraction(a, b))\<close> for a positive denominator.\<close>

definition ceil_div :: "int \<Rightarrow> int \<Rightarrow> int" where
  "ceil_div a b = - ((- a) div b)"

lemma ceil_div_bounds:
  assumes "0 < b"
  shows "a \<le> ceil_div a b * b" and "ceil_div a b * b < a + b"
proof -
  have "(- a) div b * b + (- a) mod b = - a" by (rule div_mult_mod_eq)
  moreover have "0 \<le> (- a) mod b" "(- a) mod b < b" using assms by simp_all
  ultimately show "a \<le> ceil_div a b * b" "ceil_div a b * b < a + b"
    unfolding ceil_div_def minus_mult_left [symmetric] by linarith+
qed

lemma ceil_div_add: "0 < b \<Longrightarrow> (a + (b - 1)) div b = ceil_div a b"
  by (rule int_div_pos_eq [of _ _ _ "a + (b - 1) - b * ceil_div a b"])
     (use ceil_div_bounds [of b a] in \<open>auto simp: algebra_simps\<close>)

lemma ceil_div_0 [simp]: "ceil_div 0 b = 0"
  by (simp add: ceil_div_def)

lemma ceil_div_mono: "0 < b \<Longrightarrow> a \<le> c \<Longrightarrow> ceil_div a b \<le> ceil_div c b"
  by (simp add: ceil_div_def zdiv_mono1)

lemma ceil_div_nonneg: "0 < b \<Longrightarrow> 0 \<le> a \<Longrightarrow> 0 \<le> ceil_div a b"
  using ceil_div_mono [of b 0 a] by simp

lemma ceil_div_mult [simp]: "0 < b \<Longrightarrow> ceil_div (a * b) b = a"
  by (simp add: ceil_div_def flip: mult_minus_left)

end
