(* ===== verification/Accounts.thy ===== *)
theory Accounts
  imports Documents
begin

text \<open>
  The columns of the user table that entitlements live in (\<open>models.py\<close>), Premium, and the
  owner lock of \<open>domains/entitlements.py\<close> under which every balance is changed. The lock
  orders transactions; inside one it is the read of the row.
\<close>

record user_account =
  u_id :: int
  u_tier :: string
  u_ai_credits :: int
  u_job_service_credits :: int
  u_premium_until :: "int option"

definition is_premium_active :: "user_account \<Rightarrow> int \<Rightarrow> bool" where
  "is_premium_active u now \<longleftrightarrow> u_tier u = ''premium'' \<and>
     (case u_premium_until u of None \<Rightarrow> True | Some expires \<Rightarrow> expires > now)"

text \<open>\<open>.one()\<close>: no row is \<open>NoResultFound\<close>, here \<open>None\<close>.\<close>

definition lock_entitlement_owner :: "user_account list \<Rightarrow> int \<Rightarrow> user_account option" where
  "lock_entitlement_owner users user_id = row_at u_id user_id users"

lemma lock_entitlement_owner_Some:
  "lock_entitlement_owner users user_id = Some u \<Longrightarrow> u \<in> set users \<and> u_id u = user_id"
  by (auto simp: lock_entitlement_owner_def dest: row_at_SomeD)

end
