(* ===== verification/Usage.thy ===== *)
theory Usage
  imports Accounts Ledger_History
begin

text \<open>
  \<open>domains/usage/service.py\<close>: the analysis-unit ledger. A run reserves its units, then
  commits or releases them; the receipts in the events' reasons say how much of a
  reservation was paid. A run whose quote is billed in credits is settled by the credit
  ledger instead: \<open>settle_hold\<close> is that continuation (\<open>credits/analysis.settle_analysis\<close>).
\<close>

section \<open>State\<close>

datatype usage_error =
    InsufficientUnits int int   \<comment> \<open>balance, required\<close>
  | UsageValueError string
  | UsageNoResult

datatype usage_state = Pending | Waived | UnitsReserved | UnitsCommitted | UnitsReleased | UnifiedReserved

datatype run_status = RunQueued | RunRunning | RunSucceeded | RunFailed | RunCancelled

datatype run_cost_state = CostUnquoted | CostActive | CostRunOverrun | CostHold string

text \<open>
  The row of an \<open>AnalysisRun\<close>: first the columns that the unit ledger reads and writes,
  then those of its life cycle and of its model budget. \<open>CostHold\<close> is the state copied from a
  credit hold.
\<close>

record analysis_run =
  ar_id :: string
  ar_user_id :: int
  ar_operation :: string
  ar_input_payload :: json
  ar_estimated_units :: int
  ar_committed_units :: int
  ar_usage_state :: usage_state
  ar_model_cost_quote :: "json option"
  ar_model_cost_group_id :: "string option"
  ar_opportunity_id :: "string option"
  ar_status :: run_status
  ar_idempotency_key :: string
  ar_input_fingerprint :: string
  ar_result_payload :: "json option"
  ar_error :: "(string \<times> string) option"   \<comment> \<open>code and message\<close>
  ar_attempt_count :: nat
  ar_cancel_requested :: bool
  ar_created_at :: int
  ar_updated_at :: int
  ar_started_at :: "int option"
  ar_completed_at :: "int option"
  ar_cancelled_at :: "int option"
  ar_input_purged_at :: "int option"
  ar_result_purged_at :: "int option"
  ar_generation_attempt_limit :: nat
  ar_generation_attempt_count :: nat
  ar_model_cost_ceiling :: "int option"
  ar_model_cost_reserved :: int
  ar_model_cost_settled :: int
  ar_model_cost_state :: run_cost_state
  ar_model_call :: "(string \<times> string \<times> string) option"   \<comment> \<open>provider, model, prompt version\<close>

record usage_event =
  ue_id :: string
  ue_user_id :: int
  ue_analysis_run_id :: "string option"
  ue_event_type :: string
  ue_amount :: int
  ue_balance_after :: int
  ue_idempotency_key :: string
  ue_source_type :: string
  ue_source_id :: "string option"
  ue_actor :: string
  ue_reason :: "string option"
  ue_created_at :: int

record payment_order =
  po_public_id :: string
  po_entitlement_kind :: string
  po_policy_version :: "string option"   \<comment> \<open>\<open>cost_policy_snapshot["version"]\<close>\<close>

record cost_liability =
  cl_id :: string
  cl_group_id :: string
  cl_pricing_quote :: json

record usage_db =
  us_users :: "user_account list"
  us_runs :: "analysis_run list"
  us_events :: "usage_event list"
  us_orders :: "payment_order list"
  us_liabilities :: "cost_liability list"
  us_supply :: "nat \<Rightarrow> string"
  us_drawn :: nat

definition store_run :: "analysis_run \<Rightarrow> usage_db \<Rightarrow> usage_db" where
  "store_run run db = db\<lparr>us_runs := update_by ar_id (ar_id run) (\<lambda>_. run) (us_runs db)\<rparr>"

definition set_ai_credits :: "int \<Rightarrow> int \<Rightarrow> usage_db \<Rightarrow> usage_db" where
  "set_ai_credits user n db =
     db\<lparr>us_users := update_by u_id user (\<lambda>u. u\<lparr>u_ai_credits := n\<rparr>) (us_users db)\<rparr>"

section \<open>Events and their receipts\<close>

definition event_exists :: "usage_db \<Rightarrow> int \<Rightarrow> string \<Rightarrow> bool" where
  "event_exists db user key \<longleftrightarrow> (\<exists>e \<in> set (us_events db). ue_user_id e = user \<and> ue_idempotency_key e = key)"

definition append_event ::
  "usage_db \<Rightarrow> int \<Rightarrow> string \<Rightarrow> string \<Rightarrow> int \<Rightarrow> int \<Rightarrow> string \<Rightarrow> string \<Rightarrow> int \<Rightarrow> usage_db" where
  "append_event db user run_id kind amount balance_after key reason now =
     db\<lparr>us_drawn := Suc (us_drawn db),
        us_events := us_events db @
          [\<lparr>ue_id = ''use_'' @ us_supply db (us_drawn db), ue_user_id = user,
            ue_analysis_run_id = Some run_id, ue_event_type = kind, ue_amount = amount,
            ue_balance_after = balance_after, ue_idempotency_key = key,
            ue_source_type = ''analysis_run'', ue_source_id = Some run_id, ue_actor = ''system'',
            ue_reason = Some reason, ue_created_at = now\<rparr>]\<rparr>"

text \<open>
  \<open>AnalysisQuoteAcceptance.model_validate\<close>: exactly the two members, strictly typed.
\<close>

definition is_version_char :: "char \<Rightarrow> bool" where
  "is_version_char c \<longleftrightarrow> c \<in> set ''abcdefghijklmnopqrstuvwxyzABCDEFGHIJKLMNOPQRSTUVWXYZ0123456789_.-''"

fun quote_acceptance :: "json option \<Rightarrow> (string \<times> int) option" where
  "quote_acceptance (Some (JObj ms)) =
     (if set (map fst ms) \<subseteq> {''pricing_version'', ''units''} then
        (case (map_of ms ''pricing_version'', map_of ms ''units'') of
           (Some (JStr v), Some (JInt n)) \<Rightarrow>
             (if 1 \<le> length v \<and> length v \<le> 64 \<and> list_all is_version_char v \<and> 0 \<le> n \<and> n \<le> 100000
              then Some (v, n) else None)
         | _ \<Rightarrow> None)
      else None)"
| "quote_acceptance _ = None"

definition reserve_reason :: "analysis_run \<Rightarrow> string \<Rightarrow> string" where
  "reserve_reason run reason =
     (if ar_operation run \<noteq> ''resume_tailor'' then reason
      else case quote_acceptance (json_get ''_accepted_analysis_quote'' (ar_input_payload run)) of
             None \<Rightarrow> reason
           | Some (version, units) \<Rightarrow>
               if units \<noteq> ar_estimated_units run then reason
               else reason @ ''; accepted quote '' @ version @ '': '' @ decimal units @ '' analysis units'')"

text \<open>\<open>re.match(r"^Paid allocation (\d+); (?:reserved|released) for ", reason or "")\<close>\<close>

definition paid_allocation :: "string option \<Rightarrow> int" where
  "paid_allocation reason =
     (let s = (case reason of None \<Rightarrow> [] | Some r \<Rightarrow> r);
          digits = takeWhile is_digit (drop 16 s); rest = dropWhile is_digit (drop 16 s)
      in if starts_with ''Paid allocation '' s \<and> digits \<noteq> [] \<and>
            (starts_with ''; reserved for '' rest \<or> starts_with ''; released for '' rest)
         then digits_value digits else 0)"

text \<open>
  The same number as the query computes it: LIKE, then the text from the 17th character to
  the first semicolon, cast to an integer (of leading digits; the ledger writes only digits).
\<close>

definition paid_of_reason :: "string option \<Rightarrow> int" where
  "paid_of_reason reason =
     (case reason of None \<Rightarrow> 0
      | Some r \<Rightarrow> if sql_like ''Paid allocation %; % for %'' r
                  then digits_value (takeWhile is_digit (takeWhile (\<lambda>c. c \<noteq> CHR '';'') (drop 16 r)))
                  else 0)"

section \<open>Funding\<close>

definition granted_units :: "usage_db \<Rightarrow> int \<Rightarrow> int" where
  "granted_units db user =
     sum_list (concat (map (\<lambda>e. map (\<lambda>_. ue_amount e)
        (filter (\<lambda>o1. ue_source_id e = Some (po_public_id o1) \<and> po_entitlement_kind o1 = ''credit_bundle'' \<and>
                      po_policy_version o1 \<noteq> None) (us_orders db)))
        (filter (\<lambda>e. ue_user_id e = user \<and> ue_source_type e = ''payment_order'') (us_events db))))"

definition used_units :: "usage_db \<Rightarrow> int \<Rightarrow> int" where
  "used_units db user =
     total (\<lambda>e. ue_user_id e = user \<and> ue_source_type e = ''analysis_run'' \<and>
                ue_event_type e \<in> {''reserve'', ''release''})
           (\<lambda>e. if ue_event_type e = ''release'' then - paid_of_reason (ue_reason e)
                else paid_of_reason (ue_reason e)) (us_events db)"

definition current_analysis_funding :: "usage_db \<Rightarrow> int \<Rightarrow> int" where
  "current_analysis_funding db user = max 0 (granted_units db user - used_units db user)"

definition reserve_receipt :: "usage_db \<Rightarrow> int \<Rightarrow> string \<Rightarrow> usage_event option" where
  "reserve_receipt db user run_id =
     find (\<lambda>e. ue_user_id e = user \<and> ue_source_type e = ''analysis_run'' \<and>
               ue_source_id e = Some run_id \<and> ue_event_type e = ''reserve'') (us_events db)"

definition receipt_units :: "usage_event option \<Rightarrow> int" where
  "receipt_units receipt = paid_allocation (case receipt of None \<Rightarrow> None | Some e \<Rightarrow> ue_reason e)"

definition put_quote :: "string \<Rightarrow> json \<Rightarrow> analysis_run \<Rightarrow> analysis_run" where
  "put_quote k v run = run\<lparr>ar_model_cost_quote := map_option (json_put k v) (ar_model_cost_quote run)\<rparr>"

definition funding_for_run :: "usage_db \<Rightarrow> int \<Rightarrow> analysis_run \<Rightarrow> int \<Rightarrow> string \<times> analysis_run" where
  "funding_for_run db user run units =
     (if ar_usage_state run = Waived \<and> units \<noteq> 0 then (''legacy_premium'', run)
      else
        let paid = (if ar_usage_state run \<in> {UnitsReserved, UnitsCommitted, UnitsReleased}
                    then receipt_units (reserve_receipt db user (ar_id run))
                    else min units (current_analysis_funding db user));
            run1 = put_quote ''expense_paid_units'' (JInt paid) run
        in (if units > 0 \<and> paid \<ge> units then ''prepaid'' else ''promotion'', run1))"

section \<open>Operations\<close>

definition the_run :: "usage_db \<Rightarrow> string \<Rightarrow> usage_error + analysis_run" where
  "the_run db run_id = (case row_at ar_id run_id (us_runs db) of None \<Rightarrow> Inl UsageNoResult | Some run \<Rightarrow> Inr run)"

definition usage_owner :: "usage_db \<Rightarrow> int \<Rightarrow> usage_error + user_account" where
  "usage_owner db user =
     (case lock_entitlement_owner (us_users db) user of None \<Rightarrow> Inl UsageNoResult | Some u \<Rightarrow> Inr u)"

text \<open>The Premium and no-cost branch of \<open>reserve_run_usage\<close>: an event of amount zero, once.\<close>

definition waive_run :: "usage_db \<Rightarrow> user_account \<Rightarrow> analysis_run \<Rightarrow> int \<Rightarrow> int \<Rightarrow> usage_db" where
  "waive_run db owner run units now =
     (let key = ar_id run @ '':reserve'';
          run1 = (if is_premium_active owner now then put_quote ''expense_funding'' (JStr ''legacy_premium'') run else run);
          db1 = (if event_exists db (u_id owner) key then db
                 else append_event db (u_id owner) (ar_id run) ''waive'' 0 (u_ai_credits owner) key
                   (reserve_reason run1 (if units \<noteq> 0 then ''Active Premium access'' else ''No-cost operation'')) now)
      in store_run (run1\<lparr>ar_usage_state := Waived\<rparr>) db1)"

text \<open>The charging branch after its balance check.\<close>

definition charge_run :: "usage_db \<Rightarrow> user_account \<Rightarrow> analysis_run \<Rightarrow> int \<Rightarrow> int \<Rightarrow> int \<Rightarrow> usage_db" where
  "charge_run db owner run units paid_units now =
     (let balance = u_ai_credits owner - units;
          reason = reserve_reason run (''Paid allocation '' @ decimal paid_units @ ''; reserved for '' @ ar_operation run);
          db1 = append_event (set_ai_credits (u_id owner) balance db) (u_id owner) (ar_id run) ''reserve'' (- units)
                  balance (ar_id run @ '':reserve'') reason now
      in store_run (run\<lparr>ar_usage_state := UnitsReserved\<rparr>) db1)"

definition reserve_run_usage :: "usage_db \<Rightarrow> int \<Rightarrow> string \<Rightarrow> int \<Rightarrow> int \<Rightarrow> usage_error + usage_db" where
  "reserve_run_usage db user run_id units now =
     bindE (require (\<not> units < 0) (UsageValueError ''Reserved units cannot be negative'')) (\<lambda>_.
     bindE (the_run db run_id) (\<lambda>run.
     if ar_usage_state run \<noteq> Pending then Inr db else
     bindE (usage_owner db user) (\<lambda>owner.
     if is_premium_active owner now \<or> units = 0 then Inr (waive_run db owner run units now)
     else
       let (funding, run1) = funding_for_run db user run units;
           paid_units = min units (current_analysis_funding db user);
           run2 = put_quote ''expense_paid_units'' (JInt paid_units) (put_quote ''expense_funding'' (JStr funding) run1)
       in bindE (require (\<not> u_ai_credits owner < units) (InsufficientUnits (u_ai_credits owner) units)) (\<lambda>_.
          Inr (charge_run db owner run2 units paid_units now)))))"

text \<open>\<open>credits/analysis.is_unified\<close>\<close>

definition is_unified :: "analysis_run \<Rightarrow> bool" where
  "is_unified run \<longleftrightarrow>
     (case ar_model_cost_quote run of None \<Rightarrow> False
      | Some q \<Rightarrow> json_get ''billing_currency'' q = Some (JStr ''credits''))"

definition group_id :: "analysis_run \<Rightarrow> string option" where
  "group_id run = (case ar_model_cost_group_id run of None \<Rightarrow> None | Some g \<Rightarrow> if g = [] then None else Some g)"

definition map_liabilities :: "string option \<Rightarrow> (json \<Rightarrow> json) \<Rightarrow> usage_db \<Rightarrow> usage_db" where
  "map_liabilities financial_group f db =
     (case financial_group of None \<Rightarrow> db
      | Some g \<Rightarrow> db\<lparr>us_liabilities := map (\<lambda>l. if cl_group_id l = g
            then l\<lparr>cl_pricing_quote := f (cl_pricing_quote l)\<rparr> else l) (us_liabilities db)\<rparr>)"

definition prepaid_pool :: "json \<Rightarrow> json" where
  "prepaid_pool quote =
     (if json_get ''expense_funding'' quote = Some (JStr ''prepaid'') then json_put ''expense_pool'' (JStr ''prepaid'') quote
      else quote)"

definition commit_run_usage ::
  "(usage_db \<Rightarrow> analysis_run \<Rightarrow> bool \<Rightarrow> usage_error + usage_db) \<Rightarrow> usage_db \<Rightarrow> string \<Rightarrow> int \<Rightarrow> usage_error + usage_db" where
  "commit_run_usage settle_hold db run_id now =
     bindE (the_run db run_id) (\<lambda>run.
     if is_unified run then settle_hold db run True
     else if ar_usage_state run = Waived then Inr (store_run (run\<lparr>ar_committed_units := 0\<rparr>) db)
     else if ar_usage_state run = UnitsCommitted then Inr db
     else bindE (require (ar_usage_state run = UnitsReserved) (UsageValueError ''Cannot commit usage in this state'')) (\<lambda>_.
     bindE (usage_owner db (ar_user_id run)) (\<lambda>owner.
     let key = run_id @ '':commit'';
         db1 = (if event_exists db (ar_user_id run) key then db
                else append_event db (ar_user_id run) run_id ''commit'' 0 (u_ai_credits owner) key
                       (''Completed '' @ ar_operation run) now);
         db2 = store_run (run\<lparr>ar_usage_state := UnitsCommitted, ar_committed_units := ar_estimated_units run\<rparr>) db1
     in Inr (map_liabilities (group_id run) prepaid_pool db2))))"

text \<open>The refund of \<open>release_run_usage\<close>, when the run's release is not in the ledger yet.\<close>

definition refund_run :: "usage_db \<Rightarrow> user_account \<Rightarrow> analysis_run \<Rightarrow> string \<Rightarrow> int \<Rightarrow> usage_db" where
  "refund_run db owner run reason now =
     (let paid_units = receipt_units (reserve_receipt db (ar_user_id run) (ar_id run));
          balance = u_ai_credits owner + ar_estimated_units run
      in append_event (set_ai_credits (ar_user_id run) balance db) (ar_user_id run) (ar_id run) ''release''
           (ar_estimated_units run) balance (ar_id run @ '':release'')
           (take 240 (''Paid allocation '' @ decimal paid_units @ ''; released for '' @ ar_operation run @ '': '' @ reason)) now)"

definition release_run_usage ::
  "(usage_db \<Rightarrow> analysis_run \<Rightarrow> bool \<Rightarrow> usage_error + usage_db) \<Rightarrow> usage_db \<Rightarrow> string \<Rightarrow> string \<Rightarrow> int
     \<Rightarrow> usage_error + usage_db" where
  "release_run_usage settle_hold db run_id reason now =
     bindE (the_run db run_id) (\<lambda>run.
     if is_unified run then settle_hold db run False
     else
       let db1 = (if ar_usage_state run \<in> {UnitsCommitted, UnitsReleased} then db
                  else map_liabilities (group_id run) (json_put ''expense_pool'' (JStr ''failed_work'')) db)
       in case ar_usage_state run of
            Pending \<Rightarrow> Inr (store_run (run\<lparr>ar_usage_state := UnitsReleased\<rparr>) db1)
          | UnitsReserved \<Rightarrow>
              bindE (usage_owner db1 (ar_user_id run)) (\<lambda>owner.
              let db2 = (if event_exists db1 (ar_user_id run) (run_id @ '':release'') then db1
                         else refund_run db1 owner run reason now)
              in Inr (store_run (run\<lparr>ar_usage_state := UnitsReleased, ar_committed_units := 0\<rparr>) db2))
          | UnifiedReserved \<Rightarrow> Inl (UsageValueError ''Cannot release usage in this state'')
          | _ \<Rightarrow> Inr db1)"

end
