(* ===== verification/Usage_Safety.thy ===== *)
theory Usage_Safety
  imports Usage
begin

text \<open>
  What the analysis-unit ledger promises: it provides the contract of \<open>Ledger_History\<close>, every
  run is charged its estimate once while it is reserved or committed and nothing otherwise,
  and the paid part of a reservation can be read back from its receipt.
\<close>

section \<open>Frames\<close>

definition units_of :: "usage_db \<Rightarrow> int \<Rightarrow> int" where
  "units_of db user = (case row_at u_id user (us_users db) of None \<Rightarrow> 0 | Some u \<Rightarrow> u_ai_credits u)"

definition usage_history :: "usage_db \<Rightarrow> int \<Rightarrow> history" where
  "usage_history db user =
     map (\<lambda>e. (ue_amount e, ue_balance_after e)) (filter (\<lambda>e. ue_user_id e = user) (us_events db))"

lemma store_run_frame [simp]:
  "us_users (store_run run db) = us_users db" "us_events (store_run run db) = us_events db"
  "us_orders (store_run run db) = us_orders db"
  by (simp_all add: store_run_def)

lemma set_ai_credits_frame [simp]:
  "us_runs (set_ai_credits u n db) = us_runs db" "us_events (set_ai_credits u n db) = us_events db"
  "us_orders (set_ai_credits u n db) = us_orders db"
  by (simp_all add: set_ai_credits_def)

lemma append_event_frame [simp]:
  "us_users (append_event db u r k a b key re n) = us_users db"
  "us_runs (append_event db u r k a b key re n) = us_runs db"
  "us_orders (append_event db u r k a b key re n) = us_orders db"
  by (simp_all add: append_event_def)

lemma map_liabilities_frame [simp]:
  "us_users (map_liabilities g f db) = us_users db" "us_runs (map_liabilities g f db) = us_runs db"
  "us_events (map_liabilities g f db) = us_events db" "us_orders (map_liabilities g f db) = us_orders db"
  by (simp_all add: map_liabilities_def split: option.split)

lemma units_of_cong: "us_users db' = us_users db \<Longrightarrow> units_of db' u = units_of db u"
  by (simp add: units_of_def)

lemma units_of_set:
  assumes "row_at u_id user (us_users db) = Some owner"
  shows "units_of (set_ai_credits user n db) u = (if u = user then n else units_of db u)"
  using assms by (auto simp: units_of_def set_ai_credits_def row_at_update_by split: option.split)

lemma usage_owner_Inr: "usage_owner db user = Inr owner \<longleftrightarrow> row_at u_id user (us_users db) = Some owner"
  by (auto simp: usage_owner_def lock_entitlement_owner_def split: option.splits)

lemma usage_owner_id: "usage_owner db user = Inr owner \<Longrightarrow> u_id owner = user"
  by (auto simp: usage_owner_Inr dest: row_at_SomeD)

lemma the_run_Inr: "the_run db rid = Inr run \<longleftrightarrow> row_at ar_id rid (us_runs db) = Some run"
  by (auto simp: the_run_def split: option.splits)

lemma put_quote_frame [simp]:
  "ar_id (put_quote k v run) = ar_id run" "ar_operation (put_quote k v run) = ar_operation run"
  "ar_estimated_units (put_quote k v run) = ar_estimated_units run"
  "ar_input_payload (put_quote k v run) = ar_input_payload run"
  "ar_user_id (put_quote k v run) = ar_user_id run"
  by (simp_all add: put_quote_def)

lemma funding_for_run_frame:
  assumes "funding_for_run db user run units = (f, run1)"
  shows "ar_id run1 = ar_id run" "ar_operation run1 = ar_operation run"
    "ar_estimated_units run1 = ar_estimated_units run" "ar_input_payload run1 = ar_input_payload run"
    "ar_user_id run1 = ar_user_id run"
  using assms by (auto simp: funding_for_run_def Let_def split: if_splits)

section \<open>The three operations, branch by branch\<close>

text \<open>
  \<open>posts\<close>: what the ledger can do to a run. Nothing; only change the run's row (waived or
  released without a charge); or write one event for the run, of an amount the owner's
  balance changes by.
\<close>

inductive posts :: "usage_db \<Rightarrow> string \<Rightarrow> usage_db \<Rightarrow> bool" for db rid where
  quiet: "us_users db' = us_users db \<Longrightarrow> us_events db' = us_events db \<Longrightarrow> us_runs db' = us_runs db \<Longrightarrow> posts db rid db'"
| close: "row_at ar_id rid (us_runs db) = Some run \<Longrightarrow> us_users db' = us_users db \<Longrightarrow> us_events db' = us_events db
    \<Longrightarrow> us_runs db' = update_by ar_id rid (\<lambda>_. run') (us_runs db) \<Longrightarrow> ar_id run' = rid
    \<Longrightarrow> ar_estimated_units run' = ar_estimated_units run \<Longrightarrow> ar_user_id run' = ar_user_id run
    \<Longrightarrow> (ar_usage_state run, ar_usage_state run') \<in> {(Pending, Waived), (Pending, UnitsReleased), (Waived, Waived),
          (UnitsReserved, UnitsCommitted)} \<or>
        (ar_usage_state run, ar_usage_state run') = (UnitsReserved, UnitsReleased) \<and>
          event_exists db (ar_user_id run) (rid @ '':release'')
    \<Longrightarrow> posts db rid db'"
| event: "row_at ar_id rid (us_runs db) = Some run
    \<Longrightarrow> (\<And>u. units_of db' u = units_of db u + (if u = ue_user_id e then ue_amount e else 0))
    \<Longrightarrow> us_events db' = us_events db @ [e] \<Longrightarrow> ue_balance_after e = units_of db' (ue_user_id e)
    \<Longrightarrow> ue_analysis_run_id e = Some rid
    \<Longrightarrow> us_runs db' = update_by ar_id rid (\<lambda>_. run') (us_runs db) \<Longrightarrow> ar_id run' = rid
    \<Longrightarrow> ar_estimated_units run' = ar_estimated_units run \<Longrightarrow> ar_user_id run' = ar_user_id run
    \<Longrightarrow> (ar_usage_state run, ar_usage_state run', ue_amount e, ue_idempotency_key e) \<in>
         {(Pending, Waived, 0, rid @ '':reserve''), (Pending, UnitsReserved, - ar_estimated_units run, rid @ '':reserve''),
          (UnitsReserved, UnitsCommitted, 0, rid @ '':commit''),
          (UnitsReserved, UnitsReleased, ar_estimated_units run, rid @ '':release'')}
    \<Longrightarrow> posts db rid db'"

lemma units_of_owner: "row_at u_id user (us_users db) = Some owner \<Longrightarrow> units_of db user = u_ai_credits owner"
  by (simp add: units_of_def)

lemma waive_run_posts:
  assumes "row_at ar_id (ar_id run) (us_runs db) = Some run" and "row_at u_id (u_id owner) (us_users db) = Some owner"
    and "ar_usage_state run = Pending"
  shows "posts db (ar_id run) (waive_run db owner run units now)"
proof -
  let ?run1 = "if is_premium_active owner now then put_quote ''expense_funding'' (JStr ''legacy_premium'') run else run"
  show ?thesis
  proof (cases "event_exists db (u_id owner) (ar_id run @ '':reserve'')")
    case True
    then show ?thesis
      by (intro posts.close [OF assms(1), of _ "?run1\<lparr>ar_usage_state := Waived\<rparr>"])
         (simp_all add: waive_run_def Let_def store_run_def assms(3))
  next
    case False
    then show ?thesis
      by (intro posts.event [OF assms(1), where run' = "?run1\<lparr>ar_usage_state := Waived\<rparr>" and
            e = "last (us_events (waive_run db owner run units now))"])
         (auto simp: waive_run_def Let_def store_run_def append_event_def assms(2,3) units_of_def)
  qed
qed

lemma charge_run_posts:
  assumes "row_at ar_id (ar_id run) (us_runs db) = Some run0" and "row_at u_id (u_id owner) (us_users db) = Some owner"
    and "ar_usage_state run0 = Pending" and "ar_estimated_units run = ar_estimated_units run0"
    and "ar_user_id run = ar_user_id run0" and "units = ar_estimated_units run0"
  shows "posts db (ar_id run) (charge_run db owner run units paid now)"
  using assms(3-6) units_of_set [OF assms(2)] units_of_owner [OF assms(2)]
  by (intro posts.event [OF assms(1), where run' = "run\<lparr>ar_usage_state := UnitsReserved\<rparr>" and
        e = "last (us_events (charge_run db owner run units paid now))"])
     (auto simp: charge_run_def Let_def store_run_def append_event_def units_of_cong set_ai_credits_def units_of_def)

lemma reserve_run_posts:
  assumes "reserve_run_usage db user rid units now = Inr db'"
    and "row_at ar_id rid (us_runs db) = Some run" and "units = ar_estimated_units run"
  shows "posts db rid db'"
proof -
  have rid: "ar_id run = rid" using assms(2) by (auto dest: row_at_SomeD)
  show ?thesis
  proof (cases "ar_usage_state run = Pending")
    case False
    with assms have "db' = db" by (auto simp: reserve_run_usage_def bindE_eq_Inr the_run_Inr)
    then show ?thesis by (simp add: posts.quiet)
  next
    case True
    from assms True obtain owner where owner: "usage_owner db user = Inr owner"
      by (auto simp: reserve_run_usage_def bindE_eq_Inr the_run_Inr)
    have row: "row_at u_id (u_id owner) (us_users db) = Some owner"
      using owner usage_owner_id [OF owner] by (simp add: usage_owner_Inr)
    have run: "row_at ar_id (ar_id run) (us_runs db) = Some run" using assms(2) rid by simp
    show ?thesis
    proof (cases "is_premium_active owner now \<or> units = 0")
      case premium: True
      with assms True owner have "db' = waive_run db owner run units now"
        by (auto simp: reserve_run_usage_def bindE_eq_Inr the_run_Inr)
      with waive_run_posts [OF run row True] show ?thesis by (simp add: rid)
    next
      case False
      obtain f run1 where fund: "funding_for_run db user run units = (f, run1)" by (rule prod.exhaust)
      note frame = funding_for_run_frame [OF fund]
      let ?run2 = "put_quote ''expense_paid_units'' (JInt (min units (current_analysis_funding db user)))
          (put_quote ''expense_funding'' (JStr f) run1)"
      have "db' = charge_run db owner ?run2 units (min units (current_analysis_funding db user)) now"
        using assms True False owner fund
        by (auto simp: reserve_run_usage_def bindE_eq_Inr the_run_Inr require_eq_Inr Let_def)
      moreover have "posts db (ar_id ?run2) (charge_run db owner ?run2 units (min units (current_analysis_funding db user)) now)"
        by (rule charge_run_posts [OF _ row True]) (use run frame assms(3) in simp_all)
      ultimately show ?thesis using frame rid by simp
    qed
  qed
qed

lemma commit_run_posts:
  assumes "commit_run_usage settle_hold db rid now = Inr db'"
    and "row_at ar_id rid (us_runs db) = Some run" and "\<not> is_unified run"
  shows "posts db rid db'"
proof -
  have rid: "ar_id run = rid" using assms(2) by (auto dest: row_at_SomeD)
  show ?thesis
  proof (cases "ar_usage_state run")
    case Waived
    with assms rid show ?thesis
      by (intro posts.close [OF assms(2), of _ "run\<lparr>ar_committed_units := 0\<rparr>"])
         (auto simp: commit_run_usage_def bindE_eq_Inr the_run_Inr store_run_def)
  next
    case UnitsCommitted
    with assms show ?thesis by (auto simp: commit_run_usage_def bindE_eq_Inr the_run_Inr intro: posts.quiet)
  next
    case UnitsReserved
    let ?run' = "run\<lparr>ar_usage_state := UnitsCommitted, ar_committed_units := ar_estimated_units run\<rparr>"
    let ?key = "rid @ '':commit''"
    from UnitsReserved assms obtain owner where owner: "usage_owner db (ar_user_id run) = Inr owner"
      and db': "db' = map_liabilities (group_id run) prepaid_pool (store_run ?run'
        (if event_exists db (ar_user_id run) ?key then db
         else append_event db (ar_user_id run) rid ''commit'' 0 (u_ai_credits owner) ?key
                (''Completed '' @ ar_operation run) now))"
      by (auto simp: commit_run_usage_def bindE_eq_Inr the_run_Inr Let_def)
    have row: "row_at u_id (ar_user_id run) (us_users db) = Some owner" using owner by (simp add: usage_owner_Inr)
    show ?thesis
    proof (cases "event_exists db (ar_user_id run) ?key")
      case True
      then show ?thesis
        by (intro posts.close [OF assms(2), of _ ?run']) (simp_all add: db' UnitsReserved rid store_run_def)
    next
      case False
      then show ?thesis
        by (intro posts.event [OF assms(2), where run' = ?run' and e = "last (us_events db')"])
           (auto simp: db' UnitsReserved rid store_run_def append_event_def row units_of_def map_liabilities_def
             split: option.split)
    qed
  qed (use assms in \<open>auto simp: commit_run_usage_def bindE_eq_Inr the_run_Inr require_eq_Inr\<close>)
qed

lemma release_run_posts:
  assumes "release_run_usage settle_hold db rid reason now = Inr db'"
    and "row_at ar_id rid (us_runs db) = Some run" and "\<not> is_unified run"
  shows "posts db rid db'"
proof -
  have rid: "ar_id run = rid" using assms(2) by (auto dest: row_at_SomeD)
  let ?db1 = "map_liabilities (group_id run) (json_put ''expense_pool'' (JStr ''failed_work'')) db"
  show ?thesis
  proof (cases "ar_usage_state run")
    case Pending
    with assms rid show ?thesis
      by (intro posts.close [OF assms(2), of _ "run\<lparr>ar_usage_state := UnitsReleased\<rparr>"])
         (auto simp: release_run_usage_def bindE_eq_Inr the_run_Inr store_run_def)
  next
    case UnitsReserved
    let ?run' = "run\<lparr>ar_usage_state := UnitsReleased, ar_committed_units := 0\<rparr>"
    from UnitsReserved assms obtain owner where owner: "usage_owner ?db1 (ar_user_id run) = Inr owner"
      and db': "db' = store_run ?run' (if event_exists ?db1 (ar_user_id run) (rid @ '':release'') then ?db1
        else refund_run ?db1 owner run reason now)"
      by (auto simp: release_run_usage_def bindE_eq_Inr the_run_Inr Let_def)
    have row: "row_at u_id (ar_user_id run) (us_users db) = Some owner" using owner by (simp add: usage_owner_Inr)
    have same: "event_exists ?db1 u k = event_exists db u k" for u k by (simp add: event_exists_def)
    show ?thesis
    proof (cases "event_exists db (ar_user_id run) (rid @ '':release'')")
      case True
      then show ?thesis
        by (intro posts.close [OF assms(2), of _ ?run']) (simp_all add: db' UnitsReserved rid store_run_def same)
    next
      case False
      have units: "units_of (set_ai_credits (ar_user_id run) n ?db1) u = (if u = ar_user_id run then n else units_of db u)" for n u
        using units_of_set [of "ar_user_id run" ?db1 owner] row by (simp add: units_of_cong [of ?db1 db])
      from False show ?thesis
        by (intro posts.event [OF assms(2), where run' = ?run' and e = "last (us_events db')"])
           (auto simp: db' UnitsReserved rid store_run_def append_event_def refund_run_def Let_def same
             units [unfolded units_of_def] units_of_owner [OF row, unfolded units_of_def] units_of_def)
    qed
  qed (use assms in \<open>auto simp: release_run_usage_def bindE_eq_Inr the_run_Inr intro: posts.quiet\<close>)
qed

section \<open>Runs of the ledger\<close>

text \<open>
  One successful call for a run of the table. Both callers reserve the run's own estimate
  (\<open>analysis/service.py\<close>, \<open>services/guardrails.py\<close>); runs billed in credits are not settled here.
\<close>

inductive usage_step :: "usage_db \<Rightarrow> usage_db \<Rightarrow> bool" where
  reserve: "row_at ar_id rid (us_runs db) = Some run \<Longrightarrow>
    reserve_run_usage db user rid (ar_estimated_units run) now = Inr db' \<Longrightarrow> usage_step db db'"
| commit: "row_at ar_id rid (us_runs db) = Some run \<Longrightarrow> \<not> is_unified run \<Longrightarrow>
    commit_run_usage settle_hold db rid now = Inr db' \<Longrightarrow> usage_step db db'"
| release: "row_at ar_id rid (us_runs db) = Some run \<Longrightarrow> \<not> is_unified run \<Longrightarrow>
    release_run_usage settle_hold db rid reason now = Inr db' \<Longrightarrow> usage_step db db'"

lemma usage_step_posts: "usage_step db db' \<Longrightarrow> \<exists>rid. posts db rid db'"
  by (induction rule: usage_step.induct) (blast intro: reserve_run_posts commit_run_posts release_run_posts)+

lemma posts_extends:
  assumes "posts db rid db'"
  shows "extends (units_of db u) (usage_history db u) (units_of db' u) (usage_history db' u)"
  using assms
proof (cases rule: posts.cases)
  case (event run e run')
  have "units_of db' u = units_of db u + (if u = ue_user_id e then ue_amount e else 0)" by (rule event)
  then show ?thesis
    using event(3,4) by (cases "u = ue_user_id e") (auto simp: usage_history_def intro!: extends_post)
qed (simp_all add: usage_history_def units_of_def)

text \<open>What the ledger has charged a run so far, and what it may have charged it.\<close>

definition run_net :: "usage_db \<Rightarrow> string \<Rightarrow> int" where
  "run_net db rid = total (\<lambda>e. ue_analysis_run_id e = Some rid) ue_amount (us_events db)"

definition released_before :: "usage_db \<Rightarrow> string \<Rightarrow> bool" where
  "released_before db rid \<longleftrightarrow> (\<exists>e \<in> set (us_events db). ue_idempotency_key e = rid @ '':release'')"

definition charge_ok :: "usage_db \<Rightarrow> analysis_run \<Rightarrow> bool" where
  "charge_ok db run \<longleftrightarrow>
     run_net db (ar_id run) =
       (if ar_usage_state run \<in> {UnitsReserved, UnitsCommitted} then - ar_estimated_units run else 0) \<and>
     (ar_usage_state run \<in> {Pending, UnitsReserved} \<longrightarrow> \<not> released_before db (ar_id run))"

definition usage_ok :: "usage_db \<Rightarrow> bool" where
  "usage_ok db \<longleftrightarrow> distinct (map ar_id (us_runs db)) \<and> (\<forall>run \<in> set (us_runs db). charge_ok db run)"

lemma run_keys_differ:
  "r @ '':reserve'' \<noteq> r' @ '':release''" "r @ '':commit'' \<noteq> r' @ '':release''"
proof -
  show "r @ '':reserve'' \<noteq> r' @ '':release''" by simp
  have "rev (r @ '':commit'') \<noteq> rev (r' @ '':release'')" by simp
  then show "r @ '':commit'' \<noteq> r' @ '':release''" by metis
qed

lemma charge_ok_quiet: "us_events db' = us_events db \<Longrightarrow> charge_ok db' run = charge_ok db run"
  by (simp add: charge_ok_def run_net_def released_before_def)

lemma map_replaced: "ar_id run' = rid \<Longrightarrow> map ar_id (update_by ar_id rid (\<lambda>_. run') rows) = map ar_id rows"
  by (auto simp: update_by_def)

lemma mem_replaced:
  assumes "distinct (map ar_id rows)" and "r \<in> set (update_by ar_id rid (\<lambda>_. run') rows)" and "ar_id run' = rid"
  shows "r = run' \<or> r \<in> set rows \<and> ar_id r \<noteq> rid"
  using mem_update_byD [OF assms(2)] by auto

lemma posts_usage_ok:
  assumes "posts db rid db'" and "usage_ok db"
  shows "usage_ok db'"
  using assms(1)
proof (cases rule: posts.cases)
  case quiet
  from assms(2) show ?thesis by (simp add: usage_ok_def quiet(3) charge_ok_quiet [OF quiet(2)])
next
  case (close run run')
  have run: "run \<in> set (us_runs db)" "ar_id run = rid" using close(1) by (auto dest: row_at_SomeD)
  with assms(2) have ok: "charge_ok db run" and dist: "distinct (map ar_id (us_runs db))" by (simp_all add: usage_ok_def)
  have "charge_ok db run'"
    using ok close(5-8) run(2) by (auto simp: charge_ok_def released_before_def event_exists_def)
  moreover have "map ar_id (us_runs db') = map ar_id (us_runs db)"
    unfolding close(4) by (rule map_replaced) (rule close(5))
  ultimately show ?thesis
    using assms(2) dist mem_replaced [OF dist _ close(5)]
    by (auto simp: usage_ok_def charge_ok_quiet [OF close(3)] close(4))
next
  case (event run e run')
  have run: "run \<in> set (us_runs db)" "ar_id run = rid" using event(1) by (auto dest: row_at_SomeD)
  with assms(2) have ok: "charge_ok db run" and dist: "distinct (map ar_id (us_runs db))" by (simp_all add: usage_ok_def)
  have net: "run_net db' r = run_net db r + (if r = rid then ue_amount e else 0)" for r
    using event(3,5) by (auto simp: run_net_def)
  have released: "released_before db' r \<longleftrightarrow> released_before db r \<or> ue_idempotency_key e = r @ '':release''" for r
    using event(3) by (auto simp: released_before_def)
  have other: "ue_idempotency_key e \<noteq> r @ '':release''" if "r \<noteq> rid" for r
    using event(10) that run_keys_differ by auto
  have mine: "ue_idempotency_key e \<noteq> rid @ '':release''" if "ar_usage_state run = Pending"
    using event(10) that run_keys_differ by auto
  have "charge_ok db' run'"
    using ok event(7-10) run(2) mine by (auto simp: charge_ok_def net released)
  moreover have "charge_ok db' r" if "charge_ok db r" and "ar_id r \<noteq> rid" for r
    using that other [OF that(2)] by (simp add: charge_ok_def net released)
  moreover have "map ar_id (us_runs db') = map ar_id (us_runs db)"
    unfolding event(6) by (rule map_replaced) (rule event(7))
  ultimately show ?thesis
    using assms(2) dist mem_replaced [OF dist _ event(7)] by (auto simp: usage_ok_def event(6))
qed

lemma usage_step_effect:
  assumes "usage_step db db'" and "usage_ok db"
  shows "usage_ok db' \<and> extends (units_of db u) (usage_history db u) (units_of db' u) (usage_history db' u)"
  using usage_step_posts [OF assms(1)] posts_usage_ok assms(2) posts_extends by blast

interpretation usage: reconciled_ledger usage_ok units_of usage_history usage_step
  by unfold_locales (use usage_step_effect in blast)+

section \<open>Receipts\<close>

lemma paid_allocation_receipt:
  assumes "0 \<le> n" and "rest = ''; reserved for '' @ x \<or> rest = ''; released for '' @ x"
  shows "paid_allocation (Some (''Paid allocation '' @ decimal n @ rest)) = n"
proof -
  obtain tl where rest: "rest = CHR '';'' # tl" using assms(2) by auto
  have "\<not> is_digit (CHR '';'')" by (simp add: is_digit_def)
  note split = takeWhile_digits [OF assms(1) this, of tl, folded rest]
  have "drop 16 (''Paid allocation '' @ decimal n @ rest) = decimal n @ rest" by simp
  moreover have "starts_with ''Paid allocation '' (''Paid allocation '' @ decimal n @ rest)" by (rule starts_with_append)
  moreover have "starts_with ''; reserved for '' rest \<or> starts_with ''; released for '' rest"
    using assms(2) by (elim disjE) (simp_all only: starts_with_append simp_thms)
  ultimately show ?thesis
    by (simp only: paid_allocation_def option.case Let_def split decimal_nonempty digits_value_decimal [OF assms(1)]) simp
qed

lemma paid_of_receipt:
  assumes "0 \<le> n"
  shows "paid_of_reason (Some (''Paid allocation '' @ decimal n @ ''; reserved for '' @ x)) = n"
proof -
  have "sql_like ''% for %'' (''reserved'' @ '' for '' @ x)"
    by (rule sql_like_any) (use sql_like_literal [of "'' for ''" "''%''" x] sql_like_all in simp)
  then have "sql_like ''; % for %'' (''; '' @ ''reserved'' @ '' for '' @ x)"
    using sql_like_literal [of "''; ''" "''% for %''" "''reserved'' @ '' for '' @ x"] by simp
  then have "sql_like ''%; % for %'' (decimal n @ ''; '' @ ''reserved'' @ '' for '' @ x)" by (rule sql_like_any)
  then have like: "sql_like ''Paid allocation %; % for %'' (''Paid allocation '' @ decimal n @ ''; '' @ ''reserved'' @ '' for '' @ x)"
    using sql_like_literal [of "''Paid allocation ''" "''%; % for %''"] by simp
  have "CHR '';'' \<notin> set (decimal n)" using is_digit_decimal [OF assms, of "CHR '';''"] by (auto simp: is_digit_def)
  then have upto: "takeWhile (\<lambda>c. c \<noteq> CHR '';'') (decimal n @ CHR '';'' # r) = decimal n" for r
    by (subst takeWhile_append2) auto
  have digits: "takeWhile is_digit (decimal n) = decimal n"
    using is_digit_decimal [OF assms] by (simp add: takeWhile_eq_all_conv)
  have "''; reserved for '' @ x = ''; '' @ ''reserved'' @ '' for '' @ x" by simp
  then show ?thesis
    unfolding paid_of_reason_def option.case
    by (simp only: if_P [OF like]) (simp add: upto digits digits_value_decimal [OF assms])
qed

lemma reserve_reason_prefix: "\<exists>x. reserve_reason run r = r @ x"
  by (auto simp: reserve_reason_def split: option.splits)

lemma charge_run_receipt:
  assumes "0 \<le> paid" and "reserve_receipt db (u_id owner) (ar_id run) = None"
  shows "receipt_units (reserve_receipt (charge_run db owner run units paid now) (u_id owner) (ar_id run)) = paid \<and>
    used_units (charge_run db owner run units paid now) (u_id owner) = used_units db (u_id owner) + paid \<and>
    granted_units (charge_run db owner run units paid now) (u_id owner) = granted_units db (u_id owner)"
proof -
  obtain x where "reserve_reason run (''Paid allocation '' @ decimal paid @ ''; reserved for '' @ ar_operation run) =
      (''Paid allocation '' @ decimal paid @ ''; reserved for '' @ ar_operation run) @ x"
    using reserve_reason_prefix by blast
  then have reason: "reserve_reason run (''Paid allocation '' @ decimal paid @ ''; reserved for '' @ ar_operation run) =
      ''Paid allocation '' @ decimal paid @ ''; reserved for '' @ (ar_operation run @ x)"
    by (simp only: append_assoc)
  let ?db' = "charge_run db owner run units paid now"
  have events: "us_events ?db' = us_events db @ [last (us_events ?db')]" and orders: "us_orders ?db' = us_orders db"
    by (simp_all add: charge_run_def Let_def append_event_def store_run_def set_ai_credits_def)
  have last: "ue_user_id (last (us_events ?db')) = u_id owner" "ue_source_type (last (us_events ?db')) = ''analysis_run''"
    "ue_source_id (last (us_events ?db')) = Some (ar_id run)" "ue_event_type (last (us_events ?db')) = ''reserve''"
    "ue_reason (last (us_events ?db')) = Some (''Paid allocation '' @ decimal paid @ ''; reserved for '' @ (ar_operation run @ x))"
    unfolding reason [symmetric] by (simp_all add: charge_run_def Let_def append_event_def)
  have "find p (xs @ [y]) = Some y" if "find p xs = None" "p y" for p xs and y :: usage_event
    using that by (induction xs) (auto split: if_splits)
  then have "reserve_receipt ?db' (u_id owner) (ar_id run) = Some (last (us_events ?db'))"
    using assms(2) last unfolding reserve_receipt_def by (subst events) blast
  then have "receipt_units (reserve_receipt ?db' (u_id owner) (ar_id run)) = paid"
    using paid_allocation_receipt [OF assms(1) disjI1 [OF refl], of "ar_operation run @ x"]
    by (simp only: receipt_units_def option.case last)
  moreover have "used_units ?db' (u_id owner) = used_units db (u_id owner) + paid"
    unfolding used_units_def by (subst events) (simp only: total_append total_Cons total_Nil last paid_of_receipt [OF assms(1)], simp)
  moreover have "granted_units ?db' (u_id owner) = granted_units db (u_id owner)"
    unfolding granted_units_def by (subst events) (simp add: last orders)
  ultimately show ?thesis by blast
qed

section \<open>Properties\<close>

definition small_run :: analysis_run where
  "small_run = \<lparr>ar_id = ''run_x'', ar_user_id = 1, ar_operation = ''job_match'', ar_input_payload = JObj [],
       ar_estimated_units = 12, ar_committed_units = 0, ar_usage_state = Pending, ar_model_cost_quote = None,
       ar_model_cost_group_id = None, ar_opportunity_id = None, ar_status = RunQueued, ar_idempotency_key = ''k'',
       ar_input_fingerprint = ''f'', ar_result_payload = None, ar_error = None, ar_attempt_count = 0,
       ar_cancel_requested = False, ar_created_at = 0, ar_updated_at = 0, ar_started_at = None, ar_completed_at = None,
       ar_cancelled_at = None, ar_input_purged_at = None, ar_result_purged_at = None, ar_generation_attempt_limit = 0,
       ar_generation_attempt_count = 0, ar_model_cost_ceiling = None, ar_model_cost_reserved = 0,
       ar_model_cost_settled = 0, ar_model_cost_state = CostUnquoted, ar_model_call = None\<rparr>"

definition small_usage :: usage_db where
  "small_usage = \<lparr>us_users = [\<lparr>u_id = 1, u_tier = ''free'', u_ai_credits = 50, u_job_service_credits = 0,
       u_premium_until = None\<rparr>],
     us_runs = [small_run],
     us_events = [\<lparr>ue_id = ''use_x'', ue_user_id = 1, ue_analysis_run_id = None, ue_event_type = ''grant'',
       ue_amount = 10, ue_balance_after = 50, ue_idempotency_key = ''pay'', ue_source_type = ''payment_order'',
       ue_source_id = Some ''order_x'', ue_actor = ''system'', ue_reason = None, ue_created_at = 0\<rparr>],
     us_orders = [\<lparr>po_public_id = ''order_x'', po_entitlement_kind = ''credit_bundle'', po_policy_version = Some ''v''\<rparr>],
     us_liabilities = [], us_supply = (\<lambda>n. replicate n (CHR ''a'')), us_drawn = 0\<rparr>"

definition small_usage_reserved :: usage_db where
  "small_usage_reserved = (case reserve_run_usage small_usage 1 ''run_x'' 12 5 of Inr db \<Rightarrow> db | Inl _ \<Rightarrow> small_usage)"

lemma small_usage_run: "reserve_run_usage small_usage 1 ''run_x'' 12 5 = Inr small_usage_reserved"
proof -
  have "isl (reserve_run_usage small_usage 1 ''run_x'' 12 5) = False" by code_simp
  then show ?thesis by (cases "reserve_run_usage small_usage 1 ''run_x'' 12 5") (simp_all add: small_usage_reserved_def)
qed

lemma small_usage_ok: "usage_ok small_usage"
  by (simp add: usage_ok_def charge_ok_def run_net_def released_before_def small_usage_def small_run_def)

lemma small_usage_steps: "usage_step\<^sup>*\<^sup>* small_usage small_usage_reserved"
proof -
  obtain run where run: "row_at ar_id ''run_x'' (us_runs small_usage) = Some run" and "ar_estimated_units run = 12"
    by (simp add: small_usage_def small_run_def)
  then have "usage_step small_usage small_usage_reserved"
    using usage_step.reserve [OF run, of 1 5] small_usage_run by simp
  then show ?thesis by simp
qed



text \<open>
  C12. The analysis-unit balance of a user is explained by the events in every reachable
  state: the balance is the sum of the amounts since the start and every event records the
  balance it left.
\<close>

theorem usage_reconciled:
  assumes "usage_step\<^sup>*\<^sup>* s t" and "usage_ok s" and "chained b0 (usage_history s u)"
    and "units_of s u = b0 + amounts (usage_history s u)"
  shows "units_of t u = b0 + amounts (usage_history t u) \<and> chained b0 (usage_history t u)"
  by (rule usage.run_reconciled [OF assms])

lemma usage_reconciled_witness: "units_of small_usage_reserved 1 = 40 + amounts (usage_history small_usage_reserved 1)"
proof -
  have "chained 40 (usage_history small_usage 1)" "units_of small_usage 1 = 40 + amounts (usage_history small_usage 1)"
    by code_simp+
  with usage_reconciled [OF small_usage_steps small_usage_ok] show ?thesis by blast
qed

text \<open>
  C13. A charged reservation draws on the paid units first: its receipt, parsed back from the
  event's text, is the smaller of the price and the paid units that were left, and exactly
  that much less paid funding is left afterwards.
\<close>

theorem paid_units_read_back:
  assumes "reserve_run_usage db user rid units now = Inr db'"
    and "row_at ar_id rid (us_runs db) = Some run" and "ar_usage_state run = Pending"
    and "row_at u_id user (us_users db) = Some owner" and "\<not> is_premium_active owner now" and "units \<noteq> 0"
    and "reserve_receipt db user rid = None"
  shows "receipt_units (reserve_receipt db' user rid) = min units (current_analysis_funding db user) \<and>
    current_analysis_funding db' user = current_analysis_funding db user - min units (current_analysis_funding db user)"
proof -
  let ?paid = "min units (current_analysis_funding db user)"
  have ids: "ar_id run = rid" "u_id owner = user" using assms(2,4) by (auto dest: row_at_SomeD)
  obtain f run1 where fund: "funding_for_run db user run units = (f, run1)" by (rule prod.exhaust)
  let ?run2 = "put_quote ''expense_paid_units'' (JInt ?paid) (put_quote ''expense_funding'' (JStr f) run1)"
  have owner: "usage_owner db user = Inr owner" using assms(4) by (simp add: usage_owner_Inr)
  have db': "db' = charge_run db owner ?run2 units ?paid now" and pos: "0 \<le> units"
    using assms(1-3,5,6) owner fund
    by (auto simp: reserve_run_usage_def bindE_eq_Inr the_run_Inr require_eq_Inr Let_def)
  have id2: "ar_id ?run2 = rid" using funding_for_run_frame [OF fund] ids by simp
  have "0 \<le> ?paid" using pos by (simp add: current_analysis_funding_def)
  from charge_run_receipt [OF this, of db owner ?run2 units now] assms(7)
  have "receipt_units (reserve_receipt db' user rid) = ?paid" and "used_units db' user = used_units db user + ?paid"
    and "granted_units db' user = granted_units db user"
    unfolding db' id2 ids by simp_all
  then show ?thesis using pos by (simp add: current_analysis_funding_def min_def max_def)
qed

lemma paid_units_read_back_witness:
  "receipt_units (reserve_receipt small_usage_reserved 1 ''run_x'') = 10 \<and>
   current_analysis_funding small_usage_reserved 1 = 0"
proof -
  have funding: "current_analysis_funding small_usage 1 = 10" by code_simp
  have "reserve_receipt small_usage 1 ''run_x'' = None" by code_simp
  then show ?thesis
    using paid_units_read_back [OF small_usage_run] funding
    by (simp add: small_usage_def small_run_def is_premium_active_def)
qed

end
