(* ===== verification/Service_Credits.thy ===== *)
theory Service_Credits
  imports Accounts Ledger_History
begin

text \<open>
  \<open>domains/employer/credits.py\<close>: prepaid service credits for employer searches and
  applications. The cost-policy evidence that a reservation stores is read by
  \<open>billing/cost_policy.py\<close> before the money moves; here it is the outcome \<open>authority\<close> of
  that \<open>try\<close> block, a snapshot or \<open>CostPolicyUnavailable\<close>.
\<close>

section \<open>State\<close>

datatype svc_error =
    SvcValueError string
  | SvcCostPolicyUnavailable string       \<comment> \<open>HTTP 503\<close>
  | InsufficientServiceCredits int int    \<comment> \<open>HTTP 402: required, balance\<close>
  | SvcTypeError
  | SvcNoResult

datatype svc_state = SvcReserved | SvcSettled

record svc_reservation =
  sr_id :: string
  sr_user_id :: "int option"
  sr_operation :: string
  sr_source_id :: string
  sr_unit_price :: int
  sr_requested_count :: int
  sr_reserved_amount :: int
  sr_committed_amount :: int
  sr_released_amount :: int
  sr_state :: svc_state
  sr_pricing_version :: string
  sr_cost_policy_snapshot :: "json option"
  sr_settled_at :: "int option"

record svc_event =
  se_id :: string
  se_user_id :: "int option"
  se_event_type :: string
  se_amount :: int
  se_balance_after :: int
  se_idempotency_key :: string
  se_source_type :: string
  se_source_id :: string
  se_reason :: string
  se_created_at :: int

record svc_db =
  sv_users :: "user_account list"
  sv_reservations :: "svc_reservation list"
  sv_events :: "svc_event list"
  sv_supply :: "nat \<Rightarrow> string"
  sv_drawn :: nat

section \<open>Operations\<close>

definition service_balance :: "svc_db \<Rightarrow> int \<Rightarrow> int" where
  "service_balance db user = (case row_at u_id user (sv_users db) of None \<Rightarrow> 0 | Some u \<Rightarrow> u_job_service_credits u)"

definition set_service_credits :: "int \<Rightarrow> int \<Rightarrow> svc_db \<Rightarrow> svc_db" where
  "set_service_credits user n db =
     db\<lparr>sv_users := update_by u_id user (\<lambda>u. u\<lparr>u_job_service_credits := n\<rparr>) (sv_users db)\<rparr>"

definition svc_event_row :: "svc_db \<Rightarrow> int \<Rightarrow> svc_reservation \<Rightarrow> string \<Rightarrow> int \<Rightarrow> string \<Rightarrow> int \<Rightarrow> svc_db" where
  "svc_event_row db user reservation kind amount reason now =
     db\<lparr>sv_drawn := Suc (sv_drawn db),
        sv_events := sv_events db @
          [\<lparr>se_id = ''svc_'' @ sv_supply db (sv_drawn db), se_user_id = Some user, se_event_type = kind,
            se_amount = amount, se_balance_after = service_balance db user,
            se_idempotency_key = sr_id reservation @ '':'' @ kind,
            se_source_type = sr_operation reservation, se_source_id = sr_source_id reservation,
            se_reason = take 240 reason, se_created_at = now\<rparr>]\<rparr>"

definition svc_owner :: "svc_db \<Rightarrow> int \<Rightarrow> svc_error + user_account" where
  "svc_owner db user =
     (case lock_entitlement_owner (sv_users db) user of None \<Rightarrow> Inl SvcNoResult | Some u \<Rightarrow> Inr u)"




text \<open>
  The provisional failure hold of paid work: what was not delivered keeps its share.
\<close>

definition settled_authority :: "json option \<Rightarrow> int \<Rightarrow> svc_error + json option" where
  "settled_authority snap completed_count =
     (let authority = (case snap of None \<Rightarrow> JObj [] | Some d \<Rightarrow> d)
      in case (json_int ''paid_service_cost_count'' authority, json_int ''failed_service_hold_minor'' authority) of
           (None, _) \<Rightarrow> Inl SvcTypeError
         | (Some paid_count, hold) \<Rightarrow>
             if paid_count = 0 then Inr snap
             else (case hold of None \<Rightarrow> Inl SvcTypeError
                   | Some h \<Rightarrow>
                       Inr (Some (json_put ''failed_service_hold_minor''
                         (JInt (ceil_div (h * max 0 (paid_count - completed_count)) paid_count)) authority))))"

definition settle_service ::
  "svc_db \<Rightarrow> string \<Rightarrow> int \<Rightarrow> string \<Rightarrow> int \<Rightarrow> svc_error + svc_db" where
  "settle_service db reservation_id completed_count reason now =
     (case row_at sr_id reservation_id (sv_reservations db) of
        None \<Rightarrow> Inl SvcNoResult
      | Some row \<Rightarrow>
          if sr_state row \<noteq> SvcReserved then Inr db
          else
            bindE (require (0 \<le> completed_count \<and> completed_count \<le> sr_requested_count row)
              (SvcValueError ''Completed count exceeds the reservation'')) (\<lambda>_.
            bindE (case sr_user_id row of None \<Rightarrow> Inl SvcNoResult | Some user \<Rightarrow> svc_owner db user) (\<lambda>owner.
            let committed = completed_count * sr_unit_price row;
                refund = sr_reserved_amount row - committed;
                user = u_id owner;
                db1 = set_service_credits user (u_job_service_credits owner + refund) db
            in bindE (settled_authority (sr_cost_policy_snapshot row) completed_count) (\<lambda>authority.
               let finish = (\<lambda>r. r\<lparr>sr_committed_amount := committed, sr_released_amount := refund,
                     sr_state := SvcSettled, sr_cost_policy_snapshot := authority, sr_settled_at := Some now\<rparr>);
                   db2 = db1\<lparr>sv_reservations := update_by sr_id reservation_id finish (sv_reservations db1)\<rparr>;
                   db3 = svc_event_row db2 user row ''commit'' 0 reason now
               in Inr (if refund \<noteq> 0
                    then svc_event_row db3 user row ''release'' refund (''Unused reservation returned: '' @ reason) now
                    else db3)))))"

section \<open>The audit contract\<close>

definition service_history :: "svc_db \<Rightarrow> int \<Rightarrow> history" where
  "service_history db user =
     map (\<lambda>e. (se_amount e, se_balance_after e)) (filter (\<lambda>e. se_user_id e = Some user) (sv_events db))"

definition svc_row_ok :: "svc_reservation \<Rightarrow> bool" where
  "svc_row_ok r \<longleftrightarrow> sr_reserved_amount r = sr_unit_price r * sr_requested_count r \<and> 0 \<le> sr_reserved_amount r \<and>
     (case sr_state r of
        SvcReserved \<Rightarrow> sr_committed_amount r = 0 \<and> sr_released_amount r = 0
      | SvcSettled \<Rightarrow> 0 \<le> sr_committed_amount r \<and> 0 \<le> sr_released_amount r \<and>
          sr_committed_amount r + sr_released_amount r = sr_reserved_amount r)"

definition svc_ok :: "svc_db \<Rightarrow> bool" where
  "svc_ok db \<longleftrightarrow> (\<forall>r \<in> set (sv_reservations db). svc_row_ok r) \<and> (\<forall>u \<in> set (sv_users db). 0 \<le> u_job_service_credits u)"

lemma set_service_credits_frame [simp]:
  "sv_reservations (set_service_credits u n db) = sv_reservations db" "sv_events (set_service_credits u n db) = sv_events db"
  by (simp_all add: set_service_credits_def)

lemma svc_event_row_frame [simp]:
  "sv_users (svc_event_row db u r k a re n) = sv_users db"
  "sv_reservations (svc_event_row db u r k a re n) = sv_reservations db"
  by (simp_all add: svc_event_row_def)

lemma service_balance_cong: "sv_users db' = sv_users db \<Longrightarrow> service_balance db' u = service_balance db u"
  by (simp add: service_balance_def)


lemma service_history_event [simp]:
  "service_history (svc_event_row db user r k a re n) u =
     service_history db u @ (if u = user then [(a, service_balance db user)] else [])"
  by (simp add: service_history_def svc_event_row_def)

lemma service_balance_set:
  assumes "row_at u_id user (sv_users db) = Some owner"
  shows "service_balance (set_service_credits user n db) u = (if u = user then n else service_balance db u)"
  using assms by (auto simp: service_balance_def set_service_credits_def row_at_update_by split: option.split)

lemma svc_owner_Inr: "svc_owner db user = Inr owner \<longleftrightarrow> row_at u_id user (sv_users db) = Some owner"
  by (auto simp: svc_owner_def lock_entitlement_owner_def split: option.splits)



lemma settle_service_Inr:
  assumes "settle_service db rid completed reason now = Inr db'"
  obtains (kept) row where "row_at sr_id rid (sv_reservations db) = Some row" and "sr_state row = SvcSettled" and "db' = db"
  | (settled) row user owner authority where "row_at sr_id rid (sv_reservations db) = Some row"
    and "sr_state row = SvcReserved" and "0 \<le> completed" and "completed \<le> sr_requested_count row"
    and "row_at u_id user (sv_users db) = Some owner" and "sr_user_id row = Some user"
    and "settled_authority (sr_cost_policy_snapshot row) completed = Inr authority"
    and "let committed = completed * sr_unit_price row; refund = sr_reserved_amount row - committed;
           finish = (\<lambda>r. r\<lparr>sr_committed_amount := committed, sr_released_amount := refund,
                     sr_state := SvcSettled, sr_cost_policy_snapshot := authority, sr_settled_at := Some now\<rparr>);
           db1 = set_service_credits user (u_job_service_credits owner + refund) db;
           db2 = db1\<lparr>sv_reservations := update_by sr_id rid finish (sv_reservations db1)\<rparr>;
           db3 = svc_event_row db2 user row ''commit'' 0 reason now
         in db' = (if refund \<noteq> 0
              then svc_event_row db3 user row ''release'' refund (''Unused reservation returned: '' @ reason) now
              else db3)"
proof -
  from assms obtain row where row: "row_at sr_id rid (sv_reservations db) = Some row"
    by (auto simp: settle_service_def split: option.splits)
  show ?thesis
  proof (cases "sr_state row")
    case SvcSettled
    with assms row show ?thesis by (intro kept) (auto simp: settle_service_def)
  next
    case SvcReserved
    with assms row obtain owner authority where bounds: "0 \<le> completed" "completed \<le> sr_requested_count row"
      and owner: "(case sr_user_id row of None \<Rightarrow> Inl SvcNoResult | Some user \<Rightarrow> svc_owner db user) = Inr owner"
      and authority: "settled_authority (sr_cost_policy_snapshot row) completed = Inr authority"
      by (auto simp: settle_service_def bindE_eq_Inr require_eq_Inr Let_def)
    from owner obtain user where user: "sr_user_id row = Some user" and at: "row_at u_id user (sv_users db) = Some owner"
      by (auto simp: svc_owner_Inr split: option.splits)
    then have "u_id owner = user" by (auto dest: row_at_SomeD)
    with assms row SvcReserved bounds user at authority show ?thesis
      by (intro settled [OF row SvcReserved bounds at user authority])
         (auto simp: settle_service_def bindE_eq_Inr require_eq_Inr Let_def svc_owner_def lock_entitlement_owner_def)
  qed
qed




section \<open>Rows and balances stay well-formed\<close>





definition svc_inv :: "svc_db \<Rightarrow> bool" where
  "svc_inv db \<longleftrightarrow> inj (sv_supply db) \<and>
     fresh_rows sr_id ''resv'' (sv_supply db) (sv_drawn db) (sv_reservations db) \<and> svc_ok db"






section \<open>Properties\<close>

definition small_svc :: svc_db where
  "small_svc = \<lparr>sv_users = [\<lparr>u_id = 1, u_tier = ''free'', u_ai_credits = 0, u_job_service_credits = 30,
       u_premium_until = None\<rparr>],
     sv_reservations = [\<lparr>sr_id = ''resv_x'', sr_user_id = Some 1, sr_operation = ''job_search'', sr_source_id = ''search_1'',
       sr_unit_price = 2, sr_requested_count = 5, sr_reserved_amount = 10, sr_committed_amount = 0,
       sr_released_amount = 0, sr_state = SvcReserved, sr_pricing_version = ''v'',
       sr_cost_policy_snapshot = Some (JObj [(''paid_service_cost_count'', JInt 4), (''failed_service_hold_minor'', JInt 90)]),
       sr_settled_at = None\<rparr>],
     sv_events = [], sv_supply = (\<lambda>n. replicate n (CHR ''a'')), sv_drawn = 0\<rparr>"

definition small_svc_settled :: svc_db where
  "small_svc_settled = (case settle_service small_svc ''resv_x'' 3 ''done'' 9 of Inr db \<Rightarrow> db | Inl _ \<Rightarrow> small_svc)"

lemma small_svc_run: "settle_service small_svc ''resv_x'' 3 ''done'' 9 = Inr small_svc_settled"
proof -
  have "isl (settle_service small_svc ''resv_x'' 3 ''done'' 9) = False" by code_simp
  then show ?thesis by (cases "settle_service small_svc ''resv_x'' 3 ''done'' 9") (simp_all add: small_svc_settled_def)
qed

lemma small_svc_inv: "svc_inv small_svc"
proof -
  have "CHR ''x'' # [] \<noteq> replicate k (CHR ''a'')" for k by (cases k) simp_all
  moreover have "inj (\<lambda>n. replicate n (CHR ''a''))" by (rule injI) (metis length_replicate)
  ultimately show ?thesis
    by (simp add: svc_inv_def fresh_rows_def svc_ok_def svc_row_ok_def small_svc_def)
qed




text \<open>
  C15. Settling an open reservation returns the price of exactly the jobs that were not
  delivered, and settling it again, with whatever count, changes nothing.
\<close>

theorem service_settlement_exact:
  assumes "svc_inv db" and "row_at sr_id rid (sv_reservations db) = Some row" and "sr_state row = SvcReserved"
    and "sr_user_id row = Some user" and "settle_service db rid completed reason now = Inr db'"
  shows "service_balance db' user = service_balance db user + (sr_requested_count row - completed) * sr_unit_price row \<and>
    settle_service db' rid again reason' now' = Inr db'"
  using assms(5)
proof (cases rule: settle_service_Inr)
  case (kept r)
  with assms(2,3) show ?thesis by simp
next
  case (settled r u owner authority)
  have same: "r = row" "u = user" using settled(1,6) assms(2,4) by auto
  have "svc_row_ok row" using assms(1,2) by (auto simp: svc_inv_def svc_ok_def dest!: row_at_SomeD)
  then have amount: "sr_reserved_amount row = sr_unit_price row * sr_requested_count row" by (simp add: svc_row_ok_def)
  let ?refund = "sr_reserved_amount row - completed * sr_unit_price row"
  have "sv_users db' = sv_users (set_service_credits user (u_job_service_credits owner + ?refund) db)"
    using settled(8) same by (auto simp: Let_def)
  then have "service_balance db' user = service_balance (set_service_credits user (u_job_service_credits owner + ?refund) db) user"
    by (rule service_balance_cong)
  also have "\<dots> = service_balance db user + ?refund"
    using service_balance_set [OF settled(5)] settled(5) same by (simp add: service_balance_def)
  finally have "service_balance db' user = service_balance db user + (sr_requested_count row - completed) * sr_unit_price row"
    by (simp add: amount algebra_simps)
  moreover have "sv_reservations db' = update_by sr_id rid (\<lambda>r. r\<lparr>sr_committed_amount := completed * sr_unit_price row,
      sr_released_amount := ?refund, sr_state := SvcSettled, sr_cost_policy_snapshot := authority,
      sr_settled_at := Some now\<rparr>) (sv_reservations db)"
    using settled(8) same by (auto simp: Let_def)
  then obtain row' where "row_at sr_id rid (sv_reservations db') = Some row'" and "sr_state row' = SvcSettled"
    using assms(2) by (simp add: row_at_update_by)
  then have "settle_service db' rid again reason' now' = Inr db'" by (simp add: settle_service_def)
  ultimately show ?thesis by blast
qed

lemma service_settlement_exact_witness:
  "service_balance small_svc_settled 1 = 34 \<and> settle_service small_svc_settled ''resv_x'' 0 ''again'' 12 = Inr small_svc_settled"
proof -
  obtain row where row: "row_at sr_id ''resv_x'' (sv_reservations small_svc) = Some row" "sr_state row = SvcReserved"
    "sr_user_id row = Some 1" "sr_requested_count row = 5" "sr_unit_price row = 2" by (simp add: small_svc_def)
  have "service_balance small_svc 1 = 30" by code_simp
  with service_settlement_exact [OF small_svc_inv row(1-3) small_svc_run] row(4,5) show ?thesis by simp
qed

text \<open>
  The provisional failure hold of a paid reservation keeps, rounded up to a whole minor
  unit, exactly the share of the paid jobs that were not delivered; full delivery frees it.
\<close>

theorem failure_hold_share:
  assumes "settled_authority (Some snap) completed = Inr (Some snap')"
    and "json_int ''paid_service_cost_count'' snap = Some paid" and "0 < paid"
    and "json_int ''failed_service_hold_minor'' snap = Some hold" and "0 \<le> hold" and "0 \<le> completed"
  shows "\<exists>hold'. json_int ''failed_service_hold_minor'' snap' = Some hold' \<and> 0 \<le> hold' \<and> hold' \<le> hold \<and>
    hold * max 0 (paid - completed) \<le> hold' * paid \<and> hold' * paid < hold * max 0 (paid - completed) + paid \<and>
    (paid \<le> completed \<longrightarrow> hold' = 0)"
proof -
  let ?rem = "max 0 (paid - completed)"
  let ?h = "ceil_div (hold * ?rem) paid"
  have "snap' = json_put ''failed_service_hold_minor'' (JInt ?h) snap"
    using assms(1-4) by (simp add: settled_authority_def)
  then have "json_int ''failed_service_hold_minor'' snap' = Some ?h" by (simp add: json_int_def json_get_put)
  moreover have "?h \<le> hold"
  proof -
    have "hold * ?rem \<le> hold * paid" using assms(5,6) assms(3) by (intro mult_left_mono) auto
    then have "?h \<le> ceil_div (hold * paid) paid" by (rule ceil_div_mono [OF assms(3)])
    then show ?thesis using assms(3) by simp
  qed
  moreover have "0 \<le> ?h" by (rule ceil_div_nonneg) (use assms(3,5) in auto)
  moreover have "paid \<le> completed \<longrightarrow> ?h = 0" by simp
  ultimately show ?thesis using ceil_div_bounds [OF assms(3), of "hold * ?rem"] by blast
qed

lemma failure_hold_share_witness:
  "\<exists>snap' hold'. settled_authority (Some (JObj [(''paid_service_cost_count'', JInt 4), (''failed_service_hold_minor'', JInt 90)])) 3
       = Inr (Some snap') \<and> json_int ''failed_service_hold_minor'' snap' = Some hold' \<and> 90 \<le> hold' * 4 \<and> hold' * 4 < 94"
proof -
  let ?snap = "JObj [(''paid_service_cost_count'', JInt 4), (''failed_service_hold_minor'', JInt 90)]"
  have ints: "json_int ''paid_service_cost_count'' ?snap = Some 4" "json_int ''failed_service_hold_minor'' ?snap = Some 90"
    by code_simp+
  have run: "settled_authority (Some ?snap) 3 =
      Inr (Some (JObj [(''paid_service_cost_count'', JInt 4), (''failed_service_hold_minor'', JInt 23)]))" by code_simp
  from failure_hold_share [OF run ints(1) _ ints(2)] run show ?thesis by auto
qed

end
