(* ===== verification/Host_Pacing.thy ===== *)
theory Host_Pacing
  imports Prelude
begin

text \<open>
  \<open>domains/employer/host_pacing.py\<close>: cooperative pacing of requests to a host. The gate is
  the Lua script that \<open>RedisCoordinator\<close> evaluates atomically, and the method of
  \<open>LocalCoordinator\<close> under its lock. Instants and durations are milliseconds (the local one
  keeps float seconds). What a client relies on is the locale \<open>exclusive_slot\<close>: a confirmed
  permit has the host to itself for a window that covers a request and its cooldown.
\<close>

section \<open>The contract\<close>

text \<open>The answers of a sequence of timed calls.\<close>

fun play :: "('s \<Rightarrow> int \<Rightarrow> 'c \<Rightarrow> 'r \<times> 's) \<Rightarrow> 's \<Rightarrow> (int \<times> 'c) list \<Rightarrow> (int \<times> 'c \<times> 'r) list" where
  "play step s [] = []"
| "play step s ((now, c) # calls) = (now, c, fst (step s now c)) # play step (snd (step s now c)) calls"

text \<open>
  \<open>blocked s h w v\<close>: since instant \<open>v\<close>, when holder \<open>w\<close> of host \<open>h\<close> was confirmed, nothing has
  happened that could let another holder in before \<open>v + window\<close>.
\<close>

locale exclusive_slot =
  fixes step :: "'s \<Rightarrow> int \<Rightarrow> 'c \<Rightarrow> 'r \<times> 's"
    and ready :: "'s \<Rightarrow> int \<Rightarrow> bool"
    and blocked :: "'s \<Rightarrow> 'h \<Rightarrow> 'w \<Rightarrow> int \<Rightarrow> bool"
    and grants :: "'c \<Rightarrow> 'r \<Rightarrow> 'h \<Rightarrow> bool"
    and releases :: "'c \<Rightarrow> 'h \<Rightarrow> 'w \<Rightarrow> bool"
    and confirms :: "'c \<Rightarrow> 'r \<Rightarrow> 'h \<Rightarrow> 'w \<Rightarrow> bool"
    and window :: int
  assumes ready_later: "ready s t \<Longrightarrow> t \<le> now \<Longrightarrow> ready s now"
    and ready_step: "ready s now \<Longrightarrow> step s now c = (r, s') \<Longrightarrow> ready s' now"
    and block_step: "blocked s h w v \<Longrightarrow> ready s now \<Longrightarrow> v \<le> now \<Longrightarrow> now < v + window \<Longrightarrow> \<not> releases c h w
      \<Longrightarrow> step s now c = (r, s') \<Longrightarrow> blocked s' h w v \<and> \<not> grants c r h"
    and confirm_step: "step s now c = (r, s') \<Longrightarrow> ready s now \<Longrightarrow> confirms c r h w \<Longrightarrow> blocked s' h w now"
begin

lemma blocked_run:
  assumes "blocked s h w v" and "ready s t" and "v \<le> t" and "sorted (t # map fst calls)"
    and "\<forall>(now, c) \<in> set calls. now < v + window \<and> \<not> releases c h w"
  shows "\<forall>(now, c, r) \<in> set (play step s calls). \<not> grants c r h"
  using assms
proof (induction calls arbitrary: s t)
  case (Cons call calls)
  obtain now c where call: "call = (now, c)" by (rule prod.exhaust)
  obtain r s' where step: "step s now c = (r, s')" by (rule prod.exhaust)
  have now: "t \<le> now" "now < v + window" "\<not> releases c h w" using Cons.prems(4,5) by (auto simp: call)
  have ready: "ready s now" using Cons.prems(2) now(1) by (rule ready_later)
  have "v \<le> now" using Cons.prems(3) now(1) by simp
  from block_step [OF Cons.prems(1) ready this now(2,3) step] have "blocked s' h w v" "\<not> grants c r h" by blast+
  moreover have "\<forall>(now, c, r) \<in> set (play step s' calls). \<not> grants c r h"
    by (rule Cons.IH [OF _ ready_step [OF ready step] \<open>v \<le> now\<close>])
       (use calculation Cons.prems(4,5) in \<open>auto simp: call\<close>)
  ultimately show ?case by (simp add: call step)
qed simp

text \<open>No one else is let in during the window of a confirmation.\<close>

lemma confirmed_exclusive:
  assumes "step s v c = (r, s')" and "ready s v" and "confirms c r h w"
    and "sorted (v # map fst calls)" and "\<forall>(now, c) \<in> set calls. now < v + window \<and> \<not> releases c h w"
  shows "\<forall>(now, c, r) \<in> set (play step s' calls). \<not> grants c r h"
  by (rule blocked_run [OF confirm_step [OF assms(1-3)] ready_step [OF assms(2,1)] order_refl assms(4,5)])

end

section \<open>Configuration and state\<close>

datatype pacing_error =
    InvalidHost | PacingUnavailable | PacingConfigurationInvalid | WaitTimeout | OwnershipLost | ClockRollback

definition HOSTS :: "string list" where
  "HOSTS = [''api.lever.co'', ''api.eu.lever.co'']"

definition REQUEST_MS :: int where "REQUEST_MS = 20000"
definition CLOSE_MS :: int where "CLOSE_MS = 2000"
definition LEASE_MS :: int where "LEASE_MS = 30000"
definition COOLDOWN_MS :: int where "COOLDOWN_MS = 1000"
definition WAIT_MS :: int where "WAIT_MS = 30000"

definition MINIMUM_MS :: int where
  "MINIMUM_MS = REQUEST_MS + CLOSE_MS + COOLDOWN_MS"

lemmas pacing_defs = REQUEST_MS_def CLOSE_MS_def LEASE_MS_def COOLDOWN_MS_def WAIT_MS_def MINIMUM_MS_def

datatype gate_action = Acquire | Verify | Release

record permit =
  pm_host :: string
  pm_token :: string

section \<open>The Redis gate\<close>

text \<open>
  The reply of the server's INFO and TIME: its incarnation (none when the pattern does not
  match) and whether eviction is off. The hash of a host has no expiry.
\<close>

record redis_server =
  rs_incarnation :: "string option"
  rs_noeviction :: bool

record pacing_hash =
  ph_incarnation :: string
  ph_owner :: string
  ph_lease_until :: int
  ph_next :: int

type_synonym redis_state = "string \<Rightarrow> pacing_hash option"

definition redis_script ::
  "redis_server \<Rightarrow> int \<Rightarrow> gate_action \<Rightarrow> string \<Rightarrow> pacing_hash option \<Rightarrow> (int \<times> int) \<times> pacing_hash option" where
  "redis_script server now action token hash =
     (case rs_incarnation server of
        None \<Rightarrow> ((-3, 0), hash)
      | Some incarnation \<Rightarrow>
          if \<not> rs_noeviction server then ((-3, 0), hash)
          else case hash of
            None \<Rightarrow> ((0, MINIMUM_MS), Some \<lparr>ph_incarnation = incarnation, ph_owner = [], ph_lease_until = 0,
                       ph_next = now + MINIMUM_MS\<rparr>)
          | Some cell \<Rightarrow>
              if ph_incarnation cell \<noteq> incarnation
              then ((0, MINIMUM_MS), Some \<lparr>ph_incarnation = incarnation, ph_owner = [], ph_lease_until = 0,
                       ph_next = now + MINIMUM_MS\<rparr>)
              else if ph_owner cell \<noteq> [] \<and> ph_lease_until cell \<le> now
              then ((0, MINIMUM_MS), Some (cell\<lparr>ph_owner := [], ph_lease_until := 0, ph_next := now + MINIMUM_MS\<rparr>))
              else case action of
                Verify \<Rightarrow> (if ph_owner cell = token \<and> ph_lease_until cell - now \<ge> MINIMUM_MS
                           then (1, ph_lease_until cell - now) else (-1, 0), hash)
              | Release \<Rightarrow> (if ph_owner cell \<noteq> token then ((-1, 0), hash)
                   else ((1, COOLDOWN_MS), Some (cell\<lparr>ph_owner := [], ph_lease_until := 0, ph_next := now + COOLDOWN_MS\<rparr>)))
              | Acquire \<Rightarrow> (if ph_owner cell \<noteq> [] then ((0, ph_lease_until cell - now), hash)
                   else if ph_next cell > now then ((0, ph_next cell - now), hash)
                   else ((1, LEASE_MS), Some (cell\<lparr>ph_owner := token, ph_lease_until := now + LEASE_MS\<rparr>))))"

text \<open>
  \<open>RedisCoordinator._gate\<close>; the server is \<open>None\<close> when the call failed before the script ran.
\<close>

definition redis_gate ::
  "redis_server option \<Rightarrow> int \<Rightarrow> gate_action \<Rightarrow> permit \<Rightarrow> redis_state \<Rightarrow> (pacing_error + int \<times> int) \<times> redis_state" where
  "redis_gate server now action p st =
     (if pm_host p \<notin> set HOSTS then (Inl InvalidHost, st)
      else case server of
        None \<Rightarrow> (Inl PacingUnavailable, st)
      | Some srv \<Rightarrow>
          let ((status, delay), cell) = redis_script srv now action (pm_token p) (st (pm_host p))
          in (if status = -3 then Inl PacingConfigurationInvalid else Inr (status, delay), st(pm_host p := cell)))"

text \<open>
  \<open>RedisCoordinator.acquire\<close> against the readings of one run: for each turn of the loop the
  monotonic clock before and after the call, and the server's clock inside it. \<open>None\<close>: the
  readings end while the loop still waits.
\<close>

fun redis_acquire ::
  "redis_server option \<Rightarrow> permit \<Rightarrow> int \<Rightarrow> (int \<times> int \<times> int) list \<Rightarrow> redis_state
     \<Rightarrow> ((pacing_error + permit) \<times> redis_state) option" where
  "redis_acquire server p deadline [] st = None"
| "redis_acquire server p deadline ((before, at, after) # turns) st =
     (if \<not> before < deadline then Some (Inl WaitTimeout, st)
      else case redis_gate server at Acquire p st of
        (Inl e, st1) \<Rightarrow> Some (Inl e, st1)
      | (Inr (status, delay), st1) \<Rightarrow>
          if after \<ge> deadline then Some (Inl WaitTimeout, st1)
          else if status = 1 then Some (Inr p, st1)
          else redis_acquire server p deadline turns st1)"

definition redis_check :: "gate_action \<Rightarrow> redis_server option \<Rightarrow> int \<Rightarrow> permit \<Rightarrow> redis_state
     \<Rightarrow> (pacing_error + unit) \<times> redis_state" where
  "redis_check action server now p st =
     (case redis_gate server now action p st of
        (Inl e, st1) \<Rightarrow> (Inl e, st1)
      | (Inr (status, _), st1) \<Rightarrow> (if status \<noteq> 1 then Inl OwnershipLost else Inr (), st1))"

section \<open>The local gate\<close>

type_synonym local_state = "string \<Rightarrow> (string \<times> int \<times> int) option"

definition local_gate ::
  "int \<Rightarrow> gate_action \<Rightarrow> permit \<Rightarrow> local_state \<Rightarrow> (pacing_error + int \<times> int) \<times> local_state" where
  "local_gate now action p st =
     (if pm_host p \<notin> set HOSTS then (Inl InvalidHost, st)
      else let (owner, expires, next_at) = (case st (pm_host p) of None \<Rightarrow> ([], 0, 0) | Some cell \<Rightarrow> cell) in
        if owner \<noteq> [] \<and> expires \<le> now
        then (Inr (0, MINIMUM_MS), st(pm_host p \<mapsto> ([], 0, now + MINIMUM_MS)))
        else case action of
          Verify \<Rightarrow> (Inr (if owner = pm_token p \<and> expires - now \<ge> MINIMUM_MS then (1, expires - now) else (-1, 0)), st)
        | Release \<Rightarrow> (if owner \<noteq> pm_token p then (Inr (-1, 0), st)
             else (Inr (1, COOLDOWN_MS), st(pm_host p \<mapsto> ([], 0, now + COOLDOWN_MS))))
        | Acquire \<Rightarrow> (if owner \<noteq> [] then (Inr (0, expires - now), st)
             else if next_at > now then (Inr (0, next_at - now), st)
             else (Inr (1, LEASE_MS), st(pm_host p \<mapsto> (pm_token p, now + LEASE_MS, 0)))))"

definition local_check :: "gate_action \<Rightarrow> int \<Rightarrow> permit \<Rightarrow> local_state \<Rightarrow> (pacing_error + unit) \<times> local_state" where
  "local_check action now p st =
     (case local_gate now action p st of
        (Inl e, st1) \<Rightarrow> (Inl e, st1)
      | (Inr (status, _), st1) \<Rightarrow> (if status \<noteq> 1 then Inl OwnershipLost else Inr (), st1))"

text \<open>\<open>LocalCoordinator.acquire\<close>: the loop looks at the clock before each call only.\<close>

fun local_acquire ::
  "permit \<Rightarrow> int \<Rightarrow> (int \<times> int) list \<Rightarrow> local_state \<Rightarrow> ((pacing_error + permit) \<times> local_state) option" where
  "local_acquire p deadline [] st = None"
| "local_acquire p deadline ((before, at) # turns) st =
     (if \<not> before < deadline then Some (Inl WaitTimeout, st)
      else case local_gate at Acquire p st of
        (Inl e, st1) \<Rightarrow> Some (Inl e, st1)
      | (Inr (status, delay), st1) \<Rightarrow>
          if status = 1 then Some (Inr p, st1) else local_acquire p deadline turns st1)"

section \<open>Both gates provide the contract\<close>

type_synonym gate_reply = "pacing_error + int \<times> int"

definition redis_step :: "redis_state \<Rightarrow> int \<Rightarrow> redis_server option \<times> gate_action \<times> permit \<Rightarrow> gate_reply \<times> redis_state" where
  "redis_step st now c = (case c of (server, action, p) \<Rightarrow> redis_gate server now action p st)"

definition local_step :: "local_state \<Rightarrow> int \<Rightarrow> gate_action \<times> permit \<Rightarrow> gate_reply \<times> local_state" where
  "local_step st now c = (case c of (action, p) \<Rightarrow> local_gate now action p st)"

fun answers_yes :: "gate_reply \<Rightarrow> bool" where
  "answers_yes (Inr (status, delay)) \<longleftrightarrow> status = 1"
| "answers_yes (Inl e) \<longleftrightarrow> False"

definition call_grants :: "gate_action \<times> permit \<Rightarrow> gate_reply \<Rightarrow> string \<Rightarrow> bool" where
  "call_grants c r h \<longleftrightarrow> fst c = Acquire \<and> pm_host (snd c) = h \<and> answers_yes r"

text \<open>A release by the holder; an empty token, which no permit has, would match an idle slot.\<close>

definition call_releases :: "gate_action \<times> permit \<Rightarrow> string \<Rightarrow> string \<Rightarrow> bool" where
  "call_releases c h w \<longleftrightarrow> fst c = Release \<and> pm_host (snd c) = h \<and> pm_token (snd c) \<in> {w, []}"

definition call_confirms :: "gate_action \<times> permit \<Rightarrow> gate_reply \<Rightarrow> string \<Rightarrow> string \<Rightarrow> bool" where
  "call_confirms c r h w \<longleftrightarrow> fst c = Verify \<and> pm_host (snd c) = h \<and> pm_token (snd c) = w \<and> w \<noteq> [] \<and> answers_yes r"

definition cell_blocked :: "pacing_hash \<Rightarrow> string \<Rightarrow> int \<Rightarrow> bool" where
  "cell_blocked cell w v \<longleftrightarrow> w \<noteq> [] \<and>
     ((ph_owner cell = w \<and> v + MINIMUM_MS \<le> ph_lease_until cell) \<or> (ph_owner cell = [] \<and> v + MINIMUM_MS \<le> ph_next cell))"

definition redis_blocked :: "redis_state \<Rightarrow> string \<Rightarrow> string \<Rightarrow> int \<Rightarrow> bool" where
  "redis_blocked st h w v \<longleftrightarrow> (\<exists>cell. st h = Some cell \<and> cell_blocked cell w v)"

definition local_blocked :: "local_state \<Rightarrow> string \<Rightarrow> string \<Rightarrow> int \<Rightarrow> bool" where
  "local_blocked st h w v \<longleftrightarrow> w \<noteq> [] \<and>
     (case st h of None \<Rightarrow> False
      | Some (owner, expires, next_at) \<Rightarrow> (owner = w \<and> v + MINIMUM_MS \<le> expires) \<or>
                     (owner = [] \<and> v + MINIMUM_MS \<le> next_at))"

lemma redis_script_block:
  assumes "redis_script server now action token (Some cell) = ((status, delay), hash')"
    and "cell_blocked cell w v" and "v \<le> now" and "now < v + MINIMUM_MS"
    and "\<not> (action = Release \<and> token \<in> {w, []})"
  shows "(\<exists>cell'. hash' = Some cell' \<and> cell_blocked cell' w v) \<and> \<not> (action = Acquire \<and> status = 1)"
  using assms
  by (cases action) (auto simp: redis_script_def cell_blocked_def split: option.splits if_splits)

lemma redis_block_step:
  assumes "redis_blocked st h w v" and "v \<le> now" and "now < v + MINIMUM_MS"
    and "\<not> call_releases (snd c) h w" and "redis_step st now c = (r, st')"
  shows "redis_blocked st' h w v \<and> \<not> call_grants (snd c) r h"
proof -
  obtain server action p where c: "c = (server, action, p)" by (rule prod_cases3)
  from assms(1) obtain cell where cell: "st h = Some cell" "cell_blocked cell w v" by (auto simp: redis_blocked_def)
  show ?thesis
  proof (cases "pm_host p = h \<and> h \<in> set HOSTS \<and> server \<noteq> None")
    case False
    with assms(5) cell have "st' h = Some cell" and "pm_host p = h \<longrightarrow> (\<exists>e. r = Inl e)"
      by (auto simp: c redis_step_def redis_gate_def Let_def split: option.splits prod.splits if_splits)
    with cell show ?thesis by (auto simp: redis_blocked_def call_grants_def c)
  next
    case True
    then obtain srv where server: "server = Some srv" by blast
    obtain status delay hash' where script: "redis_script srv now action (pm_token p) (Some cell) = ((status, delay), hash')"
      by (metis surj_pair)
    have r: "r = (if status = -3 then Inl PacingConfigurationInvalid else Inr (status, delay))" "st' = st(h := hash')"
      using assms(5) True cell script by (auto simp: c server redis_step_def redis_gate_def)
    have "\<not> (action = Release \<and> pm_token p \<in> {w, []})" using assms(4) True by (simp add: c call_releases_def)
    from redis_script_block [OF script cell(2) assms(2,3) this] show ?thesis
      by (auto simp: r redis_blocked_def call_grants_def c)
  qed
qed

lemma redis_script_verify:
  assumes "redis_script server now Verify token hash = ((status, delay), hash')" and "status = 1" and "token \<noteq> []"
  shows "\<exists>cell. hash' = Some cell \<and> cell_blocked cell token now"
  using assms by (auto simp: redis_script_def cell_blocked_def split: option.splits if_splits)

lemma redis_confirm_step:
  assumes "redis_step st now c = (r, st')" and "call_confirms (snd c) r h w"
  shows "redis_blocked st' h w now"
proof -
  obtain server action p where c: "c = (server, action, p)" by (rule prod_cases3)
  have p: "action = Verify" "pm_host p = h" "pm_token p = w" "w \<noteq> []" "answers_yes r"
    using assms(2) by (simp_all add: c call_confirms_def)
  obtain srv where server: "server = Some srv" and host: "h \<in> set HOSTS"
    using assms(1) p by (auto simp: c redis_step_def redis_gate_def split: option.splits if_splits)
  obtain status delay hash' where script: "redis_script srv now Verify w (st h) = ((status, delay), hash')"
    by (metis surj_pair)
  have "r = (if status = -3 then Inl PacingConfigurationInvalid else Inr (status, delay))" "st' = st(h := hash')"
    using assms(1) p host script by (auto simp: c server redis_step_def redis_gate_def)
  with redis_script_verify [OF script] p show ?thesis by (auto simp: redis_blocked_def split: if_splits)
qed

lemma local_block_step:
  assumes "local_blocked st h w v" and "v \<le> now" and "now < v + MINIMUM_MS"
    and "\<not> call_releases c h w" and "local_step st now c = (r, st')"
  shows "local_blocked st' h w v \<and> \<not> call_grants c r h"
proof (cases c)
  case (Pair action p)
  then show ?thesis using assms
    by (cases action) (auto simp: local_step_def local_gate_def local_blocked_def call_grants_def
        call_releases_def Let_def split: option.splits prod.splits if_splits)
qed

lemma local_confirm_step:
  assumes "local_step st now c = (r, st')" and "call_confirms c r h w"
  shows "local_blocked st' h w now"
  using assms
  by (cases c) (auto simp: local_step_def local_gate_def local_blocked_def
      call_confirms_def Let_def split: option.splits prod.splits if_splits)

interpretation redis: exclusive_slot redis_step "\<lambda>_ _. True" redis_blocked
    "\<lambda>c. call_grants (snd c)" "\<lambda>c. call_releases (snd c)" "\<lambda>c. call_confirms (snd c)" MINIMUM_MS
  by unfold_locales (use redis_block_step redis_confirm_step in blast)+

interpretation local: exclusive_slot local_step "\<lambda>_ _. True" local_blocked
    call_grants call_releases call_confirms MINIMUM_MS
  by unfold_locales (use local_block_step local_confirm_step in blast)+

text \<open>
  The same contract gives the pause between requests: a successful release blocks the host
  for the cooldown.
\<close>

definition redis_cooling :: "redis_state \<Rightarrow> string \<Rightarrow> unit \<Rightarrow> int \<Rightarrow> bool" where
  "redis_cooling st h w v \<longleftrightarrow> (\<exists>cell. st h = Some cell \<and> ph_owner cell = [] \<and> v + COOLDOWN_MS \<le> ph_next cell)"

definition released_slot :: "gate_action \<times> permit \<Rightarrow> gate_reply \<Rightarrow> string \<Rightarrow> bool" where
  "released_slot c r h \<longleftrightarrow> fst c = Release \<and> pm_host (snd c) = h \<and> answers_yes r"

lemma redis_script_cooling:
  assumes "redis_script server now action token (Some cell) = ((status, delay), hash')"
    and "ph_owner cell = []" and "v + COOLDOWN_MS \<le> ph_next cell" and "v \<le> now" and "now < v + COOLDOWN_MS"
    and "\<not> (action = Release \<and> token = [])"
  shows "(\<exists>cell'. hash' = Some cell' \<and> ph_owner cell' = [] \<and> v + COOLDOWN_MS \<le> ph_next cell') \<and>
    \<not> (action = Acquire \<and> status = 1)"
  using assms
  by (cases action) (auto simp: redis_script_def pacing_defs split: option.splits if_splits)

lemma redis_cooling_step:
  assumes "redis_cooling st h w v" and "v \<le> now" and "now < v + COOLDOWN_MS"
    and "\<not> call_releases (snd c) h []" and "redis_step st now c = (r, st')"
  shows "redis_cooling st' h w v \<and> \<not> call_grants (snd c) r h"
proof -
  obtain server action p where c: "c = (server, action, p)" by (rule prod_cases3)
  from assms(1) obtain cell where cell: "st h = Some cell" "ph_owner cell = []" "v + COOLDOWN_MS \<le> ph_next cell"
    by (auto simp: redis_cooling_def)
  show ?thesis
  proof (cases "pm_host p = h \<and> h \<in> set HOSTS \<and> server \<noteq> None")
    case False
    with assms(5) cell have "st' h = Some cell" and "pm_host p = h \<longrightarrow> (\<exists>e. r = Inl e)"
      by (auto simp: c redis_step_def redis_gate_def Let_def split: option.splits prod.splits if_splits)
    with cell show ?thesis by (auto simp: redis_cooling_def call_grants_def c)
  next
    case True
    then obtain srv where server: "server = Some srv" by blast
    obtain status delay hash' where script: "redis_script srv now action (pm_token p) (Some cell) = ((status, delay), hash')"
      by (metis surj_pair)
    have r: "r = (if status = -3 then Inl PacingConfigurationInvalid else Inr (status, delay))" "st' = st(h := hash')"
      using assms(5) True cell(1) script by (auto simp: c server redis_step_def redis_gate_def)
    have "\<not> (action = Release \<and> pm_token p = [])" using assms(4) True by (simp add: c call_releases_def)
    from redis_script_cooling [OF script cell(2,3) assms(2,3) this] show ?thesis
      by (auto simp: r redis_cooling_def call_grants_def c)
  qed
qed

lemma redis_release_step:
  assumes "redis_step st now c = (r, st')" and "released_slot (snd c) r h"
  shows "redis_cooling st' h w now"
  using assms
  by (cases c) (auto simp: redis_step_def redis_gate_def redis_script_def redis_cooling_def released_slot_def Let_def
      split: option.splits prod.splits if_splits)

interpretation redis_cooldown: exclusive_slot redis_step "\<lambda>_ _. True" redis_cooling
    "\<lambda>c. call_grants (snd c)" "\<lambda>c h w. call_releases (snd c) h []" "\<lambda>c r h w. released_slot (snd c) r h" COOLDOWN_MS
  by unfold_locales (use redis_cooling_step redis_release_step in blast)+

end
