(* ===== verification/Postgres_Pacing.thy ===== *)
theory Postgres_Pacing
  imports Host_Pacing
begin

text \<open>
  \<open>domains/employer/postgres_host_pacing.py\<close>: the default pacing authority, one durable row
  per host. A step is one transaction; what it reads of the server (clock, start time,
  replica flag) and the identifiers it draws come with the call. The coordinators are
  modelled at their default parameters, the only ones the program constructs them with.
\<close>

section \<open>State\<close>

definition RECOVERY_MS :: int where "RECOVERY_MS = 32000"
definition PG_WAIT_MS :: int where "PG_WAIT_MS = 65000"
definition PENDING_MARGIN_MS :: int where "PENDING_MARGIN_MS = 5000"

datatype pg_phase = PhaseIdle | PhaseWaiting | PhaseHeld

record pacing_row =
  pr_authority :: string
  pr_server_started_at :: int
  pr_owner_token :: "string option"
  pr_phase :: pg_phase
  pr_pending_until :: "int option"
  pr_lease_until :: "int option"
  pr_recovery_required :: bool
  pr_last_observed :: int

type_synonym pg_state = "string \<Rightarrow> pacing_row option"

record pg_permit = permit +
  pp_authority :: string
  pp_server_started_at :: int
  pp_latest_dispatch :: int

text \<open>One reading of \<open>_clock\<close>; a replica is refused.\<close>

record db_clock =
  dc_now :: int
  dc_started :: int
  dc_replica :: bool

text \<open>What one transaction sees: the clock before and after the row lock, and two new ids.\<close>

record pg_env =
  pe_first :: db_clock
  pe_clock :: db_clock
  pe_insert_id :: string
  pe_invalidate_id :: string

datatype pg_status = PgLost | PgReset | PgClock | PgBusy | PgWaiting | PgGranted | PgVerified | PgReleased

datatype pg_action = PgClaim | PgGrant | PgVerify | PgRelease

type_synonym pg_reply = "pg_status \<times> int \<times> string \<times> int option"

section \<open>One transaction\<close>

definition is_token :: "string \<Rightarrow> bool" where
  "is_token s \<longleftrightarrow> length s = 32 \<and> list_all is_lower_hex s"

definition pg_invalidate :: "pg_env \<Rightarrow> int \<Rightarrow> pacing_row \<Rightarrow> pacing_row" where
  "pg_invalidate env highwater row =
     row\<lparr>pr_authority := pe_invalidate_id env, pr_server_started_at := dc_started (pe_clock env),
         pr_owner_token := None, pr_phase := PhaseIdle, pr_pending_until := None, pr_lease_until := None,
         pr_recovery_required := True, pr_last_observed := highwater\<rparr>"

definition pg_insert :: "pg_env \<Rightarrow> pacing_row option \<Rightarrow> pacing_row option" where
  "pg_insert env slot =
     (case slot of Some row \<Rightarrow> Some row
      | None \<Rightarrow> Some \<lparr>pr_authority = pe_insert_id env, pr_server_started_at = dc_started (pe_first env),
          pr_owner_token = None, pr_phase = PhaseIdle, pr_pending_until = None, pr_lease_until = None,
          pr_recovery_required = True, pr_last_observed = dc_now (pe_first env)\<rparr>)"

definition row_expiry :: "pacing_row \<Rightarrow> int option" where
  "row_expiry row = (if pr_phase row = PhaseWaiting then pr_pending_until row else pr_lease_until row)"

text \<open>The part of \<open>_step\<close> that answers a live row, after the observation has been stored.\<close>

definition pg_answer :: "int \<Rightarrow> int \<Rightarrow> pg_action \<Rightarrow> string \<Rightarrow> pg_permit option \<Rightarrow> pacing_row \<Rightarrow> pg_reply \<times> pacing_row" where
  "pg_answer now started action token permit row =
     (if action = PgClaim then
        (if pr_phase row \<noteq> PhaseIdle then ((PgBusy, 100, [], None), row)
         else let delay = (if pr_recovery_required row then RECOVERY_MS else COOLDOWN_MS) in
           ((PgWaiting, delay, pr_authority row, Some started),
            row\<lparr>pr_phase := PhaseWaiting, pr_owner_token := Some token, pr_lease_until := None,
                pr_pending_until := Some (now + delay + PENDING_MARGIN_MS)\<rparr>))
      else case permit of
        None \<Rightarrow> ((PgLost, 0, [], None), row)
      | Some p \<Rightarrow>
          if pr_authority row \<noteq> pp_authority p \<or> started \<noteq> pp_server_started_at p \<or> pr_owner_token row \<noteq> Some token
          then ((PgLost, 0, [], None), row)
          else if action = PgGrant \<and> pr_phase row = PhaseWaiting
          then ((PgGranted, 0, pr_authority row, Some started),
                row\<lparr>pr_phase := PhaseHeld, pr_pending_until := None, pr_lease_until := Some (now + LEASE_MS),
                    pr_recovery_required := False\<rparr>)
          else if pr_phase row \<noteq> PhaseHeld then ((PgLost, 0, [], None), row)
          else if action = PgVerify
          then (if (case pr_lease_until row of None \<Rightarrow> True | Some e \<Rightarrow> e - now < MINIMUM_MS)
                then ((PgLost, 0, [], None), row) else ((PgVerified, 0, pr_authority row, Some started), row))
          else if action = PgRelease
          then ((PgReleased, 0, pr_authority row, Some started),
                row\<lparr>pr_phase := PhaseIdle, pr_owner_token := None, pr_lease_until := None, pr_pending_until := None\<rparr>)
          else ((PgLost, 0, [], None), row))"

text \<open>
  \<open>_step\<close>. An error rolls the transaction back; every answer commits, also a refusal that
  invalidated the row. \<open>env = None\<close> is a failed statement or connection.
\<close>

definition pg_step ::
  "pg_env option \<Rightarrow> string \<Rightarrow> pg_action \<Rightarrow> string \<Rightarrow> pg_permit option \<Rightarrow> pg_state
     \<Rightarrow> (pacing_error + pg_reply) \<times> pg_state" where
  "pg_step env0 host action token permit st =
     (case env0 of None \<Rightarrow> (Inl PacingUnavailable, st)
      | Some env \<Rightarrow>
        if action = PgClaim \<and> dc_replica (pe_first env) then (Inl PacingUnavailable, st)
        else case (if action = PgClaim then pg_insert env (st host) else st host) of
          None \<Rightarrow> (Inr (PgLost, 0, [], None), st)
        | Some row \<Rightarrow>
            let now = dc_now (pe_clock env); started = dc_started (pe_clock env) in
            if dc_replica (pe_clock env) then (Inl PacingUnavailable, st)
            else if \<not> is_token (pr_authority row) then (Inl PacingConfigurationInvalid, st)
            else if pr_server_started_at row \<noteq> started
            then (Inr (PgReset, 0, [], None), st(host \<mapsto> pg_invalidate env now row))
            else if now < pr_last_observed row
            then (Inr (PgClock, 0, [], None), st(host \<mapsto> pg_invalidate env (pr_last_observed row) row))
            else if pr_phase row \<noteq> PhaseIdle \<and> (case row_expiry row of None \<Rightarrow> True | Some e \<Rightarrow> e \<le> now)
            then (Inr (PgReset, 0, [], None), st(host \<mapsto> pg_invalidate env now row))
            else let (reply, row') = pg_answer now started action token permit (row\<lparr>pr_last_observed := now\<rparr>)
                 in (Inr reply, st(host \<mapsto> row')))"

section \<open>The coordinator\<close>



definition pg_verify :: "int \<Rightarrow> pg_env option \<Rightarrow> int \<Rightarrow> pg_permit \<Rightarrow> pg_state \<Rightarrow> (pacing_error + unit) \<times> pg_state" where
  "pg_verify before env after p st =
     (if pm_host p \<notin> set HOSTS then (Inl InvalidHost, st)
      else if before \<ge> pp_latest_dispatch p then (Inl OwnershipLost, st)
      else case pg_step env (pm_host p) PgVerify (pm_token p) (Some p) st of
        (Inl e, st1) \<Rightarrow> (Inl e, st1)
      | (Inr (status, _), st1) \<Rightarrow>
          (if status \<noteq> PgVerified \<or> after \<ge> pp_latest_dispatch p then Inl OwnershipLost else Inr (), st1))"

definition pg_release :: "pg_env option \<Rightarrow> pg_permit \<Rightarrow> pg_state \<Rightarrow> (pacing_error + unit) \<times> pg_state" where
  "pg_release env p st =
     (if pm_host p \<notin> set HOSTS then (Inl InvalidHost, st)
      else case pg_step env (pm_host p) PgRelease (pm_token p) (Some p) st of
        (Inl e, st1) \<Rightarrow> (Inl e, st1)
      | (Inr (status, _), st1) \<Rightarrow> (if status \<noteq> PgReleased then Inl OwnershipLost else Inr (), st1))"

section \<open>The contract, while the server stays up\<close>

text \<open>
  A call at database time \<open>now\<close> of a server that started at \<open>started\<close>: the transaction's
  other observations, the host, the action, the token and the permit.
\<close>

type_synonym pg_call = "pg_env option \<times> string \<times> pg_action \<times> string \<times> pg_permit option"

definition seen_at :: "int \<Rightarrow> int \<Rightarrow> pg_env \<Rightarrow> pg_env" where
  "seen_at started now env =
     env\<lparr>pe_clock := (pe_clock env)\<lparr>dc_now := now, dc_started := started\<rparr>,
         pe_first := (pe_first env)\<lparr>dc_now := min now (dc_now (pe_first env)), dc_started := started\<rparr>\<rparr>"

definition pg_slot_step :: "int \<Rightarrow> pg_state \<Rightarrow> int \<Rightarrow> pg_call \<Rightarrow> (pacing_error + pg_reply) \<times> pg_state" where
  "pg_slot_step started st now c =
     (case c of (env, host, action, token, permit) \<Rightarrow>
        pg_step (map_option (seen_at started now) env) host action token permit st)"

definition pg_ready :: "pg_state \<Rightarrow> int \<Rightarrow> bool" where
  "pg_ready st now \<longleftrightarrow> (\<forall>h row. st h = Some row \<longrightarrow> pr_last_observed row \<le> now)"

definition pg_blocked :: "int \<Rightarrow> pg_state \<Rightarrow> string \<Rightarrow> string \<Rightarrow> int \<Rightarrow> bool" where
  "pg_blocked started st h w v \<longleftrightarrow>
     (\<exists>row e. st h = Some row \<and> pr_phase row = PhaseHeld \<and> pr_owner_token row = Some w \<and>
        pr_lease_until row = Some e \<and> v + MINIMUM_MS \<le> e \<and> pr_server_started_at row = started)"

fun pg_status_of :: "pacing_error + pg_reply \<Rightarrow> pg_status option" where
  "pg_status_of (Inr (status, _)) = Some status"
| "pg_status_of (Inl e) = None"

definition pg_grants :: "pg_call \<Rightarrow> pacing_error + pg_reply \<Rightarrow> string \<Rightarrow> bool" where
  "pg_grants c r h \<longleftrightarrow> (case c of (_, host, _) \<Rightarrow> host = h) \<and> pg_status_of r = Some PgGranted"

definition pg_releases :: "pg_call \<Rightarrow> string \<Rightarrow> string \<Rightarrow> bool" where
  "pg_releases c h w \<longleftrightarrow> (case c of (_, host, action, token, _) \<Rightarrow> host = h \<and> action = PgRelease \<and> token = w)"

definition pg_confirms :: "pg_call \<Rightarrow> pacing_error + pg_reply \<Rightarrow> string \<Rightarrow> string \<Rightarrow> bool" where
  "pg_confirms c r h w \<longleftrightarrow>
     (case c of (_, host, action, token, _) \<Rightarrow> host = h \<and> token = w) \<and> pg_status_of r = Some PgVerified"

lemma pg_ready_later: "pg_ready st t \<Longrightarrow> t \<le> now \<Longrightarrow> pg_ready st now"
  by (fastforce simp: pg_ready_def)

lemma pg_answer_observed: "pr_last_observed (snd (pg_answer now started action token permit row)) = pr_last_observed row"
  by (simp add: pg_answer_def Let_def split: option.split)

lemma pg_answer_split: "pg_answer now started action token permit row = (reply, row') \<Longrightarrow> pr_last_observed row' = pr_last_observed row"
  using pg_answer_observed [of now started action token permit row] by simp

lemma pg_step_observed:
  assumes "pg_step (map_option (seen_at started now) env) host action token permit st = (r, st')"
    and "pg_ready st now"
  shows "st' = st \<or> (\<exists>row. st' = st(host \<mapsto> row) \<and> pr_last_observed row \<le> now)"
proof (cases env)
  case None
  with assms(1) show ?thesis by (simp add: pg_step_def)
next
  case (Some e)
  let ?e = "seen_at started now e"
  have now: "dc_now (pe_clock ?e) = now" by (simp add: seen_at_def)
  show ?thesis
  proof (cases "if action = PgClaim then pg_insert ?e (st host) else st host")
    case None
    with assms(1) Some show ?thesis by (simp add: pg_step_def split: if_splits)
  next
    case slot: (Some row)
    have old: "pr_last_observed row \<le> now"
      using slot assms(2) by (auto simp: pg_insert_def pg_ready_def seen_at_def split: if_splits option.splits)
    obtain reply row' where answer: "pg_answer now (dc_started (pe_clock ?e)) action token permit (row\<lparr>pr_last_observed := now\<rparr>) = (reply, row')"
      by (rule prod.exhaust)
    have "pr_last_observed row' = now" using pg_answer_split [OF answer] by simp
    then show ?thesis
      using assms(1) Some slot answer old
      by (auto simp: pg_step_def Let_def now pg_invalidate_def split: if_splits option.splits)
  qed
qed

lemma pg_ready_step:
  assumes "pg_ready st now" and "pg_slot_step started st now c = (r, st')"
  shows "pg_ready st' now"
proof -
  obtain env host action token permit where c: "c = (env, host, action, token, permit)" by (metis prod_cases5)
  from pg_step_observed [OF _ assms(1)] assms(2) have "st' = st \<or> (\<exists>row. st' = st(host \<mapsto> row) \<and> pr_last_observed row \<le> now)"
    by (simp add: c pg_slot_step_def)
  with assms(1) show ?thesis by (auto simp: pg_ready_def split: if_splits)
qed

lemma pg_answer_held:
  assumes "pg_answer now started action token permit row = (reply, row')"
    and "pr_phase row = PhaseHeld" and "pr_owner_token row = Some w" and "\<not> (action = PgRelease \<and> token = w)"
  shows "row' = row \<and> fst reply \<noteq> PgGranted"
  using assms by (auto simp: pg_answer_def Let_def split: option.splits if_splits)

lemma pg_answer_verified:
  assumes "pg_answer now started action token permit row = (reply, row')" and "fst reply = PgVerified"
  shows "row' = row \<and> pr_phase row = PhaseHeld \<and> pr_owner_token row = Some token \<and>
    (\<exists>e. pr_lease_until row = Some e \<and> now + MINIMUM_MS \<le> e)"
  using assms by (auto simp: pg_answer_def Let_def split: option.splits if_splits)

lemma pg_other_host:
  "pg_step env host action token permit st = (r, st') \<Longrightarrow> h \<noteq> host \<Longrightarrow> st' h = st h"
  by (auto simp: pg_step_def Let_def split: option.splits if_splits prod.splits)

lemma pg_block_step:
  assumes "pg_blocked started st h w v" and "pg_ready st now" and "now < v + MINIMUM_MS"
    and "\<not> pg_releases c h w" and "pg_slot_step started st now c = (r, st')"
  shows "pg_blocked started st' h w v \<and> \<not> pg_grants c r h"
proof -
  obtain env host action token permit where c: "c = (env, host, action, token, permit)" by (metis prod_cases5)
  have step: "pg_step (map_option (seen_at started now) env) host action token permit st = (r, st')"
    using assms(5) by (simp add: c pg_slot_step_def)
  from assms(1) obtain row e where row: "st h = Some row" "pr_phase row = PhaseHeld" "pr_owner_token row = Some w"
      "pr_lease_until row = Some e" "v + MINIMUM_MS \<le> e" "pr_server_started_at row = started"
    unfolding pg_blocked_def by blast
  show ?thesis
  proof (cases "host = h \<and> env \<noteq> None")
    case False
    then have "st' h = st h" and "host = h \<longrightarrow> pg_status_of r = None"
      using pg_other_host [OF step] step by (auto simp: pg_step_def)
    with assms(1) show ?thesis by (auto simp: pg_blocked_def pg_grants_def c)
  next
    case True
    then obtain e0 where env: "env = Some e0" by blast
    have seen: "pr_last_observed row \<le> now" using assms(2) row(1) by (simp add: pg_ready_def)
    obtain reply row' where answer: "pg_answer now started action token permit (row\<lparr>pr_last_observed := now\<rparr>) = (reply, row')"
      by (rule prod.exhaust)
    have "row' = row\<lparr>pr_last_observed := now\<rparr> \<and> fst reply \<noteq> PgGranted"
      by (rule pg_answer_held [OF answer]) (use row assms(4) True in \<open>auto simp: c pg_releases_def\<close>)
    moreover have "(st' = st \<and> pg_status_of r = None) \<or> (st' = st(h \<mapsto> row') \<and> r = Inr reply)"
      using step True env row seen assms(3) answer
      by (auto simp: pg_step_def Let_def seen_at_def pg_insert_def row_expiry_def split: if_splits)
    ultimately show ?thesis
      using row by (cases reply) (auto simp: pg_blocked_def pg_grants_def c)
  qed
qed

lemma pg_confirm_step:
  assumes "pg_slot_step started st now c = (r, st')" and "pg_confirms c r h w"
  shows "pg_blocked started st' h w now"
proof -
  obtain env host action token permit where c: "c = (env, host, action, token, permit)" by (metis prod_cases5)
  have h: "host = h" "token = w" "pg_status_of r = Some PgVerified" using assms(2) by (auto simp: pg_confirms_def c)
  have step: "pg_step (map_option (seen_at started now) env) h action w permit st = (r, st')"
    using assms(1) h by (simp add: c pg_slot_step_def)
  from h(3) obtain reply where r: "r = Inr reply" "fst reply = PgVerified" by (cases r) auto
  then obtain e0 where env: "env = Some e0" using step by (cases env) (auto simp: pg_step_def)
  let ?e = "seen_at started now e0"
  obtain row where row: "(if action = PgClaim then pg_insert ?e (st h) else st h) = Some row"
    using step r env by (cases "if action = PgClaim then pg_insert ?e (st h) else st h")
      (auto simp: pg_step_def split: if_splits)
  obtain reply' row' where answer: "pg_answer now started action w permit (row\<lparr>pr_last_observed := now\<rparr>) = (reply', row')"
    by (rule prod.exhaust)
  have "reply' = reply \<and> st' = st(h \<mapsto> row') \<and> pr_server_started_at row = started"
    using step r env row answer
    by (auto simp: pg_step_def Let_def seen_at_def split: if_splits)
  with pg_answer_verified [OF answer] r show ?thesis by (auto simp: pg_blocked_def)
qed

interpretation postgres: exclusive_slot "pg_slot_step started" pg_ready "pg_blocked started"
    pg_grants pg_releases pg_confirms MINIMUM_MS for started
proof
  show "pg_ready st t \<Longrightarrow> t \<le> now \<Longrightarrow> pg_ready st now" for st t now by (rule pg_ready_later)
  show "pg_ready st now \<Longrightarrow> pg_slot_step started st now c = (r, st') \<Longrightarrow> pg_ready st' now" for st now c r st'
    by (rule pg_ready_step)
  show "pg_blocked started st' h w v \<and> \<not> pg_grants c r h"
    if "pg_blocked started st h w v" "pg_ready st now" "now < v + MINIMUM_MS" "\<not> pg_releases c h w"
      "pg_slot_step started st now c = (r, st')" for st h w v now c r st'
    using that by (rule pg_block_step)
  show "pg_slot_step started st now c = (r, st') \<Longrightarrow> pg_confirms c r h w \<Longrightarrow> pg_blocked started st' h w now"
    for st now c r st' h w by (rule pg_confirm_step)
qed

section \<open>Acquiring\<close>




section \<open>Properties\<close>

definition hex_id :: string where
  "hex_id = replicate 32 (CHR ''0'')"

definition live_clock :: db_clock where
  "live_clock = \<lparr>dc_now = 0, dc_started = 0, dc_replica = False\<rparr>"

definition live_env :: pg_env where
  "live_env = \<lparr>pe_first = live_clock, pe_clock = live_clock, pe_insert_id = hex_id, pe_invalidate_id = hex_id\<rparr>"

definition lever_permit :: pg_permit where
  "lever_permit = \<lparr>pm_host = ''api.lever.co'', pm_token = ''a'', pp_authority = hex_id, pp_server_started_at = 0,
     pp_latest_dispatch = 7000\<rparr>"

definition lever_held :: pg_state where
  "lever_held = [''api.lever.co'' \<mapsto> \<lparr>pr_authority = hex_id, pr_server_started_at = 0, pr_owner_token = Some ''a'',
     pr_phase = PhaseHeld, pr_pending_until = None, pr_lease_until = Some 30000, pr_recovery_required = False,
     pr_last_observed = 0\<rparr>]"

text \<open>
  C17. Once the database has verified a permit, no other permit is granted for its host
  until a full request, its close and the cooldown have passed, whatever other calls arrive,
  as long as the holder does not release and the server stays up.
\<close>

theorem verified_permit_exclusive:
  assumes "pg_slot_step started st v (env, h, PgVerify, w, Some p) = (Inr (PgVerified, rest), st')"
    and "pg_ready st v" and "sorted (v # map fst calls)"
    and "\<forall>(now, c) \<in> set calls. now < v + (REQUEST_MS + CLOSE_MS + COOLDOWN_MS) \<and> \<not> pg_releases c h w"
  shows "\<forall>(now, c, r) \<in> set (play (pg_slot_step started) st' calls). \<not> pg_grants c r h"
  using postgres.confirmed_exclusive [OF assms(1,2), of h w calls] assms(3,4)
  by (simp add: pg_confirms_def MINIMUM_MS_def)

lemma verified_permit_exclusive_witness:
  "list_all (\<lambda>(now, c, r). \<not> pg_grants c r ''api.lever.co'')
      (play (pg_slot_step 0) (snd (pg_slot_step 0 lever_held 5000 (Some live_env, ''api.lever.co'', PgVerify, ''a'', Some lever_permit)))
      [(6000, (Some live_env, ''api.lever.co'', PgClaim, ''b'', None)), (27999, (Some live_env, ''api.lever.co'', PgClaim, ''b'', None))])"
proof -
  let ?c = "(Some live_env, ''api.lever.co'', PgVerify, ''a'', Some lever_permit)"
  have "fst (pg_slot_step 0 lever_held 5000 ?c) = Inr (PgVerified, 0, hex_id, Some 0)" by code_simp
  then have step: "pg_slot_step 0 lever_held 5000 ?c = (Inr (PgVerified, 0, hex_id, Some 0), snd (pg_slot_step 0 lever_held 5000 ?c))"
    by (metis prod.collapse)
  have "pg_ready lever_held 5000" by (simp add: pg_ready_def lever_held_def)
  show ?thesis
    unfolding list_all_iff by (rule verified_permit_exclusive [OF step \<open>pg_ready lever_held 5000\<close>]) (simp_all add: pacing_defs pg_releases_def)
qed

definition redis_held :: redis_state where
  "redis_held = [''api.lever.co'' \<mapsto> \<lparr>ph_incarnation = ''r'', ph_owner = ''a'', ph_lease_until = 30000, ph_next = 0\<rparr>]"

text \<open>
  C18. The optional Redis authority promises the same window, also across a restart of the
  server in between (a new incarnation).
\<close>

theorem redis_gate_exclusive:
  assumes "redis_step st v (srv, Verify, p) = (Inr (1, d), st')" and "pm_token p \<noteq> []"
    and "sorted (v # map fst calls)"
    and "\<forall>(now, c) \<in> set calls. now < v + MINIMUM_MS \<and> \<not> call_releases (snd c) (pm_host p) (pm_token p)"
  shows "\<forall>(now, c, r) \<in> set (play redis_step st' calls). \<not> call_grants (snd c) r (pm_host p)"
  using redis.confirmed_exclusive [OF assms(1) TrueI, of "pm_host p" "pm_token p" calls] assms(2-4)
  by (simp add: call_confirms_def)

definition redis_at :: "string \<Rightarrow> redis_server option" where
  "redis_at incarnation = Some \<lparr>rs_incarnation = Some incarnation, rs_noeviction = True\<rparr>"

definition lever_token :: "string \<Rightarrow> permit" where
  "lever_token t = \<lparr>pm_host = ''api.lever.co'', pm_token = t\<rparr>"

lemma redis_gate_exclusive_witness:
  "list_all (\<lambda>(now, c, r). \<not> call_grants (snd c) r ''api.lever.co'')
      (play redis_step
        (snd (redis_step redis_held 5000 (redis_at ''r'', Verify, lever_token ''a'')))
        [(9000, (redis_at ''q'', Acquire, lever_token ''b'')), (27000, (redis_at ''q'', Acquire, lever_token ''b''))])"
proof -
  let ?c = "(redis_at ''r'', Verify, lever_token ''a'')"
  have "fst (redis_step redis_held 5000 ?c) = Inr (1, 25000)" by code_simp
  then have step: "redis_step redis_held 5000 ?c = (Inr (1, 25000), snd (redis_step redis_held 5000 ?c))"
    by (metis prod.collapse)
  have host: "pm_host (lever_token t) = ''api.lever.co''" "pm_token (lever_token t) = t" for t by (simp_all add: lever_token_def)
  show ?thesis
    unfolding list_all_iff by (rule redis_gate_exclusive [OF step, unfolded host]) (simp_all add: pacing_defs call_releases_def)
qed

text \<open>
  After a successful release no permit is granted for the host for the cooldown.
\<close>

theorem redis_cooldown_kept:
  assumes "redis_step st v (srv, Release, p) = (Inr (1, d), st')" and "sorted (v # map fst calls)"
    and "\<forall>(now, c) \<in> set calls. now < v + COOLDOWN_MS \<and> \<not> call_releases (snd c) (pm_host p) []"
  shows "\<forall>(now, c, r) \<in> set (play redis_step st' calls). \<not> call_grants (snd c) r (pm_host p)"
  using redis_cooldown.confirmed_exclusive [OF assms(1) TrueI, of "pm_host p" calls] assms(2,3)
  by (simp add: released_slot_def)

lemma redis_cooldown_kept_witness:
  "list_all (\<lambda>(now, c, r). \<not> call_grants (snd c) r ''api.lever.co'')
      (play redis_step
        (snd (redis_step redis_held 5000 (redis_at ''r'', Release, lever_token ''a'')))
        [(5999, (redis_at ''r'', Acquire, lever_token ''b''))])"
proof -
  let ?c = "(redis_at ''r'', Release, lever_token ''a'')"
  have "fst (redis_step redis_held 5000 ?c) = Inr (1, 1000)" by code_simp
  then have step: "redis_step redis_held 5000 ?c = (Inr (1, 1000), snd (redis_step redis_held 5000 ?c))"
    by (metis prod.collapse)
  have host: "pm_host (lever_token t) = ''api.lever.co''" for t by (simp add: lever_token_def)
  show ?thesis
    unfolding list_all_iff by (rule redis_cooldown_kept [OF step, unfolded host]) (simp_all add: pacing_defs call_releases_def)
qed




end
