(* ===== verification/Calendar.thy ===== *)
theory Calendar
  imports Prelude
begin

text \<open>
  The UTC calendar as the budgets use it: the day of an instant, and the day that
  \<open>replace(day=1)\<close> gives. A day is its number since 1970-01-01.
\<close>

definition day_of :: "int \<Rightarrow> int" where
  "day_of t = t div days 1"

definition leap_year :: "int \<Rightarrow> bool" where
  "leap_year y \<longleftrightarrow> (y mod 4 = 0 \<and> y mod 100 \<noteq> 0) \<or> y mod 400 = 0"

definition month_length :: "int \<Rightarrow> nat \<Rightarrow> int" where
  "month_length y m = (if m = 2 then (if leap_year y then 29 else 28) else if m \<in> {4, 6, 9, 11} then 30 else 31)"

lemma month_length_pos: "0 < month_length y m"
  by (simp add: month_length_def)

lemma month_step: "\<not> d < s + month_length y m \<Longrightarrow> nat (d + 1 - (s + month_length y m)) < nat (d + 1 - s)"
  using month_length_pos [of y m] by (subst nat_less_eq_zless) linarith+

text \<open>The first day of the month of day \<open>d\<close>, walking from the month that starts at \<open>s\<close>.\<close>

function month_from :: "int \<Rightarrow> nat \<Rightarrow> int \<Rightarrow> int \<Rightarrow> int" where
  "month_from y m s d =
     (if d < s + month_length y m then s
      else if m = 12 then month_from (y + 1) 1 (s + month_length y m) d
      else month_from y (m + 1) (s + month_length y m) d)"
  by pat_completeness auto
termination
proof (relation "measure (\<lambda>(y, m, s, d). nat (d + 1 - s))")
  fix y :: int and m :: nat and s d :: int
  assume later: "\<not> d < s + month_length y m"
  show "((y + 1, 1, s + month_length y m, d), (y, m, s, d)) \<in> measure (\<lambda>(y, m, s, d). nat (d + 1 - s))"
    and "((y, m + 1, s + month_length y m, d), (y, m, s, d)) \<in> measure (\<lambda>(y, m, s, d). nat (d + 1 - s))"
    using month_step [OF later] by simp_all
qed simp

declare month_from.simps [simp del]

definition month_start :: "int \<Rightarrow> int" where
  "month_start d = month_from 1970 1 0 d"

lemma month_from_bounds: "s \<le> d \<Longrightarrow> s \<le> month_from y m s d \<and> month_from y m s d \<le> d"
proof (induction y m s d rule: month_from.induct)
  case (1 y m s d)
  then show ?case
    using month_length_pos [of y m] by (subst (1 2) month_from.simps) (auto simp: not_less)
qed

lemma month_start_le: "0 \<le> d \<Longrightarrow> month_start d \<le> d"
  using month_from_bounds [of 0 d] by (simp add: month_start_def)

text \<open>\<open>replace(hour=0, minute=0, second=0, microsecond=0)\<close>, and with \<open>day=1\<close>, of an instant.\<close>

definition day_floor :: "int \<Rightarrow> int" where
  "day_floor t = day_of t * days 1"

definition month_floor :: "int \<Rightarrow> int" where
  "month_floor t = month_start (day_of t) * days 1"

lemma day_floor_le: "day_floor t \<le> t"
  using div_mult_mod_eq [of t "days 1"] pos_mod_sign [of "days 1" t]
  by (simp add: day_floor_def day_of_def time_defs)

lemma month_floor_le_day: "0 \<le> t \<Longrightarrow> month_floor t \<le> day_floor t"
  using month_start_le [of "day_of t"]
  by (simp add: month_floor_def day_floor_def day_of_def time_defs pos_imp_zdiv_nonneg_iff)

end
