(* ===== verification/Mail_Budget.thy ===== *)
theory Mail_Budget
  imports Calendar Documents
begin

text \<open>
  \<open>domains/notifications/mail_budget.py\<close>: the provider-wide mail budget, kept as rows of the
  audit table. SHA-256 is the parameter \<open>sha\<close> (of the labelled text, as \<open>_digest\<close> applies
  it). Dates and instants that the rows carry as ISO texts are the numbers they denote:
  microseconds for an instant, the day number for a day, the number of its first day for a
  month.
\<close>

section \<open>Rows\<close>

datatype mail_outcome = MailUnknown | MailDeferred | MailPermanent | MailRetryable

datatype provider_outcome = Sent | OutUnknown | OutPermanent | OutRetryable

record provider_result =
  pv_outcome :: provider_outcome
  pv_receipt_sha256 :: string
  pv_status_code :: "int option"

record mail_reservation =
  mr_message_sha256 :: string
  mr_category :: string
  mr_expires_at :: int

text \<open>The documents the module stores in \<open>after_state\<close>; any other document is \<open>OtherState\<close>.\<close>

datatype audit_state =
    ReservationState string string string int int int int
      \<comment> \<open>version, message, category, units, funding day, funding month, expires at\<close>
  | BeginState string string nat               \<comment> \<open>version, message, ordinal\<close>
  | OutcomeState string string nat provider_outcome string "int option"
  | OtherState json

record audit_row =
  ae_id :: string
  ae_actor_user_id :: "int option"
  ae_action :: string
  ae_target_type :: string
  ae_target_id :: string
  ae_after_state :: audit_state
  ae_created_at :: int

definition ATTEMPTS :: nat where "ATTEMPTS = 3"
definition DAILY_UNITS :: nat where "DAILY_UNITS = 100"
definition MONTHLY_UNITS :: nat where "MONTHLY_UNITS = 1000"
definition PRIVACY_DAILY :: nat where "PRIVACY_DAILY = 20"
definition PRIVACY_MONTHLY :: nat where "PRIVACY_MONTHLY = 300"
definition RESERVATION :: string where "RESERVATION = ''provider_mail_reserved_v1''"
definition BEGIN_ATTEMPT :: string where "BEGIN_ATTEMPT = ''provider_mail_attempt_begun_v1''"
definition OUTCOME :: string where "OUTCOME = ''provider_mail_attempt_outcome_v1''"
definition MAIL_VERSION :: string where "MAIL_VERSION = ''provider-mail-envelope-v1''"

lemmas budget_defs = ATTEMPTS_def DAILY_UNITS_def MONTHLY_UNITS_def PRIVACY_DAILY_def PRIVACY_MONTHLY_def

definition TTL :: "string \<Rightarrow> int option" where
  "TTL = [''privacy_erasure'' \<mapsto> minutes 10, ''password_reset'' \<mapsto> minutes 15, ''lifecycle'' \<mapsto> hours 24]"

definition MAX_TTL :: "string \<Rightarrow> int option" where
  "MAX_TTL = TTL(''lifecycle'' \<mapsto> hours 24 + hours 24)"

text \<open>\<open>_id\<close>: the label, then the first 59 characters of the digest.\<close>

definition mail_id :: "(string \<Rightarrow> string) \<Rightarrow> string \<Rightarrow> string \<Rightarrow> nat \<Rightarrow> string" where
  "mail_id sha kind message ordinal =
     ''mail_'' @ take 59 (sha (kind @ '':'' @ message @ '':'' @ decimal (int ordinal)))"

definition mail_record :: "string \<Rightarrow> string \<Rightarrow> string \<Rightarrow> audit_state \<Rightarrow> int \<Rightarrow> audit_row" where
  "mail_record identity action message value now =
     \<lparr>ae_id = identity, ae_actor_user_id = None, ae_action = action, ae_target_type = ''provider_mail'',
      ae_target_id = message, ae_after_state = value, ae_created_at = now\<rparr>"

definition read_reservation :: "audit_row \<Rightarrow> string \<Rightarrow> string option \<Rightarrow> mail_outcome + mail_reservation" where
  "read_reservation row message category =
     (case ae_after_state row of
        ReservationState version msg cat units day month expires \<Rightarrow>
          if ae_action row \<noteq> RESERVATION \<or> ae_target_type row \<noteq> ''provider_mail'' \<or> ae_target_id row \<noteq> message
             \<or> ae_actor_user_id row \<noteq> None \<or> version \<noteq> MAIL_VERSION \<or> msg \<noteq> message \<or> units \<noteq> int ATTEMPTS
             \<or> TTL cat = None \<or> (category \<noteq> None \<and> Some cat \<noteq> category)
          then Inl MailUnknown
          else let created = ae_created_at row in
            if day \<noteq> day_of created \<or> month \<noteq> month_start (day_of created)
               \<or> \<not> (created < expires \<and> expires \<le> created + the (MAX_TTL cat))
            then Inl MailUnknown
            else Inr \<lparr>mr_message_sha256 = message, mr_category = cat, mr_expires_at = expires\<rparr>
      | _ \<Rightarrow> Inl MailUnknown)"

text \<open>\<open>_lock\<close>: the advisory lock orders transactions; other databases are refused.\<close>

definition mail_lock :: "string \<Rightarrow> mail_outcome + unit" where
  "mail_lock dialect = require (dialect \<in> {''postgresql'', ''sqlite''}) MailDeferred"

section \<open>Reservation\<close>

text \<open>Envelopes already reserved for the requested messages, and the messages without one.\<close>

fun look_up :: "(string \<Rightarrow> string) \<Rightarrow> audit_row list \<Rightarrow> string \<Rightarrow> string list
    \<Rightarrow> mail_outcome + (mail_reservation list \<times> string list)" where
  "look_up sha db category [] = Inr ([], [])"
| "look_up sha db category (message # messages) =
     (case row_at ae_id (mail_id sha ''reservation'' message 0) db of
        Some row \<Rightarrow> bindE (read_reservation row message (Some category)) (\<lambda>r.
                    bindE (look_up sha db category messages) (\<lambda>(found, missing). Inr (r # found, missing)))
      | None \<Rightarrow> bindE (look_up sha db category messages) (\<lambda>(found, missing). Inr (found, message # missing)))"

text \<open>The rows of the month, each of which must be readable and not from the future.\<close>

fun spent_categories :: "int \<Rightarrow> audit_row list \<Rightarrow> mail_outcome + (int \<times> string) list" where
  "spent_categories now [] = Inr []"
| "spent_categories now (row # rows) =
     bindE (read_reservation row (ae_target_id row) None) (\<lambda>r.
     bindE (require (\<not> ae_created_at row > now) MailUnknown) (\<lambda>_.
     bindE (spent_categories now rows) (\<lambda>rest. Inr ((ae_created_at row, mr_category r) # rest))))"

definition month_rows :: "int \<Rightarrow> audit_row list \<Rightarrow> audit_row list" where
  "month_rows now db =
     filter (\<lambda>row. ae_action row = RESERVATION \<and> ae_created_at row \<ge> month_start (day_of now) * days 1) db"

definition envelope_row :: "(string \<Rightarrow> string) \<Rightarrow> string \<Rightarrow> int \<Rightarrow> int \<Rightarrow> string \<Rightarrow> audit_row" where
  "envelope_row sha category now deadline message =
     mail_record (mail_id sha ''reservation'' message 0) RESERVATION message
       (ReservationState MAIL_VERSION message category (int ATTEMPTS) (day_of now) (month_start (day_of now)) deadline) now"

definition within_budget :: "string \<Rightarrow> int \<Rightarrow> (int \<times> string) list \<Rightarrow> nat \<Rightarrow> bool" where
  "within_budget category now spent extra \<longleftrightarrow>
     (let today = filter (\<lambda>(t, _). day_of t = day_of now) spent;
          privacy = (\<lambda>xs. length (filter (\<lambda>(_, c). c = ''privacy_erasure'') xs))
      in length today * ATTEMPTS + extra * ATTEMPTS \<le> DAILY_UNITS \<and>
         length spent * ATTEMPTS + extra * ATTEMPTS \<le> MONTHLY_UNITS \<and>
         (category = ''privacy_erasure'' \<longrightarrow>
            privacy today + extra \<le> PRIVACY_DAILY \<and> privacy spent + extra \<le> PRIVACY_MONTHLY))"

definition reserve_messages ::
  "(string \<Rightarrow> string) \<Rightarrow> string \<Rightarrow> audit_row list \<Rightarrow> string list \<Rightarrow> string \<Rightarrow> int option \<Rightarrow> int
     \<Rightarrow> mail_outcome + (mail_reservation list \<times> audit_row list)" where
  "reserve_messages sha dialect db keys category expires_at now =
     bindE (require (TTL category \<noteq> None \<and> 1 \<le> length keys \<and> length keys \<le> 10 \<and>
                     list_all (\<lambda>k. 1 \<le> length k \<and> length k \<le> 200) keys \<and> distinct keys) MailPermanent) (\<lambda>_.
     bindE (mail_lock dialect) (\<lambda>_.
     let deadline = (case expires_at of Some e \<Rightarrow> min e (now + the (MAX_TTL category)) | None \<Rightarrow> now + the (TTL category));
         messages = map sha keys
     in bindE (look_up sha db category messages) (\<lambda>(found, missing).
        if missing = [] then Inr (found, db)
        else
          bindE (require (\<not> deadline \<le> now) MailPermanent) (\<lambda>_.
          let rows = month_rows now db in
          bindE (require (\<not> length rows > MONTHLY_UNITS) MailUnknown) (\<lambda>_.
          bindE (spent_categories now rows) (\<lambda>spent.
          bindE (require (within_budget category now spent (length missing)) MailDeferred) (\<lambda>_.
          let added = map (envelope_row sha category now deadline) missing;
              reservation = (\<lambda>m. case find (\<lambda>r. mr_message_sha256 r = m) found of
                 Some r \<Rightarrow> r | None \<Rightarrow> \<lparr>mr_message_sha256 = m, mr_category = category, mr_expires_at = deadline\<rparr>)
          in Inr (map reservation messages, db @ added))))))))"

section \<open>Attempts\<close>

definition result_ok :: "provider_result \<Rightarrow> bool" where
  "result_ok r \<longleftrightarrow> is_sha256_hex (pv_receipt_sha256 r) \<and>
     (case pv_status_code r of None \<Rightarrow> True | Some c \<Rightarrow> 100 \<le> c \<and> c \<le> 599) \<and>
     (case pv_outcome r of
        Sent \<Rightarrow> (case pv_status_code r of None \<Rightarrow> False | Some c \<Rightarrow> 200 \<le> c \<and> c < 300)
      | OutRetryable \<Rightarrow> pv_status_code r = Some 429
      | OutPermanent \<Rightarrow> (case pv_status_code r of None \<Rightarrow> False
                        | Some c \<Rightarrow> 400 \<le> c \<and> c < 500 \<and> c \<notin> {408, 429})
      | OutUnknown \<Rightarrow> True)"

fun outcome_error :: "provider_outcome \<Rightarrow> mail_outcome" where
  "outcome_error OutRetryable = MailRetryable"
| "outcome_error OutPermanent = MailPermanent"
| "outcome_error _ = MailUnknown"

definition row_is :: "string \<Rightarrow> string \<Rightarrow> audit_row \<Rightarrow> bool" where
  "row_is action message row \<longleftrightarrow> ae_action row = action \<and> ae_target_type row = ''provider_mail'' \<and>
     ae_actor_user_id row = None \<and> ae_target_id row = message"

text \<open>What a finished attempt says: its receipt, if both rows are what the module writes.\<close>

definition finished_attempt :: "string \<Rightarrow> nat \<Rightarrow> audit_row \<Rightarrow> audit_row option \<Rightarrow> mail_outcome + provider_result" where
  "finished_attempt message ordinal begun finished =
     (case finished of
        None \<Rightarrow> Inl MailUnknown
      | Some fin \<Rightarrow>
          if \<not> row_is BEGIN_ATTEMPT message begun \<or> ae_after_state begun \<noteq> BeginState MAIL_VERSION message ordinal
             \<or> \<not> row_is OUTCOME message fin
          then Inl MailUnknown
          else case ae_after_state fin of
            OutcomeState version msg n out receipt code \<Rightarrow>
              (let r = \<lparr>pv_outcome = out, pv_receipt_sha256 = receipt, pv_status_code = code\<rparr>
               in if version \<noteq> MAIL_VERSION \<or> msg \<noteq> message \<or> n \<noteq> ordinal \<or> \<not> result_ok r then Inl MailUnknown
                  else Inr r)
          | _ \<Rightarrow> Inl MailUnknown)"

text \<open>
  \<open>_attempt\<close> over the ordinals: the first one that has not begun is begun, unless an earlier
  one was sent or ended in anything but a retryable refusal.
\<close>

fun attempt_from ::
  "(string \<Rightarrow> string) \<Rightarrow> mail_reservation \<Rightarrow> int \<Rightarrow> nat list \<Rightarrow> audit_row list
     \<Rightarrow> mail_outcome + (nat \<times> provider_result option \<times> audit_row list)" where
  "attempt_from sha r now [] db = Inl MailPermanent"
| "attempt_from sha r now (ordinal # ordinals) db =
     (let message = mr_message_sha256 r;
          finished = row_at ae_id (mail_id sha ''outcome'' message ordinal) db
      in case row_at ae_id (mail_id sha ''begin'' message ordinal) db of
           None \<Rightarrow>
             (if finished \<noteq> None then Inl MailUnknown
              else if now \<ge> mr_expires_at r then Inl MailPermanent
              else Inr (ordinal, None, db @ [mail_record (mail_id sha ''begin'' message ordinal) BEGIN_ATTEMPT message
                          (BeginState MAIL_VERSION message ordinal) now]))
         | Some begun \<Rightarrow>
             bindE (finished_attempt message ordinal begun finished) (\<lambda>receipt.
             if pv_outcome receipt = Sent then Inr (ordinal, Some receipt, db)
             else if pv_outcome receipt \<noteq> OutRetryable then Inl (outcome_error (pv_outcome receipt))
             else attempt_from sha r now ordinals db))"

definition attempt :: "(string \<Rightarrow> string) \<Rightarrow> mail_reservation \<Rightarrow> int \<Rightarrow> audit_row list
    \<Rightarrow> mail_outcome + (nat \<times> provider_result option \<times> audit_row list)" where
  "attempt sha r now db = attempt_from sha r now (map Suc [0..<ATTEMPTS]) db"

text \<open>The second transaction of \<open>guarded_send\<close>: the outcome of the attempt, once.\<close>

definition record_outcome ::
  "(string \<Rightarrow> string) \<Rightarrow> mail_reservation \<Rightarrow> string \<Rightarrow> nat \<Rightarrow> provider_result \<Rightarrow> int \<Rightarrow> audit_row list
     \<Rightarrow> mail_outcome + audit_row list" where
  "record_outcome sha r category ordinal receipt now db =
     (let message = mr_message_sha256 r;
          value = OutcomeState MAIL_VERSION message ordinal (pv_outcome receipt) (pv_receipt_sha256 receipt)
                    (pv_status_code receipt)
      in case (row_at ae_id (mail_id sha ''reservation'' message 0) db, row_at ae_id (mail_id sha ''begin'' message ordinal) db) of
           (Some retained, Some begun) \<Rightarrow>
             if read_reservation retained message (Some category) \<noteq> Inr r \<or> \<not> row_is BEGIN_ATTEMPT message begun
                \<or> ae_after_state begun \<noteq> BeginState MAIL_VERSION message ordinal
             then Inl MailUnknown
             else (case row_at ae_id (mail_id sha ''outcome'' message ordinal) db of
                     Some existing \<Rightarrow>
                       if ae_action existing \<noteq> OUTCOME \<or> ae_after_state existing \<noteq> value then Inl MailUnknown else Inr db
                   | None \<Rightarrow> Inr (db @ [mail_record (mail_id sha ''outcome'' message ordinal) OUTCOME message value now]))
         | _ \<Rightarrow> Inl MailUnknown)"

text \<open>
  The readings of one \<open>guarded_send\<close>: the clock at its four looks, the provider's answer
  (\<open>None\<close> when the callback raised) and whether the second transaction could be committed.
\<close>

record send_env =
  en_reserve_at :: int
  en_attempt_at :: int
  en_call_at :: int
  en_answer :: "provider_result option"
  en_record_ok :: bool
  en_record_at :: int

text \<open>The first transaction: an envelope and an attempt that has begun, or a finished one.\<close>

definition begin_send ::
  "(string \<Rightarrow> string) \<Rightarrow> string \<Rightarrow> send_env \<Rightarrow> string \<Rightarrow> string \<Rightarrow> int option \<Rightarrow> audit_row list
     \<Rightarrow> mail_outcome + (mail_reservation \<times> nat \<times> provider_result option \<times> audit_row list)" where
  "begin_send sha dialect env key category expires_at db =
     bindE (require (dialect = ''postgresql'') MailDeferred) (\<lambda>_.
     bindE (reserve_messages sha dialect db [key] category expires_at (en_reserve_at env)) (\<lambda>(rs, db1).
     bindE (attempt sha (hd rs) (en_attempt_at env) db1) (\<lambda>(ordinal, completed, db2).
     Inr (hd rs, ordinal, completed, db2))))"

text \<open>
  The rest: the provider's answer and the second transaction. The result, whether the
  provider was called, and the table.
\<close>

definition finish_send ::
  "(string \<Rightarrow> string) \<Rightarrow> string \<Rightarrow> send_env \<Rightarrow> mail_reservation \<Rightarrow> string \<Rightarrow> nat \<Rightarrow> audit_row list
     \<Rightarrow> (mail_outcome + provider_result) \<times> bool \<times> audit_row list" where
  "finish_send sha unknown_receipt env r category ordinal db =
     (if en_call_at env \<ge> mr_expires_at r then (Inl MailUnknown, False, db)
      else
        let unknown = \<lparr>pv_outcome = OutUnknown, pv_receipt_sha256 = unknown_receipt, pv_status_code = None\<rparr>;
            receipt = (case en_answer env of Some a \<Rightarrow> if result_ok a then a else unknown | None \<Rightarrow> unknown)
        in if \<not> en_record_ok env then (Inl MailUnknown, True, db)
           else case record_outcome sha r category ordinal receipt (en_record_at env) db of
             Inl e \<Rightarrow> (Inl MailUnknown, True, db)
           | Inr db3 \<Rightarrow>
               (if pv_outcome receipt \<noteq> Sent then Inl (outcome_error (pv_outcome receipt)) else Inr receipt, True, db3))"

text \<open>Without a commit of the first transaction the table is as before.\<close>

definition guarded_send ::
  "(string \<Rightarrow> string) \<Rightarrow> string \<Rightarrow> string \<Rightarrow> send_env \<Rightarrow> string \<Rightarrow> string \<Rightarrow> int option \<Rightarrow> audit_row list
     \<Rightarrow> (mail_outcome + provider_result) \<times> bool \<times> audit_row list" where
  "guarded_send sha unknown_receipt dialect env key category expires_at db =
     (case begin_send sha dialect env key category expires_at db of
        Inl e \<Rightarrow> (Inl e, False, db)
      | Inr (r, ordinal, Some receipt, db2) \<Rightarrow> (Inr receipt, False, db2)
      | Inr (r, ordinal, None, db2) \<Rightarrow> finish_send sha unknown_receipt env r category ordinal db2)"

section \<open>The budget\<close>

definition envelopes :: "(int \<Rightarrow> bool) \<Rightarrow> audit_row list \<Rightarrow> nat" where
  "envelopes p db = length (filter (\<lambda>row. ae_action row = RESERVATION \<and> p (ae_created_at row)) db)"

definition budget_kept :: "audit_row list \<Rightarrow> bool" where
  "budget_kept db \<longleftrightarrow>
     (\<forall>row \<in> set db. ae_action row = RESERVATION \<longrightarrow> 0 \<le> ae_created_at row) \<and>
     (\<forall>d. envelopes (\<lambda>t. day_of t = d) db * ATTEMPTS \<le> DAILY_UNITS) \<and>
     (\<forall>m. envelopes (\<lambda>t. month_start (day_of t) = m) db * ATTEMPTS \<le> MONTHLY_UNITS)"

lemma day_of_bounds: "day_of t * days 1 \<le> t"
proof -
  have "day_of t * days 1 + t mod days 1 = t" unfolding day_of_def by (rule div_mult_mod_eq)
  moreover have "0 \<le> t mod days 1" by (simp add: time_defs)
  ultimately show ?thesis by linarith
qed

lemma month_start_instant: "0 \<le> t \<Longrightarrow> month_start (day_of t) * days 1 \<le> t"
proof -
  assume "0 \<le> t"
  then have "0 \<le> day_of t" by (simp add: day_of_def pos_imp_zdiv_nonneg_iff time_defs)
  then have "month_start (day_of t) * days 1 \<le> day_of t * days 1"
    using month_start_le by (intro mult_right_mono) (auto simp: time_defs)
  with day_of_bounds [of t] show ?thesis by linarith
qed

lemma spent_categories_Inr:
  "spent_categories now rows = Inr spent \<Longrightarrow> map fst spent = map ae_created_at rows"
  by (induction rows arbitrary: spent) (auto simp: bindE_eq_Inr)

lemma reserve_messages_Inr:
  assumes "reserve_messages sha dialect db keys category expires_at now = Inr (rs, db')"
  obtains "db' = db"
  | missing deadline spent where "db' = db @ map (envelope_row sha category now deadline) missing"
      and "spent_categories now (month_rows now db) = Inr spent" and "within_budget category now spent (length missing)"
  using assms by (auto simp: reserve_messages_def bindE_eq_Inr require_eq_Inr Let_def split: if_splits)

lemma envelopes_append: "envelopes p (xs @ ys) = envelopes p xs + envelopes p ys"
  by (simp add: envelopes_def)

lemma envelopes_added:
  "envelopes p (map (envelope_row sha category now deadline) missing) = (if p now then length missing else 0)"
  by (simp add: envelopes_def envelope_row_def mail_record_def)

lemma filter_weaker_length: "(\<And>x. x \<in> set xs \<Longrightarrow> p x \<Longrightarrow> q x) \<Longrightarrow> length (filter p xs) \<le> length (filter q xs)"
  by (induction xs) (auto intro: le_SucI)

lemma envelopes_month:
  assumes "\<forall>row \<in> set db. ae_action row = RESERVATION \<longrightarrow> 0 \<le> ae_created_at row"
  shows "envelopes (\<lambda>t. month_start (day_of t) = month_start (day_of now)) db \<le> length (month_rows now db)"
  unfolding envelopes_def month_rows_def
proof (rule filter_weaker_length)
  fix row
  assume row: "row \<in> set db" and "ae_action row = RESERVATION \<and> month_start (day_of (ae_created_at row)) = month_start (day_of now)"
  then show "ae_action row = RESERVATION \<and> month_start (day_of now) * days 1 \<le> ae_created_at row"
    using month_start_instant [of "ae_created_at row"] assms by auto
qed

lemma envelopes_today:
  assumes "0 \<le> now"
  shows "envelopes (\<lambda>t. day_of t = day_of now) db \<le> length (filter (\<lambda>row. day_of (ae_created_at row) = day_of now) (month_rows now db))"
  unfolding envelopes_def month_rows_def filter_filter
proof (rule filter_weaker_length)
  fix row
  assume "ae_action row = RESERVATION \<and> day_of (ae_created_at row) = day_of now"
  moreover have "0 \<le> day_of now" using assms by (simp add: day_of_def pos_imp_zdiv_nonneg_iff time_defs)
  then have "month_start (day_of now) * days 1 \<le> day_of now * days 1"
    using month_start_le by (intro mult_right_mono) (auto simp: time_defs)
  ultimately show "(ae_action row = RESERVATION \<and> month_start (day_of now) * days 1 \<le> ae_created_at row) \<and>
      day_of (ae_created_at row) = day_of now"
    using day_of_bounds [of "ae_created_at row"] by auto
qed

lemma reserve_messages_budget:
  assumes "reserve_messages sha dialect db keys category expires_at now = Inr (rs, db')"
    and "budget_kept db" and "0 \<le> now"
  shows "budget_kept db'"
  using assms(1)
proof (cases rule: reserve_messages_Inr)
  case 1
  with assms(2) show ?thesis by simp
next
  case (2 missing deadline spent)
  have old: "\<forall>row \<in> set db. ae_action row = RESERVATION \<longrightarrow> 0 \<le> ae_created_at row" using assms(2) by (simp add: budget_kept_def)
  have fst: "map fst spent = map ae_created_at (month_rows now db)" by (rule spent_categories_Inr [OF 2(2)])
  have "length (filter (\<lambda>(t, _). day_of t = day_of now) spent) = length (filter (\<lambda>t. day_of t = day_of now) (map fst spent))"
    by (simp add: filter_map comp_def case_prod_unfold)
  then have today: "length (filter (\<lambda>(t, _). day_of t = day_of now) spent) =
      length (filter (\<lambda>row. day_of (ae_created_at row) = day_of now) (month_rows now db))"
    unfolding fst by (simp add: filter_map comp_def)
  have month: "length spent = length (month_rows now db)" using arg_cong [OF fst, of length] by simp
  have "(envelopes (\<lambda>t. day_of t = d) db + envelopes (\<lambda>t. day_of t = d) (map (envelope_row sha category now deadline) missing))
      * ATTEMPTS \<le> DAILY_UNITS" for d
    using assms(2) envelopes_today [OF assms(3), of db] 2(3) today
    by (auto simp: envelopes_added budget_kept_def within_budget_def Let_def budget_defs)
  moreover have "(envelopes (\<lambda>t. month_start (day_of t) = m) db +
      envelopes (\<lambda>t. month_start (day_of t) = m) (map (envelope_row sha category now deadline) missing)) * ATTEMPTS
      \<le> MONTHLY_UNITS" for m
    using assms(2) envelopes_month [OF old, of now] 2(3) month
    by (auto simp: envelopes_added budget_kept_def within_budget_def Let_def budget_defs)
  ultimately show ?thesis
    using old assms(3) by (auto simp: budget_kept_def 2(1) envelopes_append envelope_row_def mail_record_def)
qed

section \<open>Provider calls\<close>

text \<open>
  Workers run the two transactions of \<open>guarded_send\<close> interleaved with each other and with
  reservations. \<open>mail_run db calls db'\<close> collects, per begun attempt, the message whose
  provider call it admits: there is at most one call for each.
\<close>

inductive mail_run :: "(string \<Rightarrow> string) \<Rightarrow> audit_row list \<Rightarrow> string list \<Rightarrow> audit_row list \<Rightarrow> bool" for sha db where
  start: "mail_run sha db [] db"
| reserve: "mail_run sha db calls db1 \<Longrightarrow> reserve_messages sha dialect db1 keys category expires_at now = Inr (rs, db2)
    \<Longrightarrow> 0 \<le> now \<Longrightarrow> mail_run sha db calls db2"
| answered: "mail_run sha db calls db1 \<Longrightarrow>
    begin_send sha dialect env key category expires_at db1 = Inr (r, ordinal, Some receipt, db2)
    \<Longrightarrow> 0 \<le> en_reserve_at env \<Longrightarrow> mail_run sha db calls db2"
| begins: "mail_run sha db calls db1 \<Longrightarrow>
    begin_send sha dialect env key category expires_at db1 = Inr (r, ordinal, None, db2)
    \<Longrightarrow> 0 \<le> en_reserve_at env \<Longrightarrow> mail_run sha db (mr_message_sha256 r # calls) db2"
| finishes: "mail_run sha db calls db1 \<Longrightarrow> finish_send sha unknown env r category ordinal db1 = (res, called, db2)
    \<Longrightarrow> mail_run sha db calls db2"

text \<open>The table only grows.\<close>

definition grows :: "audit_row list \<Rightarrow> audit_row list \<Rightarrow> bool" where
  "grows db db' \<longleftrightarrow> (\<exists>new. db' = db @ new)"

lemma grows_refl [simp]: "grows db db"
  by (simp add: grows_def)

lemma grows_trans [trans]: "grows a b \<Longrightarrow> grows b c \<Longrightarrow> grows a c"
  by (auto simp: grows_def)

lemma grows_row: "grows db db' \<Longrightarrow> row_at ae_id k db = Some row \<Longrightarrow> row_at ae_id k db' = Some row"
  by (auto simp: grows_def row_at_append)

lemma reserve_grows: "reserve_messages sha dialect db keys category expires_at now = Inr (rs, db') \<Longrightarrow> grows db db'"
  by (erule reserve_messages_Inr) (auto simp: grows_def)

lemma finish_grows: "finish_send sha unknown env r category ordinal db = (res, called, db') \<Longrightarrow> grows db db'"
  by (auto simp: finish_send_def record_outcome_def Let_def grows_def split: if_splits option.splits sum.splits)

definition begun :: "(string \<Rightarrow> string) \<Rightarrow> string \<Rightarrow> audit_row list \<Rightarrow> nat set" where
  "begun sha message db = {o1 \<in> {1..ATTEMPTS}. row_at ae_id (mail_id sha ''begin'' message o1) db \<noteq> None}"



lemma attempt_from_begins:
  "attempt_from sha r now ordinals db = Inr (ordinal, None, db') \<Longrightarrow>
     ordinal \<in> set ordinals \<and> row_at ae_id (mail_id sha ''begin'' (mr_message_sha256 r) ordinal) db = None \<and>
     grows db db' \<and> row_at ae_id (mail_id sha ''begin'' (mr_message_sha256 r) ordinal) db' \<noteq> None"
proof (induction ordinals)
  case (Cons o1 ordinals)
  then show ?case
    by (auto simp: Let_def bindE_eq_Inr grows_def row_at_append mail_record_def split: option.splits if_splits)
qed simp

lemma attempt_from_answers:
  "attempt_from sha r now ordinals db = Inr (ordinal, Some receipt, db') \<Longrightarrow> db' = db"
  by (induction ordinals) (auto simp: Let_def bindE_eq_Inr split: option.splits if_splits)

text \<open>A message whose attempts end in a sent one is answered, never begun again.\<close>

lemma finished_attempt_Some:
  "finished_attempt message ordinal row finished = Inr receipt \<Longrightarrow> \<exists>fin. finished = Some fin"
  by (cases finished) (simp_all add: finished_attempt_def)

lemma attempt_from_sent:
  assumes "attempt_from sha r now ordinals db = Inr (ordinal, Some receipt, db)" and "grows db db'"
    and "mr_message_sha256 r' = mr_message_sha256 r"
  shows "attempt_from sha r' now' ordinals db' = Inr (ordinal, Some receipt, db')"
  using assms(1)
proof (induction ordinals)
  case (Cons o1 ordinals)
  let ?m = "mr_message_sha256 r"
  from Cons.prems obtain row where row: "row_at ae_id (mail_id sha ''begin'' ?m o1) db = Some row"
    by (auto simp: Let_def split: option.splits if_splits)
  from Cons.prems row obtain rc where fin: "finished_attempt ?m o1 row (row_at ae_id (mail_id sha ''outcome'' ?m o1) db) = Inr rc"
    by (auto simp: Let_def bindE_eq_Inr)
  from finished_attempt_Some [OF fin] obtain f where "row_at ae_id (mail_id sha ''outcome'' ?m o1) db = Some f" by blast
  then have "row_at ae_id (mail_id sha ''outcome'' ?m o1) db' = row_at ae_id (mail_id sha ''outcome'' ?m o1) db"
    using grows_row [OF assms(2)] by simp
  moreover have "row_at ae_id (mail_id sha ''begin'' ?m o1) db' = Some row" by (rule grows_row [OF assms(2) row])
  ultimately show ?case
    using Cons.prems Cons.IH row fin by (auto simp: Let_def assms(3) split: if_splits)
qed simp

lemma reserve_one_message:
  assumes "reserve_messages sha dialect db [key] category expires_at now = Inr (rs, db')"
  shows "mr_message_sha256 (hd rs) = sha key"
proof -
  have found: "mr_message_sha256 r = message" if "read_reservation row message c = Inr r" for row message c r
    using that by (auto simp: read_reservation_def Let_def split: audit_state.splits if_splits)
  show ?thesis
    using assms found
    by (auto simp: reserve_messages_def bindE_eq_Inr require_eq_Inr Let_def split: if_splits option.splits)
qed

lemma begin_send_Inr:
  assumes "begin_send sha dialect env key category expires_at db = Inr (r, ordinal, completed, db')"
  obtains rs db1 where "reserve_messages sha dialect db [key] category expires_at (en_reserve_at env) = Inr (rs, db1)"
    and "r = hd rs" and "attempt sha r (en_attempt_at env) db1 = Inr (ordinal, completed, db')"
    and "mr_message_sha256 r = sha key"
proof -
  from assms obtain rs db1 where reserve: "reserve_messages sha dialect db [key] category expires_at (en_reserve_at env) = Inr (rs, db1)"
    and run: "attempt sha (hd rs) (en_attempt_at env) db1 = Inr (ordinal, completed, db')" and r: "r = hd rs"
    by (auto simp: begin_send_def bindE_eq_Inr)
  show ?thesis by (rule that [OF reserve r]) (use run r reserve_one_message [OF reserve] in simp_all)
qed

lemma begin_send_grows:
  assumes "begin_send sha dialect env key category expires_at db = Inr (r, ordinal, completed, db')"
  shows "grows db db'"
  using assms
proof (rule begin_send_Inr)
  fix rs db1
  assume "reserve_messages sha dialect db [key] category expires_at (en_reserve_at env) = Inr (rs, db1)"
    and run: "attempt sha r (en_attempt_at env) db1 = Inr (ordinal, completed, db')"
  then have "grows db db1" by (blast intro: reserve_grows)
  moreover have "grows db1 db'"
    using run attempt_from_begins attempt_from_answers by (cases completed) (fastforce simp: attempt_def)+
  ultimately show ?thesis by (rule grows_trans)
qed


lemma mail_run_grows: "mail_run sha db calls db' \<Longrightarrow> grows db db'"
  by (induction rule: mail_run.induct) (auto intro: grows_trans reserve_grows finish_grows begin_send_grows)


lemma mail_run_sent:
  assumes "mail_run sha db calls db'" and "attempt sha r now db = Inr (ordinal, Some receipt, db)"
  shows "mr_message_sha256 r \<notin> set calls"
  using assms(1)
proof (induction rule: mail_run.induct)
  case (begins calls db1 dialect env key category expires_at r' ordinal' db2)
  have "mr_message_sha256 r' \<noteq> mr_message_sha256 r"
  proof
    assume same: "mr_message_sha256 r' = mr_message_sha256 r"
    from begins.hyps(2) show False
    proof (rule begin_send_Inr)
      fix rs db3
      assume "reserve_messages sha dialect db1 [key] category expires_at (en_reserve_at env) = Inr (rs, db3)"
        and run: "attempt sha r' (en_attempt_at env) db3 = Inr (ordinal', None, db2)"
      then have "grows db db3" using mail_run_grows [OF begins.hyps(1)] by (blast intro: grows_trans reserve_grows)
      from attempt_from_sent [OF assms(2) [unfolded attempt_def] this same] run show False
        by (simp add: attempt_def)
    qed
  qed
  with begins.IH show ?case by auto
qed simp_all

text \<open>Attempts and outcomes are no envelopes.\<close>

lemma budget_kept_no_envelopes:
  assumes "budget_kept db" and "\<forall>row \<in> set new. ae_action row \<noteq> RESERVATION"
  shows "budget_kept (db @ new)"
proof -
  have "envelopes p new = 0" for p using assms(2) by (simp add: envelopes_def filter_empty_conv)
  with assms show ?thesis by (auto simp: budget_kept_def envelopes_append)
qed

lemma attempt_from_rows:
  "attempt_from sha r now ordinals db = Inr (ordinal, completed, db') \<Longrightarrow>
     \<exists>new. db' = db @ new \<and> (\<forall>row \<in> set new. ae_action row = BEGIN_ATTEMPT)"
  by (induction ordinals) (auto simp: Let_def bindE_eq_Inr mail_record_def split: option.splits if_splits)

lemma other_actions: "BEGIN_ATTEMPT \<noteq> RESERVATION" "OUTCOME \<noteq> RESERVATION"
  by (simp_all add: BEGIN_ATTEMPT_def OUTCOME_def RESERVATION_def)

lemma begin_send_budget:
  assumes "begin_send sha dialect env key category expires_at db = Inr (r, ordinal, completed, db')"
    and "budget_kept db" and "0 \<le> en_reserve_at env"
  shows "budget_kept db'"
  using assms(1)
proof (rule begin_send_Inr)
  fix rs db1
  assume "reserve_messages sha dialect db [key] category expires_at (en_reserve_at env) = Inr (rs, db1)"
    and run: "attempt sha r (en_attempt_at env) db1 = Inr (ordinal, completed, db')"
  then have "budget_kept db1" using assms(2,3) by (blast intro: reserve_messages_budget)
  moreover obtain new where "db' = db1 @ new" "\<forall>row \<in> set new. ae_action row = BEGIN_ATTEMPT"
    using attempt_from_rows [OF run [unfolded attempt_def]] by blast
  ultimately show ?thesis using budget_kept_no_envelopes other_actions by simp
qed

lemma finish_send_budget:
  assumes "finish_send sha unknown env r category ordinal db = (res, called, db')" and "budget_kept db"
  shows "budget_kept db'"
proof -
  have "\<exists>new. db' = db @ new \<and> (\<forall>row \<in> set new. ae_action row = OUTCOME)"
    using assms(1) by (auto simp: finish_send_def record_outcome_def Let_def mail_record_def
        split: if_splits option.splits sum.splits)
  with budget_kept_no_envelopes [OF assms(2)] other_actions show ?thesis by auto
qed

lemma mail_run_budget: "mail_run sha db calls db' \<Longrightarrow> budget_kept db \<Longrightarrow> budget_kept db'"
  by (induction rule: mail_run.induct) (blast intro: reserve_messages_budget begin_send_budget finish_send_budget)+

section \<open>Properties\<close>

definition noon_env :: "provider_result option \<Rightarrow> send_env" where
  "noon_env answer = \<lparr>en_reserve_at = hours 12, en_attempt_at = hours 12, en_call_at = hours 12, en_answer = answer,
     en_record_ok = True, en_record_at = hours 12\<rparr>"

definition sent_receipt :: provider_result where
  "sent_receipt = \<lparr>pv_outcome = Sent, pv_receipt_sha256 = replicate 64 (CHR ''0''), pv_status_code = Some 202\<rparr>"

definition after_begin :: "audit_row list" where
  "after_begin = (case begin_send id ''postgresql'' (noon_env None) ''k'' ''lifecycle'' None [] of
     Inr (_, _, _, db) \<Rightarrow> db | Inl _ \<Rightarrow> [])"

definition after_sent :: "audit_row list" where
  "after_sent = snd (snd (guarded_send id [] ''postgresql'' (noon_env (Some sent_receipt)) ''k'' ''lifecycle'' None []))"

lemma begin_one: "\<exists>r. begin_send id ''postgresql'' (noon_env None) ''k'' ''lifecycle'' None [] = Inr (r, 1, None, after_begin)
    \<and> mr_message_sha256 r = ''k''"
proof -
  have "map_sum id (\<lambda>(r, n, c, db). (mr_message_sha256 r, n, c)) (begin_send id ''postgresql'' (noon_env None) ''k'' ''lifecycle'' None [])
      = Inr (''k'', 1, None)" by code_simp
  then show ?thesis
    by (cases "begin_send id ''postgresql'' (noon_env None) ''k'' ''lifecycle'' None []") (auto simp: after_begin_def)
qed

lemma run_one: "mail_run id [] [''k''] after_begin"
proof -
  obtain r where run: "begin_send id ''postgresql'' (noon_env None) ''k'' ''lifecycle'' None [] = Inr (r, 1, None, after_begin)"
    and m: "mr_message_sha256 r = ''k''" using begin_one by blast
  have "0 \<le> en_reserve_at (noon_env None)" by (simp add: noon_env_def time_defs)
  from mail_run.begins [OF mail_run.start run this] show ?thesis by (simp add: m)
qed

text \<open>
  C21. However workers interleave, the envelopes reserved in any UTC day never exceed the
  daily number of provider attempts, and those of any month never the monthly one.
\<close>

theorem mail_budget_never_exceeded:
  assumes "mail_run sha db calls db'" and "budget_kept db"
  shows "envelopes (\<lambda>t. day_of t = d) db' * ATTEMPTS \<le> DAILY_UNITS \<and>
    envelopes (\<lambda>t. month_start (day_of t) = m) db' * ATTEMPTS \<le> MONTHLY_UNITS"
  using mail_run_budget [OF assms] by (simp add: budget_kept_def)

lemma mail_budget_never_exceeded_witness:
  "map ae_action after_begin = [RESERVATION, BEGIN_ATTEMPT] \<and> envelopes (\<lambda>t. day_of t = 0) after_begin * ATTEMPTS \<le> DAILY_UNITS"
proof -
  have "budget_kept []" by (simp add: budget_kept_def envelopes_def)
  moreover have "map ae_action after_begin = [RESERVATION, BEGIN_ATTEMPT]" by code_simp
  ultimately show ?thesis using mail_budget_never_exceeded [OF run_one] by blast
qed



text \<open>
  Once an attempt of a message is recorded as sent, the provider is never called for
  that message again.
\<close>

theorem sent_message_final:
  assumes "mail_run sha db calls db'" and "attempt sha r now db = Inr (ordinal, Some receipt, db)"
  shows "mr_message_sha256 r \<notin> set calls"
  by (rule mail_run_sent [OF assms])

lemma sent_message_final_witness:
  "\<exists>r. mr_message_sha256 r = ''k'' \<and> attempt id r 0 after_sent = Inr (1, Some sent_receipt, after_sent) \<and> mail_run id after_sent [] after_sent"
proof -
  let ?r = "\<lparr>mr_message_sha256 = ''k'', mr_category = ''lifecycle'', mr_expires_at = 0\<rparr>"
  have finished: "attempt id ?r 0 after_sent = Inr (1, Some sent_receipt, after_sent)" by code_simp
  have "mr_message_sha256 ?r \<notin> set []" by (rule sent_message_final [OF mail_run.start [of id after_sent] finished])
  with finished mail_run.start [of id after_sent] show ?thesis by (intro exI [of _ ?r]) simp
qed

end
