(* ===== verification/Settings.thy ===== *)
theory Settings
  imports Documents
begin

text \<open>
  Environment variables as the code reads them (\<open>os.getenv\<close> is a map from names to
  values), and \<open>services/generation_gate.py\<close>, the switch in front of every operation that
  would call a paid model.
\<close>

section \<open>Reading a variable\<close>

fun strip_left :: "string \<Rightarrow> string" where
  "strip_left s = dropWhile is_space s"

definition strip :: "string \<Rightarrow> string" where
  "strip s = rev (strip_left (rev (strip_left s)))"

text \<open>\<open>lower()\<close> on the ASCII letters, which is all that comparison with ASCII names sees.\<close>

definition lower :: "string \<Rightarrow> string" where
  "lower s = map (\<lambda>c. if (65 :: nat) \<le> of_char c \<and> of_char c \<le> (90 :: nat) then char_of (of_char c + (32 :: nat)) else c) s"

definition upper :: "string \<Rightarrow> string" where
  "upper s = map (\<lambda>c. if (97 :: nat) \<le> of_char c \<and> of_char c \<le> (122 :: nat) then char_of (of_char c - (32 :: nat)) else c) s"

type_synonym settings = "string \<Rightarrow> string option"

definition env_value :: "settings \<Rightarrow> string \<Rightarrow> string" where
  "env_value env name = (case env name of None \<Rightarrow> [] | Some v \<Rightarrow> v)"

text \<open>\<open>{part.strip() for part in value.split(",") if part.strip()}\<close>\<close>

fun split_at :: "char \<Rightarrow> string \<Rightarrow> string list" where
  "split_at d [] = [[]]"
| "split_at d (c # s) =
     (if c = d then [] # split_at d s
      else (case split_at d s of [] \<Rightarrow> [[c]] | part # parts \<Rightarrow> (c # part) # parts))"

definition comma_names :: "string \<Rightarrow> string list" where
  "comma_names value = filter (\<lambda>p. p \<noteq> []) (map strip (split_at (CHR '','') value))"

lemma split_at_nonempty: "split_at d s \<noteq> []"
  by (induction s) (auto split: list.splits)

lemma split_at_free: "part \<in> set (split_at d s) \<Longrightarrow> d \<notin> set part"
  by (induction s arbitrary: part) (auto split: if_splits list.splits)

lemma split_at_single: "d \<notin> set s \<Longrightarrow> split_at d s = [s]"
  by (induction s) auto

section \<open>The generation gate\<close>

definition generation_enabled :: "settings \<Rightarrow> bool" where
  "generation_enabled env \<longleftrightarrow>
     lower (strip (case env ''OPTIONAL_AI_GENERATION_ENABLED'' of None \<Rightarrow> ''true'' | Some v \<Rightarrow> v)) = ''true''"

definition requires_generation :: "string \<Rightarrow> json \<Rightarrow> bool" where
  "requires_generation operation payload =
     (let data = (if json_truthy (Some payload) then payload else JObj []);
          mode = json_get ''mode'' data
      in if operation \<in> {''resume_tailor'', ''resume_tailor_legacy'', ''rewrite_bullets'', ''interview_questions_legacy''}
         then True
         else if operation \<in> {''job_match'', ''job_match_legacy''}
         then (case mode of None \<Rightarrow> False | Some v \<Rightarrow> v \<noteq> JStr ''basic'')
         else if operation = ''interview_questions''
         then (case mode of None \<Rightarrow> False | Some v \<Rightarrow> v \<noteq> JStr ''curated'')
         else operation \<in> {''resume_enrichment'', ''match_question'', ''learning_strategy''} \<and> mode = Some (JStr ''enhanced''))"

text \<open>\<open>Inl ()\<close> is \<open>GenerationPaused\<close>.\<close>

definition require_operation_generation :: "settings \<Rightarrow> string \<Rightarrow> json \<Rightarrow> unit + unit" where
  "require_operation_generation env operation payload =
     require (\<not> requires_generation operation payload \<or> generation_enabled env) ()"

end
