(* ===== verification/Dispatch.thy ===== *)
theory Dispatch
  imports Settings
begin

text \<open>
  \<open>domains/dispatch/service.py\<close>: the durable outbox. Every committed transaction of the
  publisher and of the workers is a function on the rows; the functions of the module are
  their compositions. What lies outside (the environment variables, the URL parser, Cloud
  Tasks, the domain handlers that \<open>_execute\<close> calls and the state they leave) enters as data.
\<close>

section \<open>Rows\<close>

datatype outbox_status = OutPending | Publishing | Dispatched | OutRetry | Running | Completed | Failed

record outbox_row =
  dx_id :: string
  dx_topic :: string
  dx_aggregate_id :: string
  dx_idempotency_key :: string
  dx_payload :: "(string \<times> json) list"
  dx_status :: outbox_status
  dx_available_at :: int
  dx_lease_token :: "string option"
  dx_lease_until :: "int option"
  dx_dispatch_attempts :: int
  dx_execution_attempts :: int
  dx_task_name :: "string option"
  dx_last_error :: "string option"
  dx_created_at :: int
  dx_updated_at :: int
  dx_completed_at :: "int option"

type_synonym outbox = "outbox_row list"

datatype dispatch_error =
    DispatchConfigurationError string
  | DispatchValueError string
  | WorkerScopeError
  | RetryableDispatchError string
  | GenerationRefused string

definition TOPICS :: "string list" where
  "TOPICS = [''analysis.run'', ''employer.search'', ''employer.refresh'', ''employer.apply'', ''employer.artifact-delete'']"

definition IN_PROGRESS_RESULTS :: "string list" where
  "IN_PROGRESS_RESULTS = [''pending'', ''queued'', ''running'']"

definition SEARCH_CONTINUATION_MARKERS :: "string list" where
  "SEARCH_CONTINUATION_MARKERS = [''domain_continuation_advanced'', ''domain_continuation_publish_deferred'',
     ''domain_continuation_in_progress'', ''domain_continuation_retry_deferred'']"

definition PAYLOAD_KEYS :: "string list" where
  "PAYLOAD_KEYS = [''id'', ''run_id'', ''source_id'', ''search_id'', ''application_id'', ''deletion_id'']"

definition is_search :: "outbox_row \<Rightarrow> bool" where
  "is_search row \<longleftrightarrow> dx_topic row = ''employer.search''"

definition marked :: "outbox_row \<Rightarrow> bool" where
  "marked row \<longleftrightarrow> is_search row \<and>
     (case dx_last_error row of None \<Rightarrow> False | Some e \<Rightarrow> e \<in> set SEARCH_CONTINUATION_MARKERS)"

text \<open>A conditional UPDATE: the rows it changes, and whether there are any.\<close>

definition update_where :: "(outbox_row \<Rightarrow> bool) \<Rightarrow> (outbox_row \<Rightarrow> outbox_row) \<Rightarrow> outbox \<Rightarrow> outbox" where
  "update_where p f db = map (\<lambda>row. if p row then f row else row) db"

section \<open>Configuration\<close>

definition local_environment :: "settings \<Rightarrow> bool" where
  "local_environment env \<longleftrightarrow>
     lower (strip (if env_value env ''APP_ENV'' = [] then ''production'' else env_value env ''APP_ENV''))
       \<in> {''development'', ''dev'', ''local'', ''test''}"

definition setting :: "settings \<Rightarrow> string \<Rightarrow> dispatch_error + string" where
  "setting env name =
     (let value = strip (env_value env name) in
      if value = [] then Inl (DispatchConfigurationError (''Dispatch requires '' @ name)) else Inr value)"

definition queue_setting :: "string \<Rightarrow> string" where
  "queue_setting topic =
     (if topic = ''analysis.run'' then ''ANALYSIS_TASKS_QUEUE''
      else if topic = ''employer.search'' then ''EMPLOYER_SEARCH_TASKS_QUEUE''
      else if topic = ''employer.apply'' then ''EMPLOYER_APPLICATION_TASKS_QUEUE''
      else ''EMPLOYER_INGESTION_TASKS_QUEUE'')"

definition worker_setting :: "string \<Rightarrow> string" where
  "worker_setting topic =
     (if topic = ''analysis.run'' then ''ANALYSIS_WORKER_URL''
      else if topic = ''employer.search'' then ''EMPLOYER_SEARCH_WORKER_URL''
      else if topic = ''employer.apply'' then ''EMPLOYER_APPLICATION_WORKER_URL''
      else ''EMPLOYER_INGESTION_WORKER_URL'')"

text \<open>What \<open>urlsplit\<close> makes of a URL (\<open>None\<close>: it, or reading the port, raised \<open>ValueError\<close>).\<close>

record url_parts =
  url_scheme :: string
  url_hostname :: string
  url_userinfo :: bool
  url_query :: string
  url_fragment :: string
  url_path :: string
  url_port :: "int option"

definition setting_or :: "settings \<Rightarrow> string \<Rightarrow> string \<Rightarrow> dispatch_error + string" where
  "setting_or env name fallback =
     (if local_environment env
      then (let v = strip (env_value env name) in if v = [] then setting env fallback else Inr v)
      else setting env name)"

definition task_route :: "(string \<Rightarrow> url_parts option) \<Rightarrow> settings \<Rightarrow> string \<Rightarrow> dispatch_error + string \<times> string" where
  "task_route urlsplit env topic =
     bindE (require (topic \<in> set TOPICS) (DispatchConfigurationError ''Unsupported dispatch topic'')) (\<lambda>_.
     bindE (setting_or env (queue_setting topic) ''ANALYSIS_TASKS_QUEUE'') (\<lambda>queue.
     bindE (setting_or env (worker_setting topic) ''ANALYSIS_WORKER_URL'') (\<lambda>url.
     let worker_url = rev (dropWhile (\<lambda>c. c = CHR ''/'') (rev url));
         bad = DispatchConfigurationError (''Dispatch requires a service HTTPS origin in '' @ worker_setting topic)
     in case urlsplit worker_url of
          None \<Rightarrow> Inl bad
        | Some u \<Rightarrow>
            bindE (require (url_scheme u = ''https'' \<and> url_hostname u \<noteq> [] \<and> \<not> url_userinfo u \<and> url_query u = []
                     \<and> url_fragment u = [] \<and> url_path u = [] \<and> (url_port u = None \<or> url_port u = Some 443)) bad) (\<lambda>_.
            bindE (require (\<not> list_ex is_space queue \<and> CHR ''/'' \<notin> set queue)
                     (DispatchConfigurationError (''Dispatch requires a queue ID in '' @ queue_setting topic))) (\<lambda>_.
            Inr (queue, worker_url))))))"

datatype dispatch_mode = Manual | Inline | CloudTasks

definition dispatch_mode_of :: "(string \<Rightarrow> url_parts option) \<Rightarrow> settings \<Rightarrow> dispatch_error + dispatch_mode" where
  "dispatch_mode_of urlsplit env =
     (let mode0 = lower (strip (env_value env ''ANALYSIS_TASKS_MODE'')) in
      bindE (require (mode0 \<noteq> [] \<or> local_environment env)
               (DispatchConfigurationError ''Production dispatch requires explicit ANALYSIS_TASKS_MODE'')) (\<lambda>_.
      let mode = (if mode0 = [] then ''inline'' else mode0) in
      if mode = ''manual'' then Inr Manual
      else if mode = ''inline'' then
        bindE (require (local_environment env)
          (DispatchConfigurationError ''Inline dispatch is restricted to local/test environments'')) (\<lambda>_. Inr Inline)
      else if mode = ''cloud_tasks'' then
        bindE (setting env ''GOOGLE_CLOUD_PROJECT'') (\<lambda>_.
        bindE (setting env ''ANALYSIS_TASKS_LOCATION'') (\<lambda>_.
        bindE (setting env ''ANALYSIS_TASKS_SERVICE_ACCOUNT'') (\<lambda>_.
        bindE (task_route urlsplit env ''analysis.run'') (\<lambda>_. Inr CloudTasks))))
      else Inl (DispatchConfigurationError ''Unsupported dispatch mode'')))"

definition queue_parent :: "(string \<Rightarrow> url_parts option) \<Rightarrow> settings \<Rightarrow> string \<Rightarrow> dispatch_error + string" where
  "queue_parent urlsplit env topic =
     bindE (task_route urlsplit env topic) (\<lambda>(queue, _).
     bindE (setting env ''GOOGLE_CLOUD_PROJECT'') (\<lambda>project.
     bindE (setting env ''ANALYSIS_TASKS_LOCATION'') (\<lambda>location.
     Inr (''projects/'' @ project @ ''/locations/'' @ location @ ''/queues/'' @ queue))))"

section \<open>Enqueue\<close>

definition enqueue ::
  "outbox \<Rightarrow> string \<Rightarrow> string \<Rightarrow> string \<Rightarrow> (string \<times> json) list \<Rightarrow> string \<Rightarrow> int
     \<Rightarrow> dispatch_error + outbox_row \<times> outbox" where
  "enqueue db new_id topic aggregate_id payload key now =
     bindE (require (topic \<in> set TOPICS \<and> aggregate_id \<noteq> [] \<and> length key \<le> 180) (DispatchValueError ''Invalid dispatch intent'')) (\<lambda>_.
     bindE (require (set (map fst payload) \<subseteq> set PAYLOAD_KEYS)
              (DispatchValueError ''Dispatch payloads may contain identifiers only'')) (\<lambda>_.
     case find (\<lambda>row. dx_idempotency_key row = key) db of
       Some existing \<Rightarrow>
         bindE (require (dx_topic existing = topic \<and> dx_aggregate_id existing = aggregate_id)
           (DispatchValueError ''Dispatch key belongs to different work'')) (\<lambda>_. Inr (existing, db))
     | None \<Rightarrow>
         let event = \<lparr>dx_id = ''dispatch_'' @ new_id, dx_topic = topic, dx_aggregate_id = aggregate_id,
               dx_idempotency_key = key, dx_payload = payload, dx_status = OutPending, dx_available_at = now,
               dx_lease_token = None, dx_lease_until = None, dx_dispatch_attempts = 0, dx_execution_attempts = 0,
               dx_task_name = None, dx_last_error = None, dx_created_at = now, dx_updated_at = now, dx_completed_at = None\<rparr>
         in Inr (event, db @ [event])))"

section \<open>Transactions of the publisher\<close>

text \<open>SQL compares with NULL as unknown, so a missing lease is never expired.\<close>

definition lease_expired :: "outbox_row \<Rightarrow> int \<Rightarrow> bool" where
  "lease_expired row now \<longleftrightarrow> (case dx_lease_until row of None \<Rightarrow> False | Some t \<Rightarrow> t < now)"

definition claimable :: "int \<Rightarrow> outbox_row \<Rightarrow> bool" where
  "claimable now row \<longleftrightarrow>
     dx_status row = OutPending \<or>
     (dx_status row = Publishing \<and> lease_expired row now) \<or>
     (dx_status row = OutRetry \<and> dx_available_at row \<le> now) \<or>
     (dx_status row = Running \<and> lease_expired row now) \<or>
     (dx_status row = Dispatched \<and> dx_updated_at row < now - hours 1)"

definition due :: "int \<Rightarrow> outbox_row \<Rightarrow> bool" where
  "due now row \<longleftrightarrow> dx_available_at row \<le> now \<and> claimable now row"

text \<open>The physical task name of a claim: the stored one while its creation may be repeated.\<close>

definition claim_task_name :: "string option \<Rightarrow> outbox_row \<Rightarrow> string" where
  "claim_task_name parent row =
     (case parent of
        None \<Rightarrow> ''local''
      | Some p \<Rightarrow>
          let fresh = p @ ''/tasks/'' @ dx_id row @ ''-dispatch-'' @ decimal (dx_dispatch_attempts row + 1) in
          case dx_task_name row of
            None \<Rightarrow> fresh
          | Some name \<Rightarrow>
              if (dx_status row \<in> {OutPending, Publishing} \<or>
                  (dx_status row = OutRetry \<and> is_search row \<and>
                   dx_last_error row \<in> {Some ''domain_continuation_advanced'', Some ''domain_continuation_publish_deferred''}))
                 \<and> starts_with (p @ ''/tasks/'') name
              then name else fresh)"

definition publish_claim :: "string \<Rightarrow> string \<Rightarrow> string option \<Rightarrow> int \<Rightarrow> outbox \<Rightarrow> outbox" where
  "publish_claim event_id token parent now =
     update_where (\<lambda>row. dx_id row = event_id \<and> claimable now row)
       (\<lambda>row. row\<lparr>dx_status := Publishing, dx_lease_token := Some token, dx_lease_until := Some (now + minutes 2),
                 dx_updated_at := now, dx_dispatch_attempts := dx_dispatch_attempts row + 1,
                 dx_task_name := Some (claim_task_name parent row)\<rparr>)"

definition publishing_by :: "string \<Rightarrow> string \<Rightarrow> outbox_row \<Rightarrow> bool" where
  "publishing_by event_id token row \<longleftrightarrow>
     dx_id row = event_id \<and> dx_lease_token row = Some token \<and> dx_status row = Publishing"

definition publish_done :: "string \<Rightarrow> string \<Rightarrow> string \<Rightarrow> int \<Rightarrow> outbox \<Rightarrow> outbox" where
  "publish_done event_id token task_name now =
     update_where (publishing_by event_id token)
       (\<lambda>row. row\<lparr>dx_status := Dispatched, dx_task_name := Some task_name, dx_lease_token := None, dx_lease_until := None,
                 dx_last_error := (if marked row then dx_last_error row else None), dx_updated_at := now\<rparr>)"

definition publish_defer :: "bool \<Rightarrow> string \<Rightarrow> string \<Rightarrow> string \<Rightarrow> int \<Rightarrow> outbox \<Rightarrow> outbox" where
  "publish_defer inline event_id token error now =
     update_where (publishing_by event_id token)
       (\<lambda>row. row\<lparr>dx_status := OutPending, dx_task_name := (if inline then None else dx_task_name row),
                 dx_lease_token := None, dx_lease_until := None, dx_available_at := now + seconds 30,
                 dx_last_error := Some (if marked row then ''domain_continuation_publish_deferred'' else error),
                 dx_updated_at := now\<rparr>)"

section \<open>Transactions of a worker\<close>

definition executable :: "int \<Rightarrow> outbox_row \<Rightarrow> bool" where
  "executable now row \<longleftrightarrow>
     (\<not> marked row \<or> dx_available_at row \<le> now) \<and>
     (dx_status row \<in> {OutPending, Publishing, Dispatched, OutRetry} \<or> (dx_status row = Running \<and> lease_expired row now))"

definition claim_execution :: "string \<Rightarrow> string \<Rightarrow> int \<Rightarrow> outbox \<Rightarrow> outbox" where
  "claim_execution event_id token now =
     update_where (\<lambda>row. dx_id row = event_id \<and> executable now row)
       (\<lambda>row. row\<lparr>dx_status := Running, dx_lease_token := Some token, dx_lease_until := Some (now + minutes 16),
                 dx_execution_attempts := dx_execution_attempts row + 1, dx_updated_at := now\<rparr>)"

definition running_by :: "string \<Rightarrow> string \<Rightarrow> outbox_row \<Rightarrow> bool" where
  "running_by event_id token row \<longleftrightarrow>
     dx_id row = event_id \<and> dx_lease_token row = Some token \<and> dx_status row = Running"

definition finish_exhausted :: "string \<Rightarrow> string \<Rightarrow> int \<Rightarrow> outbox \<Rightarrow> outbox" where
  "finish_exhausted event_id token now =
     update_where (running_by event_id token)
       (\<lambda>row. row\<lparr>dx_status := Failed, dx_completed_at := Some now, dx_lease_token := None, dx_lease_until := None,
                 dx_last_error := Some ''delivery_exhausted'', dx_updated_at := now\<rparr>)"

definition finish_retry :: "string \<Rightarrow> string \<Rightarrow> string \<Rightarrow> int \<Rightarrow> outbox \<Rightarrow> outbox" where
  "finish_retry event_id token error now =
     update_where (running_by event_id token)
       (\<lambda>row. row\<lparr>dx_status := OutRetry, dx_lease_token := None, dx_lease_until := None, dx_available_at := now + hours 1,
                 dx_last_error := Some (if marked row then ''domain_continuation_retry_deferred'' else error),
                 dx_updated_at := now\<rparr>)"

definition finish_in_progress :: "string \<Rightarrow> string \<Rightarrow> int \<Rightarrow> outbox \<Rightarrow> outbox" where
  "finish_in_progress event_id token now =
     update_where (running_by event_id token)
       (\<lambda>row. row\<lparr>dx_status := OutRetry, dx_lease_token := None, dx_lease_until := None, dx_available_at := now + minutes 5,
                 dx_execution_attempts := dx_execution_attempts row - 1,
                 dx_last_error := Some (if marked row then ''domain_continuation_in_progress'' else ''domain_work_in_progress''),
                 dx_updated_at := now\<rparr>)"

definition finish_completed :: "string \<Rightarrow> string \<Rightarrow> int \<Rightarrow> outbox \<Rightarrow> outbox" where
  "finish_completed event_id token now =
     update_where (running_by event_id token)
       (\<lambda>row. row\<lparr>dx_status := Completed, dx_completed_at := Some now, dx_lease_token := None, dx_lease_until := None,
                 dx_last_error := None, dx_updated_at := now\<rparr>)"

section \<open>Search continuations\<close>

definition OPEN_STATES :: "string list" where
  "OPEN_STATES = [''pending'', ''scanning'', ''classifying'', ''selecting'']"

definition search_running_by :: "string \<Rightarrow> string \<Rightarrow> string \<Rightarrow> outbox_row \<Rightarrow> bool" where
  "search_running_by event_id token aggregate row \<longleftrightarrow>
     running_by event_id token row \<and> is_search row \<and> dx_aggregate_id row = aggregate"

definition close_continuation :: "string \<Rightarrow> string \<Rightarrow> string \<Rightarrow> int \<Rightarrow> outbox \<Rightarrow> outbox" where
  "close_continuation event_id token aggregate now =
     update_where (search_running_by event_id token aggregate)
       (\<lambda>row. row\<lparr>dx_status := Completed, dx_completed_at := Some now, dx_lease_token := None, dx_lease_until := None\<rparr>)"

text \<open>The next physical generation of a search; \<open>updated_at\<close> is left to its default (no onupdate).\<close>

definition advance_continuation :: "string \<Rightarrow> string \<Rightarrow> string \<Rightarrow> string option \<Rightarrow> int \<Rightarrow> outbox \<Rightarrow> outbox" where
  "advance_continuation event_id token aggregate parent now =
     update_where (search_running_by event_id token aggregate)
       (\<lambda>row. row\<lparr>dx_status := OutRetry, dx_available_at := now + seconds 2,
                 dx_execution_attempts := dx_execution_attempts row - 1,
                 dx_dispatch_attempts := dx_dispatch_attempts row + 1,
                 dx_lease_token := None, dx_lease_until := None, dx_last_error := Some ''domain_continuation_advanced'',
                 dx_task_name := map_option (\<lambda>p. p @ ''/tasks/'' @ dx_id row @ ''-dispatch-'' @
                   decimal (dx_dispatch_attempts row + 1)) parent\<rparr>)"

definition retry_named :: "string \<Rightarrow> string option \<Rightarrow> outbox_row \<Rightarrow> bool" where
  "retry_named event_id name row \<longleftrightarrow>
     dx_id row = event_id \<and> dx_status row = OutRetry \<and> name \<noteq> None \<and> dx_task_name row = name"

definition defer_continuation :: "string \<Rightarrow> string option \<Rightarrow> int \<Rightarrow> outbox \<Rightarrow> outbox" where
  "defer_continuation event_id name now =
     update_where (retry_named event_id name)
       (\<lambda>row. row\<lparr>dx_last_error := Some ''domain_continuation_publish_deferred'', dx_available_at := now + seconds 30\<rparr>)"

definition publish_continuation :: "string \<Rightarrow> string option \<Rightarrow> int \<Rightarrow> outbox \<Rightarrow> outbox" where
  "publish_continuation event_id name now =
     update_where (retry_named event_id name)
       (\<lambda>row. row\<lparr>dx_status := Dispatched, dx_updated_at := now, dx_last_error := Some ''domain_continuation_advanced''\<rparr>)"

section \<open>Publishing one task\<close>

text \<open>The answer of \<open>create_task\<close>: its task's name, the name was taken, or an exception's class.\<close>

datatype creation = Created string | AlreadyExists | CreationFailed string

fun error_name :: "dispatch_error \<Rightarrow> string" where
  "error_name (DispatchConfigurationError _) = ''DispatchConfigurationError''"
| "error_name (DispatchValueError _) = ''ValueError''"
| "error_name WorkerScopeError = ''WorkerScopeError''"
| "error_name (RetryableDispatchError _) = ''RetryableDispatchError''"
| "error_name (GenerationRefused n) = n"

text \<open>The name of the created task, or the class of the exception.\<close>

definition cloud_task ::
  "(string \<Rightarrow> url_parts option) \<Rightarrow> settings \<Rightarrow> (string \<Rightarrow> creation) \<Rightarrow> outbox_row \<Rightarrow> string + string" where
  "cloud_task urlsplit env create event =
     (case bindE (setting env ''ANALYSIS_TASKS_SERVICE_ACCOUNT'') (\<lambda>_. queue_parent urlsplit env (dx_topic event)) of
        Inl e \<Rightarrow> Inl (error_name e)
      | Inr parent \<Rightarrow>
          let fallback = parent @ ''/tasks/'' @ dx_id event @ ''-'' @ decimal (dx_execution_attempts event);
              name = (case dx_task_name event of None \<Rightarrow> fallback | Some n \<Rightarrow> if n = [] then fallback else n)
          in case create name of
               Created answer \<Rightarrow> Inr answer
             | AlreadyExists \<Rightarrow> Inr name
             | CreationFailed e \<Rightarrow> Inl e)"

section \<open>A delivery\<close>

text \<open>The columns of an analysis run that the worker reads and writes.\<close>

record dispatch_run =
  dr_id :: string
  dr_operation :: string
  dr_input_payload :: json
  dr_status :: string
  dr_error_code :: "string option"
  dr_completed_at :: "int option"

definition TERMINAL_RUN :: "string list" where
  "TERMINAL_RUN = [''succeeded'', ''failed'', ''cancelled'']"

datatype execution =
    Raised string          \<comment> \<open>the class of the exception\<close>
  | Continuation string    \<comment> \<open>\<open>EmployerSearchContinuation\<close>\<close>
  | Returned string

text \<open>
  What a delivery meets outside the outbox: the runs, what the handlers do, whether settling
  exhausted work raises, the state of the search plan at its two reads, the answer of Cloud
  Tasks, and the transactions that others commit while a handler or Cloud Tasks is called.
\<close>

record delivery =
  dl_token :: string
  dl_now :: int
  dl_runs :: "dispatch_run list"
  dl_handler :: "string \<Rightarrow> string \<Rightarrow> execution"
  dl_settle_error :: "string option"
  dl_meanwhile :: "outbox \<Rightarrow> outbox"
  dl_finished_at :: int
  dl_plan_state :: "string option"
  dl_before_check :: "outbox \<Rightarrow> outbox"
  dl_plan_state_after :: "string option"
  dl_create :: "string \<Rightarrow> creation"
  dl_during_creation :: "outbox \<Rightarrow> outbox"
  dl_published_at :: int

type_synonym 'a turn_result = "outbox \<times> (dispatch_error + 'a)"

definition status_name :: "outbox_status \<Rightarrow> string" where
  "status_name s = (case s of OutPending \<Rightarrow> ''pending'' | Publishing \<Rightarrow> ''publishing'' | Dispatched \<Rightarrow> ''dispatched''
     | OutRetry \<Rightarrow> ''retry'' | Running \<Rightarrow> ''running'' | Completed \<Rightarrow> ''completed'' | Failed \<Rightarrow> ''failed'')"

text \<open>Only a search may report a continuation; for another topic it is just the text of the result.\<close>

definition execute :: "(string \<Rightarrow> string \<Rightarrow> execution) \<Rightarrow> string \<Rightarrow> string \<Rightarrow> execution" where
  "execute handler topic aggregate =
     (case handler topic aggregate of
        Continuation a \<Rightarrow>
          if topic \<noteq> ''employer.search''
          then Returned (''EmployerSearchContinuation(aggregate_id='' @ [CHR 0x27] @ a @ [CHR 0x27] @ '')'')
          else if a \<noteq> aggregate then Raised ''ValueError'' else Continuation a
      | Raised e \<Rightarrow> Raised e
      | Returned r \<Rightarrow> Returned r)"

text \<open>Settling exhausted work: the run fails, and its units are released in the same transaction.\<close>

definition settle_exhausted :: "string \<Rightarrow> string \<Rightarrow> delivery \<Rightarrow> dispatch_run list \<times> string option" where
  "settle_exhausted topic aggregate d =
     (if topic \<noteq> ''analysis.run'' then (dl_runs d, dl_settle_error d)
      else case row_at dr_id aggregate (dl_runs d) of
          None \<Rightarrow> (dl_runs d, None)
        | Some run \<Rightarrow>
            if dr_status run \<in> set TERMINAL_RUN then (dl_runs d, None)
            else if dl_settle_error d \<noteq> None then (dl_runs d, dl_settle_error d)
            else (update_by dr_id aggregate (\<lambda>r. r\<lparr>dr_status := ''failed'',
                    dr_error_code := Some ''dispatch_delivery_exhausted'', dr_completed_at := Some (dl_finished_at d)\<rparr>)
                    (dl_runs d), None))"

text \<open>The scope of the worker and the generation gate, both in front of the claim.\<close>

definition admit_delivery :: "settings \<Rightarrow> dispatch_run list \<Rightarrow> outbox_row option \<Rightarrow> dispatch_error + unit" where
  "admit_delivery env runs previous =
     (case previous of
        None \<Rightarrow> Inr ()
      | Some row \<Rightarrow>
          let allowed = comma_names (env_value env ''WORKER_ALLOWED_TOPICS'') in
          bindE (require (allowed = [] \<or> dx_topic row \<in> set allowed) WorkerScopeError) (\<lambda>_.
          if dx_topic row = ''analysis.run'' \<and> dx_status row \<notin> {Completed, Failed}
          then (case row_at dr_id (dx_aggregate_id row) runs of
                  None \<Rightarrow> Inr ()
                | Some run \<Rightarrow>
                    if dr_status run \<in> set TERMINAL_RUN then Inr ()
                    else (case require_operation_generation env (dr_operation run) (dr_input_payload run) of
                            Inl _ \<Rightarrow> Inl (GenerationRefused ''GenerationPaused'')
                          | Inr _ \<Rightarrow> Inr ()))
          else Inr ()))"

definition open_state :: "string option \<Rightarrow> bool" where
  "open_state s \<longleftrightarrow> (case s of None \<Rightarrow> False | Some name \<Rightarrow> name \<in> set OPEN_STATES)"

definition name_or :: "string option \<Rightarrow> string \<Rightarrow> string" where
  "name_or s fallback = (case s of None \<Rightarrow> fallback | Some name \<Rightarrow> if name = [] then fallback else name)"

definition task_parent ::
  "(string \<Rightarrow> url_parts option) \<Rightarrow> settings \<Rightarrow> dispatch_mode \<Rightarrow> string \<Rightarrow> dispatch_error + string option" where
  "task_parent urlsplit env mode topic =
     (if mode = CloudTasks then map_sum id Some (queue_parent urlsplit env topic) else Inr None)"

text \<open>The second half of \<open>_continue_search\<close>, after the generation \<open>snapshot\<close> is committed.\<close>

definition publish_generation ::
  "(string \<Rightarrow> url_parts option) \<Rightarrow> settings \<Rightarrow> outbox \<Rightarrow> delivery \<Rightarrow> outbox_row \<Rightarrow> string turn_result" where
  "publish_generation urlsplit env db d snapshot =
     (let fresh = list_ex (\<lambda>r. retry_named (dx_id snapshot) (dx_task_name snapshot) r \<and>
            dx_last_error r = Some ''domain_continuation_advanced'') db
      in if \<not> fresh \<or> \<not> open_state (dl_plan_state_after d) then (db, Inr (name_or (dl_plan_state_after d) ''cancelled''))
         else let later = dl_during_creation d db in
              (case cloud_task urlsplit env (dl_create d) snapshot of
                 Inl _ \<Rightarrow> (defer_continuation (dx_id snapshot) (dx_task_name snapshot) (dl_published_at d) later, Inr ''continuing'')
               | Inr _ \<Rightarrow> (publish_continuation (dx_id snapshot) (dx_task_name snapshot) (dl_published_at d) later, Inr ''continuing'')))"

definition continue_search ::
  "(string \<Rightarrow> url_parts option) \<Rightarrow> settings \<Rightarrow> outbox \<Rightarrow> string \<Rightarrow> delivery \<Rightarrow> string \<Rightarrow> string turn_result" where
  "continue_search urlsplit env db event_id d aggregate =
     (if \<not> list_ex (search_running_by event_id (dl_token d) aggregate) db then (db, Inr ''cancelled'')
      else if \<not> open_state (dl_plan_state d)
      then (close_continuation event_id (dl_token d) aggregate (dl_finished_at d) db, Inr (name_or (dl_plan_state d) ''missing''))
      else case bindE (dispatch_mode_of urlsplit env) (\<lambda>mode. task_parent urlsplit env mode ''employer.search'') of
          Inl e \<Rightarrow> (db, Inl e)
        | Inr parent \<Rightarrow>
            let advanced = advance_continuation event_id (dl_token d) aggregate parent (dl_finished_at d) db in
            (case row_at dx_id event_id advanced of
               None \<Rightarrow> (advanced, Inr ''continuing'')
             | Some snapshot \<Rightarrow>
                 if parent = None then (advanced, Inr ''continuing'')
                 else publish_generation urlsplit env (dl_before_check d advanced) d snapshot))"

text \<open>What a worker does with its claim; \<open>db\<close> is the outbox once the handler has returned.\<close>

definition finish_event ::
  "(string \<Rightarrow> url_parts option) \<Rightarrow> settings \<Rightarrow> outbox \<Rightarrow> outbox_row \<Rightarrow> delivery
     \<Rightarrow> outbox \<times> dispatch_run list \<times> (dispatch_error + string)" where
  "finish_event urlsplit env db event d =
     (let event_id = dx_id event; token = dl_token d; at = dl_finished_at d in
      if dx_execution_attempts event > 6
      then (case settle_exhausted (dx_topic event) (dx_aggregate_id event) d of
              (runs, Some e) \<Rightarrow> (finish_retry event_id token e at db, runs, Inl (RetryableDispatchError e))
            | (runs, None) \<Rightarrow> (finish_exhausted event_id token at db, runs, Inr ''failed''))
      else (case execute (dl_handler d) (dx_topic event) (dx_aggregate_id event) of
              Raised e \<Rightarrow> (finish_retry event_id token e at db, dl_runs d, Inl (RetryableDispatchError e))
            | Continuation aggregate \<Rightarrow>
                (case continue_search urlsplit env db event_id d aggregate of (db', r) \<Rightarrow> (db', dl_runs d, r))
            | Returned r \<Rightarrow>
                if r \<in> set IN_PROGRESS_RESULTS
                then (finish_in_progress event_id token at db, dl_runs d,
                      Inl (RetryableDispatchError ''Domain work is still in progress''))
                else (finish_completed event_id token at db, dl_runs d, Inr r)))"

definition process_event ::
  "(string \<Rightarrow> url_parts option) \<Rightarrow> settings \<Rightarrow> outbox \<Rightarrow> string \<Rightarrow> delivery
     \<Rightarrow> outbox \<times> dispatch_run list \<times> (dispatch_error + string)" where
  "process_event urlsplit env db event_id d =
     (case admit_delivery env (dl_runs d) (row_at dx_id event_id db) of
        Inl e \<Rightarrow> (db, dl_runs d, Inl e)
      | Inr _ \<Rightarrow>
          let claimed = list_ex (\<lambda>r. dx_id r = event_id \<and> executable (dl_now d) r) db;
              db1 = claim_execution event_id (dl_token d) (dl_now d) db
          in (case row_at dx_id event_id db1 of
                None \<Rightarrow> (db1, dl_runs d, Inr ''missing'')
              | Some event \<Rightarrow>
                  if \<not> claimed
                  then (db1, dl_runs d,
                        if dx_status event = Running then Inl (RetryableDispatchError ''Work has a live lease'')
                        else if marked event then Inr ''continuing''
                        else Inr (status_name (dx_status event)))
                  else finish_event urlsplit env (dl_meanwhile d db1) event d))"

section \<open>The sweep\<close>

text \<open>What publishing one event meets: its token, Cloud Tasks, the others meanwhile, and the inline worker.\<close>

record publication =
  pb_token :: string
  pb_create :: "string \<Rightarrow> creation"
  pb_meanwhile :: "outbox \<Rightarrow> outbox"
  pb_done_at :: int
  pb_delivery :: delivery

text \<open>The answer: \<open>None\<close> when another publisher has the event, else whether it was sent.\<close>

definition publish_event ::
  "(string \<Rightarrow> url_parts option) \<Rightarrow> settings \<Rightarrow> dispatch_mode \<Rightarrow> int \<Rightarrow> publication \<Rightarrow> string \<times> string \<Rightarrow> outbox
     \<Rightarrow> bool option turn_result" where
  "publish_event urlsplit env mode now p selected db =
     (case task_parent urlsplit env mode (snd selected) of
        Inl e \<Rightarrow> (db, Inl e)
      | Inr parent \<Rightarrow>
          let event_id = fst selected;
              claimed = list_ex (\<lambda>r. dx_id r = event_id \<and> claimable now r) db;
              db1 = publish_claim event_id (pb_token p) parent now db
          in (case row_at dx_id event_id db1 of
                None \<Rightarrow> (db1, Inr None)
              | Some event \<Rightarrow>
                  if \<not> claimed then (db1, Inr None)
                  else if mode = Inline
                  then (case process_event urlsplit env db1 event_id (pb_delivery p) of
                          (db2, _, Inl e) \<Rightarrow> (publish_defer True event_id (pb_token p) (error_name e) (pb_done_at p) db2, Inr (Some False))
                        | (db2, _, Inr _) \<Rightarrow> (db2, Inr (Some True)))
                  else (case cloud_task urlsplit env (pb_create p) event of
                          Inl e \<Rightarrow> (publish_defer False event_id (pb_token p) e (pb_done_at p) (pb_meanwhile p db1), Inr (Some False))
                        | Inr name \<Rightarrow> (publish_done event_id (pb_token p) name (pb_done_at p) (pb_meanwhile p db1), Inr (Some True)))))"

definition selected_events :: "nat \<Rightarrow> string list \<Rightarrow> int \<Rightarrow> outbox \<Rightarrow> (string \<times> string) list" where
  "selected_events limit topics now db =
     map (\<lambda>r. (dx_id r, dx_topic r))
       (take limit (sort_key dx_created_at (filter (\<lambda>r. due now r \<and> (topics = [] \<or> dx_topic r \<in> set topics)) db)))"

fun publish_all ::
  "(string \<Rightarrow> url_parts option) \<Rightarrow> settings \<Rightarrow> dispatch_mode \<Rightarrow> int \<Rightarrow> (string \<Rightarrow> publication)
     \<Rightarrow> (string \<times> string) list \<Rightarrow> nat \<times> nat \<Rightarrow> outbox \<Rightarrow> (nat \<times> nat) turn_result" where
  "publish_all urlsplit env mode now ps [] n db = (db, Inr n)"
| "publish_all urlsplit env mode now ps (e # es) (sent, failures) db =
     (case publish_event urlsplit env mode now (ps (fst e)) e db of
        (db1, Inl err) \<Rightarrow> (db1, Inl err)
      | (db1, Inr None) \<Rightarrow> publish_all urlsplit env mode now ps es (sent, failures) db1
      | (db1, Inr (Some True)) \<Rightarrow> publish_all urlsplit env mode now ps es (sent + 1, failures) db1
      | (db1, Inr (Some False)) \<Rightarrow> publish_all urlsplit env mode now ps es (sent, failures + 1) db1)"

fun check_routes :: "(string \<Rightarrow> url_parts option) \<Rightarrow> settings \<Rightarrow> string list \<Rightarrow> dispatch_error + unit" where
  "check_routes urlsplit env [] = Inr ()"
| "check_routes urlsplit env (t # ts) = bindE (task_route urlsplit env t) (\<lambda>_. check_routes urlsplit env ts)"

definition dispatch_pending ::
  "(string \<Rightarrow> url_parts option) \<Rightarrow> settings \<Rightarrow> nat \<Rightarrow> string list \<Rightarrow> int \<Rightarrow> (string \<Rightarrow> publication) \<Rightarrow> outbox
     \<Rightarrow> (nat \<times> nat) turn_result" where
  "dispatch_pending urlsplit env limit topics now ps db =
     (case dispatch_mode_of urlsplit env of
        Inl e \<Rightarrow> (db, Inl e)
      | Inr Manual \<Rightarrow> (db, Inr (0, 0))
      | Inr mode \<Rightarrow>
          if \<not> set topics \<subseteq> set TOPICS then (db, Inl (DispatchConfigurationError ''Unsupported dispatch topic''))
          else (let events = selected_events limit topics now db in
            case bindE (if mode = CloudTasks then check_routes urlsplit env topics else Inr ()) (\<lambda>_.
                   if mode = CloudTasks then check_routes urlsplit env (map snd events) else Inr ()) of
              Inl e \<Rightarrow> (db, Inl e)
            | Inr _ \<Rightarrow> publish_all urlsplit env mode now ps events (0, 0) db))"

end
