(* ===== verification/Dispatch_Safety.thy ===== *)
theory Dispatch_Safety
  imports Dispatch
begin

text \<open>
  The outbox as a system: any number of publishers and workers commit the transactions of
  \<open>Dispatch\<close> in any order, at instants that need not be monotone, and may stop between any two
  of them. The only thing assumed of them is that a claim's token (\<open>uuid4().hex\<close>) is new.
  Then what the whole deliveries and sweeps do is shown to be such a sequence.
\<close>

section \<open>Transactions\<close>

datatype outbox_txn =
    TxEnqueue string string string "(string \<times> json) list" string
  | TxPublish string string "string option"
  | TxPublished string string string
  | TxDefer bool string string string
  | TxClaim string string
  | TxExhausted string string
  | TxRetry string string string
  | TxInProgress string string
  | TxCompleted string string
  | TxClose string string string
  | TxAdvance string string string "string option"
  | TxDeferTask string "string option"
  | TxPublishTask string "string option"

primrec apply_txn :: "int \<Rightarrow> outbox_txn \<Rightarrow> outbox \<Rightarrow> outbox" where
  "apply_txn now (TxEnqueue i topic aggregate payload key) db =
     (case enqueue db i topic aggregate payload key now of Inl _ \<Rightarrow> db | Inr (_, db') \<Rightarrow> db')"
| "apply_txn now (TxPublish i t p) db = publish_claim i t p now db"
| "apply_txn now (TxPublished i t name) db = publish_done i t name now db"
| "apply_txn now (TxDefer b i t e) db = publish_defer b i t e now db"
| "apply_txn now (TxClaim i t) db = claim_execution i t now db"
| "apply_txn now (TxExhausted i t) db = finish_exhausted i t now db"
| "apply_txn now (TxRetry i t e) db = finish_retry i t e now db"
| "apply_txn now (TxInProgress i t) db = finish_in_progress i t now db"
| "apply_txn now (TxCompleted i t) db = finish_completed i t now db"
| "apply_txn now (TxClose i t a) db = close_continuation i t a now db"
| "apply_txn now (TxAdvance i t a p) db = advance_continuation i t a p now db"
| "apply_txn now (TxDeferTask i n) db = defer_continuation i n now db"
| "apply_txn now (TxPublishTask i n) db = publish_continuation i n now db"

text \<open>The token that a claim draws.\<close>

fun claim_token :: "outbox_txn \<Rightarrow> string option" where
  "claim_token (TxPublish _ t _) = Some t"
| "claim_token (TxClaim _ t) = Some t"
| "claim_token _ = None"

text \<open>What a transaction does to one row.\<close>

definition row_after :: "int \<Rightarrow> outbox_txn \<Rightarrow> outbox_row \<Rightarrow> outbox_row" where
  "row_after now tx row = (case tx of TxEnqueue _ _ _ _ _ \<Rightarrow> row | _ \<Rightarrow> hd (apply_txn now tx [row]))"

lemmas txn_defs = publish_claim_def publish_done_def publish_defer_def claim_execution_def finish_exhausted_def
  finish_retry_def finish_in_progress_def finish_completed_def close_continuation_def advance_continuation_def
  defer_continuation_def publish_continuation_def

lemma enqueue_shape:
  assumes "enqueue db i topic aggregate payload key now = Inr (row, db')"
  obtains "db' = db" "row \<in> set db" "dx_idempotency_key row = key" "dx_topic row = topic" "dx_aggregate_id row = aggregate"
    | "db' = db @ [row]" "key \<notin> dx_idempotency_key ` set db" "dx_id row = ''dispatch_'' @ i" "dx_topic row = topic"
      "dx_aggregate_id row = aggregate" "dx_idempotency_key row = key" "dx_status row = OutPending" "dx_available_at row = now"
      "dx_lease_token row = None" "dx_lease_until row = None" "dx_execution_attempts row = 0" "dx_updated_at row = now"
      "dx_completed_at row = None"
proof (cases "find (\<lambda>row. dx_idempotency_key row = key) db")
  case None
  then have "key \<notin> dx_idempotency_key ` set db" by (auto simp: find_None_iff)
  with assms None show ?thesis by (intro that(2)) (simp_all add: enqueue_def result_simps Let_def, auto)
next
  case (Some existing)
  then have "existing \<in> set db" "dx_idempotency_key existing = key" by (auto simp: find_Some_iff)
  with assms Some that(1) show ?thesis by (auto simp: enqueue_def result_simps)
qed

lemma apply_txn_rows:
  obtains fresh where "apply_txn now tx db = map (row_after now tx) db @ fresh"
    and "fresh = [] \<or> (\<exists>i a b c k row. tx = TxEnqueue i a b c k \<and> enqueue db i a b c k now = Inr (row, db @ [row]) \<and> fresh = [row])"
proof (cases tx)
  case (TxEnqueue i a b c k)
  then have "row_after now tx = id" by (simp add: row_after_def fun_eq_iff)
  then have same: "map (row_after now tx) db = db" by simp
  show ?thesis
  proof (cases "enqueue db i a b c k now")
    case (Inl e)
    with same TxEnqueue that [of "[]"] show ?thesis by simp
  next
    case (Inr r)
    obtain row db' where r: "r = (row, db')" by (cases r)
    from Inr [unfolded r] show ?thesis
    proof (cases rule: enqueue_shape)
      case 1
      with Inr r same TxEnqueue that [of "[]"] show ?thesis by simp
    next
      case 2
      with Inr r same TxEnqueue that [of "[row]"] show ?thesis by simp
    qed
  qed
qed (use that [of "[]"] in \<open>simp add: row_after_def txn_defs update_where_def\<close>)+

lemmas txn_guards = claimable_def publishing_by_def executable_def running_by_def search_running_by_def retry_named_def

definition terminal :: "outbox_row \<Rightarrow> bool" where
  "terminal row \<longleftrightarrow> dx_status row \<in> {Completed, Failed}"

lemma row_after_terminal: "terminal row \<Longrightarrow> row_after now tx row = row"
  by (cases tx) (auto simp: row_after_def txn_defs update_where_def terminal_def txn_guards)

lemma row_after_identity:
  "dx_id (row_after now tx row) = dx_id row"
  "dx_topic (row_after now tx row) = dx_topic row"
  "dx_aggregate_id (row_after now tx row) = dx_aggregate_id row"
  "dx_idempotency_key (row_after now tx row) = dx_idempotency_key row"
  by (cases tx; simp add: row_after_def txn_defs update_where_def)+

lemma row_after_token:
  "dx_lease_token (row_after now tx row) \<in> {dx_lease_token row, None} \<or>
   dx_lease_token (row_after now tx row) = claim_token tx"
  by (cases tx) (simp_all add: row_after_def txn_defs update_where_def)

text \<open>
  What holds of every row: a lease has a token that was drawn, a limit at most sixteen
  minutes ahead, and nothing waits longer than an hour; a claimed execution is counted.
\<close>

definition row_ok :: "string set \<Rightarrow> int \<Rightarrow> outbox_row \<Rightarrow> bool" where
  "row_ok used clock row \<longleftrightarrow>
     (case dx_lease_token row of
        None \<Rightarrow> dx_status row \<notin> {Publishing, Running} \<and> dx_lease_until row = None
      | Some t \<Rightarrow> t \<in> used \<and> dx_status row \<in> {Publishing, Running} \<and>
          (\<exists>until. dx_lease_until row = Some until \<and> until \<le> clock + minutes 16)) \<and>
     dx_available_at row \<le> clock + hours 1 \<and> dx_updated_at row \<le> clock \<and>
     (if dx_status row = Running then 1 else 0) \<le> dx_execution_attempts row \<and>
     (dx_completed_at row \<noteq> None \<longleftrightarrow> terminal row)"

lemma durations: "seconds 2 \<le> hours 1" "seconds 30 \<le> hours 1" "minutes 5 \<le> hours 1" "minutes 2 \<le> minutes 16"
  "0 \<le> hours 1"
  by (simp_all add: seconds_def minutes_def hours_def)

lemma row_ok_mono: "row_ok used c row \<Longrightarrow> used \<subseteq> used' \<Longrightarrow> c \<le> c' \<Longrightarrow> row_ok used' c' row"
  by (fastforce simp: row_ok_def split: option.splits)

lemma row_after_ok:
  assumes ok: "row_ok used c row" and "now \<le> c" and "used \<subseteq> used'" and "set_option (claim_token tx) \<subseteq> used'"
  shows "row_ok used' c (row_after now tx row)"
proof (cases tx)
  case (TxPublish i t p)
  with assms durations show ?thesis
    by (auto simp: row_after_def txn_defs update_where_def txn_guards row_ok_def terminal_def intro: row_ok_mono split: option.splits)
next
  case (TxClaim i t)
  with assms durations show ?thesis
    by (auto simp: row_after_def txn_defs update_where_def txn_guards row_ok_def terminal_def intro: row_ok_mono split: option.splits)
qed (use assms durations in \<open>auto simp: row_after_def txn_defs update_where_def txn_guards row_ok_def terminal_def split: option.splits\<close>)

section \<open>The system\<close>

text \<open>The rows, the tokens ever drawn, and the latest instant that a transaction has seen.\<close>

record outbox_world =
  ow_rows :: outbox
  ow_tokens :: "string set"
  ow_clock :: int

definition commit_txn :: "int \<Rightarrow> outbox_txn \<Rightarrow> outbox_world \<Rightarrow> outbox_world" where
  "commit_txn now tx w =
     \<lparr>ow_rows = apply_txn now tx (ow_rows w), ow_tokens = set_option (claim_token tx) \<union> ow_tokens w,
      ow_clock = max (ow_clock w) now\<rparr>"

inductive outbox_step :: "outbox_world \<Rightarrow> outbox_world \<Rightarrow> bool" where
  commit: "set_option (claim_token tx) \<inter> ow_tokens w = {} \<Longrightarrow> outbox_step w (commit_txn now tx w)"

lemma commit_txn_simps [simp]:
  "ow_rows (commit_txn now tx w) = apply_txn now tx (ow_rows w)"
  "ow_tokens (commit_txn now tx w) = set_option (claim_token tx) \<union> ow_tokens w"
  "ow_clock (commit_txn now tx w) = max (ow_clock w) now"
  by (simp_all add: commit_txn_def)

text \<open>A table whose steps keep its rows in place and never touch a final one.\<close>

locale settled_table =
  fixes step :: "'w \<Rightarrow> 'w \<Rightarrow> bool" and rows :: "'w \<Rightarrow> 'r list" and final :: "'r \<Rightarrow> bool" and name :: "'r \<Rightarrow> 'n"
  assumes rows_stay: "step w w' \<Longrightarrow> i < length (rows w) \<Longrightarrow> i < length (rows w') \<and> name (rows w' ! i) = name (rows w ! i)"
    and final_stays: "step w w' \<Longrightarrow> i < length (rows w) \<Longrightarrow> final (rows w ! i) \<Longrightarrow> rows w' ! i = rows w ! i"
begin

lemma run_rows_stay:
  "step\<^sup>*\<^sup>* w w' \<Longrightarrow> i < length (rows w) \<Longrightarrow> i < length (rows w') \<and> name (rows w' ! i) = name (rows w ! i)"
  by (induction rule: rtranclp_induct) (use rows_stay in force)+

lemma run_final_stays:
  assumes "step\<^sup>*\<^sup>* w w'" and "i < length (rows w)" and "final (rows w ! i)"
  shows "rows w' ! i = rows w ! i"
  using assms
proof (induction rule: rtranclp_induct)
  case (step v u)
  have "i < length (rows v)" using run_rows_stay [OF step.hyps(1) step.prems(1)] by simp
  moreover from step have "rows v ! i = rows w ! i" by blast
  ultimately show ?case using final_stays [OF step.hyps(2)] step.prems by simp
qed simp

end

lemma outbox_step_row:
  assumes "outbox_step w w'" and "i < length (ow_rows w)"
  obtains now tx where "i < length (ow_rows w')" "ow_rows w' ! i = row_after now tx (ow_rows w ! i)"
    "set_option (claim_token tx) \<inter> ow_tokens w = {}" "ow_tokens w' = set_option (claim_token tx) \<union> ow_tokens w"
  using assms(1)
proof (cases rule: outbox_step.cases)
  case (commit tx now)
  obtain fresh where "apply_txn now tx (ow_rows w) = map (row_after now tx) (ow_rows w) @ fresh"
    by (rule apply_txn_rows)
  with commit assms(2) that [of now tx] show ?thesis by (simp add: nth_append)
qed

interpretation outbox: settled_table outbox_step ow_rows terminal dx_id
proof unfold_locales
  fix w w' i
  assume "outbox_step w w'" "i < length (ow_rows w)"
  then obtain now tx where "i < length (ow_rows w')" "ow_rows w' ! i = row_after now tx (ow_rows w ! i)"
    by (rule outbox_step_row)
  then show "i < length (ow_rows w') \<and> dx_id (ow_rows w' ! i) = dx_id (ow_rows w ! i)"
    and "terminal (ow_rows w ! i) \<Longrightarrow> ow_rows w' ! i = ow_rows w ! i"
    by (simp_all add: row_after_identity row_after_terminal)
qed

section \<open>Invariants\<close>

definition outbox_ok :: "outbox_world \<Rightarrow> bool" where
  "outbox_ok w \<longleftrightarrow> (\<forall>row \<in> set (ow_rows w). row_ok (ow_tokens w) (ow_clock w) row) \<and>
     distinct (map dx_idempotency_key (ow_rows w))"

definition outbox_start :: outbox_world where
  "outbox_start = \<lparr>ow_rows = [], ow_tokens = {}, ow_clock = 0\<rparr>"

lemma fresh_row_ok:
  assumes "enqueue db i a b c k now = Inr (row, db @ [row])" and "now \<le> clock"
  shows "row_ok used clock row \<and> dx_idempotency_key row = k \<and> k \<notin> dx_idempotency_key ` set db"
  using assms(1)
proof (cases rule: enqueue_shape)
  case 2
  with assms(2) durations show ?thesis by (simp add: row_ok_def terminal_def)
qed simp

lemma outbox_step_ok:
  assumes "outbox_step w w'" and "outbox_ok w"
  shows "outbox_ok w'"
  using assms(1)
proof (cases rule: outbox_step.cases)
  case (commit tx now)
  let ?used = "set_option (claim_token tx) \<union> ow_tokens w" and ?clock = "max (ow_clock w) now"
  obtain fresh where rows: "apply_txn now tx (ow_rows w) = map (row_after now tx) (ow_rows w) @ fresh"
    and fresh: "fresh = [] \<or> (\<exists>i a b c k row. tx = TxEnqueue i a b c k \<and>
      enqueue (ow_rows w) i a b c k now = Inr (row, ow_rows w @ [row]) \<and> fresh = [row])"
    by (rule apply_txn_rows)
  have "row_ok ?used ?clock (row_after now tx row)" if "row \<in> set (ow_rows w)" for row
  proof (rule row_after_ok)
    show "row_ok (ow_tokens w) ?clock row"
      using assms(2) that by (auto simp: outbox_ok_def intro: row_ok_mono)
  qed auto
  moreover have "(\<forall>row \<in> set fresh. row_ok ?used ?clock row) \<and> distinct (map dx_idempotency_key fresh) \<and>
      dx_idempotency_key ` set fresh \<inter> dx_idempotency_key ` set (ow_rows w) = {}"
    using fresh fresh_row_ok [where used = ?used and clock = ?clock and now = now] by fastforce
  moreover have "distinct (map dx_idempotency_key (apply_txn now tx (ow_rows w)))"
    using assms(2) calculation(2) by (simp add: rows outbox_ok_def comp_def row_after_identity image_image Int_commute)
  ultimately show ?thesis using rows by (auto simp: commit outbox_ok_def)
qed

interpretation outboxes: step_invariant outbox_step outbox_ok
  by unfold_locales (rule outbox_step_ok)

lemmas outbox_run_ok = outboxes.run_ok

lemma outbox_start_ok: "outbox_ok outbox_start"
  by (simp add: outbox_ok_def outbox_start_def)

section \<open>Fencing\<close>

definition lease_lost :: "string \<Rightarrow> outbox_world \<Rightarrow> bool" where
  "lease_lost t w \<longleftrightarrow> t \<in> ow_tokens w \<and> (\<forall>row \<in> set (ow_rows w). dx_lease_token row \<noteq> Some t)"

lemma outbox_step_lost:
  assumes "outbox_step w w'" and "lease_lost t w"
  shows "lease_lost t w'"
  using assms(1)
proof (cases rule: outbox_step.cases)
  case (commit tx now)
  obtain fresh where rows: "apply_txn now tx (ow_rows w) = map (row_after now tx) (ow_rows w) @ fresh"
    and fresh: "fresh = [] \<or> (\<exists>i a b c k row. tx = TxEnqueue i a b c k \<and>
      enqueue (ow_rows w) i a b c k now = Inr (row, ow_rows w @ [row]) \<and> fresh = [row])"
    by (rule apply_txn_rows)
  have "claim_token tx \<noteq> Some t" using commit assms(2) by (auto simp: lease_lost_def)
  then have "dx_lease_token (row_after now tx row) \<noteq> Some t" if "row \<in> set (ow_rows w)" for row
    using assms(2) that row_after_token [of now tx row] by (auto simp: lease_lost_def)
  moreover have "dx_lease_token row \<noteq> Some t" if "row \<in> set fresh" for row
  proof -
    from that fresh obtain i a b c k where "enqueue (ow_rows w) i a b c k now = Inr (row, ow_rows w @ [row])" by auto
    then show ?thesis by (cases rule: enqueue_shape) simp_all
  qed
  ultimately show ?thesis using assms(2) rows by (auto simp: commit lease_lost_def)
qed

interpretation lost: step_invariant outbox_step "lease_lost t" for t
  by unfold_locales (rule outbox_step_lost)

lemmas outbox_run_lost = lost.run_ok

lemma update_where_none: "(\<And>row. row \<in> set db \<Longrightarrow> \<not> p row) \<Longrightarrow> update_where p f db = db"
  by (simp add: update_where_def map_idI)

section \<open>Deliveries are sequences of transactions\<close>

text \<open>
  \<open>others T T' f\<close>: started where only tokens of \<open>T\<close> were drawn, \<open>f\<close> is what some
  transactions of others do, which draw tokens of \<open>T'\<close>.
\<close>

definition others :: "string set \<Rightarrow> string set \<Rightarrow> (outbox \<Rightarrow> outbox) \<Rightarrow> bool" where
  "others T T' f \<longleftrightarrow>
     (\<forall>w. ow_tokens w \<subseteq> T \<longrightarrow> (\<exists>w'. outbox_step\<^sup>*\<^sup>* w w' \<and> ow_rows w' = f (ow_rows w) \<and> ow_tokens w' \<subseteq> T'))"

definition reaches :: "string set \<Rightarrow> outbox_world \<Rightarrow> outbox \<Rightarrow> bool" where
  "reaches T w db \<longleftrightarrow> (\<exists>w'. outbox_step\<^sup>*\<^sup>* w w' \<and> ow_rows w' = db \<and> ow_tokens w' \<subseteq> T)"

lemma reaches_refl: "ow_tokens w \<subseteq> T \<Longrightarrow> reaches T w (ow_rows w)"
  by (auto simp: reaches_def)

lemma reaches_wider: "reaches T w db \<Longrightarrow> T \<subseteq> T' \<Longrightarrow> reaches T' w db"
  by (auto simp: reaches_def)

lemma reaches_txn:
  assumes "reaches T w db" and "claim_token tx = None"
  shows "reaches T w (apply_txn now tx db)"
proof -
  from assms(1) obtain w' where w': "outbox_step\<^sup>*\<^sup>* w w'" "ow_rows w' = db" "ow_tokens w' \<subseteq> T"
    by (auto simp: reaches_def)
  have "outbox_step w' (commit_txn now tx w')" by (rule outbox_step.intros) (simp add: assms(2))
  with w' assms(2) show ?thesis
    by (auto simp: reaches_def intro!: exI [of _ "commit_txn now tx w'"] intro: rtranclp.rtrancl_into_rtrancl)
qed

lemma reaches_others:
  assumes "reaches T w db" and "others T T' f"
  shows "reaches T' w (f db)"
proof -
  from assms(1) obtain w' where w': "outbox_step\<^sup>*\<^sup>* w w'" "ow_rows w' = db" "ow_tokens w' \<subseteq> T"
    by (auto simp: reaches_def)
  with assms(2) obtain u where "outbox_step\<^sup>*\<^sup>* w' u" "ow_rows u = f db" "ow_tokens u \<subseteq> T'"
    by (auto simp: others_def)
  with w' show ?thesis by (auto simp: reaches_def intro: rtranclp_trans)
qed

lemma reaches_claim:
  assumes "claim_token tx = Some t" and "t \<notin> ow_tokens w" and "insert t (ow_tokens w) \<subseteq> T"
  shows "reaches T w (apply_txn now tx (ow_rows w))"
proof -
  have "outbox_step w (commit_txn now tx w)" by (rule outbox_step.intros) (simp add: assms)
  with assms show ?thesis by (auto simp: reaches_def intro!: exI [of _ "commit_txn now tx w"])
qed

lemmas reaches_finish =
  reaches_txn [where tx = "TxExhausted i t", simplified] reaches_txn [where tx = "TxRetry i t e", simplified]
  reaches_txn [where tx = "TxInProgress i t", simplified] reaches_txn [where tx = "TxCompleted i t", simplified]
  reaches_txn [where tx = "TxClose i t a", simplified] reaches_txn [where tx = "TxAdvance i t a p", simplified]
  reaches_txn [where tx = "TxDeferTask i n", simplified] reaches_txn [where tx = "TxPublishTask i n", simplified]
  reaches_txn [where tx = "TxPublished i t n", simplified] reaches_txn [where tx = "TxDefer b i t e", simplified]
  for i t e a p n b

lemma publish_generation_reaches:
  assumes "reaches T w db" and "T \<subseteq> T'" and "others T T' (dl_during_creation d)"
  shows "reaches T' w (fst (publish_generation urlsplit env db d snapshot))"
  using assms reaches_others [OF assms(1,3)]
  by (auto simp: publish_generation_def Let_def intro: reaches_wider reaches_finish split: sum.split)

lemma continue_search_reaches:
  assumes "reaches T1 w db" and "T1 \<subseteq> T2" "T2 \<subseteq> T3"
    and "others T1 T2 (dl_before_check d)" "others T2 T3 (dl_during_creation d)"
  shows "reaches T3 w (fst (continue_search urlsplit env db event_id d aggregate))"
proof -
  have "T1 \<subseteq> T3" using assms(2,3) by simp
  note wide = reaches_wider [OF _ this]
  have here: "reaches T3 w db" by (rule wide [OF assms(1)])
  have "reaches T3 w (fst (publish_generation urlsplit env (dl_before_check d (advance_continuation event_id t a p n db)) d snapshot))"
    for t a p n snapshot
    by (rule publish_generation_reaches [OF reaches_others [OF reaches_finish(6) [OF assms(1)] assms(4)] assms(3,5)])
  then show ?thesis
    using here by (auto simp: continue_search_def Let_def intro: reaches_finish split: sum.split option.split)
qed

lemma finish_event_reaches:
  assumes "reaches T1 w db" and "T1 \<subseteq> T2" "T2 \<subseteq> T3"
    and "others T1 T2 (dl_before_check d)" "others T2 T3 (dl_during_creation d)"
  shows "reaches T3 w (fst (finish_event urlsplit env db event d))"
proof -
  have "T1 \<subseteq> T3" using assms(2,3) by simp
  then have "reaches T3 w db" by (rule reaches_wider [OF assms(1)])
  then show ?thesis
    using continue_search_reaches [OF assms]
    by (auto simp: finish_event_def Let_def case_prod_beta intro: reaches_finish split: execution.split option.split)
qed

lemma process_event_reaches:
  assumes "dl_token d \<notin> ow_tokens w" and "insert (dl_token d) (ow_tokens w) \<subseteq> T0"
    and "T0 \<subseteq> T1" "T1 \<subseteq> T2" "T2 \<subseteq> T3"
    and "others T0 T1 (dl_meanwhile d)" "others T1 T2 (dl_before_check d)" "others T2 T3 (dl_during_creation d)"
  shows "reaches T3 w (fst (process_event urlsplit env (ow_rows w) event_id d))"
proof -
  have "T0 \<subseteq> T3" using assms(3,4,5) by simp
  have claimed: "reaches T0 w (claim_execution event_id (dl_token d) (dl_now d) (ow_rows w))"
    using reaches_claim [where tx = "TxClaim event_id (dl_token d)", OF _ assms(1,2)] by simp
  have "reaches T3 w (ow_rows w)" using assms(2) \<open>T0 \<subseteq> T3\<close> by (intro reaches_refl) auto
  moreover have "reaches T3 w (claim_execution event_id (dl_token d) (dl_now d) (ow_rows w))"
    by (rule reaches_wider [OF claimed \<open>T0 \<subseteq> T3\<close>])
  ultimately show ?thesis
    using finish_event_reaches [OF reaches_others [OF claimed assms(6)] assms(4,5,7,8)]
    by (simp add: process_event_def Let_def split: sum.split option.split)
qed

section \<open>Reading a row back\<close>

lemma row_at_update_where:
  assumes "\<And>r. dx_id (f r) = dx_id r"
  shows "row_at dx_id i (update_where p f db) = map_option (\<lambda>r. if p r then f r else r) (row_at dx_id i db)"
  using assms by (induction db) (auto simp: update_where_def)

lemma row_at_claim_execution:
  "row_at dx_id i db = Some row \<Longrightarrow> executable now row \<Longrightarrow>
     row_at dx_id i (claim_execution i t now db) = Some (row\<lparr>dx_status := Running, dx_lease_token := Some t,
       dx_lease_until := Some (now + minutes 16), dx_execution_attempts := dx_execution_attempts row + 1, dx_updated_at := now\<rparr>)"
  by (auto simp: claim_execution_def row_at_update_where dest: row_at_SomeD)

lemma executable_claimed: "row_at dx_id i db = Some row \<Longrightarrow> executable now row \<Longrightarrow> list_ex (\<lambda>r. dx_id r = i \<and> executable now r) db"
  by (auto simp: list_ex_iff dest: row_at_SomeD)

lemma row_at_finish_exhausted:
  "row_at dx_id i db = Some row \<Longrightarrow> dx_lease_token row = Some t \<Longrightarrow> dx_status row = Running \<Longrightarrow>
     map_option dx_status (row_at dx_id i (finish_exhausted i t now db)) = Some Failed"
  by (auto simp: finish_exhausted_def row_at_update_where running_by_def dest: row_at_SomeD)

lemma process_exhausted:
  assumes "row_at dx_id i db = Some row" and "6 \<le> dx_execution_attempts row" and "executable (dl_now d) row"
  shows "process_event urlsplit env db i d =
    (case admit_delivery env (dl_runs d) (Some row) of
       Inl e \<Rightarrow> (db, dl_runs d, Inl e)
     | Inr _ \<Rightarrow>
         let db2 = dl_meanwhile d (claim_execution i (dl_token d) (dl_now d) db) in
         (case settle_exhausted (dx_topic row) (dx_aggregate_id row) d of
            (runs, Some e) \<Rightarrow> (finish_retry i (dl_token d) e (dl_finished_at d) db2, runs, Inl (RetryableDispatchError e))
          | (runs, None) \<Rightarrow> (finish_exhausted i (dl_token d) (dl_finished_at d) db2, runs, Inr ''failed'')))"
proof -
  have "dx_id row = i" using assms(1) by (auto dest: row_at_SomeD)
  with assms(2) executable_claimed [OF assms(1,3)] show ?thesis
    unfolding process_event_def finish_event_def Let_def assms(1) row_at_claim_execution [OF assms(1,3)]
    by (simp split: sum.split)
qed

section \<open>Configuration\<close>

lemma check_routes_all: "check_routes urlsplit env ts = Inr u \<Longrightarrow> t \<in> set ts \<Longrightarrow> \<exists>r. task_route urlsplit env t = Inr r"
  by (induction ts) (auto simp: result_simps)

lemma cloud_parent:
  assumes "dispatch_mode_of urlsplit env = Inr CloudTasks" and "task_route urlsplit env t = Inr r"
  shows "\<exists>p. queue_parent urlsplit env t = Inr p"
  using assms by (auto simp: dispatch_mode_of_def queue_parent_def Let_def result_simps split: if_splits prod.split)

lemma publish_event_no_error:
  assumes "dispatch_mode_of urlsplit env = Inr mode" and "mode = CloudTasks \<Longrightarrow> \<exists>r. task_route urlsplit env (snd e) = Inr r"
  shows "snd (publish_event urlsplit env mode now p e db) \<noteq> Inl err"
proof -
  obtain parent where "task_parent urlsplit env mode (snd e) = Inr parent"
    using assms cloud_parent by (cases "mode = CloudTasks") (fastforce simp: task_parent_def)+
  then show ?thesis by (auto simp: publish_event_def Let_def split: option.split sum.split prod.split)
qed

lemma publish_all_no_error:
  assumes "dispatch_mode_of urlsplit env = Inr mode"
    and "\<forall>e \<in> set es. mode = CloudTasks \<longrightarrow> (\<exists>r. task_route urlsplit env (snd e) = Inr r)"
  shows "snd (publish_all urlsplit env mode now ps es n db) \<noteq> Inl err"
  using assms(2)
proof (induction es arbitrary: n db)
  case (Cons e es)
  obtain sent failures where n: "n = (sent, failures)" by (cases n)
  obtain db1 r where p: "publish_event urlsplit env mode now (ps (fst e)) e db = (db1, r)" by fastforce
  have "r \<noteq> Inl x" for x
    using publish_event_no_error [OF assms(1), of e now "ps (fst e)" db x] Cons.prems p by simp
  then obtain sent_now where r: "r = Inr sent_now" by (cases r) auto
  have "snd (publish_all urlsplit env mode now ps es m db1) \<noteq> Inl err" for m
    using Cons by simp
  with n p r show ?case by (simp split: option.split bool.split)
qed (cases n, simp)

end
