(* ===== verification/Dispatch_Properties.thy ===== *)
theory Dispatch_Properties
  imports Dispatch_Safety
begin

text \<open>
  What the outbox of \<open>domains/dispatch/service.py\<close> promises, over the system and the
  interpretation of \<open>Dispatch_Safety\<close>, each with a concrete instance.
\<close>

section \<open>Sample data\<close>

definition sample_event :: outbox_row where
  "sample_event = \<lparr>dx_id = ''dispatch_e'', dx_topic = ''employer.refresh'', dx_aggregate_id = ''src'',
     dx_idempotency_key = ''k'', dx_payload = [], dx_status = OutPending, dx_available_at = 0,
     dx_lease_token = None, dx_lease_until = None, dx_dispatch_attempts = 0, dx_execution_attempts = 0,
     dx_task_name = None, dx_last_error = None, dx_created_at = 0, dx_updated_at = 0, dx_completed_at = None\<rparr>"

definition sample_world :: outbox_world where
  "sample_world = commit_txn 0 (TxEnqueue ''e'' ''employer.refresh'' ''src'' [] ''k'') outbox_start"

text \<open>Claimed by \<open>a\<close>, then, after the lease, by \<open>b\<close>, and completed by it.\<close>

definition sample_claimed :: outbox_world where
  "sample_claimed = commit_txn (hours 1) (TxClaim ''dispatch_e'' ''b'') (commit_txn 0 (TxClaim ''dispatch_e'' ''a'') sample_world)"

definition sample_finished :: outbox_world where
  "sample_finished = commit_txn (hours 1) (TxCompleted ''dispatch_e'' ''b'') sample_claimed"

lemma sample_rows: "ow_rows sample_world = [sample_event]" "ow_tokens sample_world = {}" "ow_clock sample_world = 0"
  by (simp_all add: sample_world_def outbox_start_def sample_event_def enqueue_def TOPICS_def Let_def)


lemma sample_claimed_rows:
  "ow_rows sample_claimed = [sample_event\<lparr>dx_status := Running, dx_lease_token := Some ''b'',
     dx_lease_until := Some (hours 1 + minutes 16), dx_execution_attempts := 2, dx_updated_at := hours 1\<rparr>]"
  "ow_tokens sample_claimed = {''a'', ''b''}"
  by (simp_all add: sample_claimed_def sample_rows claim_execution_def update_where_def executable_def marked_def
      is_search_def lease_expired_def sample_event_def hours_def minutes_def seconds_def insert_commute)

lemma sample_finished_rows:
  "ow_rows sample_finished = [sample_event\<lparr>dx_status := Completed, dx_execution_attempts := 2, dx_updated_at := hours 1,
     dx_completed_at := Some (hours 1)\<rparr>]"
  by (simp add: sample_finished_def sample_claimed_rows finish_completed_def update_where_def running_by_def sample_event_def)


definition no_url :: "string \<Rightarrow> url_parts option" where
  "no_url s = None"

section \<open>Properties\<close>

text \<open>
  C24. Finished work is final: a Completed or Failed row is never changed again (not claimed, not
  retried, not completed twice), whatever publishers and workers do and in whatever order.
\<close>

theorem finished_work_final:
  assumes "outbox_step\<^sup>*\<^sup>* w w'" and "i < length (ow_rows w)" and "dx_status (ow_rows w ! i) \<in> {Completed, Failed}"
  shows "ow_rows w' ! i = ow_rows w ! i \<and> i < length (ow_rows w')"
  using outbox.run_final_stays [OF assms(1,2)] outbox.run_rows_stay [OF assms(1,2)] assms(3)
  by (simp add: terminal_def)

theorem finished_work_final_witness:
  "ow_rows (commit_txn (hours 9) (TxClaim ''dispatch_e'' ''c'') sample_finished) ! 0 = ow_rows sample_finished ! 0"
proof -
  have "ow_tokens sample_finished = {''a'', ''b''}" by (simp add: sample_finished_def sample_claimed_rows)
  then have "outbox_step\<^sup>*\<^sup>* sample_finished (commit_txn (hours 9) (TxClaim ''dispatch_e'' ''c'') sample_finished)"
    by (intro r_into_rtranclp outbox_step.intros) simp
  from finished_work_final [OF this, of 0] show ?thesis by (simp add: sample_finished_rows)
qed











text \<open>
  C29. Every route is validated before the first event is claimed: a sweep that raises has not
  written anything.
\<close>

theorem failed_sweep_writes_nothing:
  assumes "dispatch_pending urlsplit env limit topics now ps db = (db', Inl e)"
  shows "db' = db"
proof -
  have "snd (publish_all urlsplit env mode now ps (selected_events limit topics now db) (0, 0) db) \<noteq> Inl e"
    if "dispatch_mode_of urlsplit env = Inr mode"
      and "mode = CloudTasks \<Longrightarrow> check_routes urlsplit env (map snd (selected_events limit topics now db)) = Inr ()" for mode
    using publish_all_no_error [OF that(1)] check_routes_all that(2) by fastforce
  with assms show ?thesis
    by (auto simp: dispatch_pending_def Let_def result_simps split: sum.splits dispatch_mode.splits if_splits)
qed




theorem failed_sweep_writes_nothing_witness:
  "fst (dispatch_pending no_url (\<lambda>_. None) 100 [] 0 (\<lambda>_. undefined) [sample_event]) = [sample_event]"
proof -
  have "\<exists>e. snd (dispatch_pending no_url (\<lambda>_. None) 100 [] 0 (\<lambda>_. undefined) [sample_event]) = Inl e"
    by (simp add: dispatch_pending_def dispatch_mode_of_def env_value_def local_environment_def strip_def lower_def is_space_def)
  then obtain e db' where "dispatch_pending no_url (\<lambda>_. None) 100 [] 0 (\<lambda>_. undefined) [sample_event] = (db', Inl e)"
    by (metis prod.collapse)
  from failed_sweep_writes_nothing [OF this] this show ?thesis by simp
qed


end
