(* ===== verification/Payments.thy ===== *)
theory Payments
  imports Settings Usage Service_Credits Credit_Ledger
begin

text \<open>
  \<open>billing/service.py\<close> with \<open>domains/credits/payments.py\<close>: what a signed provider webhook
  does to orders, transactions, refunds and entitlements. The document is the parsed body
  (\<open>json.loads\<close> and the digest of the bytes come from outside); the tables hold the rows of
  this provider; one sequence numbers them. \<open>HookInvalid\<close> is \<open>WebhookValidationError\<close>,
  \<open>HookFault\<close> any other exception, which leaves the transaction uncommitted.
\<close>

section \<open>Rows\<close>

datatype hook_error = HookInvalid string | HookFault

definition PROVIDER :: string where "PROVIDER = ''razorpay''"
definition CAPTURE_EVENTS :: "string list" where "CAPTURE_EVENTS = [''payment.captured'', ''order.paid'']"
definition FAILED_EVENTS :: "string list" where "FAILED_EVENTS = [''payment.failed'']"
definition REFUND_EVENTS :: "string list" where "REFUND_EVENTS = [''refund.processed'']"
definition IGNORED_REFUND_EVENTS :: "string list" where "IGNORED_REFUND_EVENTS = [''refund.failed'', ''payment.refunded'']"
definition RETRYABLE_EVENT_STATUSES :: "string list" where
  "RETRYABLE_EVENT_STATUSES = [''retryable_unknown_order'', ''retryable_unknown_payment'']"

text \<open>
  An order; of its \<open>cost_policy_snapshot\<close> the accepted quote (\<open>None\<close>: absent or refused by
  its schema) and the document of entitlements (\<open>{}\<close> when absent).
\<close>

record pay_order =
  pay_id :: int
  pay_public_id :: string
  pay_user_id :: "int option"
  pay_provider :: string
  pay_provider_mode :: string
  pay_provider_order_id :: "string option"
  pay_sku :: string
  pay_catalog_version :: string
  pay_quote :: "purchase_quote_terms option"
  pay_entitlements :: json
  pay_kind :: string
  pay_quantity :: int
  pay_country :: string
  pay_gross :: int
  pay_fee :: "int option"
  pay_fee_tax :: "int option"
  pay_net :: "int option"
  pay_refunded :: int
  pay_currency :: string
  pay_status :: string
  pay_attempt_key :: "string option"
  pay_paid_at :: "int option"
  pay_refunded_at :: "int option"

record pay_txn =
  px_id :: int
  px_order_id :: int
  px_payment_id :: string
  px_status :: string
  px_gross :: int
  px_fee :: "int option"
  px_tax :: "int option"
  px_net :: "int option"
  px_refunded :: int
  px_currency :: string
  px_method :: "string option"
  px_international :: "bool option"
  px_captured_at :: "int option"
  px_failed_at :: "int option"

record pay_refund =
  pf_order_id :: int
  pf_txn_id :: int
  pf_refund_id :: string
  pf_amount :: int
  pf_currency :: string
  pf_processed_at :: int

record pay_event =
  ev_event_id :: string
  ev_order_id :: "int option"
  ev_type :: string
  ev_sha :: string
  ev_status :: string
  ev_error :: "string option"
  ev_created_at :: "int option"
  ev_processed_at :: "int option"

record entitlement =
  el_id :: int
  el_user_id :: "int option"
  el_order_id :: int
  el_provider :: string
  el_sku :: string
  el_kind :: string
  el_quantity :: int
  el_status :: string
  el_starts_at :: int
  el_expires_at :: "int option"
  el_granted_at :: int
  el_revoked_at :: "int option"

record pay_db =
  pd_users :: "user_account list"
  pd_orders :: "pay_order list"
  pd_txns :: "pay_txn list"
  pd_refunds :: "pay_refund list"
  pd_events :: "pay_event list"
  pd_entitlements :: "entitlement list"
  pd_svc_events :: "svc_event list"
  pd_usage_events :: "usage_event list"
  pd_receipts :: "string list"
  pd_credits :: credit_db
  pd_serial :: int
  pd_supply :: "nat \<Rightarrow> string"
  pd_drawn :: nat

definition the_user :: "pay_db \<Rightarrow> int \<Rightarrow> user_account option" where
  "the_user db user = row_at u_id user (pd_users db)"

definition update_user :: "int \<Rightarrow> (user_account \<Rightarrow> user_account) \<Rightarrow> pay_db \<Rightarrow> pay_db" where
  "update_user user f db = db\<lparr>pd_users := update_by u_id user f (pd_users db)\<rparr>"

definition update_order :: "int \<Rightarrow> (pay_order \<Rightarrow> pay_order) \<Rightarrow> pay_db \<Rightarrow> pay_db" where
  "update_order oid f db = db\<lparr>pd_orders := update_by pay_id oid f (pd_orders db)\<rparr>"

definition update_txn :: "string \<Rightarrow> (pay_txn \<Rightarrow> pay_txn) \<Rightarrow> pay_db \<Rightarrow> pay_db" where
  "update_txn pid f db = db\<lparr>pd_txns := update_by px_payment_id pid f (pd_txns db)\<rparr>"

definition update_event :: "string \<Rightarrow> (pay_event \<Rightarrow> pay_event) \<Rightarrow> pay_db \<Rightarrow> pay_db" where
  "update_event eid f db = db\<lparr>pd_events := update_by ev_event_id eid f (pd_events db)\<rparr>"

definition the_order :: "pay_db \<Rightarrow> int \<Rightarrow> pay_order option" where
  "the_order db oid = row_at pay_id oid (pd_orders db)"

definition the_txn :: "pay_db \<Rightarrow> string \<Rightarrow> pay_txn option" where
  "the_txn db pid = row_at px_payment_id pid (pd_txns db)"

definition the_event :: "pay_db \<Rightarrow> string \<Rightarrow> pay_event option" where
  "the_event db eid = row_at ev_event_id eid (pd_events db)"

definition order_entitlement :: "pay_db \<Rightarrow> int \<Rightarrow> entitlement option" where
  "order_entitlement db oid = row_at el_order_id oid (pd_entitlements db)"

section \<open>Reading the document\<close>

definition provider_event_time :: "json \<Rightarrow> int \<Rightarrow> int option" where
  "provider_event_time payload clock =
     (case json_get ''created_at'' payload of
        Some (JInt n) \<Rightarrow> (if n \<le> 0 \<or> n < 1262304000 \<or> seconds n > clock + days 1 then None else Some (seconds n))
      | _ \<Rightarrow> None)"

definition is_object :: "json \<Rightarrow> bool" where
  "is_object d \<longleftrightarrow> (case d of JObj _ \<Rightarrow> True | _ \<Rightarrow> False)"

definition object_member :: "string \<Rightarrow> json \<Rightarrow> json option" where
  "object_member k d = (case json_get k d of None \<Rightarrow> None | Some v \<Rightarrow> if is_object v then Some v else None)"

definition entity_of :: "json \<Rightarrow> string \<Rightarrow> json option" where
  "entity_of payload name =
     (case object_member ''payload'' payload of None \<Rightarrow> None
      | Some root \<Rightarrow> (case object_member name root of None \<Rightarrow> None
          | Some wrapper \<Rightarrow> object_member ''entity'' wrapper))"

definition invalid :: "string \<Rightarrow> hook_error" where
  "invalid key = HookInvalid (''invalid_'' @ key)"

definition required_string :: "json \<Rightarrow> string \<Rightarrow> string \<Rightarrow> hook_error + string" where
  "required_string entity key prefix =
     (case json_get key entity of
        Some (JStr v) \<Rightarrow> (if v = [] \<or> length v > 160 \<or> \<not> starts_with prefix v then Inl (invalid key) else Inr v)
      | _ \<Rightarrow> Inl (invalid key))"

definition required_minor :: "json \<Rightarrow> string \<Rightarrow> bool \<Rightarrow> hook_error + int" where
  "required_minor entity key positive =
     (case json_get key entity of
        Some (JInt v) \<Rightarrow> (if (positive \<and> v \<le> 0) \<or> (\<not> positive \<and> v < 0) then Inl (invalid key) else Inr v)
      | _ \<Rightarrow> Inl (invalid key))"

definition optional_minor :: "json \<Rightarrow> string \<Rightarrow> hook_error + int option" where
  "optional_minor entity key =
     (case json_get key entity of
        None \<Rightarrow> Inr None
      | Some JNull \<Rightarrow> Inr None
      | Some (JInt v) \<Rightarrow> (if v < 0 then Inl (invalid key) else Inr (Some v))
      | _ \<Rightarrow> Inl (invalid key))"

definition receipt_for :: "pay_order \<Rightarrow> string" where
  "receipt_for order = ''hw_'' @ filter (\<lambda>c. c \<noteq> CHR ''-'') (pay_public_id order)"

definition expected_notes :: "pay_order \<Rightarrow> (string \<times> string) list" where
  "expected_notes order =
     [(''hirewiz_order_id'', pay_public_id order), (''sku'', pay_sku order), (''billing_country'', pay_country order)]
     @ (case pay_user_id order of None \<Rightarrow> [] | Some u \<Rightarrow> [(''hirewiz_user_id'', decimal u)])"

definition validate_order_notes :: "json option \<Rightarrow> pay_order \<Rightarrow> hook_error + unit" where
  "validate_order_notes notes order =
     (case notes of
        None \<Rightarrow> Inr ()
      | Some JNull \<Rightarrow> Inr ()
      | Some (JArr []) \<Rightarrow> Inr ()
      | Some (JObj ms) \<Rightarrow>
          require (list_all (\<lambda>(k, v). case map_of ms k of None \<Rightarrow> True | Some d \<Rightarrow> d = JStr v) (expected_notes order))
            (HookInvalid ''order_ownership_mismatch'')
      | _ \<Rightarrow> Inl (HookInvalid ''invalid_order_notes''))"

definition validate_expenses :: "json \<Rightarrow> pay_order \<Rightarrow> hook_error + int option \<times> int option" where
  "validate_expenses payment order =
     bindE (optional_minor payment ''fee'') (\<lambda>fee.
     bindE (optional_minor payment ''tax'') (\<lambda>tax.
     bindE (require (case fee of None \<Rightarrow> True | Some f \<Rightarrow> f \<le> pay_gross order) (HookInvalid ''invalid_fee'')) (\<lambda>_.
     bindE (require (case tax of None \<Rightarrow> True | Some t \<Rightarrow> (case fee of None \<Rightarrow> False | Some f \<Rightarrow> t \<le> f))
       (HookInvalid ''invalid_provider_fee_tax'')) (\<lambda>_. Inr (fee, tax)))))"

text \<open>The identity, amount and notes of a payment entity, which all three events check first.\<close>

definition validate_identity :: "json \<Rightarrow> pay_order \<Rightarrow> hook_error + string" where
  "validate_identity payment order =
     bindE (require (json_get ''entity'' payment = Some (JStr ''payment'')) (HookInvalid ''invalid_payment_entity'')) (\<lambda>_.
     bindE (required_string payment ''id'' ''pay_'') (\<lambda>payment_id.
     bindE (required_string payment ''order_id'' ''order_'') (\<lambda>order_id.
     bindE (require (pay_provider_order_id order = Some order_id) (HookInvalid ''payment_order_mismatch'')) (\<lambda>_.
     bindE (required_minor payment ''amount'' True) (\<lambda>amount.
     bindE (require (amount = pay_gross order) (HookInvalid ''amount_mismatch'')) (\<lambda>_.
     bindE (required_string payment ''currency'' []) (\<lambda>currency.
     bindE (require (upper currency = pay_currency order) (HookInvalid ''currency_mismatch'')) (\<lambda>_.
     Inr payment_id))))))))"

record payment_facts =
  pt_payment_id :: string
  pt_fee :: "int option"
  pt_tax :: "int option"
  pt_method :: "string option"
  pt_international :: "bool option"

definition validate_payment :: "json \<Rightarrow> pay_order \<Rightarrow> bool \<Rightarrow> hook_error + payment_facts" where
  "validate_payment payment order require_captured =
     bindE (validate_identity payment order) (\<lambda>payment_id.
     bindE (validate_order_notes (json_get ''notes'' payment) order) (\<lambda>_.
     bindE (if require_captured
            then require (json_get ''status'' payment = Some (JStr ''captured'') \<and> json_get ''captured'' payment = Some (JBool True))
                   (HookInvalid ''payment_not_captured'')
            else require (json_get ''status'' payment = Some (JStr ''failed'')) (HookInvalid ''payment_not_failed'')) (\<lambda>_.
     bindE (validate_expenses payment order) (\<lambda>(fee, tax).
     bindE (case json_get ''method'' payment of
              None \<Rightarrow> Inr None | Some JNull \<Rightarrow> Inr None
            | Some (JStr m) \<Rightarrow> (if length m > 32 then Inl (invalid ''payment_method'') else Inr (Some m))
            | _ \<Rightarrow> Inl (invalid ''payment_method'')) (\<lambda>method.
     bindE (case json_get ''international'' payment of
              None \<Rightarrow> Inr None | Some JNull \<Rightarrow> Inr None
            | Some (JBool b) \<Rightarrow> Inr (Some b)
            | _ \<Rightarrow> Inl (invalid ''international_flag'')) (\<lambda>international.
     Inr \<lparr>pt_payment_id = payment_id, pt_fee = fee, pt_tax = tax, pt_method = method, pt_international = international\<rparr>))))))"

definition validate_provider_order :: "json \<Rightarrow> pay_order \<Rightarrow> hook_error + unit" where
  "validate_provider_order entity order =
     bindE (require (json_get ''entity'' entity = Some (JStr ''order'')) (HookInvalid ''invalid_order_entity'')) (\<lambda>_.
     bindE (required_string entity ''id'' ''order_'') (\<lambda>order_id.
     bindE (require (pay_provider_order_id order = Some order_id) (HookInvalid ''provider_order_mismatch'')) (\<lambda>_.
     bindE (required_minor entity ''amount'' True) (\<lambda>amount.
     bindE (require (amount = pay_gross order) (HookInvalid ''amount_mismatch'')) (\<lambda>_.
     bindE (required_minor entity ''amount_paid'' False) (\<lambda>paid.
     bindE (require (paid = pay_gross order) (HookInvalid ''amount_paid_mismatch'')) (\<lambda>_.
     bindE (required_minor entity ''amount_due'' False) (\<lambda>due.
     bindE (require (due = 0) (HookInvalid ''amount_due_mismatch'')) (\<lambda>_.
     bindE (required_string entity ''currency'' []) (\<lambda>currency.
     bindE (require (upper currency = pay_currency order) (HookInvalid ''currency_mismatch'')) (\<lambda>_.
     bindE (require (json_get ''status'' entity = Some (JStr ''paid'')) (HookInvalid ''order_not_paid'')) (\<lambda>_.
     bindE (require (json_get ''receipt'' entity = Some (JStr (receipt_for order))) (HookInvalid ''receipt_mismatch'')) (\<lambda>_.
     bindE (require (json_get ''partial_payment'' entity \<in> {None, Some JNull, Some (JBool False), Some (JInt 0)})
       (HookInvalid ''partial_payment_not_allowed'')) (\<lambda>_.
     validate_order_notes (json_get ''notes'' entity) order))))))))))))))"

definition validate_refund_payment :: "json \<Rightarrow> pay_order \<Rightarrow> hook_error + string \<times> int option \<times> int option" where
  "validate_refund_payment payment order =
     bindE (validate_identity payment order) (\<lambda>payment_id.
     bindE (require (json_get ''captured'' payment = Some (JBool True)) (HookInvalid ''payment_not_captured'')) (\<lambda>_.
     bindE (validate_order_notes (json_get ''notes'' payment) order) (\<lambda>_.
     bindE (validate_expenses payment order) (\<lambda>(fee, tax). Inr (payment_id, fee, tax)))))"

section \<open>The transaction row\<close>

definition report_max :: "int option list \<Rightarrow> int option" where
  "report_max reports = (case List.map_filter id reports of [] \<Rightarrow> None | r # rs \<Rightarrow> Some (fold max rs r))"

definition conflicting :: "int option list \<Rightarrow> bool" where
  "conflicting reports \<longleftrightarrow> (case List.map_filter id reports of [] \<Rightarrow> False | r # rs \<Rightarrow> list_ex (\<lambda>x. x \<noteq> r) rs)"

definition new_txn :: "pay_db \<Rightarrow> pay_order \<Rightarrow> string \<Rightarrow> string \<Rightarrow> pay_txn" where
  "new_txn db order payment_id status =
     \<lparr>px_id = pd_serial db, px_order_id = pay_id order, px_payment_id = payment_id, px_status = status,
      px_gross = pay_gross order, px_fee = None, px_tax = None, px_net = None, px_refunded = 0,
      px_currency = pay_currency order, px_method = None, px_international = None,
      px_captured_at = None, px_failed_at = None\<rparr>"

definition found_txn :: "pay_db \<Rightarrow> pay_order \<Rightarrow> string \<Rightarrow> string \<Rightarrow> hook_error + pay_db" where
  "found_txn db order payment_id status =
     (case the_txn db payment_id of
        Some t \<Rightarrow> if px_order_id t \<noteq> pay_id order then Inl (HookInvalid ''payment_ownership_mismatch'') else Inr db
      | None \<Rightarrow> Inr (db\<lparr>pd_serial := pd_serial db + 1, pd_txns := pd_txns db @ [new_txn db order payment_id status]\<rparr>))"

text \<open>
  \<open>_payment_transaction\<close>: a refunded transaction is not downgraded, and of the expenses that
  signed events report the largest is kept.
\<close>

definition payment_transaction ::
  "pay_db \<Rightarrow> pay_order \<Rightarrow> string \<Rightarrow> string \<Rightarrow> payment_facts \<Rightarrow> string option \<Rightarrow> hook_error + pay_txn \<times> pay_db" where
  "payment_transaction db order payment_id status facts expense_event =
     bindE (found_txn db order payment_id status) (\<lambda>db1.
     case the_txn db1 payment_id of None \<Rightarrow> Inl HookFault
     | Some t0 \<Rightarrow>
       let captured = (status = ''captured'');
           fees = [pt_fee facts, px_fee t0, pay_fee order]; taxes = [pt_tax facts, px_tax t0, pay_fee_tax order];
           fee = (if captured then report_max fees else pt_fee facts);
           tax = (if captured then report_max taxes else pt_tax facts);
           net = map_option (\<lambda>f. pay_gross order - f) fee;
           t = t0\<lparr>px_status := (if captured \<and> px_status t0 \<in> {''partially_refunded'', ''refunded''} then px_status t0 else status),
                  px_fee := fee, px_tax := tax, px_net := net,
                  px_method := (case pt_method facts of None \<Rightarrow> px_method t0 | Some m \<Rightarrow> if m = [] then px_method t0 else Some m),
                  px_international := (case pt_international facts of None \<Rightarrow> px_international t0 | Some b \<Rightarrow> Some b)\<rparr>;
           db2 = update_txn payment_id (\<lambda>_. t) db1;
           db3 = (if captured then update_order (pay_id order) (\<lambda>o1. o1\<lparr>pay_fee := fee, pay_fee_tax := tax, pay_net := net\<rparr>) db2
                  else db2);
           db4 = (case expense_event of None \<Rightarrow> db3
                  | Some eid \<Rightarrow> if captured \<and> (conflicting fees \<or> conflicting taxes)
                      then update_event eid (\<lambda>e. e\<lparr>ev_error := Some ''provider_expense_conflict''\<rparr>) db3 else db3)
       in Inr (t, db4))"

section \<open>Unified credit passes (domains/credits/payments.py)\<close>

definition order_quote :: "pay_order \<Rightarrow> int \<Rightarrow> credit_error + purchase_quote_view" where
  "order_quote order now =
     (case pay_quote order of
        Some q \<Rightarrow>
          if pay_kind order \<noteq> ''credit_pass''
          then Inl (CreditContractError ''This original purchase requires billing reconciliation.'')
          else if (qt_amount_minor q, qt_currency q, qt_sku q, qt_catalog_version q, qt_credits q)
                  \<noteq> (pay_gross order, pay_currency order, pay_sku order, pay_catalog_version order, pay_quantity order)
          then Inl (CreditContractError ''This original purchase has inconsistent immutable terms.'')
          else Inr (purchase_quote_terms.extend q (purchase_quote_view.fields now))
      | None \<Rightarrow> Inl (CreditContractError ''This original purchase requires billing reconciliation.''))"

definition fulfill_order :: "credit_db \<Rightarrow> pay_order \<Rightarrow> int \<Rightarrow> int \<Rightarrow> credit_error + credit_grant \<times> credit_db" where
  "fulfill_order credits order now clock =
     bindE (order_quote order now) (\<lambda>view.
     case pay_user_id order of None \<Rightarrow> Inl (CreditContractError ''The original accepted quote needs reconciliation.'')
     | Some user \<Rightarrow>
         (case owned_quote credits user (qt_quote_id view) of
            None \<Rightarrow> Inl (CreditContractError ''The original accepted quote needs reconciliation.'')
          | Some quote \<Rightarrow>
              if quote_response quote now \<noteq> view
              then Inl (CreditContractError ''The original accepted quote needs reconciliation.'')
              else fulfill_purchase_quote credits user (qt_quote_id view) (pay_public_id order) now clock))"

text \<open>The share of \<open>quantity\<close> that a refund of \<open>refunded\<close> takes back, rounded up.\<close>

definition refund_share :: "int \<Rightarrow> int \<Rightarrow> int \<Rightarrow> int" where
  "refund_share refunded quantity gross = min quantity ((refunded * quantity + gross - 1) div gross)"

definition refund_order :: "credit_db \<Rightarrow> pay_order \<Rightarrow> int \<Rightarrow> credit_error + credit_db" where
  "refund_order credits order now =
     (case pay_user_id order of None \<Rightarrow> Inr credits
      | Some user \<Rightarrow>
          bindE (order_quote order now) (\<lambda>view.
          map_sum id snd (revoke_origin credits user ''payment_order'' (pay_public_id order)
            (refund_share (pay_refunded order) (qt_credits view) (qt_amount_minor view)) now)))"

text \<open>How the webhook reports an error of the credit ledger.\<close>

definition contract_error :: "string \<Rightarrow> credit_error \<Rightarrow> hook_error" where
  "contract_error code e = (case e of CreditContractError _ \<Rightarrow> HookInvalid code | _ \<Rightarrow> HookFault)"

section \<open>Granting\<close>

datatype mail_answer = MailQueued | MailSkipped | MailFault

definition bundle_units :: "pay_order \<Rightarrow> int option" where
  "bundle_units order =
     (case json_get ''analysis_units'' (pay_entitlements order) of Some (JInt n) \<Rightarrow> Some n | _ \<Rightarrow> None)"

definition equals_int :: "json option \<Rightarrow> int \<Rightarrow> bool" where
  "equals_int d n \<longleftrightarrow> (case d of Some (JInt m) \<Rightarrow> m = n | Some (JBool b) \<Rightarrow> of_bool b = n | _ \<Rightarrow> False)"

definition snapshot_ok :: "pay_order \<Rightarrow> hook_error + unit" where
  "snapshot_ok order =
     bindE (require (pay_kind order \<in> {''premium_access'', ''analysis_units'', ''job_service_credits'', ''credit_bundle'', ''credit_pass''}
              \<and> pay_quantity order > 0) (HookInvalid ''invalid_entitlement_snapshot'')) (\<lambda>_.
     if pay_kind order \<noteq> ''credit_bundle'' then Inr ()
     else if \<not> is_object (pay_entitlements order) then Inl HookFault
     else require (equals_int (json_get ''job_service_credits'' (pay_entitlements order)) (pay_quantity order)
              \<and> (case bundle_units order of None \<Rightarrow> False | Some n \<Rightarrow> n > 0)) (HookInvalid ''invalid_bundle_snapshot''))"

text \<open>A balance change of a user with its event; \<open>kind\<close> is grant (+) or refund (-).\<close>

definition post_service :: "pay_db \<Rightarrow> user_account \<Rightarrow> pay_order \<Rightarrow> string \<Rightarrow> int \<Rightarrow> string \<Rightarrow> string \<Rightarrow> int \<Rightarrow> pay_db" where
  "post_service db user order kind amount key reason now =
     (let after = u_job_service_credits user + amount
      in (update_user (u_id user) (\<lambda>u. u\<lparr>u_job_service_credits := after\<rparr>) db)
         \<lparr>pd_drawn := Suc (pd_drawn db), pd_svc_events := pd_svc_events db @
           [\<lparr>se_id = ''credit_'' @ pd_supply db (pd_drawn db), se_user_id = Some (u_id user), se_event_type = kind,
             se_amount = amount, se_balance_after = after, se_idempotency_key = key,
             se_source_type = ''payment_order'', se_source_id = pay_public_id order, se_reason = reason, se_created_at = now\<rparr>]\<rparr>)"

definition post_units :: "pay_db \<Rightarrow> user_account \<Rightarrow> pay_order \<Rightarrow> string \<Rightarrow> int \<Rightarrow> string \<Rightarrow> string \<Rightarrow> int \<Rightarrow> pay_db" where
  "post_units db user order kind amount key reason now =
     (let after = u_ai_credits user + amount
      in (update_user (u_id user) (\<lambda>u. u\<lparr>u_ai_credits := after\<rparr>) db)
         \<lparr>pd_drawn := Suc (pd_drawn db), pd_usage_events := pd_usage_events db @
           [\<lparr>ue_id = ''use_'' @ pd_supply db (pd_drawn db), ue_user_id = u_id user, ue_analysis_run_id = None, ue_event_type = kind,
             ue_amount = amount, ue_balance_after = after, ue_idempotency_key = key, ue_source_type = ''payment_order'',
             ue_source_id = Some (pay_public_id order), ue_actor = ''system'', ue_reason = Some reason, ue_created_at = now\<rparr>]\<rparr>)"

text \<open>What the entitlement gives: its start, its end and the changed tables.\<close>

definition apply_entitlement ::
  "pay_db \<Rightarrow> user_account \<Rightarrow> pay_order \<Rightarrow> int \<Rightarrow> int \<Rightarrow> hook_error + int \<times> int option \<times> pay_db" where
  "apply_entitlement db user order now clock =
     (if pay_kind order = ''credit_pass'' then
        (case fulfill_order (pd_credits db) order now clock of
           Inl e \<Rightarrow> Inl (contract_error ''invalid_unified_credit_snapshot'' e)
         | Inr (grant, credits) \<Rightarrow> Inr (g_issued_at grant, g_expires_at grant, db\<lparr>pd_credits := credits\<rparr>))
      else if pay_kind order = ''premium_access'' then
        (let starts = (case u_premium_until user of None \<Rightarrow> now | Some e \<Rightarrow> if e > now then e else now);
             expires = starts + days (pay_quantity order)
         in Inr (starts, Some expires, update_user (u_id user) (\<lambda>u. u\<lparr>u_tier := ''premium'', u_premium_until := Some expires\<rparr>) db))
      else if pay_kind order = ''analysis_units'' then
        Inr (now, None, update_user (u_id user) (\<lambda>u. u\<lparr>u_ai_credits := u_ai_credits u + pay_quantity order\<rparr>) db)
      else Inr (now, None, post_service db user order ''grant'' (pay_quantity order)
        (''job-service-grant:'' @ pay_public_id order) ''Captured prepaid job service purchase'' now))"

definition bundle_grant :: "pay_db \<Rightarrow> user_account \<Rightarrow> pay_order \<Rightarrow> int \<Rightarrow> pay_db" where
  "bundle_grant db user order now =
     (if pay_kind order \<noteq> ''credit_bundle'' then db
      else post_units db user order ''grant'' (case bundle_units order of None \<Rightarrow> 0 | Some n \<Rightarrow> n)
        (''bundle-analysis-grant:'' @ pay_public_id order) ''Captured finite prepaid analysis bundle'' now)"

definition queue_receipt :: "mail_answer \<Rightarrow> string \<Rightarrow> pay_db \<Rightarrow> hook_error + pay_db" where
  "queue_receipt mail key db =
     (case mail of MailFault \<Rightarrow> Inl HookFault | MailSkipped \<Rightarrow> Inr db
      | MailQueued \<Rightarrow> Inr (if key \<in> set (pd_receipts db) then db else db\<lparr>pd_receipts := pd_receipts db @ [key]\<rparr>))"

definition entitlement_row :: "pay_db \<Rightarrow> int \<Rightarrow> pay_order \<Rightarrow> int \<Rightarrow> int option \<Rightarrow> int \<Rightarrow> entitlement" where
  "entitlement_row db user order starts expires now =
     \<lparr>el_id = pd_serial db, el_user_id = Some user, el_order_id = pay_id order, el_provider = pay_provider order,
      el_sku = pay_sku order, el_kind = pay_kind order, el_quantity = pay_quantity order, el_status = ''active'',
      el_starts_at = starts, el_expires_at = expires, el_granted_at = now, el_revoked_at = None\<rparr>"

definition set_status :: "string \<Rightarrow> int \<Rightarrow> pay_db \<Rightarrow> pay_db" where
  "set_status status oid db = update_order oid (\<lambda>o1. o1\<lparr>pay_status := status\<rparr>) db"

definition grant_entitlement ::
  "pay_db \<Rightarrow> int \<Rightarrow> mail_answer \<Rightarrow> int \<Rightarrow> int \<Rightarrow> hook_error + bool \<times> pay_db" where
  "grant_entitlement db oid mail now clock =
     (case the_order db oid of None \<Rightarrow> Inl HookFault
      | Some order \<Rightarrow>
        (case order_entitlement db oid of
           Some e \<Rightarrow> Inr (el_status e = ''active'', db)
         | None \<Rightarrow>
           (case pay_user_id order of
              None \<Rightarrow> Inr (False, set_status ''paid_unfulfilled'' oid db)
            | Some uid \<Rightarrow>
                bindE (snapshot_ok order) (\<lambda>_.
                case the_user db uid of
                  None \<Rightarrow> Inr (False, set_status ''paid_unfulfilled'' oid db)
                | Some user \<Rightarrow>
                    bindE (apply_entitlement db user order now clock) (\<lambda>(starts, expires, db1).
                    let db2 = bundle_grant db1 user order now;
                        db3 = db2\<lparr>pd_serial := pd_serial db2 + 1,
                                  pd_entitlements := pd_entitlements db2 @ [entitlement_row db2 uid order starts expires now]\<rparr>
                    in bindE (queue_receipt mail (''payment:'' @ pay_public_id order @ '':receipt'') db3) (\<lambda>db4. Inr (True, db4)))))))"

section \<open>Revoking\<close>

definition refunded_so_far :: "pay_db \<Rightarrow> pay_order \<Rightarrow> int" where
  "refunded_so_far db order = total (\<lambda>e. se_source_type e = ''payment_order'' \<and> se_source_id e = pay_public_id order
     \<and> se_event_type e = ''refund'') se_amount (pd_svc_events db)"

definition units_refunded_so_far :: "pay_db \<Rightarrow> pay_order \<Rightarrow> int" where
  "units_refunded_so_far db order = total (\<lambda>e. ue_source_type e = ''payment_order'' \<and> ue_source_id e = Some (pay_public_id order)
     \<and> ue_event_type e = ''refund'') ue_amount (pd_usage_events db)"

definition refund_service :: "pay_db \<Rightarrow> user_account \<Rightarrow> pay_order \<Rightarrow> int \<Rightarrow> pay_db" where
  "refund_service db user order now =
     (let target = refund_share (pay_refunded order) (pay_quantity order) (pay_gross order);
          delta = target + refunded_so_far db order
      in if delta > 0 then post_service db user order ''refund'' (- delta)
           (''job-service-refund:'' @ pay_public_id order @ '':'' @ decimal target) ''Processed refund of prepaid service credits'' now
         else db)"

definition refund_units :: "pay_db \<Rightarrow> user_account \<Rightarrow> pay_order \<Rightarrow> int \<Rightarrow> int \<Rightarrow> pay_db" where
  "refund_units db user order units now =
     (let target = refund_share (pay_refunded order) units (pay_gross order);
          delta = target + units_refunded_so_far db order
      in if delta > 0 then post_units db user order ''refund'' (- delta)
           (''bundle-analysis-refund:'' @ pay_public_id order @ '':'' @ decimal target)
           ''Processed proportional refund of finite analysis bundle'' now
         else db)"

definition adjust_refund :: "pay_db \<Rightarrow> int \<Rightarrow> int \<Rightarrow> hook_error + pay_db" where
  "adjust_refund db oid now =
     (case the_order db oid of None \<Rightarrow> Inl HookFault
      | Some order \<Rightarrow>
        if pay_kind order \<notin> {''job_service_credits'', ''credit_bundle'', ''credit_pass''} \<or> pay_user_id order = None then Inr db
        else if order_entitlement db oid = None then Inr db
        else if pay_kind order = ''credit_pass'' then
          (case refund_order (pd_credits db) order now of
             Inl e \<Rightarrow> Inl (contract_error ''invalid_unified_credit_refund'' e)
           | Inr credits \<Rightarrow> Inr (db\<lparr>pd_credits := credits\<rparr>))
        else (case the_user db (the (pay_user_id order)) of None \<Rightarrow> Inr db
              | Some user \<Rightarrow>
                  let db1 = refund_service db user order now in
                  if pay_kind order \<noteq> ''credit_bundle'' then Inr db1
                  else (case bundle_units order of None \<Rightarrow> Inl HookFault
                        | Some units \<Rightarrow> Inr (refund_units db1 user order units now))))"

definition future_expiries :: "pay_db \<Rightarrow> int \<Rightarrow> int \<Rightarrow> int \<Rightarrow> int list" where
  "future_expiries db user not_id now =
     List.map_filter (\<lambda>e. if el_user_id e = Some user \<and> el_id e \<noteq> not_id \<and> el_kind e = ''premium_access'' \<and> el_status e = ''active''
        then (case el_expires_at e of None \<Rightarrow> None | Some t \<Rightarrow> if t > now then Some t else None) else None) (pd_entitlements db)"

definition mark_entitlement :: "int \<Rightarrow> (entitlement \<Rightarrow> entitlement) \<Rightarrow> pay_db \<Rightarrow> pay_db" where
  "mark_entitlement oid f db = db\<lparr>pd_entitlements := update_by el_order_id oid f (pd_entitlements db)\<rparr>"

definition revoke_entitlement :: "pay_db \<Rightarrow> int \<Rightarrow> int \<Rightarrow> hook_error + pay_db" where
  "revoke_entitlement db oid now =
     (case order_entitlement db oid of None \<Rightarrow> Inr db
      | Some e \<Rightarrow>
        if el_status e \<noteq> ''active'' then
          Inr (if el_status e \<in> {''ended_by_user'', ''ended_account_deleted''}
               then mark_entitlement oid (\<lambda>r. r\<lparr>el_status := ''refunded'',
                      el_revoked_at := (case el_revoked_at r of None \<Rightarrow> Some now | Some t \<Rightarrow> Some t)\<rparr>) db
               else db)
        else
          let db1 = mark_entitlement oid (\<lambda>r. r\<lparr>el_status := ''refunded'', el_revoked_at := Some now\<rparr>) db in
          (case el_user_id e of None \<Rightarrow> Inr db1
           | Some uid \<Rightarrow>
             (case the_user db1 uid of None \<Rightarrow> Inr db1
              | Some user \<Rightarrow>
                if el_kind e = ''analysis_units''
                then Inr (update_user uid (\<lambda>u. u\<lparr>u_ai_credits := max 0 (u_ai_credits u - el_quantity e)\<rparr>) db1)
                else if el_kind e \<in> {''job_service_credits'', ''credit_bundle'', ''credit_pass''} then adjust_refund db1 oid now
                else Inr (case future_expiries db1 uid (el_id e) now of
                       [] \<Rightarrow> update_user uid (\<lambda>u. u\<lparr>u_tier := ''free'', u_premium_until := None\<rparr>) db1
                     | t # ts \<Rightarrow> update_user uid (\<lambda>u. u\<lparr>u_tier := ''premium'', u_premium_until := Some (fold max ts t)\<rparr>) db1))))"

section \<open>The three events\<close>

text \<open>
  The instant and the answers of one webhook: the server clock, whether the receipt mail
  can be queued. An event's own time, when the provider sent one, dates its effects.
\<close>

record hook_env =
  hk_clock :: int
  hk_mail :: mail_answer
  hk_mode :: string

definition event_time :: "hook_env \<Rightarrow> pay_db \<Rightarrow> string \<Rightarrow> int" where
  "event_time env db eid =
     (case the_event db eid of None \<Rightarrow> hk_clock env
      | Some e \<Rightarrow> (case ev_created_at e of None \<Rightarrow> hk_clock env | Some t \<Rightarrow> t))"

definition order_by_provider_id :: "pay_db \<Rightarrow> string \<Rightarrow> pay_order option" where
  "order_by_provider_id db provider_order_id =
     find (\<lambda>o1. pay_provider o1 = PROVIDER \<and> pay_provider_order_id o1 = Some provider_order_id) (pd_orders db)"

definition captured_statuses :: "string list" where
  "captured_statuses = [''captured'', ''partially_refunded'', ''refunded'']"

definition other_captured :: "pay_db \<Rightarrow> pay_order \<Rightarrow> string \<Rightarrow> bool" where
  "other_captured db order payment_id \<longleftrightarrow>
     list_ex (\<lambda>t. px_order_id t = pay_id order \<and> px_payment_id t \<noteq> payment_id \<and> px_status t \<in> set captured_statuses) (pd_txns db)"

definition claim_event :: "string \<Rightarrow> pay_order \<Rightarrow> pay_db \<Rightarrow> pay_db" where
  "claim_event eid order db = update_event eid (\<lambda>e. e\<lparr>ev_order_id := Some (pay_id order)\<rparr>) db"

definition earlier :: "int option \<Rightarrow> int \<Rightarrow> int option" where
  "earlier t now = (case t of None \<Rightarrow> Some now | Some u \<Rightarrow> if now < u then Some now else Some u)"

text \<open>What a capture writes into the order, and the fulfilment it may trigger.\<close>

definition mark_paid :: "pay_txn \<Rightarrow> int \<Rightarrow> pay_order \<Rightarrow> pay_order" where
  "mark_paid t now o1 = o1\<lparr>pay_fee_tax := px_tax t, pay_fee := px_fee t, pay_net := px_net t,
     pay_paid_at := earlier (pay_paid_at o1) now, pay_attempt_key := None\<rparr>"

definition fulfill_capture :: "hook_env \<Rightarrow> pay_db \<Rightarrow> int \<Rightarrow> int \<Rightarrow> hook_error + pay_db" where
  "fulfill_capture env db oid now =
     (case the_order db oid of None \<Rightarrow> Inl HookFault
      | Some order \<Rightarrow>
          if pay_status order = ''partially_refunded'' then
            bindE (grant_entitlement db oid (hk_mail env) now (hk_clock env)) (\<lambda>(_, db1). adjust_refund db1 oid now)
          else if pay_status order \<notin> {''paid'', ''refunded'', ''paid_unfulfilled''} then
            bindE (grant_entitlement (set_status ''paid'' oid db) oid (hk_mail env) now (hk_clock env)) (\<lambda>(_, db1).
            adjust_refund db1 oid now)
          else Inr db)"

definition process_capture ::
  "hook_env \<Rightarrow> pay_db \<Rightarrow> json \<Rightarrow> string \<Rightarrow> string \<Rightarrow> hook_error + string option \<times> pay_db" where
  "process_capture env db payload eid event_type =
     (case entity_of payload ''payment'' of None \<Rightarrow> Inl (HookInvalid ''missing_payment_entity'')
      | Some payment \<Rightarrow>
        bindE (required_string payment ''order_id'' ''order_'') (\<lambda>provider_order_id.
        case order_by_provider_id db provider_order_id of None \<Rightarrow> Inr (None, db)
        | Some order \<Rightarrow>
          bindE (require (pay_provider_mode order = hk_mode env) (HookInvalid ''provider_mode_mismatch'')) (\<lambda>_.
          let db1 = claim_event eid order db in
          bindE (validate_payment payment order True) (\<lambda>facts.
          bindE (require (\<not> other_captured db1 order (pt_payment_id facts)) (HookInvalid ''multiple_captured_payments'')) (\<lambda>_.
          bindE (if event_type \<noteq> ''order.paid'' then Inr ()
                 else (case entity_of payload ''order'' of None \<Rightarrow> Inl (HookInvalid ''missing_order_entity'')
                       | Some entity \<Rightarrow> validate_provider_order entity order)) (\<lambda>_.
          let now = event_time env db1 eid in
          bindE (payment_transaction db1 order (pt_payment_id facts) ''captured'' facts (Some eid)) (\<lambda>(t, db2).
          let db3 = update_txn (px_payment_id t) (\<lambda>r. r\<lparr>px_captured_at := earlier (px_captured_at r) now\<rparr>) db2;
              db4 = update_order (pay_id order) (mark_paid t now) db3
          in bindE (fulfill_capture env db4 (pay_id order) now) (\<lambda>db5. Inr (Some (pay_public_id order), db5)))))))))"

definition process_failure ::
  "hook_env \<Rightarrow> pay_db \<Rightarrow> json \<Rightarrow> string \<Rightarrow> hook_error + string option \<times> pay_db" where
  "process_failure env db payload eid =
     (case entity_of payload ''payment'' of None \<Rightarrow> Inl (HookInvalid ''missing_payment_entity'')
      | Some payment \<Rightarrow>
        bindE (required_string payment ''order_id'' ''order_'') (\<lambda>provider_order_id.
        case order_by_provider_id db provider_order_id of None \<Rightarrow> Inr (None, db)
        | Some order \<Rightarrow>
          bindE (require (pay_provider_mode order = hk_mode env) (HookInvalid ''provider_mode_mismatch'')) (\<lambda>_.
          let db1 = claim_event eid order db in
          bindE (validate_payment payment order False) (\<lambda>facts.
          bindE (require (case the_txn db1 (pt_payment_id facts) of None \<Rightarrow> True | Some t \<Rightarrow> px_status t \<notin> set captured_statuses)
                   (HookInvalid ''invalid_payment_transition'')) (\<lambda>_.
          bindE (payment_transaction db1 order (pt_payment_id facts) ''failed'' facts None) (\<lambda>(t, db2).
          let now = event_time env db1 eid;
              db3 = update_txn (px_payment_id t) (\<lambda>r. r\<lparr>px_failed_at :=
                      (case px_failed_at r of None \<Rightarrow> Some now | Some f \<Rightarrow> Some f)\<rparr>) db2;
              db4 = (if pay_status order \<in> {''initializing'', ''created'', ''client_confirmed'', ''payment_failed''}
                     then set_status ''payment_failed'' (pay_id order) db3 else db3)
          in Inr (Some (pay_public_id order), db4)))))))"

text \<open>The order of a refund: of the payment entity in the event, or of the known transaction.\<close>

definition refund_order_of :: "pay_db \<Rightarrow> json option \<Rightarrow> string \<Rightarrow> hook_error + pay_order option" where
  "refund_order_of db payment payment_id =
     (case payment of
        Some p \<Rightarrow> bindE (required_string p ''order_id'' ''order_'') (\<lambda>pid. Inr (order_by_provider_id db pid))
      | None \<Rightarrow> Inr (case the_txn db payment_id of None \<Rightarrow> None | Some t \<Rightarrow> the_order db (px_order_id t)))"

text \<open>The new refund in the books, and what it does to the entitlement.\<close>

definition book_refund :: "hook_env \<Rightarrow> pay_db \<Rightarrow> pay_order \<Rightarrow> pay_txn \<Rightarrow> string \<Rightarrow> int \<Rightarrow> int \<Rightarrow> hook_error + pay_db" where
  "book_refund env db order t refund_id amount now =
     (let new_total = pay_refunded order + amount; full = (new_total = pay_gross order); oid = pay_id order in
      bindE (require (\<not> new_total > pay_gross order) (HookInvalid ''refund_total_mismatch'')) (\<lambda>_.
      let row = \<lparr>pf_order_id = oid, pf_txn_id = px_id t, pf_refund_id = refund_id, pf_amount = amount,
                 pf_currency = pay_currency order, pf_processed_at = now\<rparr>;
          db1 = db\<lparr>pd_refunds := pd_refunds db @ [row]\<rparr>;
          db2 = update_txn (px_payment_id t) (\<lambda>r. r\<lparr>px_refunded := px_refunded r + amount,
                  px_status := (if full then ''refunded'' else ''partially_refunded'')\<rparr>) db1;
          db3 = update_order oid (\<lambda>o1. o1\<lparr>pay_refunded := new_total, pay_attempt_key := None\<rparr>) db2
      in if full
         then revoke_entitlement (update_order oid (\<lambda>o1. o1\<lparr>pay_status := ''refunded'', pay_refunded_at := Some now\<rparr>) db3) oid now
         else bindE (grant_entitlement (update_order oid (\<lambda>o1. o1\<lparr>pay_status := ''partially_refunded'',
                       pay_paid_at := (case pay_paid_at o1 of None \<Rightarrow> Some now | Some t \<Rightarrow> Some t)\<rparr>) db3)
                       oid (hk_mail env) now (hk_clock env)) (\<lambda>(_, db4).
              adjust_refund db4 oid now)))"

text \<open>The transaction and, unless the refund is already in the books, its booking.\<close>

definition record_refund ::
  "hook_env \<Rightarrow> pay_db \<Rightarrow> pay_order \<Rightarrow> string \<Rightarrow> bool \<Rightarrow> payment_facts \<Rightarrow> string \<Rightarrow> int \<Rightarrow> string
     \<Rightarrow> hook_error + string option \<times> pay_db" where
  "record_refund env db1 order payment_id first facts refund_id amount eid =
     bindE (payment_transaction db1 order payment_id ''captured'' facts (Some eid)) (\<lambda>(t, db2).
     let db3 = (if first then update_txn payment_id (\<lambda>r. r\<lparr>px_captured_at := pay_paid_at order\<rparr>) db2 else db2) in
     case row_at pf_refund_id refund_id (pd_refunds db3) of
       Some existing \<Rightarrow>
         if pf_order_id existing \<noteq> pay_id order then Inl (HookInvalid ''refund_ownership_mismatch'')
         else Inr (Some (pay_public_id order), db3)
     | None \<Rightarrow>
         bindE (book_refund env db3 order t refund_id amount (event_time env db1 eid)) (\<lambda>db4.
         Inr (Some (pay_public_id order), db4)))"

definition process_refund ::
  "hook_env \<Rightarrow> pay_db \<Rightarrow> json \<Rightarrow> string \<Rightarrow> hook_error + string option \<times> pay_db" where
  "process_refund env db payload eid =
     (case entity_of payload ''refund'' of None \<Rightarrow> Inl (HookInvalid ''missing_refund_entity'')
      | Some refund \<Rightarrow>
        bindE (require (json_get ''entity'' refund = Some (JStr ''refund'')) (HookInvalid ''missing_refund_entity'')) (\<lambda>_.
        bindE (required_string refund ''id'' ''rfnd_'') (\<lambda>refund_id.
        bindE (required_string refund ''payment_id'' ''pay_'') (\<lambda>payment_id.
        bindE (required_minor refund ''amount'' True) (\<lambda>amount.
        bindE (required_string refund ''currency'' []) (\<lambda>currency.
        bindE (require (json_get ''status'' refund = Some (JStr ''processed'')) (HookInvalid ''refund_not_processed'')) (\<lambda>_.
        let payment = entity_of payload ''payment'' in
        bindE (refund_order_of db payment payment_id) (\<lambda>found.
        case found of None \<Rightarrow> Inr (None, db)
        | Some order \<Rightarrow>
          bindE (require (case the_txn db payment_id of None \<Rightarrow> True | Some t \<Rightarrow> px_order_id t = pay_id order)
                   (HookInvalid ''payment_ownership_mismatch'')) (\<lambda>_.
          bindE (require (pay_provider_mode order = hk_mode env) (HookInvalid ''provider_mode_mismatch'')) (\<lambda>_.
          let db1 = claim_event eid order db in
          bindE (require (upper currency = pay_currency order) (HookInvalid ''currency_mismatch'')) (\<lambda>_.
          bindE (require (\<not> amount > pay_gross order) (HookInvalid ''refund_amount_mismatch'')) (\<lambda>_.
          bindE (case payment of None \<Rightarrow> Inr (None, None)
                 | Some p \<Rightarrow> bindE (validate_refund_payment p order) (\<lambda>(verified, fee, tax).
                     bindE (require (verified = payment_id) (HookInvalid ''refund_payment_mismatch'')) (\<lambda>_. Inr (fee, tax))))
            (\<lambda>(fee, tax).
          record_refund env db1 order payment_id (the_txn db payment_id = None)
            \<lparr>pt_payment_id = payment_id, pt_fee = fee, pt_tax = tax, pt_method = None, pt_international = None\<rparr>
            refund_id amount eid)))))))))))))"

section \<open>The webhook\<close>

record webhook_result =
  wr_status :: string
  wr_event_type :: string
  wr_order :: "string option"

definition event_kind :: "json \<Rightarrow> hook_error + string" where
  "event_kind payload =
     (if \<not> is_object payload then Inl (HookInvalid ''invalid_payload'')
      else case json_get ''event'' payload of
        Some (JStr k) \<Rightarrow> (if k = [] \<or> length k > 80 then Inl (HookInvalid ''invalid_event_type'') else Inr k)
      | _ \<Rightarrow> Inl (HookInvalid ''invalid_event_type''))"

definition run_event ::
  "hook_env \<Rightarrow> pay_db \<Rightarrow> json \<Rightarrow> string \<Rightarrow> string \<Rightarrow> hook_error + (string \<times> string option) \<times> pay_db" where
  "run_event env db payload eid kind =
     (if kind \<in> set CAPTURE_EVENTS then
        bindE (process_capture env db payload eid kind) (\<lambda>(order, db1).
        Inr ((if order = None then ''retryable_unknown_order'' else ''processed'', order), db1))
      else if kind \<in> set FAILED_EVENTS then
        bindE (process_failure env db payload eid) (\<lambda>(order, db1).
        Inr ((if order = None then ''retryable_unknown_order'' else ''processed'', order), db1))
      else if kind \<in> set REFUND_EVENTS then
        bindE (process_refund env db payload eid) (\<lambda>(order, db1).
        Inr ((if order = None then ''retryable_unknown_payment'' else ''processed'', order), db1))
      else Inr ((if kind \<in> set IGNORED_REFUND_EVENTS then ''ignored_non_authoritative'' else ''ignored_unsupported'', None), db))"

definition received_event :: "string \<Rightarrow> string \<Rightarrow> string \<Rightarrow> int option \<Rightarrow> pay_event" where
  "received_event eid kind sha created = \<lparr>ev_event_id = eid, ev_order_id = None, ev_type = kind, ev_sha = sha,
     ev_status = ''received'', ev_error = None, ev_created_at = created, ev_processed_at = None\<rparr>"

definition receive_event :: "pay_db \<Rightarrow> json \<Rightarrow> string \<Rightarrow> string \<Rightarrow> string \<Rightarrow> int \<Rightarrow> pay_db" where
  "receive_event db payload eid kind sha clock =
     (let created = provider_event_time payload clock in
      case the_event db eid of
        Some _ \<Rightarrow> update_event eid (\<lambda>e. e\<lparr>ev_status := ''received'', ev_error := None, ev_processed_at := None,
                    ev_created_at := (case ev_created_at e of None \<Rightarrow> created | Some t \<Rightarrow> Some t)\<rparr>) db
      | None \<Rightarrow> db\<lparr>pd_events := pd_events db @ [received_event eid kind sha created]\<rparr>)"

text \<open>After a rejection everything is rolled back but the event's digest and its code.\<close>

definition reject_event :: "pay_db \<Rightarrow> string \<Rightarrow> string \<Rightarrow> string \<Rightarrow> string \<Rightarrow> int \<Rightarrow> pay_db" where
  "reject_event db eid kind sha code clock =
     (let db1 = (case the_event db eid of Some _ \<Rightarrow> db
                 | None \<Rightarrow> db\<lparr>pd_events := pd_events db @ [received_event eid kind sha None]\<rparr>)
      in update_event eid (\<lambda>e. e\<lparr>ev_status := ''rejected'', ev_error := Some code, ev_processed_at := Some clock\<rparr>) db1)"

definition finish_event_row :: "string \<Rightarrow> int \<Rightarrow> pay_event \<Rightarrow> pay_event" where
  "finish_event_row status clock e = e\<lparr>ev_status := status, ev_processed_at := Some clock,
     ev_error := (if status \<in> set RETRYABLE_EVENT_STATUSES then Some status
                  else if ev_error e = Some ''provider_expense_conflict'' then ev_error e else None)\<rparr>"

text \<open>
  \<open>process_razorpay_webhook\<close>. \<open>document\<close> is \<open>None\<close> for a body that is not JSON; \<open>winner\<close> is the
  committed state of a concurrent delivery that inserted the event first.
\<close>

definition process_webhook ::
  "hook_env \<Rightarrow> pay_db \<Rightarrow> json option \<Rightarrow> string \<Rightarrow> string \<Rightarrow> pay_db option \<Rightarrow> pay_db \<times> (hook_error + webhook_result)" where
  "process_webhook env db document sha eid winner =
     (case bindE (require (eid \<noteq> [] \<and> length eid \<le> 160) (HookInvalid ''invalid_event_id'')) (\<lambda>_.
           case document of None \<Rightarrow> Inl (HookInvalid ''invalid_json'') | Some d \<Rightarrow> map_sum id (Pair d) (event_kind d)) of
        Inl e \<Rightarrow> (db, Inl e)
      | Inr (payload, kind) \<Rightarrow>
        let duplicate = \<lparr>wr_status = ''duplicate'', wr_event_type = kind, wr_order = None\<rparr>;
            replayed = (\<lambda>e. ev_sha e \<noteq> sha \<or> ev_type e \<noteq> kind);
            continue =
              (case run_event env (receive_event db payload eid kind sha (hk_clock env)) payload eid kind of
                 Inl (HookInvalid code) \<Rightarrow> (reject_event db eid kind sha code (hk_clock env), Inl (HookInvalid code))
               | Inl HookFault \<Rightarrow> (db, Inl HookFault)
               | Inr ((status, order), db1) \<Rightarrow>
                   (update_event eid (finish_event_row status (hk_clock env)) db1,
                    Inr \<lparr>wr_status = status, wr_event_type = kind, wr_order = order\<rparr>))
        in (case the_event db eid of
              Some e \<Rightarrow>
                if replayed e then (db, Inl (HookInvalid ''event_replay_mismatch''))
                else if ev_status e \<notin> set RETRYABLE_EVENT_STATUSES then (db, Inr duplicate)
                else continue
            | None \<Rightarrow>
                (case winner of None \<Rightarrow> continue
                 | Some other \<Rightarrow>
                     (case the_event other eid of
                        Some e \<Rightarrow> (other, if replayed e then Inl (HookInvalid ''event_replay_mismatch'') else Inr duplicate)
                      | None \<Rightarrow> (other, Inr duplicate)))))"

end
