(* ===== verification/Payments_Safety.thy ===== *)
theory Payments_Safety
  imports Payments
begin

text \<open>
  What every webhook keeps of the payment books. \<open>core\<close> is the part of the tables that the
  books are about; most writes leave it alone, a grant adds an entitlement with its event, a
  refund a row and the event that takes the credits back.
\<close>

section \<open>The core of the tables\<close>

definition order_core :: "pay_order \<Rightarrow> (int \<times> string \<times> int option \<times> string \<times> int \<times> int) \<times> int \<times> bool" where
  "order_core o1 = ((pay_id o1, pay_public_id o1, pay_user_id o1, pay_kind o1, pay_quantity o1, pay_gross o1),
     pay_refunded o1, pay_status o1 = ''refunded'')"

type_synonym pay_core = "((int \<times> string \<times> int option \<times> string \<times> int \<times> int) \<times> int \<times> bool) list \<times> int list
  \<times> entitlement list \<times> svc_event list \<times> pay_refund list"

definition core :: "pay_db \<Rightarrow> pay_core" where
  "core db = (map order_core (pd_orders db), map u_id (pd_users db), pd_entitlements db, pd_svc_events db, pd_refunds db)"

lemma map_update_by_same: "(\<And>r. h (f r) = h r) \<Longrightarrow> map h (update_by key k f rows) = map h rows"
  by (rule map_update_by)

lemma core_update_order:
  "(\<And>o1. order_core (f o1) = order_core o1) \<Longrightarrow> core (update_order oid f db) = core db"
  by (simp add: core_def update_order_def map_update_by)

lemma core_update_user: "(\<And>u. u_id (f u) = u_id u) \<Longrightarrow> core (update_user user f db) = core db"
  by (simp add: core_def update_user_def map_update_by)

lemma core_simps [simp]:
  "core (update_event eid g db) = core db" "core (update_txn pid h db) = core db"
  "core (db\<lparr>pd_receipts := rs\<rparr>) = core db" "core (db\<lparr>pd_credits := c\<rparr>) = core db"
  "core (db\<lparr>pd_serial := n\<rparr>) = core db" "core (db\<lparr>pd_txns := ts\<rparr>) = core db" "core (db\<lparr>pd_events := es\<rparr>) = core db"
  by (simp_all add: core_def update_event_def update_txn_def)

lemma core_claim_event [simp]: "core (claim_event eid order db) = core db"
  by (simp add: claim_event_def)

lemma core_if: "core (if c then db1 else db2) = (if c then core db1 else core db2)"
  by simp

lemma core_case_option: "core (case x of None \<Rightarrow> db1 | Some y \<Rightarrow> f y) = (case x of None \<Rightarrow> core db1 | Some y \<Rightarrow> core (f y))"
  by (simp split: option.split)

lemma found_txn_core: "found_txn db order pid status = Inr db1 \<Longrightarrow> core db1 = core db"
  by (auto simp: found_txn_def core_def split: option.splits if_splits)

lemma payment_transaction_core:
  assumes "payment_transaction db order pid status facts ev = Inr (t, db')"
  shows "core db' = core db"
proof -
  have "\<exists>db1. found_txn db order pid status = Inr db1"
    using assms by (cases "found_txn db order pid status") (simp_all add: payment_transaction_def)
  then obtain db1 where found: "found_txn db order pid status = Inr db1" ..
  have "\<exists>t0. the_txn db1 pid = Some t0"
    using assms found by (cases "the_txn db1 pid") (simp_all add: payment_transaction_def)
  then obtain t0 where t0: "the_txn db1 pid = Some t0" ..
  have fees: "order_core (o1\<lparr>pay_fee := a, pay_fee_tax := b, pay_net := c\<rparr>) = order_core o1" for o1 a b c
    by (simp add: order_core_def)
  from assms have "core db' = core db1"
    unfolding payment_transaction_def found t0 bindE_Inr Let_def option.case sum.inject prod.inject
    by (elim conjE, hypsubst) (simp add: core_if core_case_option core_update_order fees split: option.split)
  with found_txn_core [OF found] show ?thesis by simp
qed

section \<open>Grants\<close>

definition service_kinds :: "string list" where
  "service_kinds = [''job_service_credits'', ''credit_bundle'']"

definition is_order_event :: "string \<Rightarrow> string \<Rightarrow> svc_event \<Rightarrow> bool" where
  "is_order_event kind pid e \<longleftrightarrow> se_source_type e = ''payment_order'' \<and> se_source_id e = pid \<and> se_event_type e = kind"

definition posted :: "string \<Rightarrow> string \<Rightarrow> svc_event list \<Rightarrow> int" where
  "posted kind pid es = total (is_order_event kind pid) se_amount es"

lemma posted_append [simp]: "posted kind pid (xs @ ys) = posted kind pid xs + posted kind pid ys"
  by (simp add: posted_def total_def)

lemma posted_Nil [simp]: "posted kind pid [] = 0"
  by (simp add: posted_def total_def)

lemma posted_one: "posted kind pid [e] = (if is_order_event kind pid e then se_amount e else 0)"
  by (simp add: posted_def total_def)

lemma refunded_so_far_posted: "refunded_so_far db order = posted ''refund'' (pay_public_id order) (pd_svc_events db)"
  by (simp add: refunded_so_far_def posted_def is_order_event_def [abs_def])

lemma post_service_core:
  "core (post_service db user order kind amount key reason now) =
     (fst (core db), map u_id (pd_users db), pd_entitlements db,
      pd_svc_events (post_service db user order kind amount key reason now), pd_refunds db)"
  by (simp add: core_def post_service_def Let_def update_user_def map_update_by)

lemma post_service_posted:
  "posted k pid (pd_svc_events (post_service db user order kind amount key reason now)) =
     posted k pid (pd_svc_events db) + (if k = kind \<and> pid = pay_public_id order then amount else 0)"
  by (simp add: post_service_def Let_def posted_one is_order_event_def update_user_def)

lemma post_units_core [simp]: "core (post_units db user order kind amount key reason now) = core db"
  by (simp add: core_def post_units_def Let_def update_user_def map_update_by)

lemma set_status_core: "status \<noteq> ''refunded'' \<Longrightarrow> (\<forall>o1 \<in> set (pd_orders db). pay_id o1 = oid \<longrightarrow> pay_status o1 \<noteq> ''refunded'')
    \<Longrightarrow> core (set_status status oid db) = core db"
  by (simp add: core_def set_status_def update_order_def update_by_def order_core_def)

text \<open>Only the service events may differ.\<close>

definition events_only :: "pay_db \<Rightarrow> pay_db \<Rightarrow> bool" where
  "events_only db db' \<longleftrightarrow> map order_core (pd_orders db') = map order_core (pd_orders db) \<and>
     map u_id (pd_users db') = map u_id (pd_users db) \<and> pd_entitlements db' = pd_entitlements db \<and> pd_refunds db' = pd_refunds db"

lemma events_only_core: "events_only db db' \<Longrightarrow> pd_svc_events db' = pd_svc_events db \<Longrightarrow> core db' = core db"
  by (simp add: events_only_def core_def)

lemma core_events_only: "core db' = core db \<Longrightarrow> events_only db db' \<and> pd_svc_events db' = pd_svc_events db"
  by (simp add: events_only_def core_def)

lemma events_only_refl [simp]: "events_only db db"
  by (simp add: events_only_def)

lemma events_only_trans: "events_only db db1 \<Longrightarrow> events_only db1 db2 \<Longrightarrow> events_only db db2"
  by (simp add: events_only_def)

lemma post_service_events_only: "events_only db (post_service db user order kind amount key reason now)"
  by (simp add: events_only_def post_service_def Let_def update_user_def map_update_by)

lemma apply_entitlement_effect:
  assumes "apply_entitlement db user order now clock = Inr (starts, expires, db1)" and "snapshot_ok order = Inr u"
  shows "events_only db db1 \<and> (\<forall>k pid. posted k pid (pd_svc_events db1) = posted k pid (pd_svc_events db) +
     (if pay_kind order \<in> set service_kinds \<and> k = ''grant'' \<and> pid = pay_public_id order then pay_quantity order else 0))"
proof -
  have kinds: "pay_kind order \<in> {''premium_access'', ''analysis_units'', ''job_service_credits'', ''credit_bundle'', ''credit_pass''}"
    using assms(2) by (simp add: snapshot_ok_def result_simps)
  show ?thesis
  proof (cases "pay_kind order \<in> {''job_service_credits'', ''credit_bundle''}")
    case True
    with assms(1) have "db1 = post_service db user order ''grant'' (pay_quantity order)
        (''job-service-grant:'' @ pay_public_id order) ''Captured prepaid job service purchase'' now"
      by (auto simp: apply_entitlement_def)
    with True show ?thesis by (auto simp: post_service_events_only post_service_posted service_kinds_def)
  next
    case False
    have "core db1 = core db"
      using assms(1) False kinds
      by (auto simp: apply_entitlement_def core_update_user Let_def split: sum.splits prod.splits if_splits)
    with core_events_only [OF this] False show ?thesis by (auto simp: service_kinds_def)
  qed
qed

lemma bundle_grant_core [simp]: "core (bundle_grant db user order now) = core db"
  by (simp add: bundle_grant_def)

lemma the_user_known: "the_user db u = Some user \<Longrightarrow> u \<in> set (map u_id (pd_users db))"
  by (auto simp: the_user_def dest: row_at_SomeD)

lemma row_at_unique: "row_at key k rows = Some r \<Longrightarrow> distinct (map key rows) \<Longrightarrow> x \<in> set rows \<Longrightarrow> key x = k \<Longrightarrow> x = r"
  using distinct_key_eq by (metis row_at_SomeD)

lemma queue_receipt_core: "queue_receipt mail key db = Inr db' \<Longrightarrow> core db' = core db"
  by (auto simp: queue_receipt_def split: mail_answer.splits)

lemma grant_entitlement_effect:
  assumes grant: "grant_entitlement db oid mail now clock = Inr (b, db')" and order: "the_order db oid = Some o1"
    and "distinct (map pay_id (pd_orders db))" and "pay_status o1 \<noteq> ''refunded''"
  obtains "core db' = core db"
    | u e where "order_entitlement db oid = None" "pay_user_id o1 = Some u" "u \<in> set (map u_id (pd_users db))"
      "0 < pay_quantity o1" "el_order_id e = oid" "el_user_id e = Some u" "el_kind e = pay_kind o1" "el_status e = ''active''"
      "pd_entitlements db' = pd_entitlements db @ [e]" "map order_core (pd_orders db') = map order_core (pd_orders db)"
      "map u_id (pd_users db') = map u_id (pd_users db)" "pd_refunds db' = pd_refunds db"
      "\<forall>k pid. posted k pid (pd_svc_events db') = posted k pid (pd_svc_events db) +
         (if pay_kind o1 \<in> set service_kinds \<and> k = ''grant'' \<and> pid = pay_public_id o1 then pay_quantity o1 else 0)"
proof -
  have unfulfilled: "core (set_status ''paid_unfulfilled'' oid db) = core db"
    using row_at_unique [OF order [unfolded the_order_def] assms(3)] assms(4) by (intro set_status_core) auto
  show ?thesis
  proof (cases "order_entitlement db oid = None \<and> (\<exists>u user. pay_user_id o1 = Some u \<and> the_user db u = Some user)")
    case False
    with grant order unfulfilled have "core db' = core db"
      by (auto simp: grant_entitlement_def result_simps split: option.splits)
    then show ?thesis by (rule that(1))
  next
    case True
    then obtain u user where none: "order_entitlement db oid = None" and u: "pay_user_id o1 = Some u" "the_user db u = Some user" by blast
    with grant order obtain s starts expires db1 db4 where snap: "snapshot_ok o1 = Inr s"
      and given: "apply_entitlement db user o1 now clock = Inr (starts, expires, db1)"
      and receipt: "queue_receipt mail (''payment:'' @ pay_public_id o1 @ '':receipt'')
        ((bundle_grant db1 user o1 now)\<lparr>pd_serial := pd_serial (bundle_grant db1 user o1 now) + 1,
          pd_entitlements := pd_entitlements (bundle_grant db1 user o1 now) @
            [entitlement_row (bundle_grant db1 user o1 now) u o1 starts expires now]\<rparr>) = Inr db'"
      by (auto simp: grant_entitlement_def result_simps Let_def)
    note effect = apply_entitlement_effect [OF given snap]
    have bundled: "events_only db1 (bundle_grant db1 user o1 now)"
      "pd_svc_events (bundle_grant db1 user o1 now) = pd_svc_events db1"
      using core_events_only [OF bundle_grant_core] by blast+
    have "0 < pay_quantity o1" using snap by (simp add: snapshot_ok_def result_simps)
    have id: "pay_id o1 = oid" using order by (auto simp: the_order_def dest: row_at_SomeD)
    show ?thesis
      by (rule that(2) [OF none u(1) the_user_known [OF u(2)] \<open>0 < pay_quantity o1\<close>,
            of "entitlement_row (bundle_grant db1 user o1 now) u o1 starts expires now"])
         (use queue_receipt_core [OF receipt] effect bundled id in \<open>simp_all add: core_def events_only_def entitlement_row_def\<close>)
  qed
qed

section \<open>Refunds\<close>

lemma refund_share_mono: "0 < g \<Longrightarrow> 0 \<le> q \<Longrightarrow> r \<le> r' \<Longrightarrow> refund_share r q g \<le> refund_share r' q g"
  using zdiv_mono1 [of "r * q + g - 1" "r' * q + g - 1" g] mult_right_mono [of r r' q]
  by (auto simp: refund_share_def min_def)

lemma refund_share_0: "0 < g \<Longrightarrow> 0 \<le> q \<Longrightarrow> refund_share 0 q g = 0"
  by (simp add: refund_share_def zdiv_eq_0_iff min_def)

lemma refund_share_full:
  assumes "0 < g" shows "refund_share g q g = q"
proof -
  have "(g * q + (g - 1)) div g = q + (g - 1) div g" using assms by (simp add: mult.commute)
  moreover have "(g - 1) div g = 0" using assms by (simp add: zdiv_eq_0_iff)
  ultimately show ?thesis by (simp add: refund_share_def add_diff_eq)
qed

lemma refund_service_effect:
  "events_only db (refund_service db user order now)"
  "posted k pid (pd_svc_events (refund_service db user order now)) = posted k pid (pd_svc_events db) +
     (if k = ''refund'' \<and> pid = pay_public_id order
      then - max 0 (refund_share (pay_refunded order) (pay_quantity order) (pay_gross order)
              + posted ''refund'' (pay_public_id order) (pd_svc_events db)) else 0)"
  by (auto simp: refund_service_def Let_def refunded_so_far_posted post_service_posted post_service_events_only)

lemma refund_units_core [simp]: "core (refund_units db user order units now) = core db"
  by (simp add: refund_units_def Let_def)

lemma adjust_refund_effect:
  assumes "adjust_refund db oid now = Inr db'" and "the_order db oid = Some o1"
  shows "events_only db db' \<and> (\<forall>k pid. posted k pid (pd_svc_events db') = posted k pid (pd_svc_events db) +
    (if k = ''refund'' \<and> pid = pay_public_id o1 \<and> pay_kind o1 \<in> set service_kinds \<and> order_entitlement db oid \<noteq> None \<and>
        (\<exists>u user. pay_user_id o1 = Some u \<and> the_user db u = Some user)
     then - max 0 (refund_share (pay_refunded o1) (pay_quantity o1) (pay_gross o1)
              + posted ''refund'' (pay_public_id o1) (pd_svc_events db)) else 0))"
proof (cases "pay_kind o1 \<in> set service_kinds \<and> order_entitlement db oid \<noteq> None \<and>
    (\<exists>u user. pay_user_id o1 = Some u \<and> the_user db u = Some user)")
  case True
  then obtain u user where u: "pay_user_id o1 = Some u" "the_user db u = Some user" by blast
  have "core db' = core (refund_service db user o1 now)"
    using assms True u by (auto simp: adjust_refund_def service_kinds_def Let_def split: if_splits option.splits)
  from core_events_only [OF this] True u show ?thesis
    using refund_service_effect(1) [of db user o1 now] refund_service_effect(2) [of _ _ db user o1 now] events_only_trans
    by auto
next
  case False
  then have "core db' = core db"
    using assms by (auto simp: adjust_refund_def service_kinds_def split: if_splits option.splits sum.splits)
  from core_events_only [OF this] False show ?thesis by auto
qed

section \<open>The books\<close>

text \<open>
  An order's line: the recorded refunds add up to its total, which the price bounds and which
  reaches the price exactly when the order is refunded; its entitlement is the order's, and the
  service events are one grant of the quantity and refunds of the refunded share. Between the
  refund and the adjustment the events may lag behind (\<open>settled\<close> is false).
\<close>

definition refund_total :: "int \<Rightarrow> pay_refund list \<Rightarrow> int" where
  "refund_total oid refunds = total (\<lambda>f. pf_order_id f = oid) pf_amount refunds"

definition entitled ::
  "bool \<Rightarrow> int list \<Rightarrow> svc_event list \<Rightarrow> string \<times> int option \<times> string \<times> int \<times> int \<times> int \<Rightarrow> entitlement option \<Rightarrow> bool" where
  "entitled settled users svc line ent \<longleftrightarrow>
     (case line of (pid, user, kind, q, g, r) \<Rightarrow>
     (case ent of
        None \<Rightarrow> posted ''grant'' pid svc = 0 \<and> posted ''refund'' pid svc = 0
      | Some e \<Rightarrow>
          0 < q \<and> el_kind e = kind \<and> el_user_id e = user \<and> (\<exists>u \<in> set users. user = Some u) \<and>
          el_status e \<in> {''active'', ''refunded''} \<and> (el_status e = ''refunded'' \<longrightarrow> r = g) \<and>
          posted ''grant'' pid svc = (if kind \<in> set service_kinds then q else 0) \<and>
          (if kind \<in> set service_kinds
           then - refund_share r q g \<le> posted ''refund'' pid svc \<and> posted ''refund'' pid svc \<le> 0 \<and>
                (settled \<longrightarrow> posted ''refund'' pid svc = - refund_share r q g)
           else posted ''refund'' pid svc = 0)))"

definition line_ok ::
  "bool \<Rightarrow> int list \<Rightarrow> entitlement list \<Rightarrow> svc_event list \<Rightarrow> pay_refund list
     \<Rightarrow> (int \<times> string \<times> int option \<times> string \<times> int \<times> int) \<times> int \<times> bool \<Rightarrow> bool" where
  "line_ok settled users ents svc refunds line \<longleftrightarrow>
     (case line of ((i, pid, user, kind, q, g), r, full) \<Rightarrow>
        0 < g \<and> r = refund_total i refunds \<and> 0 \<le> r \<and> r \<le> g \<and> (full \<longleftrightarrow> r = g) \<and>
        entitled settled users svc (pid, user, kind, q, g, r) (row_at el_order_id i ents))"

fun core_ok :: "int option \<Rightarrow> pay_core \<Rightarrow> bool" where
  "core_ok pending (orders, users, ents, svc, refunds) \<longleftrightarrow>
     distinct (map (\<lambda>l. fst (fst l)) orders) \<and> distinct (map (\<lambda>l. fst (snd (fst l))) orders) \<and>
     distinct (map el_order_id ents) \<and>
     (\<forall>l \<in> set orders. line_ok (pending \<noteq> Some (fst (fst l))) users ents svc refunds l)"

definition books :: "int option \<Rightarrow> pay_db \<Rightarrow> bool" where
  "books pending db \<longleftrightarrow> core_ok pending (core db)"

lemma books_core: "core db' = core db \<Longrightarrow> books pending db' = books pending db"
  by (simp add: books_def)

lemma line_ok_loose: "line_ok True users ents svc refunds l \<Longrightarrow> line_ok settled users ents svc refunds l"
  by (auto simp: line_ok_def entitled_def split: option.splits prod.splits)

lemma books_pending: "books None db \<Longrightarrow> books pending db"
  by (cases "core db") (auto simp: books_def intro: line_ok_loose)

lemma books_ids: "books pending db \<Longrightarrow> distinct (map pay_id (pd_orders db)) \<and> distinct (map pay_public_id (pd_orders db))"
  by (simp add: books_def core_def order_core_def comp_def)

lemma books_lines:
  "books pending db \<longleftrightarrow>
     distinct (map pay_id (pd_orders db)) \<and> distinct (map pay_public_id (pd_orders db)) \<and>
     distinct (map el_order_id (pd_entitlements db)) \<and>
     (\<forall>o1 \<in> set (pd_orders db). line_ok (pending \<noteq> Some (pay_id o1)) (map u_id (pd_users db)) (pd_entitlements db)
        (pd_svc_events db) (pd_refunds db) (order_core o1))"
  by (simp add: books_def core_def order_core_def comp_def)

lemma books_line:
  "books pending db \<Longrightarrow> o1 \<in> set (pd_orders db) \<Longrightarrow>
     line_ok (pending \<noteq> Some (pay_id o1)) (map u_id (pd_users db)) (pd_entitlements db) (pd_svc_events db) (pd_refunds db)
       (order_core o1)"
  by (simp add: books_lines)

lemma the_order_mem: "the_order db oid = Some o1 \<Longrightarrow> o1 \<in> set (pd_orders db) \<and> pay_id o1 = oid"
  by (auto simp: the_order_def dest: row_at_SomeD)

lemma orders_apart:
  assumes "books pending db" and "o1 \<in> set (pd_orders db)" and "o2 \<in> set (pd_orders db)" and "o1 \<noteq> o2"
  shows "pay_id o1 \<noteq> pay_id o2" and "pay_public_id o1 \<noteq> pay_public_id o2"
  using assms distinct_key_eq [OF _ assms(2,3)] books_ids [OF assms(1)] by blast+

text \<open>Books after a change that keeps the order lines: what has to be shown of each.\<close>

lemma books_by_lines:
  assumes "books pending db" and "map order_core (pd_orders db') = map order_core (pd_orders db)"
    and "map u_id (pd_users db') = map u_id (pd_users db)" and "distinct (map el_order_id (pd_entitlements db'))"
    and "pd_refunds db' = pd_refunds db"
    and "\<And>o1. o1 \<in> set (pd_orders db) \<Longrightarrow>
       line_ok (pending' \<noteq> Some (pay_id o1)) (map u_id (pd_users db)) (pd_entitlements db') (pd_svc_events db') (pd_refunds db)
         (order_core o1)"
  shows "books pending' db'"
  using assms by (simp add: books_def core_def) (simp add: order_core_def)

lemma line_unchanged:
  assumes "line_ok settled users ents svc refunds (order_core o1)"
    and "row_at el_order_id (pay_id o1) ents' = row_at el_order_id (pay_id o1) ents"
    and "posted ''grant'' (pay_public_id o1) svc' = posted ''grant'' (pay_public_id o1) svc"
    and "posted ''refund'' (pay_public_id o1) svc' = posted ''refund'' (pay_public_id o1) svc"
  shows "line_ok settled users ents' svc' refunds (order_core o1)"
  using assms(1) unfolding line_ok_def order_core_def entitled_def prod.case assms(2-4) .

lemma row_at_other: "k \<noteq> el_order_id e \<Longrightarrow> row_at el_order_id k (ents @ [e]) = row_at el_order_id k ents"
  by (simp add: row_at_append split: option.split)

lemma grant_books:
  assumes "grant_entitlement db oid mail now clock = Inr (b, db')" and "the_order db oid = Some o1"
    and "pay_status o1 \<noteq> ''refunded''" and "books pending db" and "pending \<in> {None, Some oid}"
  shows "books (Some oid) db'"
proof -
  have loose: "books (Some oid) db" using assms(4,5) books_pending by auto
  note o1 = the_order_mem [OF assms(2)]
  from assms(1,2) books_ids [OF assms(4), THEN conjunct1] assms(3) show ?thesis
  proof (cases rule: grant_entitlement_effect)
    case 1
    with books_core [OF this] loose show ?thesis by simp
  next
    case (2 u e)
    show ?thesis
    proof (rule books_by_lines [OF loose])
      show "distinct (map el_order_id (pd_entitlements db'))"
        using loose 2 by (auto simp: books_lines order_entitlement_def row_at_None)
      fix o2 assume o2: "o2 \<in> set (pd_orders db)"
      note line = books_line [OF loose o2]
      show "line_ok (Some oid \<noteq> Some (pay_id o2)) (map u_id (pd_users db)) (pd_entitlements db') (pd_svc_events db')
          (pd_refunds db) (order_core o2)"
      proof (cases "o2 = o1")
        case True
        from line o1 2 have gross: "0 < pay_gross o1" "0 \<le> pay_refunded o1"
          by (simp_all add: True line_ok_def order_core_def)
        from 2 o1 have at: "row_at el_order_id oid (pd_entitlements db') = Some e"
          by (simp add: row_at_append order_entitlement_def)
        have "0 \<le> refund_share (pay_refunded o1) (pay_quantity o1) (pay_gross o1)"
          using refund_share_mono [OF gross(1) _ gross(2), of "pay_quantity o1"] refund_share_0 [OF gross(1), of "pay_quantity o1"] 2(4)
          by simp
        moreover have "pay_refunded o1 = refund_total oid (pd_refunds db)" using line o1 True by (simp add: line_ok_def order_core_def)
        ultimately show ?thesis using line at 2 o1 True
          by (auto simp: line_ok_def order_core_def entitled_def order_entitlement_def)
      next
        case False
        note apart = orders_apart [OF loose o2 conjunct1 [OF o1] False]
        show ?thesis
          by (rule line_unchanged [OF line]) (use 2 apart o1 in \<open>simp_all add: row_at_other\<close>)
      qed
    qed (use 2 in simp_all)
  qed
qed

lemma adjust_books:
  assumes "adjust_refund db oid now = Inr db'" and "the_order db oid = Some o1" and "books (Some oid) db"
  shows "books None db'"
proof -
  note o1 = the_order_mem [OF assms(2)] and effect = adjust_refund_effect [OF assms(1,2)]
  have only: "events_only db db'" and posts: "posted k pid (pd_svc_events db') = posted k pid (pd_svc_events db) +
    (if k = ''refund'' \<and> pid = pay_public_id o1 \<and> pay_kind o1 \<in> set service_kinds \<and> order_entitlement db oid \<noteq> None \<and>
        (\<exists>u user. pay_user_id o1 = Some u \<and> the_user db u = Some user)
     then - max 0 (refund_share (pay_refunded o1) (pay_quantity o1) (pay_gross o1)
              + posted ''refund'' (pay_public_id o1) (pd_svc_events db)) else 0)" for k pid
    using effect by blast+
  show ?thesis
  proof (rule books_by_lines [OF assms(3)])
    fix o2 assume o2: "o2 \<in> set (pd_orders db)"
    note line = books_line [OF assms(3) o2]
    have ents: "pd_entitlements db' = pd_entitlements db" using only by (simp add: events_only_def)
    show "line_ok (None \<noteq> Some (pay_id o2)) (map u_id (pd_users db)) (pd_entitlements db') (pd_svc_events db')
        (pd_refunds db) (order_core o2)"
    proof (cases "o2 = o1")
      case True
      have known: "(\<exists>u user. pay_user_id o1 = Some u \<and> the_user db u = Some user)"
        if "\<exists>u \<in> set (map u_id (pd_users db)). pay_user_id o1 = Some u"
        using that row_at_None [of u_id _ "pd_users db"] by (fastforce simp: the_user_def)
      from line o1 show ?thesis
        using known by (auto simp: True line_ok_def order_core_def entitled_def ents posts order_entitlement_def split: option.splits)
    next
      case False
      note apart = orders_apart [OF assms(3) o2 conjunct1 [OF o1] False]
      have settled: "line_ok True (map u_id (pd_users db)) (pd_entitlements db) (pd_svc_events db) (pd_refunds db) (order_core o2)"
        using line apart o1 by simp
      show ?thesis
        using line_unchanged [OF settled, of "pd_entitlements db'" "pd_svc_events db'"] apart by (simp add: ents posts)
    qed
  qed (use only assms(3) in \<open>simp_all add: events_only_def books_lines\<close>)
qed

lemma books_settle:
  assumes "books (Some oid) db" and "the_order db oid = Some o1"
    and "pay_kind o1 \<notin> set service_kinds \<or> order_entitlement db oid = None"
  shows "books None db"
proof (rule books_by_lines [OF assms(1)])
  note o1 = the_order_mem [OF assms(2)]
  fix o2 assume o2: "o2 \<in> set (pd_orders db)"
  note line = books_line [OF assms(1) o2]
  show "line_ok (None \<noteq> Some (pay_id o2)) (map u_id (pd_users db)) (pd_entitlements db) (pd_svc_events db)
      (pd_refunds db) (order_core o2)"
  proof (cases "o2 = o1")
    case True
    with line o1 assms(3) show ?thesis
      by (auto simp: line_ok_def order_core_def entitled_def order_entitlement_def split: option.splits)
  next
    case False
    with line orders_apart [OF assms(1) o2 conjunct1 [OF o1] False] o1 show ?thesis by simp
  qed
qed (use assms(1) in \<open>simp_all add: books_lines\<close>)

text \<open>A refund row, with the order's new total and status.\<close>

lemma refund_line_books:
  assumes "books None db" and "the_order db oid = Some o1" and "0 < pf_amount f" and "pf_order_id f = oid"
    and "pay_refunded o1 + pf_amount f \<le> pay_gross o1"
    and "map order_core (pd_orders db') = map order_core (update_by pay_id oid h (pd_orders db))"
    and "order_core (h o1) = (fst (order_core o1), pay_refunded o1 + pf_amount f, pay_refunded o1 + pf_amount f = pay_gross o1)"
    and "map u_id (pd_users db') = map u_id (pd_users db)" "pd_entitlements db' = pd_entitlements db"
    and "pd_svc_events db' = pd_svc_events db" "pd_refunds db' = pd_refunds db @ [f]"
  shows "books (Some oid) db'"
proof -
  note o1 = the_order_mem [OF assms(2)] and loose = books_pending [OF assms(1), of "Some oid"]
  let ?new = "update_by pay_id oid h (pd_orders db)"
  have row: "o2 = o1 \<longleftrightarrow> pay_id o2 = oid" if "o2 \<in> set (pd_orders db)" for o2
    using o1 orders_apart(1) [OF loose that conjunct1 [OF o1]] by auto
  have keys: "fst (order_core (if pay_id o2 = oid then h o2 else o2)) = fst (order_core o2)" if "o2 \<in> set (pd_orders db)" for o2
    using row [OF that] assms(7) by auto
  have ids: "map pay_id ?new = map pay_id (pd_orders db)" "map pay_public_id ?new = map pay_public_id (pd_orders db)"
    using keys by (auto simp: update_by_def order_core_def)
  have lines: "line_ok (Some oid \<noteq> Some (fst (fst l))) (map u_id (pd_users db)) (pd_entitlements db) (pd_svc_events db)
      (pd_refunds db @ [f]) l" if "l \<in> set (map order_core ?new)" for l
  proof -
    from that obtain o2 where o2: "o2 \<in> set (pd_orders db)" and l: "l = order_core (if pay_id o2 = oid then h o2 else o2)"
      by (auto simp: update_by_def)
    note line = books_line [OF loose o2]
    show ?thesis
    proof (cases "pay_id o2 = oid")
      case True
      with row [OF o2] have "o2 = o1" by simp
      have "refund_share (pay_refunded o1) (pay_quantity o1) (pay_gross o1)
          \<le> refund_share (pay_refunded o1 + pf_amount f) (pay_quantity o1) (pay_gross o1)"
        if "0 < pay_gross o1" "0 < pay_quantity o1"
        using that assms(3) by (intro refund_share_mono) auto
      with line True l o1 assms(3-5,7) show ?thesis
        unfolding \<open>o2 = o1\<close>
        by (auto simp: line_ok_def order_core_def entitled_def refund_total_def total_def split: option.splits)
    next
      case False
      then have "(Some oid \<noteq> Some (pay_id o2)) = True" "refund_total (pay_id o2) (pd_refunds db @ [f]) = refund_total (pay_id o2) (pd_refunds db)"
        using assms(4) by (auto simp: refund_total_def total_def)
      with line l False not_sym [OF False] show ?thesis by (auto simp: line_ok_def order_core_def)
    qed
  qed
  have "core db' = (map order_core ?new, map u_id (pd_users db), pd_entitlements db, pd_svc_events db, pd_refunds db @ [f])"
    using assms by (simp add: core_def)
  moreover have "map (\<lambda>l. fst (fst l)) (map order_core ?new) = map pay_id ?new"
    and "map (\<lambda>l. fst (snd (fst l))) (map order_core ?new) = map pay_public_id ?new"
    by (simp_all add: order_core_def)
  ultimately show ?thesis
    using lines ids loose unfolding books_def [of _ db'] by (simp add: books_lines)
qed

lemma mark_entitlement_books:
  assumes "books (Some oid) db" and "the_order db oid = Some o1" and "order_entitlement db oid = Some e"
    and "pay_refunded o1 = pay_gross o1" and "\<And>r. el_order_id (g r) = el_order_id r \<and> el_kind (g r) = el_kind r \<and>
      el_user_id (g r) = el_user_id r \<and> el_status (g r) = ''refunded''"
  shows "books (Some oid) (mark_entitlement oid g db)"
proof (rule books_by_lines [OF assms(1)])
  note o1 = the_order_mem [OF assms(2)]
  have keys: "map el_order_id (pd_entitlements (mark_entitlement oid g db)) = map el_order_id (pd_entitlements db)"
    by (simp add: mark_entitlement_def map_update_by assms(5))
  then show "distinct (map el_order_id (pd_entitlements (mark_entitlement oid g db)))"
    using assms(1) by (simp add: books_lines)
  have at: "row_at el_order_id k (pd_entitlements (mark_entitlement oid g db)) =
      map_option (\<lambda>r. if el_order_id r = oid then g r else r) (row_at el_order_id k (pd_entitlements db))" for k
    by (cases "row_at el_order_id k (pd_entitlements db)")
       (auto simp: mark_entitlement_def row_at_update_by assms(5) dest: row_at_SomeD)
  fix o2 assume o2: "o2 \<in> set (pd_orders db)"
  note line = books_line [OF assms(1) o2]
  show "line_ok (Some oid \<noteq> Some (pay_id o2)) (map u_id (pd_users db)) (pd_entitlements (mark_entitlement oid g db))
      (pd_svc_events (mark_entitlement oid g db)) (pd_refunds db) (order_core o2)"
  proof (cases "o2 = o1")
    case True
    with line at [of oid] assms(3,4,5) o1 show ?thesis
      by (auto simp: line_ok_def order_core_def entitled_def order_entitlement_def mark_entitlement_def
          dest: row_at_SomeD split: option.splits)
  next
    case False
    have "row_at el_order_id (pay_id o2) (pd_entitlements (mark_entitlement oid g db)) =
        row_at el_order_id (pay_id o2) (pd_entitlements db)"
      using at orders_apart(1) [OF assms(1) o2 conjunct1 [OF o1] False] o1
      by (cases "row_at el_order_id (pay_id o2) (pd_entitlements db)") (auto dest: row_at_SomeD)
    from line_unchanged [OF line this] show ?thesis by (simp add: mark_entitlement_def)
  qed
qed (simp_all add: mark_entitlement_def)

lemma entitlement_facts:
  assumes "books pending db" and "the_order db oid = Some o1" and "order_entitlement db oid = Some e"
  shows "el_kind e = pay_kind o1" and "el_status e = ''active'' \<or> (el_status e = ''refunded'' \<and> pay_refunded o1 = pay_gross o1)"
    and "\<exists>u user. el_user_id e = Some u \<and> the_user db u = Some user"
proof -
  note o1 = the_order_mem [OF assms(2)]
  from books_line [OF assms(1) conjunct1 [OF o1]] o1 assms(3)
  have e: "el_kind e = pay_kind o1" "el_status e \<in> {''active'', ''refunded''}"
    "el_status e = ''refunded'' \<longrightarrow> pay_refunded o1 = pay_gross o1"
    "\<exists>u \<in> set (map u_id (pd_users db)). el_user_id e = Some u"
    by (auto simp: line_ok_def order_core_def entitled_def order_entitlement_def)
  then show "el_kind e = pay_kind o1" and "el_status e = ''active'' \<or> (el_status e = ''refunded'' \<and> pay_refunded o1 = pay_gross o1)"
    by auto
  from e(4) show "\<exists>u user. el_user_id e = Some u \<and> the_user db u = Some user"
    using row_at_None [of u_id _ "pd_users db"] by (fastforce simp: the_user_def)
qed

lemma revoke_books:
  assumes revoke: "revoke_entitlement db oid now = Inr db'" and "books (Some oid) db" and order: "the_order db oid = Some o1"
    and "pay_refunded o1 = pay_gross o1" and active: "\<And>e. order_entitlement db oid = Some e \<Longrightarrow> el_status e = ''active''"
  shows "books None db'"
proof (cases "order_entitlement db oid")
  case None
  with revoke books_settle [OF assms(2,3)] show ?thesis by (simp add: revoke_entitlement_def)
next
  case (Some e)
  define db1 where "db1 = mark_entitlement oid (\<lambda>r. r\<lparr>el_status := ''refunded'', el_revoked_at := Some now\<rparr>) db"
  have marked: "books (Some oid) db1"
    unfolding db1_def by (rule mark_entitlement_books [OF assms(2,3) Some assms(4)]) simp
  have order1: "the_order db1 oid = Some o1" using order by (simp add: db1_def mark_entitlement_def the_order_def)
  note facts = entitlement_facts [OF assms(2,3) Some]
  from facts(3) obtain u user where u: "el_user_id e = Some u" "the_user db u = Some user" by blast
  have user1: "the_user db1 u = Some user" using u by (simp add: db1_def mark_entitlement_def the_user_def)
  note step = revoke [unfolded revoke_entitlement_def Some, simplified active [OF Some] u, folded db1_def]
  show ?thesis
  proof (cases "el_kind e \<in> {''job_service_credits'', ''credit_bundle'', ''credit_pass''}")
    case True
    with step user1 have "adjust_refund db1 oid now = Inr db'" by (auto simp: Let_def active [OF Some] u)
    from adjust_books [OF this order1 marked] show ?thesis .
  next
    case False
    with step user1 have "core db' = core db1"
      by (auto simp: Let_def active [OF Some] u core_update_user split: if_splits list.splits)
    moreover have "books None db1"
      using False facts(1) by (intro books_settle [OF marked order1]) (auto simp: service_kinds_def)
    ultimately show ?thesis using books_core by blast
  qed
qed

section \<open>The events keep the books\<close>

lemma the_order_update:
  "(\<And>r. pay_id (f r) = pay_id r) \<Longrightarrow> the_order (update_order oid f db) oid = map_option f (the_order db oid)"
  by (simp add: the_order_def update_order_def row_at_update_by)

lemma the_order_frames [simp]:
  "the_order (update_txn pid f db) oid = the_order db oid" "the_order (update_event eid g db) oid = the_order db oid"
  "the_order (db\<lparr>pd_refunds := rs\<rparr>) oid = the_order db oid"
  by (simp_all add: the_order_def update_txn_def update_event_def)

lemma fulfil_books:
  assumes "grant_entitlement db oid mail now clock = Inr (b, db1)" and "adjust_refund db1 oid now = Inr db2"
    and "the_order db oid = Some o1" and "pay_status o1 \<noteq> ''refunded''" and "books pending db" and "pending \<in> {None, Some oid}"
  shows "books None db2"
proof -
  have books1: "books (Some oid) db1" by (rule grant_books [OF assms(1,3-6)])
  have ids: "map pay_id (pd_orders db1) = map pay_id (pd_orders db)"
  proof -
    have "map order_core (pd_orders db1) = map order_core (pd_orders db)"
      using assms(1,3) books_ids [OF assms(5), THEN conjunct1] assms(4)
      by (cases rule: grant_entitlement_effect) (simp_all add: core_def)
    then have "map (\<lambda>l. fst (fst l)) (map order_core (pd_orders db1)) = map (\<lambda>l. fst (fst l)) (map order_core (pd_orders db))"
      by simp
    then show ?thesis by (simp add: order_core_def comp_def)
  qed
  have "oid \<in> pay_id ` set (pd_orders db)" using the_order_mem [OF assms(3)] by auto
  with ids have "the_order db1 oid \<noteq> None" by (simp add: the_order_def row_at_None) (metis list.set_map)
  then obtain o2 where "the_order db1 oid = Some o2" by auto
  from adjust_books [OF assms(2) this books1] show ?thesis .
qed

lemma book_refund_books:
  assumes booked: "book_refund env db order t refund_id amount now = Inr db'" and "the_order db (pay_id order) = Some o1"
    and same: "order_core o1 = order_core order" and "0 < amount" and "books None db"
  shows "books None db'"
proof -
  let ?oid = "pay_id order" and ?total = "pay_refunded order + amount"
  define f where "f = \<lparr>pf_order_id = ?oid, pf_txn_id = px_id t, pf_refund_id = refund_id, pf_amount = amount,
                 pf_currency = pay_currency order, pf_processed_at = now\<rparr>"
  have o1: "pay_refunded o1 = pay_refunded order" "pay_gross o1 = pay_gross order" "pay_id o1 = pay_id order"
    using same by (simp_all add: order_core_def)
  from booked have bound: "?total \<le> pay_gross order" by (auto simp: book_refund_def Let_def result_simps)
  define base where "base = update_txn (px_payment_id t) (\<lambda>r. r\<lparr>px_refunded := px_refunded r + amount,
      px_status := (if ?total = pay_gross order then ''refunded'' else ''partially_refunded'')\<rparr>) (db\<lparr>pd_refunds := pd_refunds db @ [f]\<rparr>)"
  have frames: "pd_orders base = pd_orders db" "pd_users base = pd_users db" "pd_entitlements base = pd_entitlements db"
    "pd_svc_events base = pd_svc_events db" "pd_refunds base = pd_refunds db @ [f]" "the_order base ?oid = Some o1"
    "order_entitlement base ?oid = order_entitlement db ?oid"
    using assms(2) by (simp_all add: base_def update_txn_def the_order_def order_entitlement_def)
  have lined: "books (Some ?oid) (update_order ?oid g (update_order ?oid h base))"
    if "order_core (g (h o1)) = (fst (order_core o1), pay_refunded o1 + amount, pay_refunded o1 + amount = pay_gross o1)"
      and "\<And>r. pay_id (h r) = pay_id r" for g h
  proof (rule refund_line_books [OF assms(5,2), of f _ "\<lambda>r. g (h r)"])
    show "map order_core (pd_orders (update_order ?oid g (update_order ?oid h base))) =
        map order_core (update_by pay_id ?oid (\<lambda>r. g (h r)) (pd_orders db))"
      by (simp add: update_order_def frames(1) update_by_def that(2) if_distrib cong: if_cong)
  qed (use that(1) assms(4) bound o1 frames in \<open>simp_all add: f_def update_order_def\<close>)
  show ?thesis
  proof (cases "?total = pay_gross order")
    case True
    let ?h = "\<lambda>r. r\<lparr>pay_refunded := ?total, pay_attempt_key := None\<rparr>"
      and ?g = "\<lambda>r. r\<lparr>pay_status := ''refunded'', pay_refunded_at := Some now\<rparr>"
    have revoke: "revoke_entitlement (update_order ?oid ?g (update_order ?oid ?h base)) ?oid now = Inr db'"
      using booked True by (simp add: book_refund_def Let_def base_def f_def result_simps)
    have "el_status e = ''active''" if "order_entitlement db ?oid = Some e" for e
      using entitlement_facts(2) [OF assms(5,2) that] True assms(4) o1 by auto
    then show ?thesis
      using True o1 frames
      by (intro revoke_books [OF revoke lined, of "?g (?h o1)"])
         (auto simp: order_core_def the_order_update order_entitlement_def update_order_def the_order_def row_at_update_by)
  next
    case False
    let ?h = "\<lambda>r. r\<lparr>pay_refunded := ?total, pay_attempt_key := None\<rparr>"
      and ?g = "\<lambda>r. r\<lparr>pay_status := ''partially_refunded'', pay_paid_at := (case pay_paid_at r of None \<Rightarrow> Some now | Some t \<Rightarrow> Some t)\<rparr>"
    from booked False obtain b db4 where
      grant: "grant_entitlement (update_order ?oid ?g (update_order ?oid ?h base)) ?oid (hk_mail env) now (hk_clock env) = Inr (b, db4)"
      and adjust: "adjust_refund db4 ?oid now = Inr db'"
      by (auto simp: book_refund_def Let_def base_def f_def result_simps)
    show ?thesis
      by (rule fulfil_books [OF grant adjust, of "?g (?h o1)" "Some ?oid"])
         (use False o1 frames lined in \<open>auto simp: order_core_def the_order_update\<close>)
  qed
qed

lemma bindE_InrE:
  assumes "bindE m f = Inr y" obtains x where "m = Inr x" and "f x = Inr y"
  using assms by (cases m) simp_all

lemma requireE:
  assumes "require c e = Inr u" obtains "c"
  using assms by (simp add: require_eq_Inr)

lemma capture_books:
  assumes captured: "fulfill_capture env db oid now = Inr db'" and "books None db"
  shows "books None db'"
proof -
  from captured obtain o1 where o1: "the_order db oid = Some o1" by (auto simp: fulfill_capture_def split: option.splits)
  show ?thesis
  proof (cases "pay_status o1 = ''partially_refunded''")
    case True
    with captured o1 obtain b db1 where "grant_entitlement db oid (hk_mail env) now (hk_clock env) = Inr (b, db1)"
      and "adjust_refund db1 oid now = Inr db'"
      by (auto simp: fulfill_capture_def result_simps)
    from fulfil_books [OF this o1 _ assms(2)] True show ?thesis by simp
  next
    case False
    show ?thesis
    proof (cases "pay_status o1 \<in> {''paid'', ''refunded'', ''paid_unfulfilled''}")
      case True
      with captured o1 False assms(2) show ?thesis by (auto simp: fulfill_capture_def)
    next
      case open1: False
      with captured o1 False obtain b db1 where
        grant: "grant_entitlement (set_status ''paid'' oid db) oid (hk_mail env) now (hk_clock env) = Inr (b, db1)"
        and adjust: "adjust_refund db1 oid now = Inr db'"
        by (auto simp: fulfill_capture_def result_simps)
      have "core (set_status ''paid'' oid db) = core db"
        using row_at_unique [OF o1 [unfolded the_order_def] conjunct1 [OF books_ids [OF assms(2)]]] open1
        by (intro set_status_core) auto
      then have "books None (set_status ''paid'' oid db)" using assms(2) books_core by blast
      with o1 show ?thesis
        by (intro fulfil_books [OF grant adjust, of "o1\<lparr>pay_status := ''paid''\<rparr>" None]) (simp_all add: set_status_def the_order_update)
    qed
  qed
qed

lemma process_capture_books:
  assumes "process_capture env db payload eid kind = Inr (order, db')" and "books None db"
  shows "books None db'"
proof (cases order)
  case None
  with assms show ?thesis
    by (auto simp: process_capture_def result_simps Let_def split: option.splits)
next
  case (Some pid)
  with assms(1) obtain o1 facts t db2 where
    txn: "payment_transaction (claim_event eid o1 db) o1 (pt_payment_id facts) ''captured'' facts (Some eid) = Inr (t, db2)"
    and ful: "fulfill_capture env (update_order (pay_id o1) (mark_paid t (event_time env (claim_event eid o1 db) eid))
        (update_txn (px_payment_id t) (\<lambda>r. r\<lparr>px_captured_at := earlier (px_captured_at r) (event_time env (claim_event eid o1 db) eid)\<rparr>) db2))
        (pay_id o1) (event_time env (claim_event eid o1 db) eid) = Inr db'"
    by (auto simp: process_capture_def Let_def elim!: bindE_InrE split: option.splits)
  have "order_core (mark_paid t n r) = order_core r" for n r by (simp add: mark_paid_def order_core_def)
  with payment_transaction_core [OF txn] have "books None (update_order (pay_id o1) (mark_paid t (event_time env (claim_event eid o1 db) eid))
        (update_txn (px_payment_id t) (\<lambda>r. r\<lparr>px_captured_at := earlier (px_captured_at r) (event_time env (claim_event eid o1 db) eid)\<rparr>) db2))"
    using assms(2) by (simp add: books_def core_update_order)
  from capture_books [OF ful this] show ?thesis .
qed

lemma process_failure_books:
  assumes "process_failure env db payload eid = Inr (order, db')" and "books None db"
  shows "books None db'"
proof (cases order)
  case None
  with assms show ?thesis
    by (auto simp: process_failure_def result_simps Let_def split: option.splits)
next
  case (Some pid)
  with assms(1) obtain provider_id o1 facts t db2 where
    found: "order_by_provider_id db provider_id = Some o1"
    and txn: "payment_transaction (claim_event eid o1 db) o1 (pt_payment_id facts) ''failed'' facts None = Inr (t, db2)"
    and db': "db' = (let f = (\<lambda>r. r\<lparr>px_failed_at := (case px_failed_at r of None \<Rightarrow> Some (event_time env (claim_event eid o1 db) eid)
                                                            | Some f \<Rightarrow> Some f)\<rparr>) in
        if pay_status o1 \<in> {''initializing'', ''created'', ''client_confirmed'', ''payment_failed''}
        then set_status ''payment_failed'' (pay_id o1) (update_txn (px_payment_id t) f db2) else update_txn (px_payment_id t) f db2)"
    by (auto simp: process_failure_def Let_def elim!: bindE_InrE split: option.splits)
  have mem: "o1 \<in> set (pd_orders db)" using found by (auto simp: order_by_provider_id_def find_Some_iff)
  have core2: "core db2 = core db" using payment_transaction_core [OF txn] by simp
  have "core (set_status ''payment_failed'' (pay_id o1) (update_txn (px_payment_id t) f db2)) = core db"
    if "pay_status o1 \<noteq> ''refunded''" for f
  proof -
    have "r = o1" if "r \<in> set (pd_orders db)" "pay_id r = pay_id o1" for r
      using distinct_key_eq [OF conjunct1 [OF books_ids [OF assms(2)]] that(1) mem that(2)] .
    then have "\<forall>l \<in> set (map order_core (pd_orders db2)). fst (fst l) = pay_id o1 \<longrightarrow> \<not> snd (snd l)"
      using core2 that by (auto simp: core_def order_core_def)
    then show ?thesis using core2 by (subst set_status_core) (auto simp: update_txn_def order_core_def core_def)
  qed
  with db' core2 have "core db' = core db" by (auto simp: Let_def)
  then show ?thesis using assms(2) books_core by blast
qed

lemma update_txn_order [simp]: "pd_refunds (update_txn pid f db) = pd_refunds db"
  by (simp add: update_txn_def)

lemma core_order_row:
  assumes "core db' = core db" and "books None db" and "o1 \<in> set (pd_orders db)"
  shows "\<exists>o2. the_order db' (pay_id o1) = Some o2 \<and> order_core o2 = order_core o1"
proof -
  have "order_core o1 \<in> set (map order_core (pd_orders db'))" using assms(1,3) by (simp add: core_def)
  then obtain o2 where o2: "o2 \<in> set (pd_orders db')" "order_core o2 = order_core o1" by force
  have "distinct (map pay_id (pd_orders db'))" using assms(1,2) books_core books_ids by blast
  from row_at_distinct [OF this o2(1)] o2(2) show ?thesis by (auto simp: the_order_def order_core_def)
qed

lemma record_refund_books:
  assumes "record_refund env db o1 payment_id first facts refund_id amount eid = Inr (order, db')"
    and "books None db" and mem: "o1 \<in> set (pd_orders db)" and pos: "0 < amount"
  shows "books None db'"
proof -
  from assms(1) obtain t db2 where txn: "payment_transaction db o1 payment_id ''captured'' facts (Some eid) = Inr (t, db2)"
    by (auto simp: record_refund_def elim!: bindE_InrE)
  define db3 where "db3 = (if first then update_txn payment_id (\<lambda>r. r\<lparr>px_captured_at := pay_paid_at o1\<rparr>) db2 else db2)"
  have core3: "core db3 = core db" using payment_transaction_core [OF txn] by (simp add: db3_def)
  show ?thesis
  proof (cases "row_at pf_refund_id refund_id (pd_refunds db3)")
    case None
    with assms(1) txn have booked: "book_refund env db3 o1 t refund_id amount (event_time env db eid) = Inr db'"
      unfolding record_refund_def txn bindE_Inr prod.case Let_def db3_def [symmetric] None option.case
      by (auto elim!: bindE_InrE)
    from core_order_row [OF core3 assms(2) mem] obtain o2 where
      o2: "the_order db3 (pay_id o1) = Some o2" "order_core o2 = order_core o1" by blast
    have "books None db3" using books_core [OF core3] assms(2) by blast
    from book_refund_books [OF booked o2 pos this] show ?thesis .
  next
    case (Some existing)
    with assms(1) have "db' = db3"
      unfolding record_refund_def txn bindE_Inr prod.case Let_def db3_def [symmetric] Some option.case
      by (auto split: if_splits)
    then show ?thesis using assms(2) books_core [OF core3] by simp
  qed
qed

lemma process_refund_books:
  assumes "process_refund env db payload eid = Inr (order, db')" and "books None db"
  shows "books None db'"
proof -
  from assms(1) obtain refund where refund: "entity_of payload ''refund'' = Some refund"
    by (auto simp: process_refund_def split: option.splits)
  from assms(1) obtain refund_id payment_id amount where id: "required_string refund ''id'' ''rfnd_'' = Inr refund_id"
    and payment_id: "required_string refund ''payment_id'' ''pay_'' = Inr payment_id"
    and amount: "required_minor refund ''amount'' True = Inr amount"
    by (auto simp: process_refund_def refund elim!: bindE_InrE)
  have pos: "0 < amount" using amount by (auto simp: required_minor_def split: option.splits json.splits if_splits)
  from assms(1) obtain found where found: "refund_order_of db (entity_of payload ''payment'') payment_id = Inr found"
    by (auto simp: process_refund_def refund id payment_id amount Let_def elim!: bindE_InrE)
  show ?thesis
  proof (cases found)
    case None
    with assms show ?thesis
      by (auto simp: process_refund_def refund id payment_id amount found Let_def elim!: bindE_InrE)
  next
    case o1: (Some o1)
    have mem: "o1 \<in> set (pd_orders db)"
      using found o1 by (auto simp: refund_order_of_def order_by_provider_id_def find_Some_iff dest!: the_order_mem
          elim!: bindE_InrE split: option.splits)
    from assms(1) obtain first facts where "record_refund env (claim_event eid o1 db) o1 payment_id first facts refund_id amount eid = Inr (order, db')"
      by (auto simp: process_refund_def refund id payment_id amount found o1 Let_def
          elim!: bindE_InrE split: option.splits prod.splits)
    from record_refund_books [OF this _ _ pos] assms(2) mem show ?thesis by (simp add: books_def claim_event_def update_event_def)
  qed
qed

end
