(* ===== verification/Payments_Properties.thy ===== *)
theory Payments_Properties
  imports Payments_Safety
begin

text \<open>
  The payment books over any sequence of webhooks, sign-ups and checkouts, the replay of a
  webhook, and what a rejected one leaves.
\<close>

section \<open>The system\<close>

text \<open>
  A checkout (\<open>routers/billing.py\<close>) adds an order under new identifiers, unpaid.
\<close>

definition fresh_order :: "pay_order \<Rightarrow> pay_db \<Rightarrow> bool" where
  "fresh_order o1 db \<longleftrightarrow> pay_refunded o1 = 0 \<and> 0 < pay_gross o1 \<and> pay_status o1 = ''initializing'' \<and>
     pay_id o1 \<notin> pay_id ` set (pd_orders db) \<and> pay_public_id o1 \<notin> pay_public_id ` set (pd_orders db) \<and>
     pay_id o1 \<notin> pf_order_id ` set (pd_refunds db) \<and> pay_id o1 \<notin> el_order_id ` set (pd_entitlements db) \<and>
     pay_public_id o1 \<notin> se_source_id ` set (pd_svc_events db)"

inductive pay_step :: "pay_db \<Rightarrow> pay_db \<Rightarrow> bool" where
  webhook: "process_webhook env db document sha eid None = (db', r) \<Longrightarrow> pay_step db db'"
| checkout: "fresh_order o1 db \<Longrightarrow> pay_step db (db\<lparr>pd_orders := pd_orders db @ [o1]\<rparr>)"
| sign_up: "u_id u \<notin> u_id ` set (pd_users db) \<Longrightarrow> pay_step db (db\<lparr>pd_users := pd_users db @ [u]\<rparr>)"

lemma total_none: "(\<And>r. r \<in> set rows \<Longrightarrow> \<not> p r) \<Longrightarrow> total p h rows = 0"
  by (simp add: total_def)

lemma run_event_books:
  assumes "run_event env db payload eid kind = Inr (res, db')" and "books None db"
  shows "books None db'"
  using assms process_capture_books process_failure_books process_refund_books
  by (auto simp: run_event_def elim!: bindE_InrE split: if_splits)

lemma receive_event_core [simp]: "core (receive_event db payload eid kind sha clock) = core db"
  by (simp add: receive_event_def Let_def split: option.split)

lemma reject_event_core [simp]: "core (reject_event db eid kind sha code clock) = core db"
  by (simp add: reject_event_def Let_def split: option.split)

lemma process_webhook_books:
  assumes "process_webhook env db document sha eid None = (db', r)" and "books None db"
  shows "books None db'"
proof -
  have "books None (receive_event db p eid k sha c)" "books None (reject_event db eid k sha m c)" for p k c m
    using assms(2) by (simp_all add: books_def)
  with assms run_event_books show ?thesis
    by (fastforce simp: process_webhook_def Let_def books_def split: sum.splits prod.splits option.splits if_splits hook_error.splits)
qed

lemma pay_step_books: "pay_step db db' \<Longrightarrow> books None db \<Longrightarrow> books None db'"
proof (induction rule: pay_step.induct)
  case (checkout o1 db)
  have apart: "pf_order_id f \<noteq> pay_id o1" if "f \<in> set (pd_refunds db)" for f
    using checkout(1) that by (metis fresh_order_def imageI)
  have silent: "se_source_id e \<noteq> pay_public_id o1" if "e \<in> set (pd_svc_events db)" for e
    using checkout(1) that by (metis fresh_order_def imageI)
  have "total (\<lambda>f. pf_order_id f = pay_id o1) pf_amount (pd_refunds db) = 0" "posted k (pay_public_id o1) (pd_svc_events db) = 0" for k
    using apart silent by (auto simp: posted_def is_order_event_def intro!: total_none)
  moreover have "row_at el_order_id (pay_id o1) (pd_entitlements db) = None"
    using checkout(1) by (simp add: fresh_order_def row_at_None)
  ultimately show ?case
    using checkout by (auto simp: books_lines fresh_order_def line_ok_def order_core_def entitled_def refund_total_def)
next
  case (sign_up u db)
  have "line_ok settled (users @ [x]) ents svc refunds l" if "line_ok settled users ents svc refunds l" for settled users x ents svc refunds l
    using that by (auto simp: line_ok_def entitled_def split: option.splits prod.splits)
  with sign_up(2) show ?case by (simp add: books_lines)
qed (blast intro: process_webhook_books)

interpretation bookkeeping: step_invariant pay_step "books None"
  by unfold_locales (rule pay_step_books)

lemmas pay_run_books = bookkeeping.run_ok

section \<open>The replay ledger\<close>

text \<open>Processing an event keeps the identity of every event row.\<close>

definition digests :: "pay_db \<Rightarrow> (string \<times> string \<times> string) list" where
  "digests db = map (\<lambda>e. (ev_event_id e, ev_type e, ev_sha e)) (pd_events db)"

lemma digests_update_event:
  "(\<And>e. ev_event_id (f e) = ev_event_id e \<and> ev_type (f e) = ev_type e \<and> ev_sha (f e) = ev_sha e) \<Longrightarrow>
     digests (update_event eid f db) = digests db"
  by (simp add: digests_def update_event_def map_update_by)

lemma digests_frames [simp]:
  "digests (update_order oid h db) = digests db" "digests (update_txn pid g db) = digests db"
  "digests (update_user uid k db) = digests db" "digests (set_status st oid db) = digests db"
  "digests (claim_event eid order db) = digests db" "digests (mark_entitlement oid m db) = digests db"
  "digests (post_service db user order kind amount key reason now) = digests db"
  "digests (post_units db user order kind amount key reason now) = digests db"
  "digests (db\<lparr>pd_credits := c\<rparr>) = digests db" "digests (db\<lparr>pd_refunds := rs\<rparr>) = digests db"
  "digests (db\<lparr>pd_serial := n, pd_txns := ts\<rparr>) = digests db" "digests (db\<lparr>pd_receipts := xs\<rparr>) = digests db"
  "digests (db\<lparr>pd_serial := n, pd_entitlements := es\<rparr>) = digests db"
  by (simp_all add: digests_def update_order_def update_txn_def update_user_def set_status_def claim_event_def
      update_event_def mark_entitlement_def post_service_def post_units_def Let_def map_update_by)

lemma apply_digests: "apply_entitlement db user order now clock = Inr (starts, expires, db') \<Longrightarrow> digests db' = digests db"
  by (auto simp: apply_entitlement_def Let_def split: sum.splits if_splits)

lemma bundle_grant_digests [simp]: "digests (bundle_grant db user order now) = digests db"
  by (simp add: bundle_grant_def)

lemma queue_receipt_digests: "queue_receipt mail key db = Inr db' \<Longrightarrow> digests db' = digests db"
  by (auto simp: queue_receipt_def split: mail_answer.splits)

lemma grant_digests: "grant_entitlement db oid mail now clock = Inr (b, db') \<Longrightarrow> digests db' = digests db"
  unfolding grant_entitlement_def Let_def
  by (auto dest!: queue_receipt_digests apply_digests elim!: bindE_InrE split: option.splits)

lemma adjust_digests: "adjust_refund db oid now = Inr db' \<Longrightarrow> digests db' = digests db"
  by (auto simp: adjust_refund_def refund_service_def refund_units_def Let_def
      split: option.splits sum.splits if_splits)

lemma revoke_digests: "revoke_entitlement db oid now = Inr db' \<Longrightarrow> digests db' = digests db"
  by (auto simp: revoke_entitlement_def Let_def dest!: adjust_digests split: option.splits if_splits list.splits)

lemma digests_if: "digests (if c then a else b) = (if c then digests a else digests b)"
  by simp

lemma digests_case_option:
  "digests (case x of None \<Rightarrow> a | Some y \<Rightarrow> f y) = (case x of None \<Rightarrow> digests a | Some y \<Rightarrow> digests (f y))"
  by (simp split: option.split)

lemma payment_transaction_digests:
  assumes "payment_transaction db order pid status facts ev = Inr (t, db')"
  shows "digests db' = digests db"
proof -
  obtain db1 where found: "found_txn db order pid status = Inr db1"
    using assms by (cases "found_txn db order pid status") (simp_all add: payment_transaction_def)
  obtain t0 where t0: "the_txn db1 pid = Some t0"
    using assms found by (cases "the_txn db1 pid") (simp_all add: payment_transaction_def)
  from assms have "digests db' = digests db1"
    unfolding payment_transaction_def found t0 bindE_Inr Let_def option.case sum.inject prod.inject
    by (elim conjE, hypsubst) (simp add: digests_if digests_case_option digests_update_event split: option.split)
  moreover have "digests db1 = digests db"
    using found by (auto simp: found_txn_def split: option.splits if_splits)
  ultimately show ?thesis by simp
qed

lemma capture_digests: "fulfill_capture env db oid now = Inr db' \<Longrightarrow> digests db' = digests db"
  by (auto simp: fulfill_capture_def dest!: grant_digests adjust_digests elim!: bindE_InrE split: option.splits if_splits)

lemma book_refund_digests: "book_refund env db order t rid amount now = Inr db' \<Longrightarrow> digests db' = digests db"
  by (auto simp: book_refund_def Let_def dest!: grant_digests adjust_digests revoke_digests
      elim!: bindE_InrE split: if_splits)

lemma record_refund_digests: "record_refund env db o1 pid first facts rid amount eid = Inr (order, db') \<Longrightarrow> digests db' = digests db"
  by (auto simp: record_refund_def Let_def dest!: payment_transaction_digests book_refund_digests
      elim!: bindE_InrE split: option.splits if_splits)

lemma process_digests:
  "process_capture env db payload eid kind = Inr (order, db') \<Longrightarrow> digests db' = digests db"
  "process_failure env db payload eid = Inr (order, db') \<Longrightarrow> digests db' = digests db"
  "process_refund env db payload eid = Inr (order, db') \<Longrightarrow> digests db' = digests db"
  by (auto simp: process_capture_def process_failure_def process_refund_def Let_def
      dest!: payment_transaction_digests capture_digests record_refund_digests
      elim!: bindE_InrE split: option.splits prod.splits if_splits)

lemma run_event_digests: "run_event env db payload eid kind = Inr (res, db') \<Longrightarrow> digests db' = digests db"
  by (auto simp: run_event_def dest!: process_digests elim!: bindE_InrE split: if_splits)

lemma the_event_digests:
  "map_option (\<lambda>e. (ev_event_id e, ev_type e, ev_sha e)) (the_event db eid) = find (\<lambda>t. fst t = eid) (digests db)"
proof -
  have "map_option (\<lambda>e. (ev_event_id e, ev_type e, ev_sha e)) (row_at ev_event_id eid es) =
      find (\<lambda>t. fst t = eid) (map (\<lambda>e. (ev_event_id e, ev_type e, ev_sha e)) es)" for es
    by (induction es) auto
  then show ?thesis by (simp add: the_event_def digests_def)
qed

lemma received_digest:
  assumes "case the_event db eid of None \<Rightarrow> True | Some e \<Rightarrow> ev_sha e = sha \<and> ev_type e = kind"
  shows "find (\<lambda>t. fst t = eid) (digests (receive_event db payload eid kind sha clock)) = Some (eid, kind, sha)"
proof (cases "the_event db eid")
  case None
  then show ?thesis
    by (simp add: receive_event_def Let_def flip: the_event_digests)
      (simp add: the_event_def row_at_append received_event_def)
next
  case (Some e)
  then have "ev_event_id e = eid" by (auto simp: the_event_def dest: row_at_SomeD)
  with Some assms show ?thesis
    by (simp add: receive_event_def Let_def digests_update_event flip: the_event_digests)
qed

section \<open>Samples\<close>

definition sample_buyer :: user_account where
  "sample_buyer = \<lparr>u_id = 7, u_tier = ''free'', u_ai_credits = 0, u_job_service_credits = 0, u_premium_until = None\<rparr>"

definition sample_pay_order :: pay_order where
  "sample_pay_order = \<lparr>pay_id = 1, pay_public_id = ''p-1'', pay_user_id = Some 7, pay_provider = ''razorpay'',
     pay_provider_mode = ''live'', pay_provider_order_id = Some ''order_A'', pay_sku = ''job_service_500'',
     pay_catalog_version = ''v'', pay_quote = None, pay_entitlements = JObj [], pay_kind = ''job_service_credits'',
     pay_quantity = 500, pay_country = ''IN'', pay_gross = 49900, pay_fee = None, pay_fee_tax = None, pay_net = None,
     pay_refunded = 0, pay_currency = ''INR'', pay_status = ''initializing'', pay_attempt_key = Some ''k'',
     pay_paid_at = None, pay_refunded_at = None\<rparr>"

definition pay_start :: "credit_db \<Rightarrow> (nat \<Rightarrow> string) \<Rightarrow> pay_db" where
  "pay_start credits supply = \<lparr>pd_users = [], pd_orders = [], pd_txns = [], pd_refunds = [], pd_events = [],
     pd_entitlements = [], pd_svc_events = [], pd_usage_events = [], pd_receipts = [], pd_credits = credits,
     pd_serial = 1, pd_supply = supply, pd_drawn = 0\<rparr>"

definition sample_credits :: credit_db where
  "sample_credits = \<lparr>db_users = [], db_accounts = [], db_campaigns = [], db_quotes = [], db_grants = [], db_reservations = [],
     db_allocations = [], db_events = [], db_supply = (\<lambda>n. decimal (int n)), db_drawn = 0\<rparr>"

definition sample_shop :: pay_db where
  "sample_shop = (pay_start sample_credits (\<lambda>n. decimal (int n)))
     \<lparr>pd_users := [sample_buyer], pd_orders := [sample_pay_order]\<rparr>"

definition sample_payment :: "string \<Rightarrow> json" where
  "sample_payment pid = JObj [(''entity'', JObj [(''entity'', JStr ''payment''), (''id'', JStr pid), (''order_id'', JStr ''order_A''),
     (''amount'', JInt 49900), (''currency'', JStr ''INR''), (''status'', JStr ''captured''), (''captured'', JBool True)])]"

definition captured_doc :: json where
  "captured_doc = JObj [(''event'', JStr ''payment.captured''), (''payload'', JObj [(''payment'', sample_payment ''pay_1'')])]"

definition refund_doc :: "string \<Rightarrow> string \<Rightarrow> int \<Rightarrow> json" where
  "refund_doc rid pid amount = JObj [(''event'', JStr ''refund.processed''), (''payload'', JObj [(''payment'', sample_payment pid),
     (''refund'', JObj [(''entity'', JObj [(''entity'', JStr ''refund''), (''id'', JStr rid), (''payment_id'', JStr pid),
        (''amount'', JInt amount), (''currency'', JStr ''INR''), (''status'', JStr ''processed'')])])])]"

definition sample_env :: hook_env where
  "sample_env = \<lparr>hk_clock = days 20000, hk_mail = MailSkipped, hk_mode = ''live''\<rparr>"

definition sample_paid :: pay_db where
  "sample_paid = fst (process_webhook sample_env sample_shop (Some captured_doc) ''d1'' ''evt_1'' None)"

definition sample_refunded :: pay_db where
  "sample_refunded = fst (process_webhook sample_env sample_paid (Some (refund_doc ''rfnd_1'' ''pay_1'' 10000)) ''d2'' ''evt_2'' None)"

lemma sample_numbers:
  "map u_job_service_credits (pd_users sample_paid) = [500]" "map u_job_service_credits (pd_users sample_refunded) = [399]"
  "map pay_status (pd_orders sample_refunded) = [''partially_refunded'']"
  by code_simp+

lemma sample_run: "pay_step\<^sup>*\<^sup>* (pay_start sample_credits (\<lambda>n. decimal (int n))) sample_refunded"
proof -
  let ?s = "pay_start sample_credits (\<lambda>n. decimal (int n))"
  have "pay_step ?s (?s\<lparr>pd_users := pd_users ?s @ [sample_buyer]\<rparr>)"
    by (rule pay_step.sign_up) (simp add: pay_start_def)
  moreover have "pay_step (?s\<lparr>pd_users := pd_users ?s @ [sample_buyer]\<rparr>)
      ((?s\<lparr>pd_users := pd_users ?s @ [sample_buyer]\<rparr>)\<lparr>pd_orders := pd_orders (?s\<lparr>pd_users := pd_users ?s @ [sample_buyer]\<rparr>) @ [sample_pay_order]\<rparr>)"
    by (rule pay_step.checkout) (simp add: pay_start_def fresh_order_def sample_pay_order_def)
  moreover have "(?s\<lparr>pd_users := pd_users ?s @ [sample_buyer]\<rparr>)\<lparr>pd_orders := pd_orders (?s\<lparr>pd_users := pd_users ?s @ [sample_buyer]\<rparr>) @ [sample_pay_order]\<rparr>
      = sample_shop"
    by (simp add: sample_shop_def pay_start_def)
  moreover have "pay_step sample_shop sample_paid" "pay_step sample_paid sample_refunded"
    unfolding sample_paid_def [abs_def] sample_refunded_def by (rule pay_step.webhook, rule prod.collapse [symmetric])+
  ultimately show ?thesis by (metis converse_rtranclp_into_rtranclp rtranclp.rtrancl_refl)
qed

section \<open>Properties\<close>

lemma run_line:
  assumes "pay_step\<^sup>*\<^sup>* (pay_start credits supply) db" and "o1 \<in> set (pd_orders db)"
  shows "line_ok True (map u_id (pd_users db)) (pd_entitlements db) (pd_svc_events db) (pd_refunds db) (order_core o1)"
proof -
  have "books None (pay_start credits supply)" by (simp add: books_def core_def pay_start_def)
  from books_line [OF pay_run_books [OF assms(1) this] assms(2)] show ?thesis by simp
qed

text \<open>
  C31. However webhooks arrive, an order's refunded amount is the sum of its recorded refunds, never
  exceeds its price, and the order is refunded exactly when the whole price is.
\<close>

theorem refunds_reconciled:
  assumes "pay_step\<^sup>*\<^sup>* (pay_start credits supply) db" and "o1 \<in> set (pd_orders db)"
  shows "pay_refunded o1 = total (\<lambda>f. pf_order_id f = pay_id o1) pf_amount (pd_refunds db) \<and>
    0 \<le> pay_refunded o1 \<and> pay_refunded o1 \<le> pay_gross o1 \<and> (pay_status o1 = ''refunded'' \<longleftrightarrow> pay_refunded o1 = pay_gross o1)"
  using run_line [OF assms] by (simp add: line_ok_def order_core_def refund_total_def)

theorem refunds_reconciled_witness:
  "pay_refunded (hd (pd_orders sample_refunded)) = 10000 \<and> pay_status (hd (pd_orders sample_refunded)) \<noteq> ''refunded''"
proof -
  have "pd_orders sample_refunded \<noteq> [] \<and> pay_id (hd (pd_orders sample_refunded)) = 1 \<and> pay_gross (hd (pd_orders sample_refunded)) = 49900"
    "map (\<lambda>f. (pf_order_id f, pf_amount f)) (pd_refunds sample_refunded) = [(1, 10000)]" by code_simp+
  with refunds_reconciled [OF sample_run, of "hd (pd_orders sample_refunded)"] show ?thesis
    by (auto simp: total_def)
qed

text \<open>
  C32. Service credits follow the money: once an order is fulfilled, its events add up to the
  purchased quantity less the share of the price that was refunded, rounded up, whatever the
  order in which capture and refund events arrive and however often they are repeated; an order
  that is not fulfilled has no events.
\<close>

theorem order_credits_exact:
  assumes "pay_step\<^sup>*\<^sup>* (pay_start credits supply) db" and "o1 \<in> set (pd_orders db)"
    and "pay_kind o1 \<in> {''job_service_credits'', ''credit_bundle''}"
  shows "posted ''grant'' (pay_public_id o1) (pd_svc_events db) + posted ''refund'' (pay_public_id o1) (pd_svc_events db) =
    (case order_entitlement db (pay_id o1) of None \<Rightarrow> 0
     | Some e \<Rightarrow> pay_quantity o1 - refund_share (pay_refunded o1) (pay_quantity o1) (pay_gross o1))"
  using run_line [OF assms(1,2)] assms(3)
  by (auto simp: line_ok_def order_core_def entitled_def order_entitlement_def service_kinds_def split: option.splits)

theorem order_credits_exact_witness:
  "posted ''grant'' ''p-1'' (pd_svc_events sample_refunded) + posted ''refund'' ''p-1'' (pd_svc_events sample_refunded) = 399"
proof -
  have o1: "pd_orders sample_refunded \<noteq> [] \<and> pay_id (hd (pd_orders sample_refunded)) = 1 \<and> pay_public_id (hd (pd_orders sample_refunded)) = ''p-1''
      \<and> pay_kind (hd (pd_orders sample_refunded)) = ''job_service_credits'' \<and> pay_quantity (hd (pd_orders sample_refunded)) = 500
      \<and> pay_refunded (hd (pd_orders sample_refunded)) = 10000 \<and> pay_gross (hd (pd_orders sample_refunded)) = 49900"
    "map_option el_status (order_entitlement sample_refunded 1) = Some ''active''" by code_simp+
  with order_credits_exact [OF sample_run, of "hd (pd_orders sample_refunded)"] show ?thesis
    by (auto simp: refund_share_def)
qed

text \<open>
  C33. A webhook is processed once: delivered again after it was answered with a final status, at
  whatever time and in whatever order of locks, it is a duplicate and writes nothing.
\<close>

theorem webhook_replay_ignored:
  assumes "process_webhook env db document sha eid None = (db', Inr r)" and "wr_status r \<notin> set RETRYABLE_EVENT_STATUSES"
  shows "process_webhook env' db' document sha eid winner =
    (db', Inr \<lparr>wr_status = ''duplicate'', wr_event_type = wr_event_type r, wr_order = None\<rparr>)"
proof -
  from assms(1) obtain d k where doc: "document = Some d" "event_kind d = Inr k" "eid \<noteq> []" "length eid \<le> 160"
    by (cases document; cases "event_kind (the document)")
       (auto simp: process_webhook_def result_simps require_def split: if_splits)
  note start = process_webhook_def doc
  have "wr_event_type r = k \<and> (\<exists>e. the_event db' eid = Some e \<and> ev_sha e = sha \<and> ev_type e = k \<and> ev_status e \<notin> set RETRYABLE_EVENT_STATUSES)"
  proof (cases "\<exists>e. the_event db eid = Some e \<and> ev_status e \<notin> set RETRYABLE_EVENT_STATUSES")
    case True
    with assms(1) show ?thesis by (auto simp: start Let_def split: if_splits)
  next
    case False
    with assms(1) obtain res db1 where run: "run_event env (receive_event db d eid k sha (hk_clock env)) d eid k = Inr (res, db1)"
      and db': "db' = update_event eid (finish_event_row (fst res) (hk_clock env)) db1" and r: "wr_status r = fst res" "wr_event_type r = k"
      and same: "case the_event db eid of None \<Rightarrow> True | Some e \<Rightarrow> ev_sha e = sha \<and> ev_type e = k"
      by (auto simp: start Let_def split: if_splits option.splits sum.splits hook_error.splits prod.splits)
    have "find (\<lambda>t. fst t = eid) (digests db1) = Some (eid, k, sha)"
      unfolding run_event_digests [OF run] by (rule received_digest [OF same])
    then obtain e where e: "the_event db1 eid = Some e" "ev_type e = k" "ev_sha e = sha"
      by (auto simp flip: the_event_digests)
    have "the_event db' eid = Some (finish_event_row (fst res) (hk_clock env) e)"
      using e(1) by (simp add: db' the_event_def update_event_def row_at_update_by finish_event_row_def)
    with e r assms(2) show ?thesis by (simp add: finish_event_row_def)
  qed
  then show ?thesis by (auto simp: start Let_def)
qed

theorem webhook_replay_ignored_witness:
  "fst (process_webhook sample_env sample_paid (Some captured_doc) ''d1'' ''evt_1'' None) = sample_paid"
proof -
  have "map_sum id wr_status (snd (process_webhook sample_env sample_shop (Some captured_doc) ''d1'' ''evt_1'' None)) = Inr ''processed''"
    by code_simp
  then obtain r where r: "snd (process_webhook sample_env sample_shop (Some captured_doc) ''d1'' ''evt_1'' None) = Inr r" "wr_status r = ''processed''"
    by (cases "snd (process_webhook sample_env sample_shop (Some captured_doc) ''d1'' ''evt_1'' None)") auto
  have "process_webhook sample_env sample_shop (Some captured_doc) ''d1'' ''evt_1'' None = (sample_paid, Inr r)"
    using r(1) by (metis prod.collapse sample_paid_def)
  from webhook_replay_ignored [OF this, of sample_env None] r(2) show ?thesis by (simp add: RETRYABLE_EVENT_STATUSES_def)
qed



text \<open>
  A capture event for a second payment of an order is refused, but a refund event that names one is
  not: it adds a second captured transaction to the order.
\<close>

lemma refund_adds_second_payment:
  "snd (process_webhook sample_env sample_paid (Some (refund_doc ''rfnd_9'' ''pay_2'' 10000)) ''d9'' ''evt_9'' None)
     = Inr \<lparr>wr_status = ''processed'', wr_event_type = ''refund.processed'', wr_order = Some ''p-1''\<rparr> \<and>
   map (\<lambda>t. (px_order_id t, px_payment_id t, px_status t))
     (pd_txns (fst (process_webhook sample_env sample_paid (Some (refund_doc ''rfnd_9'' ''pay_2'' 10000)) ''d9'' ''evt_9'' None)))
     = [(1, ''pay_1'', ''captured''), (1, ''pay_2'', ''partially_refunded'')]"
  by code_simp

end
