(* ===== verification/Finance.thy ===== *)
theory Finance
  imports Pricing Documents Complex_Main
begin

text \<open>
  \<open>domains/credits/finance.py\<close>: exact money of the credit contract. \<open>Fraction\<close> is \<open>rat\<close>,
  amounts are integers of minor units. A policy record is what the schema's field types
  describe; \<open>policy_fields_ok\<close> and \<open>bounded_policy\<close> are its bounds and its validator.
\<close>

section \<open>Errors\<close>

text \<open>\<open>Fault\<close> is an exception of Python itself (\<open>IndexError\<close>, \<open>AttributeError\<close>).\<close>

datatype funding_error = FundingUnavailable string | Contract credit_error | Fault

definition lift_credit :: "credit_error + 'a \<Rightarrow> funding_error + 'a" where
  "lift_credit m = (case m of Inl e \<Rightarrow> Inl (Contract e) | Inr x \<Rightarrow> Inr x)"

lemma lift_credit_eq_Inr [result_simps]: "lift_credit m = Inr x \<longleftrightarrow> m = Inr x"
  by (cases m) (simp_all add: lift_credit_def)

lemma lift_credit_Inr [simp]: "lift_credit (Inr x) = Inr x"
  by (simp add: lift_credit_def)

abbreviation invalid :: "string \<Rightarrow> funding_error" where
  "invalid text \<equiv> Contract (ValueError text)"

section \<open>The financial policy\<close>

datatype provenance = Estimated | InvoiceReconciled | SyntheticTest

record financial_policy =
  fp_version :: string
  fp_valid_from :: int
  fp_expires_at :: int
  fp_provenance :: provenance
  fp_evidence_sha256 :: string
  fp_execution_minor_per_credit :: int
  fp_included_sales_tax_bps :: int
  fp_gateway_gross_bps :: int
  fp_refund_gross_bps :: int
  fp_incident_net_bps :: int
  fp_minimum_net_margin_bps :: int
  fp_target_net_margin_bps :: int
  fp_adverse_fx_minor_per_usd :: int
  fp_unrecoverable_provider_tax_bps :: int

definition is_bps :: "int \<Rightarrow> bool" where
  "is_bps n \<longleftrightarrow> 0 \<le> n \<and> n \<le> 10000"

definition policy_fields_ok :: "financial_policy \<Rightarrow> bool" where
  "policy_fields_ok p \<longleftrightarrow>
     1 \<le> length (fp_version p) \<and> length (fp_version p) \<le> 120 \<and> is_sha256_hex (fp_evidence_sha256 p) \<and>
     0 < fp_execution_minor_per_credit p \<and> 0 < fp_adverse_fx_minor_per_usd p \<and>
     is_bps (fp_included_sales_tax_bps p) \<and> is_bps (fp_gateway_gross_bps p) \<and> is_bps (fp_refund_gross_bps p) \<and>
     is_bps (fp_incident_net_bps p) \<and> is_bps (fp_minimum_net_margin_bps p) \<and>
     is_bps (fp_target_net_margin_bps p) \<and> is_bps (fp_unrecoverable_provider_tax_bps p)"

definition bounded_policy :: "financial_policy \<Rightarrow> funding_error + financial_policy" where
  "bounded_policy p =
     bindE (require (fp_valid_from p < fp_expires_at p \<and> fp_expires_at p \<le> fp_valid_from p + days 31)
       (invalid ''Financial policy review must expire within 31 days'')) (\<lambda>_.
     bindE (require (\<not> fp_minimum_net_margin_bps p > fp_target_net_margin_bps p)
       (invalid ''Target margin must not be lower than the minimum'')) (\<lambda>_.
     bindE (require (\<not> fp_incident_net_bps p + fp_target_net_margin_bps p \<ge> 10000)
       (invalid ''Reserves and margin must leave delivery funding'')) (\<lambda>_. Inr p)))"

definition policy_ok :: "financial_policy \<Rightarrow> bool" where
  "policy_ok p \<longleftrightarrow> policy_fields_ok p \<and> bounded_policy p = Inr p"

definition require_current_policy :: "financial_policy \<Rightarrow> int \<Rightarrow> bool \<Rightarrow> funding_error + financial_policy" where
  "require_current_policy p instant commercial =
     bindE (require (fp_valid_from p \<le> instant \<and> instant < fp_expires_at p)
       (FundingUnavailable ''The financial policy needs a current review'')) (\<lambda>_.
     bindE (require (\<not> (commercial \<and> fp_provenance p \<noteq> InvoiceReconciled))
       (FundingUnavailable ''Paid activation requires reconciled expense evidence'')) (\<lambda>_. Inr p))"

section \<open>Rounding\<close>

definition ceil_minor :: "rat \<Rightarrow> int" where
  "ceil_minor value = - ((- fst (quotient_of value)) div snd (quotient_of value))"

lemma ceil_minor_ceiling: "ceil_minor x = \<lceil>x\<rceil>"
proof (cases "quotient_of x")
  case (Pair p q)
  then have "x = of_int p / of_int q" by (rule quotient_of_div)
  with Pair show ?thesis by (simp add: ceil_minor_def ceiling_divide_eq_div)
qed

lemma ceil_minor_quotient: "ceil_minor (of_int a / of_int b) = ceil_div a b"
  by (simp add: ceil_minor_ceiling ceiling_divide_eq_div ceil_div_def)

lemma ceil_minor_mono: "x \<le> y \<Longrightarrow> ceil_minor x \<le> ceil_minor y"
  by (simp add: ceil_minor_ceiling ceiling_mono)

lemma ceil_minor_ge: "x \<le> of_int (ceil_minor x)"
  by (simp add: ceil_minor_ceiling)

section \<open>The forecast\<close>

record forecast_view =
  fc_gross_minor :: rat
  fc_revenue_minor :: rat
  fc_sales_tax_minor :: rat
  fc_gateway_minor :: rat
  fc_refund_reserve_minor :: rat
  fc_net_receipts_minor :: rat
  fc_incident_reserve_minor :: rat
  fc_execution_minor :: rat
  fc_overhead_minor :: rat
  fc_surplus_minor :: rat
  fc_minimum_surplus_minor :: rat
  fc_target_surplus_minor :: rat
  fc_minimum_margin_met :: bool
  fc_target_margin_met :: bool

definition nonnegative :: "int \<Rightarrow> string \<Rightarrow> funding_error + int" where
  "nonnegative value name =
     (if value < 0 then Inl (invalid (name @ '' must be a non-negative integer'')) else Inr value)"

definition bps_of :: "rat \<Rightarrow> int \<Rightarrow> rat" where
  "bps_of amount bps = amount * of_int bps / 10000"

definition forecast :: "financial_policy \<Rightarrow> int \<Rightarrow> int \<Rightarrow> int \<Rightarrow> int \<Rightarrow> funding_error + forecast_view" where
  "forecast p gross_minor consumed_credits shared_minor additional_business_minor =
     bindE (nonnegative gross_minor ''gross_minor'') (\<lambda>_.
     bindE (nonnegative consumed_credits ''consumed_credits'') (\<lambda>_.
     bindE (nonnegative shared_minor ''shared_minor'') (\<lambda>_.
     bindE (nonnegative additional_business_minor ''additional_business_minor'') (\<lambda>_.
     let gross = of_int gross_minor;
         revenue = gross * 10000 / of_int (10000 + fp_included_sales_tax_bps p);
         gateway = bps_of gross (fp_gateway_gross_bps p);
         refund = bps_of gross (fp_refund_gross_bps p);
         net = revenue - gateway - refund;
         incident = bps_of net (fp_incident_net_bps p);
         execution = of_int (consumed_credits * fp_execution_minor_per_credit p);
         overhead = of_int (shared_minor + additional_business_minor);
         surplus = net - incident - execution - overhead;
         minimum = bps_of net (fp_minimum_net_margin_bps p);
         target = bps_of net (fp_target_net_margin_bps p)
     in Inr \<lparr>fc_gross_minor = gross, fc_revenue_minor = revenue, fc_sales_tax_minor = gross - revenue,
          fc_gateway_minor = gateway, fc_refund_reserve_minor = refund, fc_net_receipts_minor = net,
          fc_incident_reserve_minor = incident, fc_execution_minor = execution, fc_overhead_minor = overhead,
          fc_surplus_minor = surplus, fc_minimum_surplus_minor = minimum, fc_target_surplus_minor = target,
          fc_minimum_margin_met = (net > 0 \<and> surplus \<ge> minimum),
          fc_target_margin_met = (net > 0 \<and> surplus \<ge> target)\<rparr>))))"

section \<open>The execution envelope\<close>

record attempt_envelope =
  ae_provider :: string
  ae_model :: string
  ae_max_input_tokens :: int
  ae_max_output_tokens :: int
  ae_input_usd_micros_per_million :: int
  ae_output_usd_micros_per_million :: int
  ae_rate_evidence_sha256 :: string

record execution_envelope =
  ee_attempts :: "attempt_envelope list"
  ee_native_processing_minor :: int
  ee_worker_processing_minor :: int
  ee_qualification_id :: string

text \<open>The cost of one attempt at its bounds, rounded up once at the end.\<close>

definition attempt_cost_minor :: "financial_policy \<Rightarrow> attempt_envelope \<Rightarrow> int" where
  "attempt_cost_minor p a =
     (let usd_micros = of_int (ae_max_input_tokens a * ae_input_usd_micros_per_million a) / 1000000
                     + of_int (ae_max_output_tokens a * ae_output_usd_micros_per_million a) / 1000000;
          inr_minor = usd_micros * of_int (fp_adverse_fx_minor_per_usd p) / 1000000
      in ceil_minor (inr_minor * (of_int (10000 + fp_unrecoverable_provider_tax_bps p) / 10000)))"

definition execution_cost_minor :: "financial_policy \<Rightarrow> execution_envelope \<Rightarrow> int" where
  "execution_cost_minor p e =
     sum_list (map (attempt_cost_minor p) (ee_attempts e))
     + ee_native_processing_minor e + ee_worker_processing_minor e"

definition require_execution_allowance ::
  "financial_policy \<Rightarrow> execution_envelope \<Rightarrow> int \<Rightarrow> int \<Rightarrow> bool \<Rightarrow> funding_error + int" where
  "require_execution_allowance p e charge_credits now commercial =
     bindE (require_current_policy p now commercial) (\<lambda>_.
     bindE (nonnegative charge_credits ''charge_credits'') (\<lambda>_.
     let required = execution_cost_minor p e in
     bindE (require (\<not> required > charge_credits * fp_execution_minor_per_credit p)
       (FundingUnavailable ''The qualified delivery needs a new quote or funded route'')) (\<lambda>_. Inr required)))"

end
