(* ===== verification/Model_Cost.thy ===== *)
theory Model_Cost
  imports Settings Finance
begin

text \<open>
  \<open>services/model_cost_policy.py\<close> and the reading of provider usage in
  \<open>services/generation_budget.py\<close>: price quotes in millionths of a dollar, the estimate of a
  prompt's tokens, and what a response says it used. Strings are their UTF-8 bytes. The
  quotes are those the schema accepted; the URL checks of \<open>safe_url\<close> are part of it.
\<close>

section \<open>Price quotes\<close>

record price_quote =
  pq_provider :: string
  pq_model :: string
  pq_api_base :: string
  pq_version :: string
  pq_price_source_url :: string
  pq_output_limit_source_url :: string
  pq_usage_source_url :: string
  pq_valid_from :: int
  pq_expires_at :: int
  pq_input_rate :: int
  pq_output_rate :: int
  pq_max_input_tokens :: int
  pq_max_output_tokens :: int
  pq_output_limit_parameter :: string
  pq_token_estimator :: string

definition is_positive_amount :: "int \<Rightarrow> bool" where
  "is_positive_amount n \<longleftrightarrow> 0 < n \<and> n \<le> 10 ^ 12"

definition is_token_bound :: "int \<Rightarrow> bool" where
  "is_token_bound n \<longleftrightarrow> 0 < n \<and> n \<le> 1000000"

definition price_fields_ok :: "'a price_quote_scheme \<Rightarrow> bool" where
  "price_fields_ok q \<longleftrightarrow>
     pq_provider q \<in> {''google'', ''openai'', ''openai_compatible''} \<and>
     is_positive_amount (pq_input_rate q) \<and> is_positive_amount (pq_output_rate q) \<and>
     is_token_bound (pq_max_input_tokens q) \<and> is_token_bound (pq_max_output_tokens q) \<and>
     pq_output_limit_parameter q \<in> {''max_output_tokens'', ''max_completion_tokens'', ''max_tokens''} \<and>
     pq_token_estimator q = ''utf8-json-bytes-framing-v1''"

definition provider_contract :: "'a price_quote_scheme \<Rightarrow> funding_error + 'a price_quote_scheme" where
  "provider_contract q =
     bindE (require (\<not> pq_expires_at q \<le> pq_valid_from q)
       (invalid ''A finite timezone-aware price validity interval is required'')) (\<lambda>_.
     bindE (require (\<not> (pq_provider q = ''google'' \<and>
         (pq_api_base q \<noteq> ''https://generativelanguage.googleapis.com'' \<or>
          pq_output_limit_parameter q \<noteq> ''max_output_tokens'')))
       (invalid ''Google uses the native generateContent output limit'')) (\<lambda>_.
     bindE (require (\<not> (pq_provider q = ''openai'' \<and>
         (pq_api_base q \<noteq> ''https://api.openai.com/v1'' \<or>
          pq_output_limit_parameter q \<noteq> ''max_completion_tokens'')))
       (invalid ''OpenAI uses the completion-token limit'')) (\<lambda>_.
     bindE (require (\<not> (pq_provider q = ''openai_compatible'' \<and> pq_output_limit_parameter q = ''max_output_tokens''))
       (invalid ''Compatible chat providers need their explicit supported chat output parameter'')) (\<lambda>_. Inr q))))"

definition price_ok :: "'a price_quote_scheme \<Rightarrow> bool" where
  "price_ok q \<longleftrightarrow> price_fields_ok q \<and> provider_contract q = Inr q"

section \<open>Cost\<close>

definition quoted_cost :: "'a price_quote_scheme \<Rightarrow> int \<Rightarrow> int \<Rightarrow> int" where
  "quoted_cost quote input_tokens output_tokens =
     (let numerator = input_tokens * pq_input_rate quote + output_tokens * pq_output_rate quote
      in (numerator + 999999) div 1000000)"

lemma quoted_cost_ceil: "quoted_cost q i k = ceil_div (i * pq_input_rate q + k * pq_output_rate q) 1000000"
  using ceil_div_add [of 1000000 "i * pq_input_rate q + k * pq_output_rate q"] by (simp add: quoted_cost_def)

lemma quoted_cost_mono:
  assumes "i \<le> i'" and "k \<le> k'" and "0 \<le> pq_input_rate q" and "0 \<le> pq_output_rate q"
  shows "quoted_cost q i k \<le> quoted_cost q i' k'"
proof -
  have "i * pq_input_rate q + k * pq_output_rate q \<le> i' * pq_input_rate q + k' * pq_output_rate q"
    using assms by (intro add_mono mult_right_mono)
  then show ?thesis by (simp add: quoted_cost_ceil ceil_div_mono)
qed

lemma quoted_cost_nonneg:
  assumes "0 \<le> i" and "0 \<le> k" and "0 \<le> pq_input_rate q" and "0 \<le> pq_output_rate q"
  shows "0 \<le> quoted_cost q i k"
  using assms by (simp add: quoted_cost_ceil ceil_div_nonneg)

section \<open>The estimate of a prompt\<close>

text \<open>
  \<open>json.dumps(value, ensure_ascii=False, separators=(",", ":"))\<close>, in UTF-8: quotes,
  backslashes and control characters are escaped, everything else is copied.
\<close>

definition hex_char :: "nat \<Rightarrow> char" where
  "hex_char n = char_of (if n < 10 then 48 + n else 87 + n)"

definition escaped :: "char \<Rightarrow> string" where
  "escaped c = (let n = (of_char c :: nat) in
     if c = CHR 0x22 then [CHR 0x5C, CHR 0x22] else if c = CHR 0x5C then [CHR 0x5C, CHR 0x5C]
     else if n = 8 then [CHR 0x5C, CHR ''b''] else if n = 9 then [CHR 0x5C, CHR ''t'']
     else if n = 10 then [CHR 0x5C, CHR ''n''] else if n = 12 then [CHR 0x5C, CHR ''f'']
     else if n = 13 then [CHR 0x5C, CHR ''r'']
     else if n < 32 then CHR 0x5C # ''u00'' @ [hex_char (n div 16), hex_char (n mod 16)] else [c])"

definition json_string :: "string \<Rightarrow> string" where
  "json_string s = CHR 0x22 # concat (map escaped s) @ [CHR 0x22]"

fun separated :: "string list \<Rightarrow> string" where
  "separated [] = []"
| "separated [x] = x"
| "separated (x # y # ys) = x @ '','' @ separated (y # ys)"

primrec json_text :: "json \<Rightarrow> string" where
  "json_text JNull = ''null''"
| "json_text (JBool b) = (if b then ''true'' else ''false'')"
| "json_text (JInt n) = decimal n"
| "json_text (JStr s) = json_string s"
| "json_text (JArr xs) = ''['' @ separated (map json_text xs) @ '']''"
| "json_text (JObj ms) =
     ''{'' @ separated (map (\<lambda>(k, v). json_string k @ '':'' @ v) (map (map_prod id json_text) ms)) @ ''}''"

definition input_token_estimate :: "json list \<Rightarrow> int" where
  "input_token_estimate messages = int (length (json_text (JArr messages))) + 64 * int (length messages) + 128"

section \<open>What a response used\<close>

text \<open>
  \<open>getattr(usage, name, None)\<close> of the native client's object gives \<open>JNull\<close> for a missing
  attribute. A response is that object, a JSON document, or \<open>None\<close>.
\<close>

record google_usage =
  gu_prompt :: json
  gu_candidates :: json
  gu_total :: json
  gu_thoughts :: json

datatype provider_response =
    NativeResponse "google_usage option"
  | DocumentResponse json
  | NoResponse

fun usage_count :: "json \<Rightarrow> int option" where
  "usage_count (JInt n) = (if 0 \<le> n \<and> n \<le> 2147483647 then Some n else None)"
| "usage_count _ = None"

definition google_used :: "google_usage \<Rightarrow> (int \<times> int \<times> string) option" where
  "google_used u =
     (case (usage_count (gu_prompt u), usage_count (gu_candidates u)) of
        (Some prompt, Some candidates) \<Rightarrow>
          (case (usage_count (gu_total u), usage_count (gu_thoughts u)) of
             (Some whole, thoughts) \<Rightarrow>
               if whole \<ge> prompt + candidates
               then (case thoughts of
                       Some th \<Rightarrow> if whole \<noteq> prompt + candidates + th then None
                                  else Some (prompt, whole - prompt, ''google-total-including-thoughts-v1'')
                     | None \<Rightarrow> Some (prompt, whole - prompt, ''google-total-including-thoughts-v1''))
               else None
           | (None, Some th) \<Rightarrow> Some (prompt, candidates + th, ''google-explicit-thoughts-v1'')
           | (None, None) \<Rightarrow> None)
      | _ \<Rightarrow> None)"

definition member_count :: "string \<Rightarrow> json \<Rightarrow> int option" where
  "member_count k d = (case json_get k d of None \<Rightarrow> None | Some v \<Rightarrow> usage_count v)"

definition usage_of :: "provider_response \<Rightarrow> string \<Rightarrow> (int \<times> int \<times> string) option" where
  "usage_of response provider =
     (if provider = ''google''
      then (case response of NativeResponse (Some u) \<Rightarrow> google_used u | _ \<Rightarrow> None)
      else (case response of
              DocumentResponse d \<Rightarrow>
                (case json_get ''usage'' d of
                   Some (JObj ms) \<Rightarrow>
                     (case (member_count ''prompt_tokens'' (JObj ms), member_count ''completion_tokens'' (JObj ms)) of
                        (Some p, Some c) \<Rightarrow> Some (p, c, ''chat-completion-including-reasoning-v1'')
                      | _ \<Rightarrow> None)
                 | _ \<Rightarrow> None)
            | _ \<Rightarrow> None))"

lemma usage_count_bounds: "usage_count v = Some n \<Longrightarrow> 0 \<le> n \<and> n \<le> 2147483647"
  by (cases v) (auto split: if_splits)

lemma usage_of_nonneg:
  assumes "usage_of r p = Some (i, k, w)" shows "0 \<le> i" and "0 \<le> k"
  using assms
  by (auto simp: usage_of_def google_used_def member_count_def dest!: usage_count_bounds
      split: if_splits option.splits provider_response.splits json.splits prod.splits)

end
