(* ===== verification/Service_Routes.thy ===== *)
theory Service_Routes
  imports Model_Cost
begin

text \<open>
  \<open>QualifiedRoute\<close> and \<open>require_route\<close> of \<open>domains/credits/service_quotes.py\<close>: what a
  delivery promises, its bounds, and the money it needs at those bounds. The digests of
  documents and of the delivering code's own sources come from outside (\<open>route_env\<close>).
\<close>

section \<open>Routes\<close>

datatype route_mode = Enhanced | Native

record qualified_route =
  qr_id :: string
  qr_version :: string
  qr_operation :: string
  qr_tariff_version :: string
  qr_credits :: int
  qr_mode :: route_mode
  qr_deliverable :: string
  qr_supported_limits :: "(string \<times> int) list"
  qr_source_formats :: "string list"
  qr_qualification_id :: string
  qr_evidence_sha256 :: string
  qr_output_contract_sha256 :: "string option"
  qr_qualified_from :: int
  qr_qualified_until :: int
  qr_native_cost_evidence_sha256 :: string
  qr_native_processing_minor :: int
  qr_worker_processing_minor :: int
  qr_model_quotes :: "price_quote list"

definition bounded_contract :: "qualified_route \<Rightarrow> funding_error + qualified_route" where
  "bounded_contract r =
     bindE (require (map_of SERVICE_CREDITS (qr_operation r) = Some (qr_credits r))
       (invalid ''The qualified route must match the reviewed service tariff'')) (\<lambda>_.
     bindE (require (qr_qualified_from r < qr_qualified_until r \<and> qr_qualified_until r \<le> qr_qualified_from r + days 31)
       (invalid ''A qualified route must be reviewed within 31 days'')) (\<lambda>_.
     bindE (require (\<not> (qr_operation r \<in> {''resume_tailor'', ''resume_tailor_extended''} \<and> qr_source_formats r = []))
       (invalid ''A tailoring route must name its qualified source formats'')) (\<lambda>_.
     bindE (require ((qr_mode r = Native) = (qr_model_quotes r = []))
       (invalid ''The route must truthfully declare whether it uses a model'')) (\<lambda>_.
     bindE (require (\<not> list_ex (\<lambda>n. n < 0) (map snd (qr_supported_limits r)))
       (invalid ''Supported limits must be finite nonnegative integers'')) (\<lambda>_. Inr r)))))"

definition route_fields_ok :: "qualified_route \<Rightarrow> bool" where
  "route_fields_ok r \<longleftrightarrow>
     0 < qr_credits r \<and> 0 \<le> qr_native_processing_minor r \<and> 0 \<le> qr_worker_processing_minor r \<and>
     length (qr_supported_limits r) \<le> 12 \<and> length (qr_model_quotes r) \<le> 4 \<and>
     set (qr_source_formats r) \<subseteq> {''pdf'', ''docx'', ''tex'', ''texzip''} \<and>
     qr_tariff_version r = ''credit-services-2026-10-27-v1'' \<and>
     1 \<le> length (qr_operation r) \<and> length (qr_operation r) \<le> 64 \<and>
     1 \<le> length (qr_deliverable r) \<and> length (qr_deliverable r) \<le> 500 \<and>
     is_sha256_hex (qr_evidence_sha256 r) \<and> is_sha256_hex (qr_native_cost_evidence_sha256 r) \<and>
     list_all price_ok (qr_model_quotes r)"

definition route_ok :: "qualified_route \<Rightarrow> bool" where
  "route_ok r \<longleftrightarrow> route_fields_ok r \<and> bounded_contract r = Inr r"

record service_contract =
  sk_route :: qualified_route
  sk_policy :: financial_policy

text \<open>
  \<open>en_output_contract\<close>: the digest of the sources that produce an operation's output;
  \<open>None\<close> when they cannot be read, \<open>Some None\<close> when the operation has none.
\<close>

record route_env =
  en_rate_digest :: "price_quote \<Rightarrow> string"
  en_contract_digest :: "service_contract \<Rightarrow> string"
  en_output_contract :: "string \<Rightarrow> string option option"

definition envelope :: "route_env \<Rightarrow> qualified_route \<Rightarrow> execution_envelope" where
  "envelope env r =
     \<lparr>ee_attempts = map (\<lambda>q. \<lparr>ae_provider = pq_provider q, ae_model = pq_model q,
        ae_max_input_tokens = pq_max_input_tokens q, ae_max_output_tokens = pq_max_output_tokens q,
        ae_input_usd_micros_per_million = pq_input_rate q, ae_output_usd_micros_per_million = pq_output_rate q,
        ae_rate_evidence_sha256 = en_rate_digest env q\<rparr>) (qr_model_quotes r),
      ee_native_processing_minor = qr_native_processing_minor r,
      ee_worker_processing_minor = qr_worker_processing_minor r,
      ee_qualification_id = qr_qualification_id r\<rparr>"

section \<open>The money a route needs\<close>

text \<open>\<open>execution._cost_minor\<close>: provider cost in minor units of the account currency.\<close>

definition cost_minor :: "financial_policy \<Rightarrow> int \<Rightarrow> int" where
  "cost_minor p usd_micros =
     ceil_minor (of_int (usd_micros * fp_adverse_fx_minor_per_usd p * (10000 + fp_unrecoverable_provider_tax_bps p))
                 / of_int (1000000 * 10000))"

definition require_current_output_contract :: "route_env \<Rightarrow> qualified_route \<Rightarrow> funding_error + unit" where
  "require_current_output_contract env r =
     (case en_output_contract env (qr_operation r) of
        None \<Rightarrow> Inl (FundingUnavailable ''The current output contract needs a new qualification'')
      | Some expected \<Rightarrow>
          require (\<not> (expected \<noteq> None \<and> qr_output_contract_sha256 r \<noteq> expected))
            (FundingUnavailable ''This delivery route was qualified for a different output contract''))"

definition ledger_required :: "financial_policy \<Rightarrow> qualified_route \<Rightarrow> int" where
  "ledger_required p r =
     qr_native_processing_minor r + qr_worker_processing_minor r
     + sum_list (map (\<lambda>q. cost_minor p (quoted_cost q (pq_max_input_tokens q) (pq_max_output_tokens q))) (qr_model_quotes r))"

definition require_route ::
  "route_env \<Rightarrow> qualified_route \<Rightarrow> financial_policy \<Rightarrow> int \<Rightarrow> bool \<Rightarrow> funding_error + int" where
  "require_route env r p now commercial =
     bindE (require_current_output_contract env r) (\<lambda>_.
     bindE (require (qr_qualified_from r \<le> now \<and> now < qr_qualified_until r)
       (FundingUnavailable ''The selected delivery route needs a current qualification'')) (\<lambda>_.
     bindE (require (\<not> list_ex (\<lambda>q. \<not> (pq_valid_from q \<le> now \<and> now < pq_expires_at q)) (qr_model_quotes r))
       (FundingUnavailable ''The selected provider pricing needs a current review'')) (\<lambda>_.
     bindE (require_execution_allowance p (envelope env r) (qr_credits r) now commercial) (\<lambda>allowed.
     let required = max allowed (ledger_required p r) in
     bindE (require (\<not> required > qr_credits r * min (fp_execution_minor_per_credit p) EXECUTION_MINOR_PER_CREDIT)
       (FundingUnavailable ''The complete rounded execution envelope needs a new quote'')) (\<lambda>_. Inr required)))))"

section \<open>Lemmas\<close>

lemma cost_minor_ceil:
  "cost_minor p u = ceil_div (u * fp_adverse_fx_minor_per_usd p * (10000 + fp_unrecoverable_provider_tax_bps p)) (1000000 * 10000)"
  unfolding cost_minor_def by (rule ceil_minor_quotient)

lemma policy_ok_signs:
  assumes "policy_ok p"
  shows "0 < fp_adverse_fx_minor_per_usd p" and "0 \<le> fp_unrecoverable_provider_tax_bps p" and "0 < fp_execution_minor_per_credit p"
  using assms by (simp_all add: policy_ok_def policy_fields_ok_def is_bps_def)

lemma cost_minor_mono:
  assumes "policy_ok p" and "u \<le> v" shows "cost_minor p u \<le> cost_minor p v"
  using policy_ok_signs [OF assms(1)] assms(2)
  by (auto simp: cost_minor_ceil intro!: ceil_div_mono mult_right_mono)

lemma cost_minor_nonneg: "policy_ok p \<Longrightarrow> 0 \<le> u \<Longrightarrow> 0 \<le> cost_minor p u"
  using policy_ok_signs [of p] by (auto simp: cost_minor_ceil intro!: ceil_div_nonneg mult_nonneg_nonneg)

lemma cost_minor_0 [simp]: "cost_minor p 0 = 0"
  by (simp add: cost_minor_ceil)

lemma require_route_bounds:
  assumes "require_route env r p now commercial = Inr required"
  shows "ledger_required p r \<le> required"
    and "required \<le> qr_credits r * min (fp_execution_minor_per_credit p) EXECUTION_MINOR_PER_CREDIT"
  using assms by (auto simp: require_route_def Let_def result_simps)

end
