(* ===== verification/Execution_Models.thy ===== *)
theory Execution_Models
  imports Service_Routes Credit_Ledger Service_Credits Dispatch
begin

text \<open>
  The rows behind a funded execution: accepted service quotes, the hold on a whole
  operation, its planned attempts and the detached provider liabilities
  (\<open>domains/credits/models.py\<close>, \<open>models.py\<close>), and the state of a transaction over them.
  Instants are microseconds of UTC; equality of snapshots is equality of the documents.
\<close>

section \<open>Rows\<close>

record budget_policy =
  bp_version :: string
  bp_evidence_sha256 :: string
  bp_valid_from :: int
  bp_expires_at :: int
  bp_daily_global_minor :: int
  bp_monthly_global_minor :: int
  bp_monthly_account_minor :: int
  bp_monthly_incident_minor :: int
  bp_monthly_route_minor :: "(string \<times> int) list"
  bp_legacy_search_cost_minor :: int
  bp_legacy_application_cost_minor :: int
  bp_legacy_preparation_minor :: int
  bp_legacy_provider_attempt_overhead_minor :: int

record service_quote_snapshot = service_contract +
  sn_execution_required_minor :: int

record service_quote =
  sq_id :: string
  sq_user_id :: int
  sq_idempotency_key :: string
  sq_operation :: string
  sq_input_fingerprint :: string
  sq_contract_fingerprint :: string
  sq_snapshot :: service_quote_snapshot
  sq_created_at :: int
  sq_expires_at :: int
  sq_accepted_reservation_id :: "string option"
  sq_accepted_at :: "int option"

datatype execution_mode = InlineMode | WorkerMode

text \<open>The proofs of the rollout branch are kept as documents, absent when it added none.\<close>

record hold_snapshot = service_contract +
  hs_budgets :: budget_policy
  hs_execution_mode :: execution_mode
  hs_canary :: "json option"
  hs_public_admission :: "json option"

datatype hold_state = HoldReserved | HoldRunning | HoldUnknown | HoldOverrun | HoldSettled

datatype delivery_state = DeliveryPending | DeliveryDone | DeliveryFailed

record execution_hold =
  eh_id :: string
  eh_user_id :: "int option"
  eh_reservation_id :: string
  eh_group_id :: string
  eh_route_id :: string
  eh_funding_kind :: string
  eh_reserved_minor :: int
  eh_native_reserved_minor :: int
  eh_settled_minor :: "int option"
  eh_native_settled_minor :: "int option"
  eh_state :: hold_state
  eh_delivery_state :: delivery_state
  eh_snapshot :: hold_snapshot
  eh_created_at :: int
  eh_settled_at :: "int option"

text \<open>
  The states of an attempt and of its liability, which the code assigns together:
  \<open>reserved\<close> is the liability's word for a started attempt.
\<close>

datatype cost_state =
    CostPlanned | CostStarted | CostReserved | CostSettled | CostOverrun | CostUnknown
  | CostUnavailable | CostCancelled

record execution_attempt =
  at_id :: string
  at_hold_id :: string
  at_liability_id :: string
  at_ordinal :: nat
  at_state :: cost_state
  at_claim_key :: "string option"
  at_request_hash :: "string option"
  at_started_at :: "int option"
  at_finished_at :: "int option"

record liability_quote = price_quote +
  lq_expense_funding :: string
  lq_expense_pool :: string
  lq_expense_policy_version :: string

record liability =
  ml_id :: string
  ml_group_id :: string
  ml_attempt_number :: nat
  ml_provider :: string
  ml_model :: string
  ml_endpoint_key :: string
  ml_quote :: liability_quote
  ml_input_token_estimate :: int
  ml_reserved_cost :: int
  ml_settled_cost :: "int option"
  ml_input_tokens :: "int option"
  ml_output_tokens :: "int option"
  ml_usage_provenance :: "string option"
  ml_state :: cost_state
  ml_created_at :: int
  ml_settled_at :: "int option"

text \<open>Older work that shares the money: service reservations with their date, free quota holds.\<close>

record dated_service = svc_reservation +
  sr_created_at :: int

record free_hold =
  fh_id :: string
  fh_user_id :: "int option"
  fh_operation :: string
  fh_route_id :: string
  fh_policy_version :: string
  fh_funding_period_id :: string
  fh_settled :: bool
  fh_reserved_minor :: int
  fh_settled_minor :: "int option"
  fh_created_at :: int
  fh_settled_at :: "int option"
  fh_receipt_sha256 :: "string option"

record exec_db =
  xd_credit :: credit_db
  xd_quotes :: "service_quote list"
  xd_holds :: "execution_hold list"
  xd_attempts :: "execution_attempt list"
  xd_liabilities :: "liability list"
  xd_outbox :: outbox
  xd_services :: "dated_service list"
  xd_free :: "free_hold list"

section \<open>CHECK constraints\<close>

definition hold_check :: "execution_hold \<Rightarrow> bool" where
  "hold_check h \<longleftrightarrow>
     eh_reserved_minor h \<ge> 0 \<and> eh_native_reserved_minor h \<ge> 0 \<and> eh_native_reserved_minor h \<le> eh_reserved_minor h \<and>
     (case eh_settled_minor h of None \<Rightarrow> True | Some n \<Rightarrow> n \<ge> 0) \<and>
     (case eh_native_settled_minor h of None \<Rightarrow> True | Some n \<Rightarrow> n \<ge> 0)"

definition attempt_check :: "execution_attempt \<Rightarrow> bool" where
  "attempt_check a \<longleftrightarrow> at_ordinal a > 0"

section \<open>Access\<close>

definition update_hold :: "string \<Rightarrow> (execution_hold \<Rightarrow> execution_hold) \<Rightarrow> exec_db \<Rightarrow> exec_db" where
  "update_hold hid f db = db\<lparr>xd_holds := update_by eh_id hid f (xd_holds db)\<rparr>"

definition update_attempt :: "string \<Rightarrow> (execution_attempt \<Rightarrow> execution_attempt) \<Rightarrow> exec_db \<Rightarrow> exec_db" where
  "update_attempt aid f db = db\<lparr>xd_attempts := update_by at_id aid f (xd_attempts db)\<rparr>"

definition update_liability :: "string \<Rightarrow> (liability \<Rightarrow> liability) \<Rightarrow> exec_db \<Rightarrow> exec_db" where
  "update_liability lid f db = db\<lparr>xd_liabilities := update_by ml_id lid f (xd_liabilities db)\<rparr>"

definition hold_attempts :: "exec_db \<Rightarrow> string \<Rightarrow> execution_attempt list" where
  "hold_attempts db hid = sort_key at_ordinal (filter (\<lambda>a. at_hold_id a = hid) (xd_attempts db))"

text \<open>The join of a hold's attempts with their liabilities.\<close>

definition hold_pairs :: "exec_db \<Rightarrow> string \<Rightarrow> (execution_attempt \<times> liability) list" where
  "hold_pairs db hid =
     List.map_filter (\<lambda>a. map_option (Pair a) (row_at ml_id (at_liability_id a) (xd_liabilities db)))
       (filter (\<lambda>a. at_hold_id a = hid) (xd_attempts db))"

lemmas update_row_defs = update_hold_def update_attempt_def update_liability_def

definition drop_slashes :: "string \<Rightarrow> string" where
  "drop_slashes s = rev (dropWhile (\<lambda>c. c = CHR ''/'') (rev s))"

end
