(* ===== verification/Execution.thy ===== *)
theory Execution
  imports Execution_Models
begin

text \<open>
  \<open>domains/credits/execution.py\<close>: each planned attempt of a hold is claimed once, its cost
  is settled from observed usage only, and the delivery's outcome settles the customer's
  reservation. \<open>sha\<close> is SHA-256 in hex; \<open>accepted\<close> is the answer of the canary's
  \<open>require_accepted_hold\<close>. A function that raises returns \<open>Inl\<close> and is rolled back.
\<close>

section \<open>Claiming an attempt\<close>

record completion_binding =
  cb_hold_id :: string
  cb_attempt_id :: string
  cb_liability_id :: string
  cb_group_id :: string
  cb_claim_key :: string
  cb_ordinal :: nat
  cb_owner_id :: int

record attempt_record =
  ac_attempt_number :: nat
  ac_provider :: string
  ac_model :: string
  ac_max_output_tokens :: int
  ac_output_limit_parameter :: string

text \<open>What the caller asks for: the model endpoint, the prompt and a counted size if it has one.\<close>

record model_request =
  rq_provider :: string
  rq_model :: string
  rq_api_base :: string
  rq_messages :: "json list"
  rq_counted :: "int option"

definition owned_hold :: "exec_db \<Rightarrow> int \<Rightarrow> string \<Rightarrow> funding_error + execution_hold" where
  "owned_hold db user hid =
     bindE (lift_credit (lock_owner (xd_credit db) user)) (\<lambda>_.
     case find (\<lambda>h. eh_id h = hid \<and> eh_user_id h = Some user) (xd_holds db) of
       None \<Rightarrow> Inl (Contract (CreditContractError ''Execution not found''))
     | Some h \<Rightarrow> Inr h)"

definition outcome_blocks :: "cost_state \<Rightarrow> bool" where
  "outcome_blocks s \<longleftrightarrow> s \<in> {CostStarted, CostUnknown, CostUnavailable, CostOverrun}"

definition planned_attempt :: "exec_db \<Rightarrow> string \<Rightarrow> string \<Rightarrow> funding_error + execution_attempt" where
  "planned_attempt db hid claim_key =
     (let attempts = hold_attempts db hid in
      bindE (require (\<not> list_ex (\<lambda>a. at_claim_key a = Some claim_key \<or> outcome_blocks (at_state a)) attempts)
        (FundingUnavailable ''A previous provider attempt needs reconciliation; do not retry it'')) (\<lambda>_.
      case find (\<lambda>a. at_state a = CostPlanned) attempts of
        None \<Rightarrow> Inl (FundingUnavailable ''The complete operation attempt allowance is exhausted'')
      | Some a \<Rightarrow> Inr a))"

definition attempt_price :: "qualified_route \<Rightarrow> nat \<Rightarrow> funding_error + price_quote" where
  "attempt_price route ordinal =
     (if 1 \<le> ordinal \<and> ordinal \<le> length (qr_model_quotes route)
      then Inr (qr_model_quotes route ! (ordinal - 1)) else Inl Fault)"

definition dispatchable :: "execution_hold \<Rightarrow> bool" where
  "dispatchable h \<longleftrightarrow> eh_delivery_state h = DeliveryPending \<and> eh_state h \<notin> {HoldOverrun, HoldUnknown, HoldSettled}"

text \<open>The checks before the attempt is looked up: hold, snapshot and route.\<close>

definition dispatch_authority ::
  "route_env \<Rightarrow> bool \<Rightarrow> exec_db \<Rightarrow> int \<Rightarrow> string \<Rightarrow> qualified_route \<Rightarrow> financial_policy \<Rightarrow> int
     \<Rightarrow> funding_error + execution_hold" where
  "dispatch_authority env accepted db user hid route policy stamp =
     bindE (owned_hold db user hid) (\<lambda>hold.
     bindE (require accepted
       (FundingUnavailable ''The reviewed canary audience is unavailable; no new work was accepted'')) (\<lambda>_.
     bindE (require (dispatchable hold)
       (FundingUnavailable ''This operation cannot dispatch another model request'')) (\<lambda>_.
     bindE (require (\<not> (sk_route (eh_snapshot hold) \<noteq> route \<or> sk_policy (eh_snapshot hold) \<noteq> policy))
       (FundingUnavailable ''The funded route authorization changed'')) (\<lambda>_.
     bindE (require_route env route policy stamp False) (\<lambda>_. Inr hold)))))"

definition start_attempt :: "string \<Rightarrow> int \<Rightarrow> execution_attempt \<Rightarrow> execution_attempt" where
  "start_attempt claim_key stamp a = a\<lparr>at_state := CostStarted, at_claim_key := Some claim_key, at_started_at := Some stamp\<rparr>"

definition reserve_liability :: "int \<Rightarrow> liability \<Rightarrow> liability" where
  "reserve_liability estimated l = l\<lparr>ml_state := CostReserved, ml_input_token_estimate := estimated\<rparr>"

definition start_request ::
  "string \<Rightarrow> int \<Rightarrow> int \<Rightarrow> execution_hold \<Rightarrow> execution_attempt \<Rightarrow> exec_db \<Rightarrow> exec_db" where
  "start_request claim_key stamp estimated hold attempt db =
     update_hold (eh_id hold) (\<lambda>h. h\<lparr>eh_state := HoldRunning\<rparr>)
       (update_liability (at_liability_id attempt) (reserve_liability estimated)
         (update_attempt (at_id attempt) (start_attempt claim_key stamp) db))"

definition attempt_liability :: "exec_db \<Rightarrow> execution_hold \<Rightarrow> string \<Rightarrow> funding_error + liability" where
  "attempt_liability db hold lid =
     (case find (\<lambda>l. ml_id l = lid \<and> ml_group_id l = eh_group_id hold) (xd_liabilities db) of
        None \<Rightarrow> Inl (Contract NoResultFound)
      | Some l \<Rightarrow> Inr l)"

definition check_request :: "price_quote \<Rightarrow> model_request \<Rightarrow> funding_error + int" where
  "check_request price req =
     bindE (require (rq_provider req = pq_provider price \<and> rq_model req = pq_model price \<and>
                     drop_slashes (rq_api_base req) = pq_api_base price)
       (FundingUnavailable ''This model endpoint is not the next qualified attempt'')) (\<lambda>_.
     let estimated = max (input_token_estimate (rq_messages req)) (case rq_counted req of None \<Rightarrow> 0 | Some n \<Rightarrow> n) in
     bindE (require (\<not> estimated > pq_max_input_tokens price)
       (FundingUnavailable ''The prompt exceeds the accepted input bound'')) (\<lambda>_. Inr estimated))"

definition claim_attempt ::
  "route_env \<Rightarrow> bool \<Rightarrow> exec_db \<Rightarrow> int \<Rightarrow> string \<Rightarrow> string \<Rightarrow> model_request \<Rightarrow> qualified_route \<Rightarrow> financial_policy
     \<Rightarrow> int \<Rightarrow> funding_error + (completion_binding \<times> attempt_record) \<times> exec_db" where
  "claim_attempt env accepted db user hid claim_key req route policy stamp =
     bindE (lift_credit (credit_key claim_key 64)) (\<lambda>_.
     bindE (dispatch_authority env accepted db user hid route policy stamp) (\<lambda>hold.
     bindE (planned_attempt db hid claim_key) (\<lambda>attempt.
     bindE (attempt_price route (at_ordinal attempt)) (\<lambda>price.
     bindE (check_request price req) (\<lambda>estimated.
     bindE (attempt_liability db hold (at_liability_id attempt)) (\<lambda>liability.
     bindE (require (ml_state liability = CostPlanned)
       (FundingUnavailable ''The provider liability already has an outcome'')) (\<lambda>_.
     Inr ((\<lparr>cb_hold_id = hid, cb_attempt_id = at_id attempt, cb_liability_id = ml_id liability,
             cb_group_id = eh_group_id hold, cb_claim_key = claim_key, cb_ordinal = at_ordinal attempt,
             cb_owner_id = user\<rparr>,
           \<lparr>ac_attempt_number = at_ordinal attempt, ac_provider = pq_provider price, ac_model = pq_model price,
             ac_max_output_tokens = pq_max_output_tokens price,
             ac_output_limit_parameter = pq_output_limit_parameter price\<rparr>),
          start_request claim_key stamp estimated hold attempt db))))))))"

section \<open>The hold's money\<close>

definition cost_final :: "liability \<Rightarrow> bool" where
  "cost_final l \<longleftrightarrow> ml_state l \<in> {CostSettled, CostOverrun}"

text \<open>The loop's \<open>used\<close>: observed cost, and while it is not final at least what was reserved.\<close>

definition used_cost :: "liability \<Rightarrow> int" where
  "used_cost l =
     (let used = (case ml_settled_cost l of None \<Rightarrow> 0 | Some n \<Rightarrow> n)
      in if cost_final l then used else max used (ml_reserved_cost l))"

definition native_total :: "execution_hold \<Rightarrow> int" where
  "native_total h = (case eh_native_settled_minor h of None \<Rightarrow> eh_native_reserved_minor h | Some n \<Rightarrow> n)"

definition hold_total :: "execution_hold \<Rightarrow> (execution_attempt \<times> liability) list \<Rightarrow> int" where
  "hold_total h pairs =
     native_total h + sum_list (map (\<lambda>(a, l). cost_minor (sk_policy (eh_snapshot h)) (used_cost l)) pairs)"

definition hold_unresolved :: "execution_hold \<Rightarrow> (execution_attempt \<times> liability) list \<Rightarrow> bool" where
  "hold_unresolved h pairs \<longleftrightarrow> eh_native_settled_minor h = None \<or> list_ex (\<lambda>(a, l). \<not> cost_final l) pairs"

definition hold_overrun :: "execution_hold \<Rightarrow> (execution_attempt \<times> liability) list \<Rightarrow> bool" where
  "hold_overrun h pairs \<longleftrightarrow>
     native_total h > eh_native_reserved_minor h \<or> list_ex (\<lambda>(a, l). at_state a = CostOverrun) pairs"

definition refreshed :: "(execution_attempt \<times> liability) list \<Rightarrow> int \<Rightarrow> execution_hold \<Rightarrow> execution_hold" where
  "refreshed pairs now h =
     (let amount = hold_total h pairs; h1 = h\<lparr>eh_settled_minor := Some amount\<rparr> in
      if hold_overrun h pairs \<or> amount > eh_reserved_minor h then h1\<lparr>eh_state := HoldOverrun\<rparr>
      else if hold_unresolved h pairs then
        h1\<lparr>eh_state := (if eh_delivery_state h \<noteq> DeliveryPending
                         \<or> list_ex (\<lambda>(a, l). at_state a \<in> {CostUnknown, CostUnavailable}) pairs
                       then HoldUnknown else HoldRunning)\<rparr>
      else if eh_delivery_state h \<noteq> DeliveryPending
        then h1\<lparr>eh_state := HoldSettled, eh_settled_at := Some now\<rparr>
      else h1)"

definition refresh_hold :: "string \<Rightarrow> int \<Rightarrow> exec_db \<Rightarrow> exec_db" where
  "refresh_hold hid now db = update_hold hid (refreshed (hold_pairs db hid) now) db"

section \<open>Observed cost\<close>

definition exceeds_quote :: "liability \<Rightarrow> int \<Rightarrow> int \<Rightarrow> int \<Rightarrow> bool" where
  "exceeds_quote l cost incoming outgoing \<longleftrightarrow>
     cost > ml_reserved_cost l \<or> incoming > pq_max_input_tokens (ml_quote l) \<or> outgoing > pq_max_output_tokens (ml_quote l)"

definition settle_liability :: "int \<Rightarrow> (int \<times> int \<times> string) \<Rightarrow> liability \<Rightarrow> liability" where
  "settle_liability stamp used l =
     (let (incoming, outgoing, provenance) = used;
          cost = quoted_cost (ml_quote l) incoming outgoing
      in l\<lparr>ml_input_tokens := Some incoming, ml_output_tokens := Some outgoing, ml_settled_cost := Some cost,
           ml_usage_provenance := Some provenance, ml_settled_at := Some stamp,
           ml_state := (if exceeds_quote l cost incoming outgoing then CostOverrun else CostSettled)\<rparr>)"

text \<open>
  The attempt and its liability after the callback: \<open>failed\<close> says that the request raised,
  \<open>used\<close> what the response reports.
\<close>

definition record_usage ::
  "execution_attempt \<Rightarrow> liability \<Rightarrow> bool \<Rightarrow> (int \<times> int \<times> string) option \<Rightarrow> int \<Rightarrow> exec_db \<Rightarrow> exec_db" where
  "record_usage attempt liability failed used stamp db =
     (case used of
        None \<Rightarrow>
          let s = (if failed then CostUnknown else CostUnavailable)
          in update_liability (ml_id liability) (\<lambda>l. l\<lparr>ml_state := s\<rparr>)
               (update_attempt (at_id attempt) (\<lambda>a. a\<lparr>at_state := s\<rparr>) db)
      | Some u \<Rightarrow>
          update_liability (ml_id liability) (settle_liability stamp u)
            (update_attempt (at_id attempt)
               (\<lambda>a. a\<lparr>at_state := ml_state (settle_liability stamp u liability), at_finished_at := Some stamp\<rparr>) db))"

definition note_request_id ::
  "(string \<Rightarrow> string) \<Rightarrow> execution_attempt \<Rightarrow> string option \<Rightarrow> exec_db \<Rightarrow> funding_error + exec_db" where
  "note_request_id sha attempt request_id db =
     (case request_id of
        None \<Rightarrow> Inr db
      | Some rid \<Rightarrow>
          bindE (require (1 \<le> length rid \<and> length rid \<le> 1024)
            (Contract (CreditContractError ''Provider request identity is invalid''))) (\<lambda>_.
          bindE (require (at_request_hash attempt \<in> {None, Some (sha rid)})
            (Contract (CreditContractError ''Provider request identity cannot change''))) (\<lambda>_.
          Inr (update_attempt (at_id attempt) (\<lambda>a. a\<lparr>at_request_hash := Some (sha rid)\<rparr>) db))))"

definition bound_attempt :: "exec_db \<Rightarrow> completion_binding \<Rightarrow> execution_attempt option" where
  "bound_attempt db b =
     find (\<lambda>a. at_id a = cb_attempt_id b \<and> at_hold_id a = cb_hold_id b \<and> at_liability_id a = cb_liability_id b \<and>
               at_ordinal a = cb_ordinal b \<and> at_claim_key a = Some (cb_claim_key b)) (xd_attempts db)"

definition finish_attempt ::
  "(string \<Rightarrow> string) \<Rightarrow> exec_db \<Rightarrow> completion_binding \<Rightarrow> provider_response \<Rightarrow> bool \<Rightarrow> string option \<Rightarrow> int
     \<Rightarrow> funding_error + exec_db" where
  "finish_attempt sha db b response failed request_id stamp =
     (case find (\<lambda>h. eh_id h = cb_hold_id b \<and> eh_group_id h = cb_group_id b) (xd_holds db) of
        None \<Rightarrow> Inl (Contract (CreditContractError ''The in-flight cost binding is unavailable''))
      | Some hold \<Rightarrow>
      case bound_attempt db b of
        None \<Rightarrow> Inl (Contract (CreditContractError ''This callback does not own the attempted request''))
      | Some attempt \<Rightarrow>
      bindE (require (at_state attempt \<noteq> CostPlanned)
        (Contract (CreditContractError ''This callback does not own the attempted request''))) (\<lambda>_.
      case find (\<lambda>l. ml_id l = cb_liability_id b \<and> ml_group_id l = cb_group_id b) (xd_liabilities db) of
        None \<Rightarrow> Inl (Contract NoResultFound)
      | Some liability \<Rightarrow>
      if ml_settled_at liability \<noteq> None then Inr db
      else bindE (note_request_id sha attempt request_id db) (\<lambda>db1.
        let used = (if failed then None else usage_of response (ml_provider liability))
        in Inr (refresh_hold (eh_id hold) stamp (record_usage attempt liability failed used stamp db1)))))"

definition record_native_cost :: "exec_db \<Rightarrow> int \<Rightarrow> string \<Rightarrow> int \<Rightarrow> int \<Rightarrow> funding_error + exec_db" where
  "record_native_cost db user hid actual_minor stamp =
     bindE (lift_credit (credit_count actual_minor False)) (\<lambda>_.
     bindE (owned_hold db user hid) (\<lambda>hold.
     bindE (require (\<not> (eh_native_settled_minor hold \<noteq> None \<and> eh_native_settled_minor hold \<noteq> Some actual_minor))
       (Contract (CreditContractError ''Native expense already has a different final amount''))) (\<lambda>_.
     Inr (refresh_hold hid stamp (update_hold hid (\<lambda>h. h\<lparr>eh_native_settled_minor := Some actual_minor\<rparr>) db)))))"

section \<open>The outcome of the delivery\<close>

definition result_usable :: "(execution_attempt \<times> liability) list \<Rightarrow> bool" where
  "result_usable pairs \<longleftrightarrow>
     \<not> list_ex (\<lambda>(a, l). at_state a \<in> {CostStarted, CostUnknown, CostOverrun}) pairs \<and>
     list_ex (\<lambda>(a, l). at_state a \<in> {CostSettled, CostUnavailable}) pairs"

definition cancel_attempt :: "int \<Rightarrow> execution_attempt \<Rightarrow> execution_attempt" where
  "cancel_attempt stamp a = a\<lparr>at_state := CostCancelled, at_finished_at := Some stamp\<rparr>"

definition cancel_liability :: "int \<Rightarrow> liability \<Rightarrow> liability" where
  "cancel_liability stamp l =
     l\<lparr>ml_state := CostSettled, ml_settled_cost := Some 0,
       ml_usage_provenance := Some ''not-dispatched-v1'', ml_settled_at := Some stamp\<rparr>"

definition mark_delivered :: "liability \<Rightarrow> liability" where
  "mark_delivered l = l\<lparr>ml_quote := (ml_quote l)\<lparr>lq_expense_pool := ''delivered''\<rparr>\<rparr>"

definition close_attempt :: "bool \<Rightarrow> int \<Rightarrow> execution_attempt \<times> liability \<Rightarrow> exec_db \<Rightarrow> exec_db" where
  "close_attempt delivered stamp pair db =
     (let (a, l) = pair;
          db1 = (if at_state a = CostPlanned
                 then update_liability (ml_id l) (cancel_liability stamp) (update_attempt (at_id a) (cancel_attempt stamp) db)
                 else db)
      in if delivered then update_liability (ml_id l) mark_delivered db1 else db1)"

definition settle_delivery :: "exec_db \<Rightarrow> int \<Rightarrow> string \<Rightarrow> bool \<Rightarrow> int \<Rightarrow> funding_error + exec_db" where
  "settle_delivery db user hid delivered stamp =
     bindE (owned_hold db user hid) (\<lambda>hold.
     let outcome = (if delivered then DeliveryDone else DeliveryFailed) in
     if eh_delivery_state hold \<noteq> DeliveryPending
     then bindE (require (eh_delivery_state hold = outcome)
            (Contract (CreditContractError ''The delivery already has a different final outcome''))) (\<lambda>_. Inr db)
     else
       let pairs = hold_pairs db hid in
       bindE (require (\<not> (delivered \<and> pairs \<noteq> [] \<and> \<not> result_usable pairs))
         (Contract (CreditContractError ''A delivery cannot be confirmed before a usable provider result''))) (\<lambda>_.
       let db1 = fold (close_attempt delivered stamp) pairs db in
       case row_at r_id (eh_reservation_id hold) (db_reservations (xd_credit db1)) of
         None \<Rightarrow> Inl Fault
       | Some reservation \<Rightarrow>
           bindE (lift_credit (settle_reservation (xd_credit db1) user (r_id reservation)
                    (if delivered then r_reserved_credits reservation else 0) stamp)) (\<lambda>(_, credit).
           Inr (refresh_hold hid stamp
                  (update_hold hid (\<lambda>h. h\<lparr>eh_delivery_state := outcome\<rparr>) (db1\<lparr>xd_credit := credit\<rparr>))))))"

end
