(* ===== verification/Admission.thy ===== *)
theory Admission
  imports Execution Calendar
begin

text \<open>
  \<open>domains/credits/admission.py\<close>: the money already committed by holds and by older work,
  the ceilings in front of new work, and \<open>admit\<close>, which turns an accepted service quote
  into a reservation of credits, a hold of money, its planned attempts and a dispatch
  intent, in one transaction.
\<close>

section \<open>Exposure\<close>

definition budgets_ok :: "budget_policy \<Rightarrow> bool" where
  "budgets_ok b \<longleftrightarrow>
     bp_valid_from b < bp_expires_at b \<and> bp_expires_at b \<le> bp_valid_from b + days 31 \<and>
     \<not> Max (set (bp_daily_global_minor b # bp_monthly_account_minor b # bp_monthly_incident_minor b
               # map snd (bp_monthly_route_minor b))) > bp_monthly_global_minor b"

definition amount_or_0 :: "int option \<Rightarrow> int" where
  "amount_or_0 v = (case v of None \<Rightarrow> 0 | Some n \<Rightarrow> n)"

definition hold_amount :: "execution_hold \<Rightarrow> int" where
  "hold_amount h =
     (if eh_state h = HoldSettled then amount_or_0 (eh_settled_minor h)
      else max (eh_reserved_minor h) (amount_or_0 (eh_settled_minor h)))"

definition free_amount :: "free_hold \<Rightarrow> int" where
  "free_amount f =
     (if fh_settled f then amount_or_0 (fh_settled_minor f)
      else max (fh_reserved_minor f) (amount_or_0 (fh_settled_minor f)))"

text \<open>The filters of one query: from when, and optionally whose, on which route, or incident money.\<close>

record usage_scope =
  us_start :: int
  us_owner :: "int option"
  us_route :: "string option"
  us_incident :: bool

definition fleet_since :: "int \<Rightarrow> usage_scope" where
  "fleet_since start = \<lparr>us_start = start, us_owner = None, us_route = None, us_incident = False\<rparr>"

definition hold_in_scope :: "usage_scope \<Rightarrow> execution_hold \<Rightarrow> bool" where
  "hold_in_scope s h \<longleftrightarrow>
     (eh_state h \<noteq> HoldSettled \<or> eh_created_at h \<ge> us_start s) \<and>
     (us_owner s = None \<or> eh_user_id h = us_owner s) \<and>
     (us_route s = None \<or> Some (eh_route_id h) = us_route s) \<and>
     (us_incident s \<longrightarrow> eh_delivery_state h \<noteq> DeliveryDone \<or> eh_funding_kind h \<noteq> ''prepaid'')"

definition free_in_scope :: "usage_scope \<Rightarrow> free_hold \<Rightarrow> bool" where
  "free_in_scope s f \<longleftrightarrow>
     (\<not> fh_settled f \<or> fh_created_at f \<ge> us_start s) \<and>
     (us_owner s = None \<or> fh_user_id f = us_owner s) \<and>
     (us_route s = None \<or> Some (fh_route_id f) = us_route s)"

definition hold_usage :: "exec_db \<Rightarrow> usage_scope \<Rightarrow> int" where
  "hold_usage db s =
     total (hold_in_scope s) hold_amount (xd_holds db)
     + (if us_incident s then 0 else total (free_in_scope s) free_amount (xd_free db))"

text \<open>\<open>cast(snapshot[k1][k2].as_string(), Integer)\<close>: the server writes integers there.\<close>

fun json_path :: "string list \<Rightarrow> json option \<Rightarrow> int option" where
  "json_path [] (Some (JInt n)) = Some n"
| "json_path (k # ks) (Some d) = json_path ks (json_get k d)"
| "json_path _ _ = None"

definition path_or :: "int \<Rightarrow> string list \<Rightarrow> json option \<Rightarrow> int" where
  "path_or d ks v = (case json_path ks v of None \<Rightarrow> d | Some n \<Rightarrow> n)"

definition is_legacy :: "exec_db \<Rightarrow> int \<Rightarrow> liability \<Rightarrow> bool" where
  "is_legacy db start l \<longleftrightarrow>
     \<not> list_ex (\<lambda>a. at_liability_id a = ml_id l) (xd_attempts db) \<and> (\<not> cost_final l \<or> ml_created_at l \<ge> start)"

definition liability_amount :: "liability \<Rightarrow> int" where
  "liability_amount l =
     (if cost_final l then amount_or_0 (ml_settled_cost l)
      else max (ml_reserved_cost l) (amount_or_0 (ml_settled_cost l)))"

definition service_exposure :: "budget_policy \<Rightarrow> dated_service \<Rightarrow> int" where
  "service_exposure b r =
     (let snapshot = sr_cost_policy_snapshot r;
          search = path_or (bp_legacy_search_cost_minor b) [''policy'', ''search_cost_minor''] snapshot;
          application = path_or (bp_legacy_application_cost_minor b) [''policy'', ''application_cost_minor''] snapshot;
          preparation = path_or (bp_legacy_preparation_minor b) [''policy'', ''service_preparation_cost_minor''] snapshot;
          historical = (if sr_operation r = ''job_search'' then max (search * sr_requested_count r) preparation
                        else application * sr_requested_count r);
          explicit = path_or 0 [''legacy_service_hold_minor''] snapshot + path_or 0 [''failed_service_hold_minor''] snapshot
      in max historical explicit)"

definition legacy_usage :: "exec_db \<Rightarrow> int \<Rightarrow> financial_policy \<Rightarrow> budget_policy \<Rightarrow> string option \<Rightarrow> int" where
  "legacy_usage db start p b excluded =
     (let rows = filter (is_legacy db start) (xd_liabilities db);
          provider = cost_minor p (sum_list (map liability_amount rows))
                     + int (length rows) * bp_legacy_provider_attempt_overhead_minor b
      in provider + total (\<lambda>r. (sr_state r = SvcReserved \<or> sr_created_at r \<ge> start) \<and> Some (sr_id r) \<noteq> excluded)
                      (service_exposure b) (xd_services db))"

section \<open>Headroom\<close>

definition recent_outcomes :: "exec_db \<Rightarrow> string \<Rightarrow> delivery_state list" where
  "recent_outcomes db route_id =
     map eh_delivery_state (take 20 (rev (sort_key (\<lambda>h. (eh_created_at h, eh_id h))
       (filter (\<lambda>h. eh_route_id h = route_id \<and> eh_delivery_state h \<noteq> DeliveryPending) (xd_holds db)))))"

definition route_failing :: "delivery_state list \<Rightarrow> bool" where
  "route_failing outcomes \<longleftrightarrow>
     length outcomes \<ge> 3 \<and> list_all (\<lambda>v. v = DeliveryFailed) (take 3 outcomes) \<or>
     length outcomes = 20 \<and> count_list outcomes DeliveryFailed > 2"

definition fleet_usage :: "exec_db \<Rightarrow> int \<Rightarrow> financial_policy \<Rightarrow> budget_policy \<Rightarrow> int" where
  "fleet_usage db start p b = hold_usage db (fleet_since start) + legacy_usage db start p b None"

definition within_ceiling :: "int \<Rightarrow> int \<Rightarrow> int \<Rightarrow> string \<Rightarrow> funding_error + unit" where
  "within_ceiling used required limit label =
     require (\<not> used + required > limit)
       (FundingUnavailable (''The funded '' @ label @ '' execution budget is exhausted''))"

definition assert_headroom ::
  "exec_db \<Rightarrow> int \<Rightarrow> string \<Rightarrow> int \<Rightarrow> financial_policy \<Rightarrow> budget_policy \<Rightarrow> int \<Rightarrow> string \<Rightarrow> funding_error + unit" where
  "assert_headroom db user route_id required p b now funding_kind =
     bindE (lift_credit (credit_count required False)) (\<lambda>_.
     bindE (require (funding_kind \<in> {''prepaid'', ''promotion'', ''shared''})
       (FundingUnavailable ''An explicit funded pool is required'')) (\<lambda>_.
     bindE (require (bp_valid_from b \<le> now \<and> now < bp_expires_at b)
       (FundingUnavailable ''The execution budget needs a current funding review'')) (\<lambda>_.
     case map_of (bp_monthly_route_minor b) route_id of
       None \<Rightarrow> Inl (FundingUnavailable ''This route has no funded execution budget'')
     | Some route_ceiling \<Rightarrow>
     bindE (require (\<not> list_ex (\<lambda>h. eh_route_id h = route_id \<and> eh_state h = HoldOverrun) (xd_holds db))
       (FundingUnavailable ''This route is paused while its actual expense overrun is reviewed'')) (\<lambda>_.
     bindE (require (\<not> route_failing (recent_outcomes db route_id))
       (FundingUnavailable ''This route is paused for repeated delivery failures'')) (\<lambda>_.
     let day = day_floor now; month = month_floor now; monthly = fleet_since month in
     bindE (within_ceiling (fleet_usage db day p b) required (bp_daily_global_minor b) ''global'') (\<lambda>_.
     bindE (within_ceiling (fleet_usage db month p b) required (bp_monthly_global_minor b) ''global'') (\<lambda>_.
     bindE (within_ceiling (hold_usage db (monthly\<lparr>us_owner := Some user\<rparr>)) required (bp_monthly_account_minor b) ''account'') (\<lambda>_.
     bindE (within_ceiling (hold_usage db (monthly\<lparr>us_route := Some route_id\<rparr>)) required route_ceiling ''route'') (\<lambda>_.
     if funding_kind = ''shared'' then Inr ()
     else within_ceiling (hold_usage db (monthly\<lparr>us_incident := True\<rparr>)) required (bp_monthly_incident_minor b) ''incident'')))))))))"

section \<open>Service quotes\<close>

definition draw :: "string \<Rightarrow> exec_db \<Rightarrow> string \<times> exec_db" where
  "draw prefix db = (let (identity, credit) = public_id (xd_credit db) prefix in (identity, db\<lparr>xd_credit := credit\<rparr>))"

definition quote_expiry :: "qualified_route \<Rightarrow> financial_policy \<Rightarrow> int \<Rightarrow> int" where
  "quote_expiry route policy stamp =
     Min (set ((stamp + PURCHASE_QUOTE_LIFETIME) # qr_qualified_until route # fp_expires_at policy
               # map pq_expires_at (qr_model_quotes route)))"

text \<open>\<open>issue_service_quote\<close> of \<open>service_quotes.py\<close>.\<close>

definition issue_service_quote ::
  "route_env \<Rightarrow> exec_db \<Rightarrow> int \<Rightarrow> string \<Rightarrow> string \<Rightarrow> qualified_route \<Rightarrow> financial_policy \<Rightarrow> bool \<Rightarrow> int
     \<Rightarrow> funding_error + service_quote \<times> exec_db" where
  "issue_service_quote env db user input_fingerprint idempotency_key route policy commercial stamp =
     bindE (lift_credit (credit_key idempotency_key 160)) (\<lambda>_.
     bindE (require (is_sha256_hex input_fingerprint) (invalid ''String should match pattern'')) (\<lambda>_.
     bindE (lift_credit (lock_owner (xd_credit db) user)) (\<lambda>_.
     let fingerprint = en_contract_digest env \<lparr>sk_route = route, sk_policy = policy\<rparr> in
     case find (\<lambda>q. sq_user_id q = user \<and> sq_idempotency_key q = idempotency_key) (xd_quotes db) of
       Some existing \<Rightarrow>
         bindE (require (sq_input_fingerprint existing = input_fingerprint \<and> sq_contract_fingerprint existing = fingerprint)
           (Contract (CreditContractError ''This request already has different input or delivery terms'')))
           (\<lambda>_. Inr (existing, db))
     | None \<Rightarrow>
         bindE (require_route env route policy stamp commercial) (\<lambda>required.
         let (identity, db1) = draw ''csq'' db;
             quote = \<lparr>sq_id = identity, sq_user_id = user, sq_idempotency_key = idempotency_key,
               sq_operation = qr_operation route, sq_input_fingerprint = input_fingerprint,
               sq_contract_fingerprint = fingerprint,
               sq_snapshot = \<lparr>sk_route = route, sk_policy = policy, sn_execution_required_minor = required\<rparr>,
               sq_created_at = stamp, sq_expires_at = quote_expiry route policy stamp,
               sq_accepted_reservation_id = None, sq_accepted_at = None\<rparr>
         in Inr (quote, db1\<lparr>xd_quotes := xd_quotes db1 @ [quote]\<rparr>)))))"

section \<open>Admission\<close>

record work_intent =
  wi_source_id :: string
  wi_inline :: bool
  wi_topic :: "string option"
  wi_payload :: "(string \<times> string) list option"

definition intent_complete :: "work_intent \<Rightarrow> funding_error + unit" where
  "intent_complete w =
     bindE (if wi_inline w
            then require (wi_topic w = None \<and> wi_payload w = None)
                   (Contract (CreditContractError ''Inline execution cannot also enqueue worker intent''))
            else require (wi_topic w \<noteq> None \<and> wi_payload w \<noteq> None)
                   (Contract (CreditContractError ''Worker execution requires its complete dispatch intent''))) (\<lambda>_.
     require (case wi_payload w of None \<Rightarrow> True
              | Some ps \<Rightarrow> \<not> (ps = [] \<or> list_ex (\<lambda>(k, v). v \<noteq> wi_source_id w) ps))
       (Contract (CreditContractError ''Dispatch intent must reference only its owned source'')))"

definition mode_of :: "work_intent \<Rightarrow> execution_mode" where
  "mode_of w = (if wi_inline w then InlineMode else WorkerMode)"

text \<open>A quote that was accepted before: the same operation gets its hold again.\<close>

definition accepted_hold :: "exec_db \<Rightarrow> int \<Rightarrow> string \<Rightarrow> string \<Rightarrow> work_intent \<Rightarrow> funding_error + execution_hold" where
  "accepted_hold db user rid idempotency_key w =
     (case find (\<lambda>h. eh_reservation_id h = rid \<and> eh_user_id h = Some user) (xd_holds db) of
        None \<Rightarrow> Inl (Contract NoResultFound)
      | Some hold \<Rightarrow>
      case row_at r_id rid (db_reservations (xd_credit db)) of
        None \<Rightarrow> Inl Fault
      | Some reservation \<Rightarrow>
          bindE (require (r_source_id reservation = wi_source_id w \<and> r_idempotency_key reservation = idempotency_key \<and>
                          hs_execution_mode (eh_snapshot hold) = mode_of w)
            (Contract (CreditContractError ''The quote already belongs to another operation''))) (\<lambda>_. Inr hold))"

definition funding_kinds :: "credit_db \<Rightarrow> string \<Rightarrow> string list" where
  "funding_kinds db rid =
     map g_funding_kind (filter (\<lambda>g. list_ex (\<lambda>a. al_grant_id a = g_id g \<and> al_reservation_id a = rid) (db_allocations db))
       (db_grants db))"

definition funding_of :: "credit_db \<Rightarrow> string \<Rightarrow> string" where
  "funding_of db rid = (if set (funding_kinds db rid) = {''paid''} then ''prepaid'' else ''promotion'')"

definition liability_terms :: "price_quote \<Rightarrow> string \<Rightarrow> string \<Rightarrow> liability_quote" where
  "liability_terms q funding version =
     price_quote.extend q (liability_quote.fields funding ''failed_work'' version)"

text \<open>One round of the loop over the route's model quotes: the liability and its planned attempt.\<close>

definition plan_attempt ::
  "(string \<Rightarrow> string) \<Rightarrow> string \<Rightarrow> string \<Rightarrow> string \<Rightarrow> string \<Rightarrow> int \<Rightarrow> nat \<times> price_quote \<Rightarrow> exec_db \<Rightarrow> exec_db" where
  "plan_attempt sha hid gid funding version stamp m db =
     (let (ordinal, q) = m;
          (lid, db1) = draw ''mcl'' db;
          row = \<lparr>ml_id = lid, ml_group_id = gid, ml_attempt_number = ordinal, ml_provider = pq_provider q,
            ml_model = pq_model q, ml_endpoint_key = sha (pq_api_base q), ml_quote = liability_terms q funding version,
            ml_input_token_estimate = pq_max_input_tokens q,
            ml_reserved_cost = quoted_cost q (pq_max_input_tokens q) (pq_max_output_tokens q),
            ml_settled_cost = None, ml_input_tokens = None, ml_output_tokens = None, ml_usage_provenance = None,
            ml_state = CostPlanned, ml_created_at = stamp, ml_settled_at = None\<rparr>;
          (aid, db2) = draw ''cea'' (db1\<lparr>xd_liabilities := xd_liabilities db1 @ [row]\<rparr>)
      in db2\<lparr>xd_attempts := xd_attempts db2 @
           [\<lparr>at_id = aid, at_hold_id = hid, at_liability_id = lid, at_ordinal = ordinal, at_state = CostPlanned,
             at_claim_key = None, at_request_hash = None, at_started_at = None, at_finished_at = None\<rparr>]\<rparr>)"

definition hold_row ::
  "string \<Rightarrow> int \<Rightarrow> string \<Rightarrow> string \<Rightarrow> string \<Rightarrow> int \<Rightarrow> qualified_route \<Rightarrow> hold_snapshot \<Rightarrow> int \<Rightarrow> execution_hold" where
  "hold_row hid user rid gid funding required route snapshot stamp =
     \<lparr>eh_id = hid, eh_user_id = Some user, eh_reservation_id = rid, eh_group_id = gid, eh_route_id = qr_id route,
      eh_funding_kind = funding, eh_reserved_minor = required,
      eh_native_reserved_minor = qr_native_processing_minor route + qr_worker_processing_minor route,
      eh_settled_minor = None, eh_native_settled_minor = None, eh_state = HoldReserved,
      eh_delivery_state = DeliveryPending, eh_snapshot = snapshot, eh_created_at = stamp, eh_settled_at = None\<rparr>"

definition open_hold ::
  "(string \<Rightarrow> string) \<Rightarrow> int \<Rightarrow> string \<Rightarrow> qualified_route \<Rightarrow> hold_snapshot \<Rightarrow> int \<Rightarrow> int \<Rightarrow> exec_db
     \<Rightarrow> funding_error + execution_hold \<times> exec_db" where
  "open_hold sha user rid route snapshot required stamp db =
     (let funding = funding_of (xd_credit db) rid;
          (gid, db1) = draw ''fin'' db;
          (hid, db2) = draw ''ceh'' db1;
          hold = hold_row hid user rid gid funding required route snapshot stamp
      in bindE (require (\<not> list_ex (\<lambda>h. eh_reservation_id h = rid) (xd_holds db2)) Fault) (\<lambda>_.
         Inr (hold, fold (plan_attempt sha hid gid funding (fp_version (sk_policy snapshot)) stamp)
                     (zip [1..<Suc (length (qr_model_quotes route))] (qr_model_quotes route))
                     (db2\<lparr>xd_holds := xd_holds db2 @ [hold]\<rparr>))))"

definition accept_quote :: "string \<Rightarrow> string \<Rightarrow> int \<Rightarrow> exec_db \<Rightarrow> exec_db" where
  "accept_quote qid rid stamp db =
     db\<lparr>xd_quotes := update_by sq_id qid
           (\<lambda>q. q\<lparr>sq_accepted_reservation_id := Some rid, sq_accepted_at := Some stamp\<rparr>) (xd_quotes db)\<rparr>"

definition dispatch_intent :: "work_intent \<Rightarrow> string \<Rightarrow> int \<Rightarrow> exec_db \<Rightarrow> funding_error + exec_db" where
  "dispatch_intent w rid clock db =
     (if wi_inline w then Inr db
      else case (wi_topic w, wi_payload w) of
        (Some topic, Some payload) \<Rightarrow>
          let credit = xd_credit db;
              new_id = db_supply credit (db_drawn credit);
              db1 = db\<lparr>xd_credit := credit\<lparr>db_drawn := Suc (db_drawn credit)\<rparr>\<rparr>
          in (case enqueue (xd_outbox db1) new_id topic (wi_source_id w) (map (\<lambda>(k, v). (k, JStr v)) payload)
                     (''unified:'' @ rid) clock of
                Inl _ \<Rightarrow> Inl (invalid ''Invalid dispatch intent'')
              | Inr (event, rows) \<Rightarrow> Inr (db1\<lparr>xd_outbox := rows\<rparr>))
      | _ \<Rightarrow> Inl Fault)"

definition quote_terms :: "string \<Rightarrow> qualified_route \<Rightarrow> json" where
  "quote_terms qid route =
     JObj [(''credits'', JInt (qr_credits route)), (''route_version'', JStr (qr_version route)),
           (''service_quote_id'', JStr qid), (''tariff_version'', JStr (qr_tariff_version route))]"

text \<open>
  A new operation. \<open>proofs\<close> is what the rollout branch answers (the canary's and the
  public admission's documents, or its refusal).
\<close>

definition book_work ::
  "(string \<Rightarrow> string) \<Rightarrow> exec_db \<Rightarrow> int \<Rightarrow> service_quote \<Rightarrow> string \<Rightarrow> work_intent \<Rightarrow> qualified_route \<Rightarrow> financial_policy
     \<Rightarrow> budget_policy \<Rightarrow> int \<Rightarrow> json option \<times> json option \<Rightarrow> int \<Rightarrow> int \<Rightarrow> funding_error + execution_hold \<times> exec_db" where
  "book_work sha db user quote idempotency_key w route policy budgets required proofs stamp clock =
     bindE (lift_credit (reserve_credits (xd_credit db) user (qr_operation route) (wi_source_id w) idempotency_key
              (qr_credits route) (sq_input_fingerprint quote) (quote_terms (sq_id quote) route) required stamp)) (\<lambda>(reservation, credit).
     bindE (open_hold sha user (r_id reservation) route
              \<lparr>sk_route = route, sk_policy = policy, hs_budgets = budgets, hs_execution_mode = mode_of w,
               hs_canary = fst proofs, hs_public_admission = snd proofs\<rparr> required stamp
              (db\<lparr>xd_credit := credit\<rparr>)) (\<lambda>(hold, db1).
     bindE (dispatch_intent w (r_id reservation) clock (accept_quote (sq_id quote) (r_id reservation) stamp db1)) (\<lambda>db2.
     Inr (hold, db2))))"

definition admit ::
  "route_env \<Rightarrow> (string \<Rightarrow> string) \<Rightarrow> exec_db \<Rightarrow> int \<Rightarrow> string \<Rightarrow> string \<Rightarrow> string \<Rightarrow> work_intent \<Rightarrow> qualified_route
     \<Rightarrow> financial_policy \<Rightarrow> budget_policy \<Rightarrow> bool \<Rightarrow> funding_error + json option \<times> json option \<Rightarrow> int \<Rightarrow> int
     \<Rightarrow> funding_error + execution_hold \<times> exec_db" where
  "admit env sha db user quote_id input_fingerprint idempotency_key w route policy budgets commercial proofs stamp clock =
     bindE (intent_complete w) (\<lambda>_.
     bindE (lift_credit (lock_owner (xd_credit db) user)) (\<lambda>_.
     case find (\<lambda>q. sq_id q = quote_id \<and> sq_user_id q = user) (xd_quotes db) of
       None \<Rightarrow> Inl (Contract (CreditContractError ''The service quote does not match these inputs''))
     | Some quote \<Rightarrow>
     bindE (require (sq_input_fingerprint quote = input_fingerprint)
       (Contract (CreditContractError ''The service quote does not match these inputs''))) (\<lambda>_.
     case sq_accepted_reservation_id quote of
       Some rid \<Rightarrow> bindE (accepted_hold db user rid idempotency_key w) (\<lambda>hold. Inr (hold, db))
     | None \<Rightarrow>
     bindE (require (sq_created_at quote \<le> stamp \<and> stamp < sq_expires_at quote)
       (Contract (CreditContractError ''The service quote expired; review a new quote''))) (\<lambda>_.
     bindE (require (\<not> (sk_route (sq_snapshot quote) \<noteq> route \<or> sk_policy (sq_snapshot quote) \<noteq> policy))
       (Contract (CreditContractError ''The qualified route or financial policy changed; review a new quote''))) (\<lambda>_.
     bindE (require_route env route policy stamp commercial) (\<lambda>required.
     bindE (require (required = sn_execution_required_minor (sq_snapshot quote))
       (Contract (CreditContractError ''The execution envelope needs reconciliation''))) (\<lambda>_.
     bindE proofs (\<lambda>answers.
     bindE (assert_headroom db user (qr_id route) required policy budgets stamp ''prepaid'') (\<lambda>_.
     book_work sha db user quote idempotency_key w route policy budgets required answers stamp clock)))))))))"

end
