(* ===== verification/Credit_Supply.thy ===== *)
theory Credit_Supply
  imports Credit_Invariants
begin

text \<open>
  The ledger's operations draw identifiers from one supply: they never change it and never
  go back in it, and they never delete a reservation. Another table whose keys come from the
  same supply keeps its freshness, and a row that refers to a reservation keeps its target.
\<close>

definition supply_le :: "credit_db \<Rightarrow> credit_db \<Rightarrow> bool" where
  "supply_le a b \<longleftrightarrow> db_supply b = db_supply a \<and> db_drawn a \<le> db_drawn b \<and>
     r_id ` set (db_reservations a) \<subseteq> r_id ` set (db_reservations b)"

lemma supply_le_refl [simp, intro]: "supply_le a a"
  by (simp add: supply_le_def)

lemma supply_le_trans [trans]: "supply_le a b \<Longrightarrow> supply_le b c \<Longrightarrow> supply_le a c"
  by (auto simp: supply_le_def)

lemma supply_lock: "lock_account db u = Inr db' \<Longrightarrow> supply_le db db'"
  by (auto simp: lock_account_def supply_le_def result_simps split: option.splits)

lemma supply_event: "supply_le db (credit_event_row db u k t n s i st ot oi d)"
  by (simp add: supply_le_def credit_event_row_def public_id_def Let_def)

lemma supply_expire_one: "supply_le db (expire_one u t g db)"
  by (auto simp: expire_one_def Let_def supply_le_def credit_event_row_def public_id_def)

lemma supply_fold: "(\<And>x d. supply_le d (f x d)) \<Longrightarrow> supply_le db (fold f xs db)"
  by (induction xs arbitrary: db) (auto intro: supply_le_trans)

lemma supply_expire: "supply_le db (expire db u t)"
  unfolding expire_def by (intro supply_fold supply_expire_one)

lemma supply_grant_row: "grant_row db u q st si fk ts ex t ot oi p = Inr (g, db') \<Longrightarrow> supply_le db db'"
  by (auto simp: grant_row_def issue_grant_def Let_def supply_le_def credit_event_row_def public_id_def add_debt_def
      result_simps split: list.splits option.splits if_splits)

lemma supply_allocate: "supply_le db (snd (allocate_lots rid i n lots db))"
proof (induction rid i n lots db rule: allocate_lots.induct)
  case (2 rid i n g lots db)
  have "supply_le db (allocate_lot rid i (min n (g_remaining_credits g)) g db)"
    by (simp add: supply_le_def allocate_lot_def public_id_def Let_def)
  with 2 show ?case by (auto simp: Let_def intro: supply_le_trans)
qed simp

lemma supply_settle_allocations:
  "settle_allocations u t as s = Inr s' \<Longrightarrow> supply_le (snd s) (snd s')"
proof (induction as arbitrary: s)
  case (Cons a as)
  obtain s1 where one: "settle_allocation u t a s = Inr s1" and more: "settle_allocations u t as s1 = Inr s'"
    using Cons.prems by (auto simp: result_simps)
  have "supply_le (snd s) (snd s1)"
    using one by (auto simp: settle_allocation_def Let_def result_simps mark_allocation_def supply_le_def
        split: prod.splits option.splits if_splits dest!: supply_grant_row) blast
  with Cons.IH [OF more] show ?case by (rule supply_le_trans [rotated])
qed simp

lemma supply_revoke_lots: "supply_le db (snd (revoke_lots n lots db))"
proof (induction n lots db rule: revoke_lots.induct)
  case (2 n g lots db)
  then show ?case by (auto simp: Let_def revoke_lot_def supply_le_def)
qed simp

lemma supply_event_after: "supply_le a b \<Longrightarrow> supply_le a (credit_event_row b u k t n s i st ot oi d)"
  by (rule supply_le_trans [OF _ supply_event])

lemma supply_locked_expire: "lock_account db u = Inr db1 \<Longrightarrow> supply_le db (expire db1 u t)"
  by (rule supply_le_trans [OF supply_lock supply_expire])

lemma supply_grant:
  assumes "grant_credits db u q st si fk ts ex t = Inr (g, db')" shows "supply_le db db'"
  using assms
  by (auto simp: grant_credits_def result_simps Let_def intro: supply_le_trans [OF supply_locked_expire supply_grant_row])

lemma supply_fulfil:
  assumes "fulfill_purchase_quote db u qid oid c t = Inr (g, db')" shows "supply_le db db'"
  using assms
  by (auto simp: fulfill_purchase_quote_def result_simps Let_def split: option.splits
      intro: supply_le_trans [OF supply_locked_expire supply_grant_row])

lemma supply_book:
  assumes "book_reservation db u op s k c fp q al t = Inr (row, db')" shows "supply_le db db'"
  using assms
proof (rule book_reservation_Inr)
  fix db1 db2
  assume "db1 = db\<lparr>db_drawn := Suc (db_drawn db), db_reservations := db_reservations db @ [row]\<rparr>"
    and loop: "allocate_lots (r_id row) 0 c (usable_lots db1 u t) db1 = (0, db2)"
    and last: "db' = credit_event_row db2 u (''reserve:'' @ r_id row) ''reserve'' (- c)
           ''credit_reservation'' (r_id row) t None None Map.empty"
  then have "supply_le db db1" by (auto simp: supply_le_def)
  moreover have "supply_le db1 db2"
    using supply_allocate [of db1 "r_id row" 0 c "usable_lots db1 u t"] loop by simp
  ultimately show ?thesis unfolding last by (blast intro: supply_event_after supply_le_trans)
qed

lemma supply_reserve:
  assumes "reserve_credits db u op s k c fp q al t = Inr (row, db')" shows "supply_le db db'"
  using assms
  by (rule reserve_credits_Inr)
     (auto dest: supply_lock intro: supply_le_trans [OF supply_locked_expire supply_book])

lemma book_present:
  assumes "book_reservation db u op s k c fp q al t = Inr (row, db')" shows "r_id row \<in> r_id ` set (db_reservations db')"
  using assms
proof (rule book_reservation_Inr)
  fix db1 db2
  assume db1: "db1 = db\<lparr>db_drawn := Suc (db_drawn db), db_reservations := db_reservations db @ [row]\<rparr>"
    and loop: "allocate_lots (r_id row) 0 c (usable_lots db1 u t) db1 = (0, db2)"
    and last: "db' = credit_event_row db2 u (''reserve:'' @ r_id row) ''reserve'' (- c)
           ''credit_reservation'' (r_id row) t None None Map.empty"
  have "supply_le db1 db'"
    using supply_allocate [of db1 "r_id row" 0 c "usable_lots db1 u t"] loop unfolding last by (auto intro: supply_event_after)
  moreover have "r_id row \<in> r_id ` set (db_reservations db1)" by (simp add: db1)
  ultimately show ?thesis by (auto simp: supply_le_def)
qed

lemma reserve_present:
  assumes "reserve_credits db u op s k c fp q al t = Inr (row, db')" shows "r_id row \<in> r_id ` set (db_reservations db')"
  using assms
proof (rule reserve_credits_Inr)
  fix db1
  assume "prior_reservations db1 u k op s = [row] \<and> db' = db1 \<and> same_terms row op s c fp q al \<or>
      prior_reservations db1 u k op s = [] \<and> c \<le> balance (expire db1 u t) u \<and>
      book_reservation (expire db1 u t) u op s k c fp q al t = Inr (row, db')"
  moreover have "row \<in> set (db_reservations db1)" if "prior_reservations db1 u k op s = [row]"
    using arg_cong [OF that, of set] by (auto simp: prior_reservations_def)
  ultimately show ?thesis by (auto dest: book_present)
qed

lemma supply_close:
  assumes "close_reservation db u row n t = Inr (r, db')" shows "supply_le db db'"
  using assms
proof (rule close_reservation_Inr)
  fix left db2 details
  assume loop: "settle_allocations u t (reservation_allocations (expire db u t) (r_id row)) (n, expire db u t) = Inr (left, db2)"
    and last: "db' = credit_event_row (db2\<lparr>db_reservations := update_by r_id (r_id row)
             (finish_reservation n (r_reserved_credits row - n) t) (db_reservations db2)\<rparr>)
           u (''settle:'' @ r_id row) ''settle'' 0 ''credit_reservation'' (r_id row) t None None details"
  have "supply_le db db2"
    using supply_le_trans [OF supply_expire] supply_settle_allocations [OF loop] by simp
  moreover have "r_id ` set (update_by r_id k (finish_reservation i j t) rs) = r_id ` set rs" for k i j rs
    by (rule image_update_by) (simp add: finish_reservation_def)
  ultimately have "supply_le db (db2\<lparr>db_reservations := update_by r_id (r_id row)
             (finish_reservation n (r_reserved_credits row - n) t) (db_reservations db2)\<rparr>)"
    by (simp add: supply_le_def)
  then show ?thesis unfolding last by (rule supply_event_after)
qed

lemma supply_settle:
  assumes "settle_reservation db u rid n t = Inr (row, db')" shows "supply_le db db'"
  using assms
  by (rule settle_reservation_Inr) (auto dest: supply_lock intro: supply_le_trans [OF supply_lock supply_close])

lemma supply_apply_revocation: "supply_le db (apply_revocation db u ot oi gs ps root n d t)"
proof -
  have "supply_le db (add_debt (snd (revoke_lots d gs db)) u m)" for m
    using supply_revoke_lots [of db d gs] by (auto simp: supply_le_def add_debt_def)
  then show ?thesis by (auto simp: apply_revocation_def Let_def intro: supply_event_after split: prod.splits)
qed

lemma supply_revoke:
  assumes "revoke_origin db u ot oi n t = Inr (d, db')" shows "supply_le db db'"
  using assms
  by (rule revoke_origin_Inr)
     (auto intro: supply_locked_expire supply_le_trans [OF supply_locked_expire supply_apply_revocation])

lemma supply_expire_credits: "expire_credits db u t = Inr db' \<Longrightarrow> supply_le db db'"
  by (auto simp: expire_credits_def result_simps intro: supply_locked_expire)

lemma credit_step_supply: "credit_step db db' \<Longrightarrow> supply_le db db'"
  by (induction rule: credit_step.induct)
     (blast intro: supply_expire_credits supply_grant supply_fulfil supply_reserve supply_settle supply_revoke)+

lemma fresh_rows_supply:
  "supply_le a b \<Longrightarrow> fresh_rows key p (db_supply a) (db_drawn a) rows \<Longrightarrow> fresh_rows key p (db_supply b) (db_drawn b) rows"
  by (auto simp: supply_le_def fresh_rows_def)

end
