(* ===== verification/Execution_Safety.thy ===== *)
theory Execution_Safety
  imports Admission Credit_Supply
begin

text \<open>
  What every operation on a funded execution keeps: an attempt and its liability agree
  about the outcome, a hold has at most one attempt without an outcome, its money is the
  sum over its attempts, and all of it was reserved before.
\<close>

section \<open>The join under updates\<close>

definition pairs_of :: "liability list \<Rightarrow> execution_attempt list \<Rightarrow> (execution_attempt \<times> liability) list" where
  "pairs_of ls as = List.map_filter (\<lambda>a. map_option (Pair a) (row_at ml_id (at_liability_id a) ls)) as"

lemma pairs_of_Nil [simp]: "pairs_of ls [] = []"
  by (simp add: pairs_of_def List.map_filter_simps)

lemma pairs_of_Cons [simp]:
  "pairs_of ls (a # as) = (case row_at ml_id (at_liability_id a) ls of None \<Rightarrow> pairs_of ls as | Some l \<Rightarrow> (a, l) # pairs_of ls as)"
  by (simp add: pairs_of_def List.map_filter_simps split: option.split)

lemma pairs_of_append [simp]: "pairs_of ls (as @ bs) = pairs_of ls as @ pairs_of ls bs"
  by (induction as) (auto split: option.split)

lemma hold_pairs_eq: "hold_pairs db hid = pairs_of (xd_liabilities db) (filter (\<lambda>a. at_hold_id a = hid) (xd_attempts db))"
  by (simp add: hold_pairs_def pairs_of_def)

lemma pairs_of_mem: "(a, l) \<in> set (pairs_of ls as) \<Longrightarrow> a \<in> set as \<and> l \<in> set ls \<and> ml_id l = at_liability_id a"
  by (induction as) (auto split: option.splits dest: row_at_SomeD)

lemma map_fst_pairs_of:
  "(\<And>a. a \<in> set as \<Longrightarrow> at_liability_id a \<in> ml_id ` set ls) \<Longrightarrow> map fst (pairs_of ls as) = as"
proof (induction as)
  case (Cons a as)
  moreover have "row_at ml_id (at_liability_id a) ls \<noteq> None" using Cons.prems [of a] by (simp add: row_at_None)
  ultimately show ?case by (auto split: option.splits)
qed simp

text \<open>The two updates that an operation makes on one attempt and its liability.\<close>

definition both :: "string \<Rightarrow> (execution_attempt \<Rightarrow> execution_attempt) \<Rightarrow> (liability \<Rightarrow> liability)
    \<Rightarrow> execution_attempt \<times> liability \<Rightarrow> execution_attempt \<times> liability" where
  "both aid f g p = (if at_id (fst p) = aid then (f (fst p), g (snd p)) else p)"

definition touch :: "execution_attempt \<Rightarrow> (execution_attempt \<Rightarrow> execution_attempt) \<Rightarrow> (liability \<Rightarrow> liability) \<Rightarrow> exec_db \<Rightarrow> exec_db" where
  "touch a f g db = update_liability (at_liability_id a) g (update_attempt (at_id a) f db)"

definition keeps_keys :: "(execution_attempt \<Rightarrow> execution_attempt) \<Rightarrow> (liability \<Rightarrow> liability) \<Rightarrow> bool" where
  "keeps_keys f g \<longleftrightarrow>
     (\<forall>a. at_id (f a) = at_id a \<and> at_hold_id (f a) = at_hold_id a \<and> at_liability_id (f a) = at_liability_id a \<and>
          at_ordinal (f a) = at_ordinal a) \<and>
     (\<forall>l. ml_id (g l) = ml_id l \<and> ml_reserved_cost (g l) = ml_reserved_cost l \<and> ml_group_id (g l) = ml_group_id l)"

lemma pairs_of_touch:
  assumes "keeps_keys f g" and "\<forall>a \<in> set as. (at_id a = at_id a0) = (at_liability_id a = at_liability_id a0)"
  shows "pairs_of (update_by ml_id (at_liability_id a0) g ls) (update_by at_id (at_id a0) f as)
    = map (both (at_id a0) f g) (pairs_of ls as)"
  using assms
proof (induction as)
  case (Cons a as)
  have "row_at ml_id k (update_by ml_id (at_liability_id a0) g ls) =
      map_option (\<lambda>l. if k = at_liability_id a0 then g l else l) (row_at ml_id k ls)" for k
    using Cons.prems(1) by (induction ls) (auto simp: keeps_keys_def)
  with Cons show ?case by (auto simp: keeps_keys_def both_def split: option.split)
qed simp

lemma distinct_key_iff:
  "distinct (map k as) \<Longrightarrow> a \<in> set as \<Longrightarrow> b \<in> set as \<Longrightarrow> (k a = k b) = (a = b)"
  by (auto simp: distinct_map inj_on_def)

lemma touch_frame [simp]:
  "xd_attempts (touch a f g db) = update_by at_id (at_id a) f (xd_attempts db)"
  "xd_liabilities (touch a f g db) = update_by ml_id (at_liability_id a) g (xd_liabilities db)"
  "xd_holds (touch a f g db) = xd_holds db" "xd_credit (touch a f g db) = xd_credit db"
  by (simp_all add: touch_def update_row_defs)

lemma hold_pairs_touch:
  assumes "keeps_keys f g" and "distinct (map at_id (xd_attempts db))" and "distinct (map at_liability_id (xd_attempts db))"
    and "a0 \<in> set (xd_attempts db)"
  shows "hold_pairs (touch a0 f g db) hid = map (both (at_id a0) f g) (hold_pairs db hid)"
proof -
  have "\<forall>a \<in> set (filter (\<lambda>a. at_hold_id a = hid) (xd_attempts db)). (at_id a = at_id a0) = (at_liability_id a = at_liability_id a0)"
    using assms(2-4) by (simp add: distinct_key_iff)
  moreover have "filter (\<lambda>a. at_hold_id a = hid) (update_by at_id k f as) = update_by at_id k f (filter (\<lambda>a. at_hold_id a = hid) as)" for k as
    using assms(1) by (induction as) (auto simp: keeps_keys_def)
  ultimately show ?thesis
    unfolding hold_pairs_eq touch_frame by (metis pairs_of_touch [OF assms(1)])
qed

section \<open>Sound pairs\<close>

definition coupled :: "execution_attempt \<Rightarrow> liability \<Rightarrow> bool" where
  "coupled a l \<longleftrightarrow>
     (case at_state a of
        CostPlanned \<Rightarrow> ml_state l = CostPlanned \<and> at_claim_key a = None
      | CostStarted \<Rightarrow> ml_state l = CostReserved \<and> at_claim_key a \<noteq> None
      | CostReserved \<Rightarrow> False
      | CostCancelled \<Rightarrow> ml_state l = CostSettled \<and> at_claim_key a = None
      | s \<Rightarrow> ml_state l = s \<and> at_claim_key a \<noteq> None) \<and>
     (cost_final l \<longleftrightarrow> ml_settled_at l \<noteq> None) \<and> (cost_final l \<longleftrightarrow> ml_settled_cost l \<noteq> None) \<and>
     0 \<le> pq_input_rate (ml_quote l) \<and> 0 \<le> pq_output_rate (ml_quote l) \<and>
     0 \<le> ml_reserved_cost l \<and> 0 \<le> amount_or_0 (ml_settled_cost l) \<and>
     (ml_state l = CostSettled \<longrightarrow> amount_or_0 (ml_settled_cost l) \<le> ml_reserved_cost l) \<and>
     (ml_state l = CostOverrun \<longrightarrow>
        exceeds_quote l (amount_or_0 (ml_settled_cost l)) (amount_or_0 (ml_input_tokens l)) (amount_or_0 (ml_output_tokens l)))"

definition blocked :: "execution_attempt \<times> liability \<Rightarrow> bool" where
  "blocked p \<longleftrightarrow> outcome_blocks (at_state (fst p))"

definition claimed_first :: "(execution_attempt \<times> liability) list \<Rightarrow> bool" where
  "claimed_first ps \<longleftrightarrow>
     (\<forall>p \<in> set ps. \<forall>q \<in> set ps. at_claim_key (fst p) \<noteq> None \<and> at_claim_key (fst q) = None \<longrightarrow> at_ordinal (fst p) < at_ordinal (fst q))"

definition reserved_total :: "execution_hold \<Rightarrow> (execution_attempt \<times> liability) list \<Rightarrow> int" where
  "reserved_total h ps =
     eh_native_reserved_minor h + sum_list (map (\<lambda>p. cost_minor (sk_policy (eh_snapshot h)) (ml_reserved_cost (snd p))) ps)"

text \<open>What does not change with the hold's own state, and what \<open>refresh_hold\<close> computes.\<close>

definition hold_core :: "execution_hold \<Rightarrow> (execution_attempt \<times> liability) list \<Rightarrow> bool" where
  "hold_core h ps \<longleftrightarrow>
     policy_ok (sk_policy (eh_snapshot h)) \<and> 0 \<le> eh_native_reserved_minor h \<and> 0 \<le> native_total h \<and>
     reserved_total h ps \<le> eh_reserved_minor h \<and>
     eh_reserved_minor h \<le> qr_credits (sk_route (eh_snapshot h)) * EXECUTION_MINOR_PER_CREDIT \<and>
     (\<forall>p \<in> set ps. coupled (fst p) (snd p)) \<and>
     length (filter blocked ps) \<le> 1 \<and>
     distinct (map (at_ordinal \<circ> fst) ps) \<and> claimed_first ps \<and>
     (eh_delivery_state h = DeliveryPending \<longrightarrow> (\<forall>p \<in> set ps. at_state (fst p) \<noteq> CostCancelled))"

definition hold_money :: "execution_hold \<Rightarrow> (execution_attempt \<times> liability) list \<Rightarrow> bool" where
  "hold_money h ps \<longleftrightarrow>
     (case eh_settled_minor h of
        None \<Rightarrow> eh_native_settled_minor h = None \<and> (\<forall>p \<in> set ps. \<not> cost_final (snd p))
      | Some n \<Rightarrow> n = hold_total h ps) \<and>
     (eh_state h = HoldSettled \<longrightarrow> eh_settled_minor h \<noteq> None \<and> \<not> hold_unresolved h ps \<and> eh_delivery_state h \<noteq> DeliveryPending) \<and>
     (eh_state h = HoldOverrun \<longleftrightarrow> hold_overrun h ps)"

definition hold_sound :: "execution_hold \<Rightarrow> (execution_attempt \<times> liability) list \<Rightarrow> bool" where
  "hold_sound h ps \<longleftrightarrow> hold_core h ps \<and> hold_money h ps"

lemma coupled_used:
  assumes "coupled a l" and "at_state a \<noteq> CostOverrun" shows "used_cost l \<le> ml_reserved_cost l"
  using assms
  by (auto simp: coupled_def used_cost_def cost_final_def amount_or_0_def Let_def split: cost_state.splits option.splits)

lemma coupled_used_nonneg: "coupled a l \<Longrightarrow> 0 \<le> used_cost l"
  by (auto simp: coupled_def used_cost_def amount_or_0_def Let_def split: option.splits)

lemma coupled_observed:
  assumes "coupled a l" shows "amount_or_0 (ml_settled_cost l) \<le> used_cost l"
  using assms by (auto simp: coupled_def used_cost_def amount_or_0_def Let_def split: option.splits)

lemma hold_total_bound:
  assumes "hold_core h ps" and "\<not> hold_overrun h ps"
  shows "hold_total h ps \<le> reserved_total h ps"
proof -
  have "(\<lambda>(a, l). cost_minor (sk_policy (eh_snapshot h)) (used_cost l)) p
      \<le> cost_minor (sk_policy (eh_snapshot h)) (ml_reserved_cost (snd p))" if "p \<in> set ps" for p
  proof -
    have "at_state (fst p) \<noteq> CostOverrun"
      using assms(2) that by (auto simp: hold_overrun_def list_ex_iff)
    with assms(1) that show ?thesis
      by (auto simp: hold_core_def case_prod_beta intro!: cost_minor_mono coupled_used)
  qed
  then have "sum_list (map (\<lambda>(a, l). cost_minor (sk_policy (eh_snapshot h)) (used_cost l)) ps)
      \<le> sum_list (map (\<lambda>p. cost_minor (sk_policy (eh_snapshot h)) (ml_reserved_cost (snd p))) ps)"
    by (rule sum_list_mono)
  moreover have "native_total h \<le> eh_native_reserved_minor h"
    using assms(2) by (simp add: hold_overrun_def)
  ultimately show ?thesis by (simp add: hold_total_def reserved_total_def)
qed

lemma refreshed_frame [simp]:
  "eh_id (refreshed ps t h) = eh_id h" "eh_user_id (refreshed ps t h) = eh_user_id h"
  "eh_group_id (refreshed ps t h) = eh_group_id h" "eh_snapshot (refreshed ps t h) = eh_snapshot h"
  "eh_reservation_id (refreshed ps t h) = eh_reservation_id h" "eh_route_id (refreshed ps t h) = eh_route_id h"
  "eh_reserved_minor (refreshed ps t h) = eh_reserved_minor h"
  "eh_native_reserved_minor (refreshed ps t h) = eh_native_reserved_minor h"
  "eh_native_settled_minor (refreshed ps t h) = eh_native_settled_minor h"
  "eh_delivery_state (refreshed ps t h) = eh_delivery_state h"
  "eh_created_at (refreshed ps t h) = eh_created_at h" "eh_funding_kind (refreshed ps t h) = eh_funding_kind h"
  "eh_settled_minor (refreshed ps t h) = Some (hold_total h ps)"
  by (simp_all add: refreshed_def Let_def)

lemma hold_cong:
  assumes "eh_snapshot h' = eh_snapshot h" and "eh_native_reserved_minor h' = eh_native_reserved_minor h"
    and "eh_native_settled_minor h' = eh_native_settled_minor h"
  shows "native_total h' = native_total h" and "hold_total h' = hold_total h"
    and "hold_unresolved h' = hold_unresolved h" and "hold_overrun h' = hold_overrun h"
    and "reserved_total h' = reserved_total h"
  using assms
  by (simp_all add: fun_eq_iff native_total_def hold_total_def hold_unresolved_def hold_overrun_def reserved_total_def
      split: option.split)

lemma hold_core_cong:
  assumes "eh_snapshot h' = eh_snapshot h" and "eh_native_reserved_minor h' = eh_native_reserved_minor h"
    and "eh_native_settled_minor h' = eh_native_settled_minor h" and "eh_reserved_minor h' = eh_reserved_minor h"
    and "eh_delivery_state h' = eh_delivery_state h"
  shows "hold_core h' ps = hold_core h ps"
  using hold_cong [OF assms(1-3)] assms by (simp add: hold_core_def)

lemma hold_sound_cong:
  assumes "eh_snapshot h' = eh_snapshot h" and "eh_native_reserved_minor h' = eh_native_reserved_minor h"
    and "eh_native_settled_minor h' = eh_native_settled_minor h" and "eh_reserved_minor h' = eh_reserved_minor h"
    and "eh_delivery_state h' = eh_delivery_state h" and "eh_settled_minor h' = eh_settled_minor h" and "eh_state h' = eh_state h"
  shows "hold_sound h' ps = hold_sound h ps"
  unfolding hold_sound_def hold_money_def hold_core_cong [OF assms(1-5)] hold_cong [OF assms(1-3)] assms ..

lemma refreshed_sound:
  assumes "hold_core h ps" and "eh_state h = HoldOverrun \<Longrightarrow> hold_overrun h ps"
    and "eh_state h = HoldSettled \<Longrightarrow> eh_delivery_state h \<noteq> DeliveryPending"
  shows "hold_sound (refreshed ps t h) ps"
proof -
  have core: "hold_core (refreshed ps t h) ps"
    using assms(1) hold_core_cong [of "refreshed ps t h" h ps] by simp
  have "hold_overrun h ps \<or> hold_total h ps > eh_reserved_minor h \<longleftrightarrow> hold_overrun h ps"
  proof (cases "hold_overrun h ps")
    case False
    then show ?thesis using hold_total_bound [OF assms(1)] assms(1) by (simp add: hold_core_def)
  qed simp
  then have "hold_money (refreshed ps t h) ps"
    using hold_cong [of "refreshed ps t h" h] assms(2,3)
    by (auto simp: hold_money_def) (auto simp: refreshed_def Let_def split: if_splits)
  with core show ?thesis by (simp add: hold_sound_def)
qed

section \<open>Updating one pair\<close>

lemma both_keys:
  assumes "keeps_keys f g"
  shows "at_id (fst (both aid f g p)) = at_id (fst p)" and "at_ordinal (fst (both aid f g p)) = at_ordinal (fst p)"
    and "at_hold_id (fst (both aid f g p)) = at_hold_id (fst p)" and "at_liability_id (fst (both aid f g p)) = at_liability_id (fst p)"
    and "ml_reserved_cost (snd (both aid f g p)) = ml_reserved_cost (snd p)" and "ml_id (snd (both aid f g p)) = ml_id (snd p)"
  using assms by (simp_all add: keeps_keys_def both_def)

lemma both_other: "at_id (fst p) \<noteq> aid \<Longrightarrow> both aid f g p = p"
  by (simp add: both_def)

lemma map_both_absent: "aid \<notin> (at_id \<circ> fst) ` set ps \<Longrightarrow> map (both aid f g) ps = ps"
  by (induction ps) (auto simp: both_other)

lemma reserved_total_both: "keeps_keys f g \<Longrightarrow> reserved_total h (map (both aid f g) ps) = reserved_total h ps"
  by (simp add: reserved_total_def comp_def both_keys)

lemma ordinals_both: "keeps_keys f g \<Longrightarrow> map (at_ordinal \<circ> fst) (map (both aid f g) ps) = map (at_ordinal \<circ> fst) ps"
  by (simp add: comp_def both_keys)

lemma blocked_one_more:
  "distinct (map (at_id \<circ> fst) ps) \<Longrightarrow> length (filter blocked (map (both aid f g) ps)) \<le> Suc (length (filter blocked ps))"
proof (induction ps)
  case (Cons p ps)
  show ?case
  proof (cases "at_id (fst p) = aid")
    case True
    with Cons.prems have "map (both aid f g) ps = ps" by (intro map_both_absent) auto
    then show ?thesis by (auto simp del: map_map)
  next
    case False
    with Cons show ?thesis by (simp add: both_other)
  qed
qed simp

lemma blocked_same:
  "distinct (map (at_id \<circ> fst) ps) \<Longrightarrow> p0 \<in> set ps \<Longrightarrow> blocked p0
    \<Longrightarrow> length (filter blocked (map (both (at_id (fst p0)) f g) ps)) \<le> length (filter blocked ps)"
proof (induction ps)
  case (Cons p ps)
  show ?case
  proof (cases "at_id (fst p) = at_id (fst p0)")
    case True
    with Cons.prems have "map (both (at_id (fst p0)) f g) ps = ps" by (intro map_both_absent) auto
    moreover have "p = p0" using Cons.prems True by (auto simp: image_iff)
    ultimately show ?thesis using Cons.prems by (auto simp del: map_map)
  next
    case False
    with Cons show ?thesis by (auto simp: both_other)
  qed
qed simp

lemma pair_of_id:
  "distinct (map (at_id \<circ> fst) ps) \<Longrightarrow> p \<in> set ps \<Longrightarrow> q \<in> set ps \<Longrightarrow> at_id (fst p) = at_id (fst q) \<Longrightarrow> p = q"
  by (auto simp: distinct_map inj_on_def)

text \<open>
  An update of one pair keeps the core when the new pair is coupled, the claims stay in
  order, and no second attempt becomes open.
\<close>

lemma hold_core_both:
  assumes core: "hold_core h ps" and keys: "keeps_keys f g" and ids: "distinct (map (at_id \<circ> fst) ps)" and mem: "p0 \<in> set ps"
    and new: "coupled (f (fst p0)) (g (snd p0))"
    and count: "length (filter blocked (map (both (at_id (fst p0)) f g) ps)) \<le> 1"
    and order: "claimed_first (map (both (at_id (fst p0)) f g) ps)"
    and open': "eh_delivery_state h = DeliveryPending \<Longrightarrow> at_state (f (fst p0)) \<noteq> CostCancelled"
  shows "hold_core h (map (both (at_id (fst p0)) f g) ps)"
proof -
  have "coupled (fst (both (at_id (fst p0)) f g p)) (snd (both (at_id (fst p0)) f g p))" if "p \<in> set ps" for p
    using core new pair_of_id [OF ids that mem] that by (auto simp: hold_core_def both_def)
  moreover have "at_state (fst (both (at_id (fst p0)) f g p)) \<noteq> CostCancelled"
    if "p \<in> set ps" "eh_delivery_state h = DeliveryPending" for p
    using core open' pair_of_id [OF ids that(1) mem] that by (auto simp: hold_core_def both_def)
  ultimately show ?thesis
    using core count order by (simp add: hold_core_def reserved_total_both [OF keys] ordinals_both [OF keys] del: map_map)
qed

section \<open>Claims\<close>

lemma keeps_start: "keeps_keys (start_attempt ck t) (reserve_liability e)"
  by (simp add: keeps_keys_def start_attempt_def reserve_liability_def)

lemma coupled_start: "coupled a l \<Longrightarrow> at_state a = CostPlanned \<Longrightarrow> coupled (start_attempt ck t a) (reserve_liability e l)"
  by (auto simp: coupled_def start_attempt_def reserve_liability_def cost_final_def)

lemma coupled_unclaimed: "coupled a l \<Longrightarrow> at_claim_key a = None \<Longrightarrow> at_state a = CostPlanned \<or> at_state a = CostCancelled"
  by (cases "at_state a") (simp_all add: coupled_def)

lemma unclaimed_planned:
  assumes "hold_core h ps" and "eh_delivery_state h = DeliveryPending" and "p \<in> set ps" and "at_claim_key (fst p) = None"
  shows "at_state (fst p) = CostPlanned"
  using assms coupled_unclaimed [of "fst p" "snd p"] by (auto simp: hold_core_def)

lemma claim_sound:
  assumes sound: "hold_sound h ps" and ready: "dispatchable h" and ids: "distinct (map (at_id \<circ> fst) ps)"
    and mem: "p0 \<in> set ps" and planned: "at_state (fst p0) = CostPlanned" and idle: "\<forall>p \<in> set ps. \<not> blocked p"
    and least: "\<forall>p \<in> set ps. at_state (fst p) = CostPlanned \<longrightarrow> at_ordinal (fst p0) \<le> at_ordinal (fst p)"
  shows "hold_sound (h\<lparr>eh_state := HoldRunning\<rparr>)
           (map (both (at_id (fst p0)) (start_attempt ck t) (reserve_liability e)) ps)"
proof -
  let ?b = "both (at_id (fst p0)) (start_attempt ck t) (reserve_liability e)"
  have core: "hold_core h ps" and pending: "eh_delivery_state h = DeliveryPending"
    using sound ready by (simp_all add: hold_sound_def dispatchable_def)
  have cp: "coupled (fst p0) (snd p0)" using core mem by (simp add: hold_core_def)
  have key: "at_claim_key (fst (?b p)) = (if p = p0 then Some ck else at_claim_key (fst p))"
    and state: "at_state (fst (?b p)) = (if p = p0 then CostStarted else at_state (fst p))"
    and fin: "cost_final (snd (?b p)) = cost_final (snd p)" and used: "used_cost (snd (?b p)) = used_cost (snd p)"
    if "p \<in> set ps" for p
    using pair_of_id [OF ids that mem] cp planned
    by (auto simp: both_def start_attempt_def reserve_liability_def cost_final_def used_cost_def coupled_def)
  have order: "claimed_first (map ?b ps)"
    unfolding claimed_first_def
  proof (intro ballI impI)
    fix p' q' assume "p' \<in> set (map ?b ps)" "q' \<in> set (map ?b ps)"
      and kk: "at_claim_key (fst p') \<noteq> None \<and> at_claim_key (fst q') = None"
    then obtain p q where p: "p \<in> set ps" "p' = ?b p" and q: "q \<in> set ps" "q' = ?b q" by auto
    have free: "at_claim_key (fst q) = None" "q \<noteq> p0" using kk q key [OF q(1)] by (auto split: if_splits)
    have "at_ordinal (fst p) < at_ordinal (fst q)"
    proof (cases "p = p0")
      case True
      have "at_ordinal (fst p0) \<noteq> at_ordinal (fst q)"
        using core q(1) mem free(2) by (auto simp: hold_core_def distinct_map inj_on_def)
      with True least q(1) unclaimed_planned [OF core pending q(1) free(1)] show ?thesis by fastforce
    next
      case False
      with kk p key [OF p(1)] have "at_claim_key (fst p) \<noteq> None" by simp
      with core p(1) q(1) free(1) show ?thesis by (auto simp: hold_core_def claimed_first_def)
    qed
    then show "at_ordinal (fst p') < at_ordinal (fst q')" using p q by (simp add: both_keys [OF keeps_start])
  qed
  have "length (filter blocked (map ?b ps)) \<le> 1"
  proof -
    have "filter blocked ps = []" using idle by (simp add: filter_empty_conv)
    then show ?thesis using blocked_one_more [OF ids, of "at_id (fst p0)" "start_attempt ck t" "reserve_liability e"] by simp
  qed
  then have core': "hold_core h (map ?b ps)"
    using cp planned by (intro hold_core_both [OF core keeps_start ids mem] coupled_start order) (simp_all add: start_attempt_def)
  have total: "hold_total h (map ?b ps) = hold_total h ps" using used by (auto simp: hold_total_def case_prod_beta comp_def intro!: arg_cong [where f = sum_list])
  have "(\<exists>p \<in> set ps. at_state (fst (?b p)) = CostOverrun) = (\<exists>p \<in> set ps. at_state (fst p) = CostOverrun)"
    using planned by (intro bex_cong) (auto simp: state)
  then have over: "hold_overrun h (map ?b ps) = hold_overrun h ps"
    by (simp add: hold_overrun_def list_ex_iff case_prod_beta)
  have "\<not> hold_overrun h ps" using sound ready by (auto simp: hold_sound_def hold_money_def dispatchable_def)
  with sound fin have "hold_money (h\<lparr>eh_state := HoldRunning\<rparr>) (map ?b ps)"
    using hold_cong [of "h\<lparr>eh_state := HoldRunning\<rparr>" h]
    by (auto simp: hold_sound_def hold_money_def total over split: option.splits)
  with core' show ?thesis using hold_core_cong [of "h\<lparr>eh_state := HoldRunning\<rparr>" h] by (simp add: hold_sound_def)
qed

section \<open>Outcomes of a request\<close>

definition open_outcome :: "cost_state \<Rightarrow> bool" where
  "open_outcome s \<longleftrightarrow> s \<in> {CostStarted, CostUnknown, CostUnavailable}"

lemma open_unsettled: "coupled a l \<Longrightarrow> open_outcome (at_state a) \<Longrightarrow> \<not> cost_final l \<and> ml_settled_at l = None \<and> ml_settled_cost l = None"
  by (cases "at_state a") (auto simp: coupled_def open_outcome_def cost_final_def)

lemma unsettled_open:
  "coupled a l \<Longrightarrow> at_state a \<noteq> CostPlanned \<Longrightarrow> ml_settled_at l = None \<Longrightarrow> open_outcome (at_state a)"
  by (cases "at_state a") (auto simp: coupled_def open_outcome_def cost_final_def)

lemma open_blocked: "open_outcome (at_state (fst p)) \<Longrightarrow> blocked p"
  by (auto simp: open_outcome_def blocked_def outcome_blocks_def)

lemma claimed_first_both:
  assumes "claimed_first ps" and "keeps_keys f g" and "\<And>a. at_claim_key (f a) = at_claim_key a"
  shows "claimed_first (map (both aid f g) ps)"
proof -
  have "at_claim_key (fst (both aid f g p)) = at_claim_key (fst p)" for p
    using assms(3) by (simp add: both_def)
  with assms(1) show ?thesis by (simp add: claimed_first_def both_keys [OF assms(2)])
qed

lemma outcome_sound:
  assumes sound: "hold_sound h ps" and keys: "keeps_keys f g" and claim: "\<And>a. at_claim_key (f a) = at_claim_key a"
    and ids: "distinct (map (at_id \<circ> fst) ps)" and mem: "p0 \<in> set ps" and was: "open_outcome (at_state (fst p0))"
    and new: "coupled (f (fst p0)) (g (snd p0))" and state: "at_state (f (fst p0)) \<noteq> CostCancelled"
  shows "hold_sound (refreshed (map (both (at_id (fst p0)) f g) ps) t h) (map (both (at_id (fst p0)) f g) ps)"
proof -
  let ?ps = "map (both (at_id (fst p0)) f g) ps"
  have core: "hold_core h ps" using sound by (simp add: hold_sound_def)
  have "length (filter blocked ?ps) \<le> 1"
    using blocked_same [OF ids mem open_blocked [OF was], of f g] core by (simp add: hold_core_def del: map_map)
  then have core': "hold_core h ?ps"
    using core state by (intro hold_core_both [OF core keys ids mem new] claimed_first_both keys claim) (auto simp: hold_core_def)
  have "hold_overrun h ?ps" if over: "hold_overrun h ps"
  proof (cases "native_total h > eh_native_reserved_minor h")
    case False
    then obtain p where p: "p \<in> set ps" "at_state (fst p) = CostOverrun"
      using over by (auto simp: hold_overrun_def list_ex_iff)
    then have "p \<noteq> p0" using was by (auto simp: open_outcome_def)
    then have "both (at_id (fst p0)) f g p = p" using pair_of_id [OF ids p(1) mem] by (auto simp: both_def)
    with p show ?thesis by (auto simp: hold_overrun_def list_ex_iff case_prod_beta intro!: rev_bexI [of p])
  qed (simp add: hold_overrun_def)
  then show ?thesis
    using sound by (intro refreshed_sound core') (auto simp: hold_sound_def hold_money_def)
qed

lemma coupled_silent:
  assumes "coupled a l" and "open_outcome (at_state a)" and "s \<in> {CostUnknown, CostUnavailable}"
  shows "coupled (a\<lparr>at_request_hash := r, at_state := s\<rparr>) (l\<lparr>ml_state := s\<rparr>)"
  using assms open_unsettled [OF assms(1,2)]
  by (cases "at_state a") (auto simp: coupled_def open_outcome_def cost_final_def)

lemma coupled_settle:
  assumes "coupled a l" and "open_outcome (at_state a)" and "0 \<le> i" and "0 \<le> k"
  shows "coupled (a\<lparr>at_request_hash := r, at_state := ml_state (settle_liability t (i, k, w) l), at_finished_at := Some t\<rparr>)
           (settle_liability t (i, k, w) l)"
proof -
  have "0 \<le> pq_input_rate (ml_quote l)" "0 \<le> pq_output_rate (ml_quote l)" "0 \<le> ml_reserved_cost l"
    using assms(1) by (simp_all add: coupled_def)
  moreover have "at_claim_key a \<noteq> None"
    using assms(1,2) by (cases "at_state a") (simp_all add: coupled_def open_outcome_def)
  ultimately show ?thesis
    using quoted_cost_nonneg [OF assms(3,4), of "ml_quote l"]
    by (simp add: coupled_def settle_liability_def Let_def cost_final_def amount_or_0_def exceeds_quote_def)
qed

section \<open>Native metering\<close>

lemma native_sound:
  assumes sound: "hold_sound h ps" and nonneg: "0 \<le> n"
    and once: "eh_native_settled_minor h = None \<or> eh_native_settled_minor h = Some n"
  shows "hold_sound (refreshed ps t (h\<lparr>eh_native_settled_minor := Some n\<rparr>)) ps"
proof (rule refreshed_sound)
  let ?h = "h\<lparr>eh_native_settled_minor := Some n\<rparr>"
  show "hold_core ?h ps"
    using sound nonneg by (simp add: hold_sound_def hold_core_def native_total_def reserved_total_def)
  show "hold_overrun ?h ps" if "eh_state ?h = HoldOverrun"
    using that sound once
    by (auto simp: hold_sound_def hold_core_def hold_money_def hold_overrun_def native_total_def)
  show "eh_delivery_state ?h \<noteq> DeliveryPending" if "eh_state ?h = HoldSettled"
    using that sound by (simp add: hold_sound_def hold_money_def)
qed

section \<open>Closing the attempts\<close>

definition closed :: "bool \<Rightarrow> int \<Rightarrow> execution_attempt \<times> liability \<Rightarrow> execution_attempt \<times> liability" where
  "closed d t p =
     (if at_state (fst p) = CostPlanned then cancel_attempt t (fst p) else fst p,
      (if d then mark_delivered else id) (if at_state (fst p) = CostPlanned then cancel_liability t (snd p) else snd p))"

definition close_f :: "int \<Rightarrow> execution_attempt \<Rightarrow> execution_attempt \<Rightarrow> execution_attempt" where
  "close_f t a0 a = (if at_state a0 = CostPlanned then cancel_attempt t a else a)"

definition close_g :: "bool \<Rightarrow> int \<Rightarrow> execution_attempt \<Rightarrow> liability \<Rightarrow> liability" where
  "close_g d t a0 l = (if d then mark_delivered else id) (if at_state a0 = CostPlanned then cancel_liability t l else l)"

lemma keeps_close: "keeps_keys (close_f t a0) (close_g d t a0)"
  by (simp add: keeps_keys_def close_f_def close_g_def cancel_attempt_def cancel_liability_def mark_delivered_def)

lemma update_by_id: "update_by key k (\<lambda>r. r) rows = rows"
  by (simp add: update_by_def)

lemma update_by_twice:
  "(\<And>r. key (f r) = key r) \<Longrightarrow> update_by key k g (update_by key k f rows) = update_by key k (\<lambda>r. g (f r)) rows"
  by (simp add: update_by_def)

lemma close_attempt_touch:
  assumes "ml_id l = at_liability_id a"
  shows "close_attempt d t (a, l) db = touch a (close_f t a) (close_g d t a) db"
proof -
  have ids: "ml_id (cancel_liability t r) = ml_id r" for r by (simp add: cancel_liability_def)
  show ?thesis
    by (simp add: close_attempt_def touch_def update_row_defs close_f_def [abs_def] close_g_def [abs_def] assms Let_def
        update_by_id update_by_twice [of ml_id, OF ids])
qed

lemma both_close: "both (at_id (fst p)) (close_f t (fst p)) (close_g d t (fst p)) p = closed d t p"
  by (simp add: both_def closed_def close_f_def close_g_def)

lemma pairs_of_row: "(a, l) \<in> set (pairs_of ls as) \<Longrightarrow> row_at ml_id (at_liability_id a) ls = Some l"
  by (induction as) (auto split: option.splits)

definition keyed :: "exec_db \<Rightarrow> bool" where
  "keyed db \<longleftrightarrow> distinct (map at_id (xd_attempts db)) \<and> distinct (map at_liability_id (xd_attempts db))"

lemma hold_pairs_mem:
  assumes "p \<in> set (hold_pairs db hid)"
  shows "fst p \<in> set (xd_attempts db)" and "at_hold_id (fst p) = hid"
    and "row_at ml_id (at_liability_id (fst p)) (xd_liabilities db) = Some (snd p)" and "ml_id (snd p) = at_liability_id (fst p)"
  using assms pairs_of_mem [of "fst p" "snd p" "xd_liabilities db" "filter (\<lambda>a. at_hold_id a = hid) (xd_attempts db)"]
    pairs_of_row [of "fst p" "snd p" "xd_liabilities db" "filter (\<lambda>a. at_hold_id a = hid) (xd_attempts db)"]
  by (simp_all add: hold_pairs_eq)

lemma pair_unique:
  assumes "keyed db" and "p \<in> set (hold_pairs db x)" and "q \<in> set (hold_pairs db y)" and "at_id (fst p) = at_id (fst q)"
  shows "p = q" and "x = y"
proof -
  have "fst p = fst q"
    using distinct_key_iff [of at_id "xd_attempts db" "fst p" "fst q"] assms hold_pairs_mem(1) [OF assms(2)] hold_pairs_mem(1) [OF assms(3)]
    by (simp add: keyed_def)
  moreover from this have "snd p = snd q"
    using hold_pairs_mem(3) [OF assms(2)] hold_pairs_mem(3) [OF assms(3)] by simp
  ultimately show "p = q" by (simp add: prod_eq_iff)
  with hold_pairs_mem(2) [OF assms(2)] hold_pairs_mem(2) [OF assms(3)] show "x = y" by simp
qed

lemma keyed_touch: "keyed db \<Longrightarrow> keeps_keys f g \<Longrightarrow> keyed (touch a f g db)"
  unfolding keyed_def keeps_keys_def touch_frame by (subst (1 2) map_update_by) auto

lemma hold_pairs_distinct:
  assumes "keyed db" shows "distinct (map (at_id \<circ> fst) (hold_pairs db hid))"
proof -
  have "distinct (map (at_id \<circ> fst) (pairs_of ls as))" if "distinct (map at_id as)" for ls as
    using that by (induction as) (auto split: option.split dest: pairs_of_mem)
  then show ?thesis using assms by (simp add: hold_pairs_eq keyed_def distinct_map_filter)
qed

lemma hold_pairs_close:
  assumes "keyed db" and "set ps \<subseteq> set (hold_pairs db hid)" and "distinct (map (at_id \<circ> fst) ps)"
  shows "hold_pairs (fold (close_attempt d t) ps db) x
    = map (\<lambda>q. if at_id (fst q) \<in> (at_id \<circ> fst) ` set ps then closed d t q else q) (hold_pairs db x)"
  using assms
proof (induction ps arbitrary: db)
  case (Cons p ps)
  let ?a = "fst p"
  let ?db = "touch ?a (close_f t ?a) (close_g d t ?a) db"
  have p: "p \<in> set (hold_pairs db hid)" using Cons.prems(2) by simp
  note mem = hold_pairs_mem [OF p]
  have step: "close_attempt d t p db = ?db"
    using close_attempt_touch [of "snd p" ?a d t db] mem(4) by simp
  have pairs: "hold_pairs ?db y = map (both (at_id ?a) (close_f t ?a) (close_g d t ?a)) (hold_pairs db y)" for y
    using Cons.prems(1) mem(1) by (intro hold_pairs_touch keeps_close) (simp_all add: keyed_def)
  have "q \<in> set (hold_pairs ?db hid)" if "q \<in> set ps" for q
  proof -
    have "both (at_id ?a) (close_f t ?a) (close_g d t ?a) q = q"
      using Cons.prems(3) that by (intro both_other) (auto simp: image_iff)
    then show ?thesis unfolding pairs using Cons.prems(2) that by (force simp: image_iff)
  qed
  then have IH: "hold_pairs (fold (close_attempt d t) ps ?db) x =
      map (\<lambda>q. if at_id (fst q) \<in> (at_id \<circ> fst) ` set ps then closed d t q else q) (hold_pairs ?db x)"
    using Cons.prems by (intro Cons.IH keyed_touch keeps_close) auto
  have "(\<lambda>q. if at_id (fst q) \<in> (at_id \<circ> fst) ` set ps then closed d t q else q) (both (at_id ?a) (close_f t ?a) (close_g d t ?a) q)
      = (if at_id (fst q) \<in> (at_id \<circ> fst) ` set (p # ps) then closed d t q else q)" if "q \<in> set (hold_pairs db x)" for q
  proof (cases "at_id (fst q) = at_id ?a")
    case True
    then have "q = p" using pair_unique [OF Cons.prems(1) that p] by simp
    moreover have "at_id ?a \<notin> (at_id \<circ> fst) ` set ps" using Cons.prems(3) by auto
    moreover have "at_id (fst (closed d t p)) = at_id ?a" by (simp add: closed_def cancel_attempt_def)
    ultimately show ?thesis by (simp add: both_close)
  next
    case False
    then show ?thesis by (simp add: both_other)
  qed
  then have "map (\<lambda>q. if at_id (fst q) \<in> (at_id \<circ> fst) ` set ps then closed d t q else q) (hold_pairs ?db x)
      = map (\<lambda>q. if at_id (fst q) \<in> (at_id \<circ> fst) ` set (p # ps) then closed d t q else q) (hold_pairs db x)"
    unfolding pairs map_map by (intro map_cong refl) (simp only: comp_apply)
  moreover have "fold (close_attempt d t) (p # ps) db = fold (close_attempt d t) ps ?db"
    by (simp add: step)
  ultimately show ?case using IH by (simp only:)
qed simp

lemma hold_pairs_closed:
  assumes "keyed db"
  shows "hold_pairs (fold (close_attempt d t) (hold_pairs db hid) db) x
    = (if x = hid then map (closed d t) (hold_pairs db x) else hold_pairs db x)"
proof -
  have "at_id (fst q) \<in> (at_id \<circ> fst) ` set (hold_pairs db hid) \<longleftrightarrow> x = hid" if "q \<in> set (hold_pairs db x)" for q
  proof
    assume "at_id (fst q) \<in> (at_id \<circ> fst) ` set (hold_pairs db hid)"
    then obtain p where "p \<in> set (hold_pairs db hid)" "at_id (fst q) = at_id (fst p)" by (auto simp only: comp_apply image_iff)
    then show "x = hid" using pair_unique(2) [OF assms that] by blast
  next
    assume "x = hid"
    with that show "at_id (fst q) \<in> (at_id \<circ> fst) ` set (hold_pairs db hid)" by (simp only: image_comp [symmetric] imageI)
  qed
  then have "map (\<lambda>q. if at_id (fst q) \<in> (at_id \<circ> fst) ` set (hold_pairs db hid) then closed d t q else q) (hold_pairs db x)
      = map (\<lambda>q. if x = hid then closed d t q else q) (hold_pairs db x)"
    by (intro map_cong refl) (simp only:)
  then show ?thesis
    unfolding hold_pairs_close [OF assms subset_refl hold_pairs_distinct [OF assms]] by (cases "x = hid") simp_all
qed

lemma closed_state:
  "at_state (fst (closed d t p)) = (if at_state (fst p) = CostPlanned then CostCancelled else at_state (fst p))"
  "at_claim_key (fst (closed d t p)) = at_claim_key (fst p)" "at_ordinal (fst (closed d t p)) = at_ordinal (fst p)"
  "ml_reserved_cost (snd (closed d t p)) = ml_reserved_cost (snd p)"
  by (simp_all add: closed_def cancel_attempt_def mark_delivered_def cancel_liability_def)

lemma closed_coupled: "coupled (fst p) (snd p) \<Longrightarrow> coupled (fst (closed d t p)) (snd (closed d t p))"
  by (cases "at_state (fst p)")
     (auto simp: coupled_def closed_def cancel_attempt_def cancel_liability_def mark_delivered_def cost_final_def amount_or_0_def
        exceeds_quote_def)

lemma settled_sound:
  assumes sound: "hold_sound h ps" and out: "s \<noteq> DeliveryPending"
  shows "hold_sound (refreshed (map (closed d t) ps) t (h\<lparr>eh_delivery_state := s\<rparr>)) (map (closed d t) ps)"
proof (rule refreshed_sound)
  let ?h = "h\<lparr>eh_delivery_state := s\<rparr>"
  have core: "hold_core h ps" using sound by (simp add: hold_sound_def)
  have "blocked (closed d t p) = blocked p" for p
    by (simp add: blocked_def closed_state outcome_blocks_def)
  then have "filter blocked (map (closed d t) ps) = map (closed d t) (filter blocked ps)"
    by (simp add: filter_map comp_def)
  moreover have "claimed_first (map (closed d t) ps)"
    using core by (simp add: hold_core_def claimed_first_def closed_state)
  ultimately show "hold_core ?h (map (closed d t) ps)"
    using core out hold_cong [of ?h h]
    by (simp add: hold_core_def closed_coupled closed_state comp_def reserved_total_def)
  have "list_ex (\<lambda>(a, l). at_state a = CostOverrun) (map (closed d t) ps) = list_ex (\<lambda>(a, l). at_state a = CostOverrun) ps"
    by (auto simp: list_ex_iff case_prod_beta closed_state intro!: bex_cong)
  then show "hold_overrun ?h (map (closed d t) ps)" if "eh_state ?h = HoldOverrun"
    using that sound hold_cong [of ?h h] by (simp add: hold_sound_def hold_money_def hold_overrun_def)
  show "eh_delivery_state ?h \<noteq> DeliveryPending" using out by simp
qed

section \<open>The tables\<close>

definition exec_keys :: "exec_db \<Rightarrow> bool" where
  "exec_keys db \<longleftrightarrow>
     inj (db_supply (xd_credit db)) \<and>
     fresh_rows eh_id ''ceh'' (db_supply (xd_credit db)) (db_drawn (xd_credit db)) (xd_holds db) \<and>
     fresh_rows at_id ''cea'' (db_supply (xd_credit db)) (db_drawn (xd_credit db)) (xd_attempts db) \<and>
     fresh_rows ml_id ''mcl'' (db_supply (xd_credit db)) (db_drawn (xd_credit db)) (xd_liabilities db) \<and>
     distinct (map at_liability_id (xd_attempts db)) \<and>
     at_liability_id ` set (xd_attempts db) \<subseteq> ml_id ` set (xd_liabilities db) \<and>
     at_hold_id ` set (xd_attempts db) \<subseteq> eh_id ` set (xd_holds db)"

definition exec_sound :: "exec_db \<Rightarrow> bool" where
  "exec_sound db \<longleftrightarrow> exec_keys db \<and> (\<forall>h \<in> set (xd_holds db). hold_sound h (hold_pairs db (eh_id h)))"

lemma exec_keys_frame [simp]:
  "exec_keys (db\<lparr>xd_quotes := q\<rparr>) = exec_keys db" "exec_keys (db\<lparr>xd_outbox := ob\<rparr>) = exec_keys db"
  "exec_keys (db\<lparr>xd_services := s\<rparr>) = exec_keys db" "exec_keys (db\<lparr>xd_free := fr\<rparr>) = exec_keys db"
  by (simp_all add: exec_keys_def)

lemma exec_keyed: "exec_keys db \<Longrightarrow> keyed db"
  by (auto simp: exec_keys_def keyed_def dest: fresh_rows_distinct)

lemma exec_keys_holds:
  assumes "exec_keys db" and "\<And>h. eh_id (f h) = eh_id h"
  shows "exec_keys (update_hold hid f db)"
  using assms(1) by (simp add: exec_keys_def update_hold_def fresh_rows_update_by image_update_by assms(2))

lemma exec_keys_touch:
  assumes "exec_keys db" and "keeps_keys f g" shows "exec_keys (touch a f g db)"
proof -
  have f: "at_id (f r) = at_id r" "at_liability_id (f r) = at_liability_id r" "at_hold_id (f r) = at_hold_id r" for r
    using assms(2) by (simp_all add: keeps_keys_def)
  have g: "ml_id (g l) = ml_id l" for l using assms(2) by (simp add: keeps_keys_def)
  with assms(1) show ?thesis
    by (simp add: exec_keys_def fresh_rows_update_by map_update_by image_update_by f g)
qed

lemma exec_keys_credit:
  assumes "exec_keys db" and "supply_le (xd_credit db) c" shows "exec_keys (db\<lparr>xd_credit := c\<rparr>)"
proof -
  have "inj (db_supply c)" using assms by (simp add: exec_keys_def supply_le_def)
  then show ?thesis using assms(1) by (auto simp: exec_keys_def intro: fresh_rows_supply [OF assms(2)])
qed

lemma hold_pairs_frame [simp]:
  "hold_pairs (update_hold hid f db) x = hold_pairs db x" "hold_pairs (db\<lparr>xd_credit := c\<rparr>) x = hold_pairs db x"
  "hold_pairs (db\<lparr>xd_quotes := q\<rparr>) x = hold_pairs db x" "hold_pairs (db\<lparr>xd_outbox := ob\<rparr>) x = hold_pairs db x"
  "hold_pairs (db\<lparr>xd_services := s\<rparr>) x = hold_pairs db x" "hold_pairs (db\<lparr>xd_free := fr\<rparr>) x = hold_pairs db x"
  "hold_pairs (db\<lparr>xd_holds := hs\<rparr>) x = hold_pairs db x"
  by (simp_all add: hold_pairs_eq update_hold_def)

text \<open>An operation that rewrites one hold and its pairs, and leaves the others alone.\<close>

lemma exec_sound_step:
  assumes sound: "exec_sound db" and hold: "h0 \<in> set (xd_holds db)" and keys: "exec_keys db'"
    and holds: "xd_holds db' = update_by eh_id (eh_id h0) f (xd_holds db)" and id: "\<And>h. eh_id (f h) = eh_id h"
    and others: "\<And>x. x \<noteq> eh_id h0 \<Longrightarrow> hold_pairs db' x = hold_pairs db x"
    and new: "hold_sound (f h0) (hold_pairs db' (eh_id h0))"
  shows "exec_sound db'"
proof -
  have ids: "distinct (map eh_id (xd_holds db))"
    using sound by (auto simp: exec_sound_def exec_keys_def dest: fresh_rows_distinct)
  have "hold_sound h (hold_pairs db' (eh_id h))" if mem: "h \<in> set (xd_holds db')" for h
  proof -
    obtain h1 where h1: "h1 \<in> set (xd_holds db)" "h = (if eh_id h1 = eh_id h0 then f h1 else h1)"
      using mem unfolding holds update_by_def by auto
    show ?thesis
    proof (cases "eh_id h1 = eh_id h0")
      case True
      then have "h1 = h0" using distinct_key_eq [OF ids h1(1) hold] by simp
      with h1 new id show ?thesis by simp
    next
      case False
      with h1 others sound show ?thesis by (simp add: exec_sound_def)
    qed
  qed
  with keys show ?thesis by (simp add: exec_sound_def)
qed

section \<open>The operations keep the tables sound\<close>

lemma find_least: "sorted (map key xs) \<Longrightarrow> find P xs = Some a \<Longrightarrow> x \<in> set xs \<Longrightarrow> P x \<Longrightarrow> key a \<le> key x"
  by (induction xs) (auto split: if_splits)

lemma find_SomeD: "find P xs = Some x \<Longrightarrow> x \<in> set xs \<and> P x"
  by (auto simp: find_Some_iff)

lemma pair_of_attempt:
  assumes "exec_keys db" and "a \<in> set (xd_attempts db)"
  obtains l where "(a, l) \<in> set (hold_pairs db (at_hold_id a))"
proof -
  have "a \<in> set (filter (\<lambda>b. at_hold_id b = at_hold_id a) (xd_attempts db))" using assms(2) by simp
  moreover have "map fst (hold_pairs db (at_hold_id a)) = filter (\<lambda>b. at_hold_id b = at_hold_id a) (xd_attempts db)"
    unfolding hold_pairs_eq by (rule map_fst_pairs_of) (use assms(1) in \<open>auto simp: exec_keys_def\<close>)
  ultimately have "a \<in> fst ` set (hold_pairs db (at_hold_id a))" by (metis image_set)
  then show ?thesis using that by force
qed

lemma set_hold_attempts: "set (hold_attempts db hid) = {a \<in> set (xd_attempts db). at_hold_id a = hid}"
  by (auto simp: hold_attempts_def)

lemma owned_holdD: "owned_hold db user hid = Inr h \<Longrightarrow> h \<in> set (xd_holds db) \<and> eh_id h = hid \<and> eh_user_id h = Some user"
  by (auto simp: owned_hold_def result_simps split: option.splits dest!: find_SomeD)

lemma claim_attempt_Inr:
  assumes "claim_attempt env acc db user hid ck req route policy t = Inr ((b, r), db')"
  obtains hold a l e where "hold \<in> set (xd_holds db)" and "eh_id hold = hid" and "dispatchable hold"
    and "a \<in> set (hold_attempts db hid)" and "at_state a = CostPlanned"
    and "\<forall>x \<in> set (hold_attempts db hid). \<not> outcome_blocks (at_state x)"
    and "\<forall>x \<in> set (hold_attempts db hid). at_state x = CostPlanned \<longrightarrow> at_ordinal a \<le> at_ordinal x"
    and "db' = start_request ck t e hold a db"
proof -
  from assms obtain hold where hold: "dispatch_authority env acc db user hid route policy t = Inr hold"
    by (auto simp: claim_attempt_def result_simps)
  with assms obtain a where a: "planned_attempt db hid ck = Inr a"
    by (auto simp: claim_attempt_def result_simps)
  from assms hold a obtain e where db': "db' = start_request ck t e hold a db"
    by (auto simp: claim_attempt_def result_simps)
  from hold have "owned_hold db user hid = Inr hold" "dispatchable hold"
    by (auto simp: dispatch_authority_def result_simps)
  moreover from a have idle: "\<forall>x \<in> set (hold_attempts db hid). \<not> outcome_blocks (at_state x)"
    and first: "find (\<lambda>a. at_state a = CostPlanned) (hold_attempts db hid) = Some a"
    by (auto simp: planned_attempt_def result_simps Let_def list_ex_iff split: option.splits)
  moreover have "sorted (map at_ordinal (hold_attempts db hid))" by (simp add: hold_attempts_def)
  then have "\<forall>x \<in> set (hold_attempts db hid). at_state x = CostPlanned \<longrightarrow> at_ordinal a \<le> at_ordinal x"
    using find_least [OF _ first] by blast
  ultimately show ?thesis using that db' owned_holdD find_SomeD [OF first] by blast
qed

lemma start_request_touch:
  "start_request ck t e hold a db = update_hold (eh_id hold) (\<lambda>h. h\<lparr>eh_state := HoldRunning\<rparr>)
     (touch a (start_attempt ck t) (reserve_liability e) db)"
  by (simp add: start_request_def touch_def)

text \<open>An update of one attempt of hold \<open>h0\<close> followed by one of the hold itself.\<close>

lemma touched_sound:
  assumes sound: "exec_sound db" and h0: "h0 \<in> set (xd_holds db)" and p0: "p0 \<in> set (hold_pairs db (eh_id h0))"
    and keys: "keeps_keys f g" and id: "\<And>h. eh_id (k h) = eh_id h"
    and new: "hold_sound (k h0) (map (both (at_id (fst p0)) f g) (hold_pairs db (eh_id h0)))"
  shows "exec_sound (update_hold (eh_id h0) k (touch (fst p0) f g db))"
proof (rule exec_sound_step [OF sound h0 _ _ id])
  have ek: "exec_keys db" using sound by (simp add: exec_sound_def)
  show "exec_keys (update_hold (eh_id h0) k (touch (fst p0) f g db))"
    by (intro exec_keys_holds exec_keys_touch ek keys id)
  show "xd_holds (update_hold (eh_id h0) k (touch (fst p0) f g db)) = update_by eh_id (eh_id h0) k (xd_holds db)"
    by (simp add: update_hold_def)
  have pairs: "hold_pairs (touch (fst p0) f g db) x = map (both (at_id (fst p0)) f g) (hold_pairs db x)" for x
    using exec_keyed [OF ek] hold_pairs_mem(1) [OF p0] by (intro hold_pairs_touch keys) (simp_all add: keyed_def)
  show "hold_sound (k h0) (hold_pairs (update_hold (eh_id h0) k (touch (fst p0) f g db)) (eh_id h0))"
    using new by (simp add: pairs)
  show "hold_pairs (update_hold (eh_id h0) k (touch (fst p0) f g db)) x = hold_pairs db x" if "x \<noteq> eh_id h0" for x
  proof -
    have "at_id (fst p0) \<notin> (at_id \<circ> fst) ` set (hold_pairs db x)"
      using pair_unique(2) [OF exec_keyed [OF ek] p0] that by force
    then show ?thesis by (simp add: pairs map_both_absent)
  qed
qed

lemma claim_attempt_sound:
  assumes "claim_attempt env acc db user hid ck req route policy t = Inr ((b, r), db')" and sound: "exec_sound db"
  shows "exec_sound db'"
  using assms(1)
proof (rule claim_attempt_Inr)
  fix hold a and l :: liability and e
  assume hold: "hold \<in> set (xd_holds db)" "eh_id hold = hid" "dispatchable hold"
    and a: "a \<in> set (hold_attempts db hid)" "at_state a = CostPlanned"
    and idle: "\<forall>x \<in> set (hold_attempts db hid). \<not> outcome_blocks (at_state x)"
    and least: "\<forall>x \<in> set (hold_attempts db hid). at_state x = CostPlanned \<longrightarrow> at_ordinal a \<le> at_ordinal x"
    and db': "db' = start_request ck t e hold a db"
  have ek: "exec_keys db" using sound by (simp add: exec_sound_def)
  obtain l where p0: "(a, l) \<in> set (hold_pairs db hid)"
    using pair_of_attempt [OF ek, of a] a by (auto simp: set_hold_attempts)
  have mem: "fst p \<in> set (hold_attempts db hid)" if "p \<in> set (hold_pairs db hid)" for p
    using hold_pairs_mem(1,2) [OF that] by (simp add: set_hold_attempts)
  have "hold_sound (hold\<lparr>eh_state := HoldRunning\<rparr>)
      (map (both (at_id (fst (a, l))) (start_attempt ck t) (reserve_liability e)) (hold_pairs db hid))"
  proof (rule claim_sound)
    show "hold_sound hold (hold_pairs db hid)" using sound hold by (auto simp: exec_sound_def)
    show "distinct (map (at_id \<circ> fst) (hold_pairs db hid))" by (rule hold_pairs_distinct [OF exec_keyed [OF ek]])
  qed (use hold a idle least mem p0 in \<open>auto simp: blocked_def\<close>)
  then show ?thesis
    using touched_sound [OF sound hold(1), of "(a, l)" "start_attempt ck t" "reserve_liability e" "\<lambda>h. h\<lparr>eh_state := HoldRunning\<rparr>"] p0
    by (simp add: db' start_request_touch hold(2) keeps_start)
qed

definition note_f :: "(string \<Rightarrow> string) \<Rightarrow> string option \<Rightarrow> execution_attempt \<Rightarrow> execution_attempt" where
  "note_f sha rid a = (case rid of None \<Rightarrow> a | Some r \<Rightarrow> a\<lparr>at_request_hash := Some (sha r)\<rparr>)"

definition outcome_f :: "bool \<Rightarrow> (int \<times> int \<times> string) option \<Rightarrow> int \<Rightarrow> liability \<Rightarrow> execution_attempt \<Rightarrow> execution_attempt" where
  "outcome_f failed used t l0 a =
     (case used of None \<Rightarrow> a\<lparr>at_state := (if failed then CostUnknown else CostUnavailable)\<rparr>
      | Some u \<Rightarrow> a\<lparr>at_state := ml_state (settle_liability t u l0), at_finished_at := Some t\<rparr>)"

definition outcome_g :: "bool \<Rightarrow> (int \<times> int \<times> string) option \<Rightarrow> int \<Rightarrow> liability \<Rightarrow> liability" where
  "outcome_g failed used t l =
     (case used of None \<Rightarrow> l\<lparr>ml_state := (if failed then CostUnknown else CostUnavailable)\<rparr> | Some u \<Rightarrow> settle_liability t u l)"

lemma note_outcome_touch:
  assumes "note_request_id sha a rid db = Inr db1" and "ml_id l = at_liability_id a"
  shows "record_usage a l failed used t db1 = touch a (\<lambda>x. outcome_f failed used t l (note_f sha rid x)) (outcome_g failed used t) db"
proof -
  have keep: "at_id (note_f sha rid r) = at_id r" for r by (simp add: note_f_def split: option.split)
  have "db1 = update_attempt (at_id a) (note_f sha rid) db"
    using assms(1) by (auto simp: note_request_id_def note_f_def [abs_def] result_simps update_attempt_def update_by_id split: option.splits)
  then have "record_usage a l failed used t db1
      = update_liability (at_liability_id a) (outcome_g failed used t)
          (update_attempt (at_id a) (outcome_f failed used t l) (update_attempt (at_id a) (note_f sha rid) db))"
    by (cases used) (simp_all add: record_usage_def Let_def assms(2) outcome_f_def [abs_def] outcome_g_def [abs_def])
  then show ?thesis
    by (simp add: touch_def update_attempt_def update_by_twice [of at_id, OF keep])
qed

lemma settle_liability_keys [simp]:
  "ml_id (settle_liability t u l) = ml_id l" "ml_reserved_cost (settle_liability t u l) = ml_reserved_cost l"
  "ml_group_id (settle_liability t u l) = ml_group_id l" "ml_quote (settle_liability t u l) = ml_quote l"
  by (simp_all add: settle_liability_def Let_def split: prod.split)

lemma keeps_outcome: "keeps_keys (\<lambda>x. outcome_f failed used t l (note_f sha rid x)) (outcome_g failed used t)"
  by (simp add: keeps_keys_def outcome_f_def outcome_g_def note_f_def split: option.split)

lemma outcome_new:
  assumes "coupled a l" and "open_outcome (at_state a)" and "\<And>i k w. used = Some (i, k, w) \<Longrightarrow> 0 \<le> i \<and> 0 \<le> k"
  shows "coupled (outcome_f failed used t l (note_f sha rid a)) (outcome_g failed used t l)"
    and "at_state (outcome_f failed used t l (note_f sha rid a)) \<noteq> CostCancelled"
    and "at_claim_key (outcome_f failed used t l (note_f sha rid x)) = at_claim_key x"
proof -
  define r where "r = at_request_hash (note_f sha rid a)"
  have noted: "note_f sha rid a = a\<lparr>at_request_hash := r\<rparr>" by (simp add: r_def note_f_def split: option.split)
  have settled: "coupled (a\<lparr>at_request_hash := r, at_state := ml_state (settle_liability t u l), at_finished_at := Some t\<rparr>)
      (settle_liability t u l)" if some: "used = Some u" for u
  proof -
    obtain i k w where u: "u = (i, k, w)" by (rule prod_cases3)
    show ?thesis unfolding u
      by (rule coupled_settle [OF assms(1,2)]) (use some u assms(3) in \<open>auto\<close>)
  qed
  have silent: "coupled (a\<lparr>at_request_hash := r, at_state := s\<rparr>) (l\<lparr>ml_state := s\<rparr>)" if "s \<in> {CostUnknown, CostUnavailable}" for s
    using coupled_silent [OF assms(1,2) that, of r] by simp
  show "coupled (outcome_f failed used t l (note_f sha rid a)) (outcome_g failed used t l)"
    unfolding noted using settled silent by (auto simp: outcome_f_def outcome_g_def split: option.split)
  show "at_state (outcome_f failed used t l (note_f sha rid a)) \<noteq> CostCancelled"
    by (auto simp: outcome_f_def settle_liability_def Let_def split: option.split prod.split)
  show "at_claim_key (outcome_f failed used t l (note_f sha rid x)) = at_claim_key x"
    by (simp add: outcome_f_def note_f_def split: option.split)
qed

lemma finish_attempt_Inr:
  assumes "finish_attempt sha db b response failed rid t = Inr db'"
  obtains "db' = db"
  | hold a l db1 where "hold \<in> set (xd_holds db)" and "a \<in> set (xd_attempts db)" and "at_hold_id a = eh_id hold"
    and "at_state a \<noteq> CostPlanned" and "l \<in> set (xd_liabilities db)" and "ml_id l = at_liability_id a"
    and "ml_settled_at l = None" and "note_request_id sha a rid db = Inr db1"
    and "db' = refresh_hold (eh_id hold) t
           (record_usage a l failed (if failed then None else usage_of response (ml_provider l)) t db1)"
proof -
  from assms obtain hold a l where
    hold: "find (\<lambda>h. eh_id h = cb_hold_id b \<and> eh_group_id h = cb_group_id b) (xd_holds db) = Some hold"
    and a: "bound_attempt db b = Some a" "at_state a \<noteq> CostPlanned"
    and l: "find (\<lambda>l. ml_id l = cb_liability_id b \<and> ml_group_id l = cb_group_id b) (xd_liabilities db) = Some l"
    and run: "(if ml_settled_at l \<noteq> None then Inr db
       else bindE (note_request_id sha a rid db) (\<lambda>db1.
        let used = (if failed then None else usage_of response (ml_provider l))
        in Inr (refresh_hold (eh_id hold) t (record_usage a l failed used t db1)))) = Inr db'"
    by (auto simp: finish_attempt_def result_simps split: option.splits)
  note mem = find_SomeD [OF hold] find_SomeD [OF a(1) [unfolded bound_attempt_def]] find_SomeD [OF l]
  show ?thesis
  proof (cases "ml_settled_at l")
    case None
    with run obtain db1 where "note_request_id sha a rid db = Inr db1"
      "db' = refresh_hold (eh_id hold) t
           (record_usage a l failed (if failed then None else usage_of response (ml_provider l)) t db1)"
      by (auto simp: result_simps Let_def)
    with None mem a(2) show ?thesis by (intro that(2) [of hold a l db1]) auto
  next
    case (Some s)
    with run show ?thesis by (intro that(1)) simp
  qed
qed

lemma row_at_member:
  "distinct (map key rows) \<Longrightarrow> r \<in> set rows \<Longrightarrow> row_at key k rows = Some r' \<Longrightarrow> key r = k \<Longrightarrow> r' = r"
  using row_at_distinct by fastforce

lemma finish_attempt_sound:
  assumes "finish_attempt sha db b response failed rid t = Inr db'" and sound: "exec_sound db"
  shows "exec_sound db'"
  using assms(1)
proof (cases rule: finish_attempt_Inr)
  case 1
  with sound show ?thesis by simp
next
  case (2 hold a l db1)
  let ?used = "if failed then None else usage_of response (ml_provider l)"
  let ?f = "\<lambda>x. outcome_f failed ?used t l (note_f sha rid x)" and ?g = "outcome_g failed ?used t"
  have ek: "exec_keys db" using sound by (simp add: exec_sound_def)
  obtain l' where p0: "(a, l') \<in> set (hold_pairs db (eh_id hold))"
    using pair_of_attempt [OF ek 2(2)] 2(3) by metis
  have "distinct (map ml_id (xd_liabilities db))" using ek by (auto simp: exec_keys_def dest: fresh_rows_distinct)
  then have l': "l' = l"
    using row_at_member [of ml_id "xd_liabilities db" l "at_liability_id a" l'] 2(5,6) hold_pairs_mem(3) [OF p0] by simp
  have hs: "hold_sound hold (hold_pairs db (eh_id hold))" using sound 2(1) by (simp add: exec_sound_def)
  then have cp: "coupled a l" using p0 l' by (auto simp: hold_sound_def hold_core_def)
  have was: "open_outcome (at_state a)" by (rule unsettled_open [OF cp 2(4) 2(7)])
  have used: "0 \<le> i \<and> 0 \<le> k" if "?used = Some (i, k, w)" for i k w
    using that usage_of_nonneg by (auto split: if_splits)
  have "hold_sound (refreshed (map (both (at_id (fst (a, l))) ?f ?g) (hold_pairs db (eh_id hold))) t hold)
      (map (both (at_id (fst (a, l))) ?f ?g) (hold_pairs db (eh_id hold)))"
  proof (rule outcome_sound [OF hs keeps_outcome])
    show "distinct (map (at_id \<circ> fst) (hold_pairs db (eh_id hold)))" by (rule hold_pairs_distinct [OF exec_keyed [OF ek]])
    show "(a, l) \<in> set (hold_pairs db (eh_id hold))" using p0 l' by simp
  qed (use was outcome_new [OF cp was used] in \<open>simp_all\<close>)
  moreover have db': "db' = update_hold (eh_id hold) (refreshed (hold_pairs (touch a ?f ?g db) (eh_id hold)) t) (touch a ?f ?g db)"
    using 2(9) by (simp add: refresh_hold_def note_outcome_touch [OF 2(8,6)])
  moreover have "hold_pairs (touch a ?f ?g db) (eh_id hold) = map (both (at_id a) ?f ?g) (hold_pairs db (eh_id hold))"
    using exec_keyed [OF ek] 2(2) by (intro hold_pairs_touch keeps_outcome) (simp_all add: keyed_def)
  ultimately show ?thesis
    using touched_sound [OF sound 2(1), of "(a, l)" ?f ?g "refreshed (hold_pairs (touch a ?f ?g db) (eh_id hold)) t"] p0 l'
    by (simp add: keeps_outcome)
qed

lemma update_hold_twice:
  "(\<And>h. eh_id (f h) = eh_id h) \<Longrightarrow> update_hold hid g (update_hold hid f db) = update_hold hid (\<lambda>h. g (f h)) db"
  by (simp add: update_hold_def update_by_twice)

lemma record_native_cost_sound:
  assumes "record_native_cost db user hid n t = Inr db'" and sound: "exec_sound db"
  shows "exec_sound db'"
proof -
  from assms(1) obtain hold where own: "owned_hold db user hid = Inr hold" and n: "0 \<le> n"
    and once: "eh_native_settled_minor hold = None \<or> eh_native_settled_minor hold = Some n"
    and db': "db' = refresh_hold hid t (update_hold hid (\<lambda>h. h\<lparr>eh_native_settled_minor := Some n\<rparr>) db)"
    by (auto simp: record_native_cost_def result_simps credit_count_def)
  note hold = owned_holdD [OF own]
  let ?k = "\<lambda>h. refreshed (hold_pairs db hid) t (h\<lparr>eh_native_settled_minor := Some n\<rparr>)"
  have eq: "db' = update_hold (eh_id hold) ?k db"
    using hold by (simp add: db' refresh_hold_def update_hold_twice)
  show ?thesis
  proof (rule exec_sound_step [OF sound, of hold])
    show "exec_keys db'" unfolding eq using sound by (intro exec_keys_holds) (simp_all add: exec_sound_def)
    show "hold_sound (?k hold) (hold_pairs db' (eh_id hold))"
      using native_sound [OF _ n once, of "hold_pairs db hid" t] sound hold by (auto simp: eq exec_sound_def)
  qed (use hold eq in \<open>simp_all add: update_hold_def\<close>)
qed

lemma close_fold_frame:
  assumes "\<forall>p \<in> set ps. ml_id (snd p) = at_liability_id (fst p)" and "exec_keys db"
  shows "exec_keys (fold (close_attempt d t) ps db) \<and> xd_holds (fold (close_attempt d t) ps db) = xd_holds db \<and>
    xd_credit (fold (close_attempt d t) ps db) = xd_credit db"
  using assms
proof (induction ps arbitrary: db)
  case (Cons p ps)
  have "close_attempt d t p db = touch (fst p) (close_f t (fst p)) (close_g d t (fst p)) db"
    using Cons.prems(1) close_attempt_touch [of "snd p" "fst p" d t db] by simp
  with Cons show ?case by (simp add: exec_keys_touch keeps_close)
qed simp

lemma settle_delivery_Inr:
  assumes "settle_delivery db user hid delivered t = Inr db'"
  obtains (repeated) hold where "owned_hold db user hid = Inr hold" and "db' = db"
      and "eh_delivery_state hold = (if delivered then DeliveryDone else DeliveryFailed)"
  | (settled) hold reservation row credit where "owned_hold db user hid = Inr hold" and "eh_delivery_state hold = DeliveryPending"
    and "delivered \<Longrightarrow> hold_pairs db hid \<noteq> [] \<Longrightarrow> result_usable (hold_pairs db hid)"
    and "row_at r_id (eh_reservation_id hold) (db_reservations (xd_credit (fold (close_attempt delivered t) (hold_pairs db hid) db))) = Some reservation"
    and "settle_reservation (xd_credit (fold (close_attempt delivered t) (hold_pairs db hid) db)) user (r_id reservation)
           (if delivered then r_reserved_credits reservation else 0) t = Inr (row, credit)"
    and "db' = refresh_hold hid t (update_hold hid (\<lambda>h. h\<lparr>eh_delivery_state := (if delivered then DeliveryDone else DeliveryFailed)\<rparr>)
           ((fold (close_attempt delivered t) (hold_pairs db hid) db)\<lparr>xd_credit := credit\<rparr>))"
proof -
  from assms obtain hold where own: "owned_hold db user hid = Inr hold"
    by (auto simp: settle_delivery_def result_simps)
  show ?thesis
  proof (cases "eh_delivery_state hold = DeliveryPending")
    case False
    with assms own show ?thesis by (intro repeated [OF own]) (auto simp: settle_delivery_def result_simps Let_def)
  next
    case True
    with assms own show ?thesis
      by (auto simp: settle_delivery_def result_simps Let_def split: option.splits intro!: settled [OF own True])
  qed
qed

lemma settle_delivery_sound:
  assumes "settle_delivery db user hid delivered t = Inr db'" and sound: "exec_sound db"
  shows "exec_sound db'"
  using assms(1)
proof (cases rule: settle_delivery_Inr)
  case (repeated hold)
  with sound show ?thesis by simp
next
  case (settled hold reservation row credit)
  let ?ps = "hold_pairs db hid" and ?o = "if delivered then DeliveryDone else DeliveryFailed"
  let ?db1 = "fold (close_attempt delivered t) ?ps db"
  note hold = owned_holdD [OF settled(1)]
  have ek: "exec_keys db" using sound by (simp add: exec_sound_def)
  have frame: "exec_keys ?db1" "xd_holds ?db1 = xd_holds db" "xd_credit ?db1 = xd_credit db"
    using close_fold_frame [OF _ ek, of ?ps delivered t] hold_pairs_mem(4) by auto
  have le: "supply_le (xd_credit ?db1) credit" by (rule supply_settle [OF settled(5)])
  note pairs = hold_pairs_closed [OF exec_keyed [OF ek], of delivered t hid]
  let ?k = "\<lambda>h. refreshed (map (closed delivered t) ?ps) t (h\<lparr>eh_delivery_state := ?o\<rparr>)"
  have eq: "db' = update_hold hid ?k (?db1\<lparr>xd_credit := credit\<rparr>)"
    by (simp add: settled(6) refresh_hold_def update_hold_twice pairs)
  show ?thesis
  proof (rule exec_sound_step [OF sound, of hold])
    show "exec_keys db'" unfolding eq by (intro exec_keys_holds exec_keys_credit frame(1) le) simp
    show "xd_holds db' = update_by eh_id (eh_id hold) ?k (xd_holds db)"
      using hold by (simp add: eq update_hold_def frame(2))
    show "hold_pairs db' x = hold_pairs db x" if "x \<noteq> eh_id hold" for x using that hold by (simp add: eq pairs)
    have "hold_sound hold ?ps" using sound hold by (auto simp: exec_sound_def)
    then show "hold_sound (?k hold) (hold_pairs db' (eh_id hold))"
      using settled_sound [of hold ?ps ?o delivered t] hold by (simp add: eq pairs)
  qed (use hold in simp_all)
qed

end
