(* ===== verification/Admission_Safety.thy ===== *)
theory Admission_Safety
  imports Execution_Safety
begin

text \<open>
  Admission on the tables: what the planning loop appends, that the new hold is sound and
  funded, and the transition system of everything that touches a funded execution.
\<close>

section \<open>Drawing identifiers\<close>

lemma draw_eq:
  "draw p db = (p @ ''_'' @ db_supply (xd_credit db) (db_drawn (xd_credit db)),
     db\<lparr>xd_credit := (xd_credit db)\<lparr>db_drawn := Suc (db_drawn (xd_credit db))\<rparr>\<rparr>)"
  by (simp add: draw_def public_id_def)

lemma exec_keys_bump: "exec_keys db \<Longrightarrow> exec_keys (db\<lparr>xd_credit := (xd_credit db)\<lparr>db_drawn := Suc (db_drawn (xd_credit db))\<rparr>\<rparr>)"
  by (rule exec_keys_credit) (simp_all add: supply_le_def)

section \<open>The planning loop\<close>

definition planned_row :: "(string \<Rightarrow> string) \<Rightarrow> string \<Rightarrow> string \<Rightarrow> string \<Rightarrow> string \<Rightarrow> int \<Rightarrow> nat \<times> price_quote \<Rightarrow> liability" where
  "planned_row sha lid gid funding version stamp m =
     \<lparr>ml_id = lid, ml_group_id = gid, ml_attempt_number = fst m, ml_provider = pq_provider (snd m),
      ml_model = pq_model (snd m), ml_endpoint_key = sha (pq_api_base (snd m)),
      ml_quote = liability_terms (snd m) funding version, ml_input_token_estimate = pq_max_input_tokens (snd m),
      ml_reserved_cost = quoted_cost (snd m) (pq_max_input_tokens (snd m)) (pq_max_output_tokens (snd m)),
      ml_settled_cost = None, ml_input_tokens = None, ml_output_tokens = None, ml_usage_provenance = None,
      ml_state = CostPlanned, ml_created_at = stamp, ml_settled_at = None\<rparr>"

definition planned_attempt_row :: "string \<Rightarrow> string \<Rightarrow> string \<Rightarrow> nat \<Rightarrow> execution_attempt" where
  "planned_attempt_row aid hid lid n =
     \<lparr>at_id = aid, at_hold_id = hid, at_liability_id = lid, at_ordinal = n, at_state = CostPlanned,
      at_claim_key = None, at_request_hash = None, at_started_at = None, at_finished_at = None\<rparr>"

lemma plan_attempt_eq:
  fixes db defines "c \<equiv> xd_credit db" defines "lid \<equiv> ''mcl_'' @ db_supply c (db_drawn c)"
  shows "plan_attempt sha hid gid fu v t m db =
    db\<lparr>xd_credit := c\<lparr>db_drawn := Suc (Suc (db_drawn c))\<rparr>,
       xd_liabilities := xd_liabilities db @ [planned_row sha lid gid fu v t m],
       xd_attempts := xd_attempts db @ [planned_attempt_row (''cea_'' @ db_supply c (Suc (db_drawn c))) hid lid (fst m)]\<rparr>"
  by (cases m) (simp add: plan_attempt_def draw_eq planned_row_def planned_attempt_row_def Let_def c_def lid_def)

definition planned_pair :: "nat \<times> price_quote \<Rightarrow> execution_attempt \<times> liability \<Rightarrow> bool" where
  "planned_pair m p \<longleftrightarrow>
     (\<exists>sha aid hid lid gid funding version stamp.
        p = (planned_attempt_row aid hid lid (fst m), planned_row sha lid gid funding version stamp m))"

lemma row_at_snoc_found: "k \<in> key ` set ls \<Longrightarrow> row_at key k (ls @ [r]) = row_at key k ls"
  using row_at_None [of key k ls] by (auto simp: row_at_append split: option.split)

lemma pairs_of_snoc:
  assumes "at_liability_id ` set as \<subseteq> ml_id ` set ls"
  shows "pairs_of (ls @ [l]) as = pairs_of ls as"
  using assms
proof (induction as)
  case (Cons a as)
  then have "row_at ml_id (at_liability_id a) (ls @ [l]) = row_at ml_id (at_liability_id a) ls"
    by (intro row_at_snoc_found) simp
  with Cons show ?case by (simp split: option.split)
qed simp

lemma fresh_rows_snoc_at:
  assumes "inj s" and "fresh_rows key p s n rows" and "key r = p @ ''_'' @ s k" and "n \<le> k" and "k < n'"
  shows "fresh_rows key p s n' (rows @ [r])"
proof -
  have mono: "fresh_rows key p s j rows" if "n \<le> j" for j using assms(2) that by (auto simp: fresh_rows_def)
  have "fresh_rows key p s (Suc k) (rows @ [r])"
    by (rule fresh_rows_snoc [OF assms(1) mono [OF assms(4)] assms(3)])
  then show ?thesis using assms(5) by (auto simp: fresh_rows_def)
qed

lemma plan_attempt_step:
  fixes sha :: "string \<Rightarrow> string" and gid fu v :: string and t :: int and m :: "nat \<times> price_quote"
  assumes keys: "exec_keys db" and hid: "hid \<in> eh_id ` set (xd_holds db)"
  defines "db' \<equiv> plan_attempt sha hid gid fu v t m db"
  shows "exec_keys db'" and "xd_holds db' = xd_holds db"
    and "\<exists>p. planned_pair m p \<and> hold_pairs db' hid = hold_pairs db hid @ [p]"
    and "\<And>x. x \<noteq> hid \<Longrightarrow> hold_pairs db' x = hold_pairs db x"
    and "\<And>start. filter (is_legacy db' start) (xd_liabilities db') = filter (is_legacy db start) (xd_liabilities db)"
proof -
  let ?c = "xd_credit db"
  define lid where "lid = ''mcl'' @ ''_'' @ db_supply ?c (db_drawn ?c)"
  define aid where "aid = ''cea'' @ ''_'' @ db_supply ?c (Suc (db_drawn ?c))"
  let ?l = "planned_row sha lid gid fu v t m" and ?a = "planned_attempt_row aid hid lid (fst m)"
  have eq: "db' = db\<lparr>xd_credit := ?c\<lparr>db_drawn := Suc (Suc (db_drawn ?c))\<rparr>,
       xd_liabilities := xd_liabilities db @ [?l], xd_attempts := xd_attempts db @ [?a]\<rparr>"
    by (simp add: db'_def plan_attempt_eq lid_def aid_def)
  have parts: "inj (db_supply ?c)"
    "fresh_rows eh_id ''ceh'' (db_supply ?c) (db_drawn ?c) (xd_holds db)"
    "fresh_rows at_id ''cea'' (db_supply ?c) (db_drawn ?c) (xd_attempts db)"
    "fresh_rows ml_id ''mcl'' (db_supply ?c) (db_drawn ?c) (xd_liabilities db)"
    "distinct (map at_liability_id (xd_attempts db))"
    "at_liability_id ` set (xd_attempts db) \<subseteq> ml_id ` set (xd_liabilities db)"
    "at_hold_id ` set (xd_attempts db) \<subseteq> eh_id ` set (xd_holds db)"
    using keys by (simp_all add: exec_keys_def)
  have new: "lid \<notin> ml_id ` set (xd_liabilities db)"
    using fresh_rows_new [OF parts(4)] by (simp add: lid_def)
  then have unlinked: "lid \<notin> at_liability_id ` set (xd_attempts db)" using parts(6) by blast
  show "exec_keys db'"
    using parts new unlinked hid fresh_rows_snoc_at [OF parts(1,3), of ?a "Suc (db_drawn ?c)" "Suc (Suc (db_drawn ?c))"]
      fresh_rows_snoc_at [OF parts(1,4), of ?l "db_drawn ?c" "Suc (Suc (db_drawn ?c))"]
    by (auto simp: exec_keys_def eq planned_row_def planned_attempt_row_def lid_def aid_def intro: fresh_rows_Suc)
  show "xd_holds db' = xd_holds db" by (simp add: eq)
  have found: "row_at ml_id lid (xd_liabilities db @ [?l]) = Some ?l"
    using new row_at_None [of ml_id lid "xd_liabilities db"] by (simp add: row_at_append planned_row_def)
  have old: "pairs_of (xd_liabilities db @ [?l]) (filter (\<lambda>a. at_hold_id a = x) (xd_attempts db)) = hold_pairs db x" for x
    unfolding hold_pairs_eq by (rule pairs_of_snoc) (use parts(6) in auto)
  have at: "at_hold_id ?a = hid" "at_liability_id ?a = lid" by (simp_all add: planned_attempt_row_def)
  have "xd_liabilities db' = xd_liabilities db @ [?l]" "xd_attempts db' = xd_attempts db @ [?a]" by (simp_all add: eq)
  then have pairs: "hold_pairs db' x = hold_pairs db x @ (if x = hid then [(?a, ?l)] else [])" for x
    unfolding hold_pairs_eq [of db'] by (auto simp: at found old)
  have "planned_pair m (?a, ?l)" unfolding planned_pair_def by blast
  with pairs [of hid] show "\<exists>p. planned_pair m p \<and> hold_pairs db' hid = hold_pairs db hid @ [p]" by auto
  show "hold_pairs db' x = hold_pairs db x" if "x \<noteq> hid" for x
    using that by (simp add: pairs)
  show "filter (is_legacy db' start) (xd_liabilities db') = filter (is_legacy db start) (xd_liabilities db)" for start
  proof -
    have "is_legacy db' start l = is_legacy db start l" if "l \<in> set (xd_liabilities db)" for l
    proof -
      have "ml_id l \<noteq> lid" using new that by auto
      then show ?thesis by (simp add: is_legacy_def eq planned_attempt_row_def)
    qed
    moreover have "\<not> is_legacy db' start ?l" by (simp add: is_legacy_def eq planned_row_def planned_attempt_row_def)
    ultimately show ?thesis by (simp add: eq cong: filter_cong)
  qed
qed

lemma plan_fold:
  fixes sha :: "string \<Rightarrow> string" and hid gid fu v :: string and t :: int
  assumes "exec_keys db" and "hid \<in> eh_id ` set (xd_holds db)"
  defines "plan \<equiv> \<lambda>ms db. fold (plan_attempt sha hid gid fu v t) ms db"
  shows "exec_keys (plan ms db) \<and> xd_holds (plan ms db) = xd_holds db \<and>
    (\<exists>ps. hold_pairs (plan ms db) hid = hold_pairs db hid @ ps \<and> list_all2 planned_pair ms ps) \<and>
    (\<forall>x. x \<noteq> hid \<longrightarrow> hold_pairs (plan ms db) x = hold_pairs db x) \<and>
    (\<forall>start. filter (is_legacy (plan ms db) start) (xd_liabilities (plan ms db)) = filter (is_legacy db start) (xd_liabilities db))"
  using assms(1,2) unfolding plan_def
proof (induction ms arbitrary: db)
  case (Cons m ms)
  let ?db = "plan_attempt sha hid gid fu v t m db"
  note step = plan_attempt_step [OF Cons.prems, where sha = sha and gid = gid and fu = fu and v = v and t = t and m = m]
  from step(3) obtain p where p: "planned_pair m p" "hold_pairs ?db hid = hold_pairs db hid @ [p]" by blast
  have "hid \<in> eh_id ` set (xd_holds ?db)" using Cons.prems(2) step(2) by simp
  note IH = Cons.IH [OF step(1) this]
  from IH obtain ps where "hold_pairs (fold (plan_attempt sha hid gid fu v t) ms ?db) hid = hold_pairs ?db hid @ ps" "list_all2 planned_pair ms ps"
    by blast
  with p have "hold_pairs (fold (plan_attempt sha hid gid fu v t) (m # ms) db) hid = hold_pairs db hid @ (p # ps)"
    "list_all2 planned_pair (m # ms) (p # ps)" by simp_all
  with IH step show ?case by (metis fold_simps(2))
qed simp

section \<open>The new hold\<close>

lemma planned_pairD:
  assumes "planned_pair m p"
  shows "at_state (fst p) = CostPlanned" and "at_claim_key (fst p) = None" and "at_ordinal (fst p) = fst m"
    and "ml_reserved_cost (snd p) = quoted_cost (snd m) (pq_max_input_tokens (snd m)) (pq_max_output_tokens (snd m))"
    and "\<not> cost_final (snd p)" and "price_ok (snd m) \<Longrightarrow> coupled (fst p) (snd p)"
proof -
  obtain sha aid hid lid gid funding version stamp
    where p: "p = (planned_attempt_row aid hid lid (fst m), planned_row sha lid gid funding version stamp m)"
    using assms unfolding planned_pair_def by blast
  show "at_state (fst p) = CostPlanned" "at_claim_key (fst p) = None" "at_ordinal (fst p) = fst m" "\<not> cost_final (snd p)"
    "ml_reserved_cost (snd p) = quoted_cost (snd m) (pq_max_input_tokens (snd m)) (pq_max_output_tokens (snd m))"
    by (simp_all add: p planned_attempt_row_def planned_row_def cost_final_def)
  show "coupled (fst p) (snd p)" if "price_ok (snd m)"
  proof -
    have "0 \<le> pq_input_rate (snd m)" "0 \<le> pq_output_rate (snd m)" "0 \<le> pq_max_input_tokens (snd m)" "0 \<le> pq_max_output_tokens (snd m)"
      using that by (simp_all add: price_ok_def price_fields_ok_def is_positive_amount_def is_token_bound_def)
    then show ?thesis
      by (simp add: p coupled_def planned_attempt_row_def planned_row_def cost_final_def liability_terms_def amount_or_0_def
          quoted_cost_nonneg price_quote.defs liability_quote.defs)
  qed
qed

lemma new_hold_sound:
  assumes pairs: "list_all2 planned_pair (zip [1..<Suc (length (qr_model_quotes route))] (qr_model_quotes route)) ps"
    and route: "route_ok route" and policy: "policy_ok (sk_policy snapshot)"
    and funded: "ledger_required (sk_policy snapshot) route \<le> required"
    and bounded: "sk_route snapshot = route" "required \<le> qr_credits route * EXECUTION_MINOR_PER_CREDIT"
  shows "hold_sound (hold_row hid user rid gid funding required route snapshot stamp) ps"
proof -
  let ?h = "hold_row hid user rid gid funding required route snapshot stamp"
  define ms where "ms = zip [1..<Suc (length (qr_model_quotes route))] (qr_model_quotes route)"
  have planned: "list_all2 planned_pair ms ps" unfolding ms_def by (rule pairs)
  have price: "price_ok (snd m)" if "m \<in> set ms" for m
  proof -
    have "snd m \<in> set (qr_model_quotes route)" using that unfolding ms_def by (metis prod.collapse set_zip_rightD)
    with route show ?thesis by (simp add: route_ok_def route_fields_ok_def list_all_iff)
  qed
  have each: "\<exists>m \<in> set ms. planned_pair m p" if "p \<in> set ps" for p
    using planned that unfolding list_all2_conv_all_nth by (metis in_set_conv_nth)
  have state: "at_state (fst p) = CostPlanned \<and> at_claim_key (fst p) = None \<and> \<not> cost_final (snd p) \<and> coupled (fst p) (snd p)"
    if "p \<in> set ps" for p
    using each [OF that] planned_pairD price by metis
  have "map (at_ordinal \<circ> fst) ps = map fst ms"
    using planned by (induction rule: list_all2_induct) (auto simp: planned_pairD)
  then have ordinals: "distinct (map (at_ordinal \<circ> fst) ps)" by (simp add: ms_def map_fst_zip_take del: upt_Suc)
  have "map (\<lambda>p. cost_minor c (ml_reserved_cost (snd p))) ps
      = map (\<lambda>m. cost_minor c (quoted_cost (snd m) (pq_max_input_tokens (snd m)) (pq_max_output_tokens (snd m)))) ms" for c
    using planned by (induction rule: list_all2_induct) (auto simp: planned_pairD)
  moreover have "map snd ms = qr_model_quotes route" unfolding ms_def by (rule map_snd_zip) (simp del: upt_Suc)
  then have "map F (map snd ms) = map F (qr_model_quotes route)" for F :: "price_quote \<Rightarrow> int" by simp
  note this [of "\<lambda>q. cost_minor c (quoted_cost q (pq_max_input_tokens q) (pq_max_output_tokens q))" for c, unfolded map_map comp_def]
  ultimately have "reserved_total ?h ps = ledger_required (sk_policy snapshot) route"
    by (simp add: reserved_total_def hold_row_def ledger_required_def)
  moreover have "filter blocked ps = []"
    using state by (auto simp: filter_empty_conv blocked_def outcome_blocks_def)
  moreover have "\<not> hold_overrun ?h ps"
    using state by (auto simp: hold_overrun_def list_ex_iff native_total_def hold_row_def)
  ultimately show ?thesis
    using state ordinals policy funded bounded route
    by (auto simp: hold_sound_def hold_core_def hold_money_def claimed_first_def native_total_def hold_row_def
        route_ok_def route_fields_ok_def)
qed

section \<open>Admission\<close>

text \<open>What a new admission leaves: the hold at the end of the table, everything else in place.\<close>

definition admitted :: "exec_db \<Rightarrow> execution_hold \<Rightarrow> exec_db \<Rightarrow> bool" where
  "admitted db hold db' \<longleftrightarrow>
     exec_keys db' \<and> xd_holds db' = xd_holds db @ [hold] \<and> xd_services db' = xd_services db \<and> xd_free db' = xd_free db \<and>
     hold_sound hold (hold_pairs db' (eh_id hold)) \<and>
     (\<forall>x. x \<noteq> eh_id hold \<longrightarrow> hold_pairs db' x = hold_pairs db x) \<and>
     (\<forall>start. filter (is_legacy db' start) (xd_liabilities db') = filter (is_legacy db start) (xd_liabilities db))"

lemma plan_fold_frame:
  "xd_services (fold (plan_attempt sha hid gid fu v t) ms db) = xd_services db \<and>
   xd_free (fold (plan_attempt sha hid gid fu v t) ms db) = xd_free db \<and>
   xd_quotes (fold (plan_attempt sha hid gid fu v t) ms db) = xd_quotes db \<and>
   xd_outbox (fold (plan_attempt sha hid gid fu v t) ms db) = xd_outbox db"
  by (induction ms arbitrary: db) (simp_all add: plan_attempt_eq)

lemma open_hold_admitted:
  assumes run: "open_hold sha user rid route snapshot required stamp db = Inr (hold, db')" and keys: "exec_keys db"
    and route: "route_ok route" and policy: "policy_ok (sk_policy snapshot)"
    and funded: "ledger_required (sk_policy snapshot) route \<le> required"
    and bounded: "sk_route snapshot = route" "required \<le> qr_credits route * EXECUTION_MINOR_PER_CREDIT"
  shows "admitted db hold db'"
    and "\<exists>hid gid. hold = hold_row hid user rid gid (funding_of (xd_credit db) rid) required route snapshot stamp"
proof -
  let ?c = "xd_credit db"
  define gid where "gid = ''fin'' @ ''_'' @ db_supply ?c (db_drawn ?c)"
  define hid where "hid = ''ceh'' @ ''_'' @ db_supply ?c (Suc (db_drawn ?c))"
  let ?fu = "funding_of ?c rid"
  define h where "h = hold_row hid user rid gid ?fu required route snapshot stamp"
  define db2 where "db2 = db\<lparr>xd_credit := ?c\<lparr>db_drawn := Suc (Suc (db_drawn ?c))\<rparr>, xd_holds := xd_holds db @ [h]\<rparr>"
  let ?ms = "zip [1..<Suc (length (qr_model_quotes route))] (qr_model_quotes route)"
  let ?v = "fp_version (sk_policy snapshot)"
  have eqs: "hold = h" "db' = fold (plan_attempt sha hid gid ?fu ?v stamp) ?ms db2"
    using run by (auto simp: open_hold_def draw_eq Let_def result_simps h_def db2_def hid_def gid_def)
  have parts: "inj (db_supply ?c)" "fresh_rows eh_id ''ceh'' (db_supply ?c) (db_drawn ?c) (xd_holds db)"
    "at_hold_id ` set (xd_attempts db) \<subseteq> eh_id ` set (xd_holds db)"
    using keys by (simp_all add: exec_keys_def)
  have id: "eh_id h = hid" by (simp add: h_def hold_row_def)
  have new: "hid \<notin> eh_id ` set (xd_holds db)"
    using fresh_rows_new [OF fresh_rows_Suc [OF parts(2)]] by (simp add: hid_def)
  have keys2: "exec_keys db2"
    using keys fresh_rows_snoc_at [OF parts(1,2), of h "Suc (db_drawn ?c)" "Suc (Suc (db_drawn ?c))"]
    by (auto simp: exec_keys_def db2_def id hid_def intro: fresh_rows_Suc)
  have "hid \<in> eh_id ` set (xd_holds db2)" by (simp add: db2_def id)
  note plan = plan_fold [OF keys2 this, of sha gid ?fu ?v stamp ?ms, folded eqs(2)]
  have pairs2: "hold_pairs db2 x = hold_pairs db x" for x by (simp add: hold_pairs_eq db2_def)
  have "hold_pairs db hid = []"
  proof -
    have "filter (\<lambda>a. at_hold_id a = hid) (xd_attempts db) = []" using new parts(3) by (auto simp: filter_empty_conv)
    then show ?thesis by (simp add: hold_pairs_eq)
  qed
  with plan [THEN conjunct2, THEN conjunct2, THEN conjunct1] pairs2
  have "list_all2 planned_pair ?ms (hold_pairs db' hid)" by auto
  then have sound: "hold_sound h (hold_pairs db' hid)"
    unfolding h_def by (rule new_hold_sound [OF _ route policy funded bounded])
  have legacy: "is_legacy db2 start = is_legacy db start" "xd_liabilities db2 = xd_liabilities db" for start
    by (simp_all add: is_legacy_def fun_eq_iff db2_def)
  have frame: "xd_services db' = xd_services db" "xd_free db' = xd_free db"
    using plan_fold_frame [of sha hid gid ?fu ?v stamp ?ms db2] by (simp_all add: eqs(2) db2_def)
  note keys' = conjunct1 [OF plan] and holds = plan [THEN conjunct2, THEN conjunct1]
    and others = plan [THEN conjunct2, THEN conjunct2, THEN conjunct2, THEN conjunct1]
    and rows = plan [THEN conjunct2, THEN conjunct2, THEN conjunct2, THEN conjunct2]
  show "admitted db hold db'"
    unfolding admitted_def eqs(1) id
  proof (intro conjI)
    show "xd_holds db' = xd_holds db @ [h]" unfolding holds by (simp add: db2_def)
    show "\<forall>x. x \<noteq> hid \<longrightarrow> hold_pairs db' x = hold_pairs db x" using others unfolding pairs2 .
    show "\<forall>start. filter (is_legacy db' start) (xd_liabilities db') = filter (is_legacy db start) (xd_liabilities db)"
      using rows unfolding legacy .
  qed (rule keys' frame sound)+
  show "\<exists>hid gid. hold = hold_row hid user rid gid ?fu required route snapshot stamp"
    unfolding eqs(1) h_def by blast
qed

lemma admitted_sound: "admitted db hold db' \<Longrightarrow> exec_sound db \<Longrightarrow> eh_id hold \<notin> eh_id ` set (xd_holds db) \<Longrightarrow> exec_sound db'"
  unfolding exec_sound_def
proof (intro conjI ballI)
  assume adm: "admitted db hold db'" and sound: "exec_keys db \<and> (\<forall>h \<in> set (xd_holds db). hold_sound h (hold_pairs db (eh_id h)))"
    and new: "eh_id hold \<notin> eh_id ` set (xd_holds db)"
  show "exec_keys db'" using adm by (simp add: admitted_def)
  fix h assume "h \<in> set (xd_holds db')"
  then consider "h = hold" | "h \<in> set (xd_holds db)" using adm by (auto simp: admitted_def)
  then show "hold_sound h (hold_pairs db' (eh_id h))"
  proof cases
    case 1
    with adm show ?thesis by (simp add: admitted_def)
  next
    case 2
    with new have "eh_id h \<noteq> eh_id hold" by (metis imageI)
    with 2 adm sound show ?thesis by (simp add: admitted_def)
  qed
qed

lemma admitted_new: "admitted db hold db' \<Longrightarrow> eh_id hold \<notin> eh_id ` set (xd_holds db)"
  by (auto simp: admitted_def exec_keys_def dest!: fresh_rows_distinct)

lemma admitted_frame:
  assumes "admitted db hold db1" and "exec_keys db2" and "xd_holds db2 = xd_holds db1" and "xd_attempts db2 = xd_attempts db1"
    and "xd_liabilities db2 = xd_liabilities db1" and "xd_services db2 = xd_services db1" and "xd_free db2 = xd_free db1"
  shows "admitted db hold db2"
proof -
  have "hold_pairs db2 = hold_pairs db1" "is_legacy db2 = is_legacy db1"
    using assms(4,5) by (simp_all add: hold_pairs_eq is_legacy_def fun_eq_iff)
  with assms show ?thesis by (simp add: admitted_def)
qed

lemma dispatch_intent_Inr:
  assumes "dispatch_intent w rid clock db = Inr db'" and "exec_keys db"
  shows "exec_keys db'" and "xd_holds db' = xd_holds db" and "xd_attempts db' = xd_attempts db"
    and "xd_liabilities db' = xd_liabilities db" and "xd_services db' = xd_services db" and "xd_free db' = xd_free db"
proof -
  have "exec_keys (db\<lparr>xd_credit := (xd_credit db)\<lparr>db_drawn := Suc (db_drawn (xd_credit db))\<rparr>, xd_outbox := r\<rparr>)" for r
    using exec_keys_bump [OF assms(2)] by (simp add: exec_keys_def)
  with assms show "exec_keys db'" "xd_holds db' = xd_holds db" "xd_attempts db' = xd_attempts db"
    "xd_liabilities db' = xd_liabilities db" "xd_services db' = xd_services db" "xd_free db' = xd_free db"
    by (auto simp: dispatch_intent_def Let_def split: if_splits option.splits sum.splits)
qed

lemma book_work_admitted:
  assumes "book_work sha db user quote key w route policy budgets required proofs stamp clock = Inr (hold, db')"
    and keys: "exec_keys db" and route: "route_ok route" and policy: "policy_ok policy"
    and funded: "ledger_required policy route \<le> required" and bounded: "required \<le> qr_credits route * EXECUTION_MINOR_PER_CREDIT"
  shows "admitted db hold db'" and "eh_reserved_minor hold = required" and "eh_created_at hold = stamp" and "eh_state hold = HoldReserved"
    and "eh_settled_minor hold = None" and "eh_route_id hold = qr_id route" and "eh_user_id hold = Some user"
    and "eh_delivery_state hold = DeliveryPending"
proof -
  let ?s = "\<lparr>sk_route = route, sk_policy = policy, hs_budgets = budgets, hs_execution_mode = mode_of w,
               hs_canary = fst proofs, hs_public_admission = snd proofs\<rparr> :: hold_snapshot"
  from assms(1) obtain reservation credit db1 where
    res: "reserve_credits (xd_credit db) user (qr_operation route) (wi_source_id w) key
              (qr_credits route) (sq_input_fingerprint quote) (quote_terms (sq_id quote) route) required stamp = Inr (reservation, credit)"
    and opened: "open_hold sha user (r_id reservation) route ?s required stamp (db\<lparr>xd_credit := credit\<rparr>) = Inr (hold, db1)"
    and queue: "dispatch_intent w (r_id reservation) clock (accept_quote (sq_id quote) (r_id reservation) stamp db1) = Inr db'"
    by (auto simp: book_work_def result_simps split: prod.splits)
  have keys0: "exec_keys (db\<lparr>xd_credit := credit\<rparr>)" by (rule exec_keys_credit [OF keys supply_reserve [OF res]])
  have "admitted (db\<lparr>xd_credit := credit\<rparr>) hold db1"
    by (rule open_hold_admitted(1) [OF opened keys0 route]) (simp_all add: policy funded bounded)
  moreover have "is_legacy (db\<lparr>xd_credit := credit\<rparr>) = is_legacy db" by (simp add: is_legacy_def fun_eq_iff)
  ultimately have adm: "admitted db hold db1" by (simp add: admitted_def)
  have "exec_keys (accept_quote (sq_id quote) (r_id reservation) stamp db1)"
  proof -
    have "exec_keys db1" using adm by (simp add: admitted_def)
    then show ?thesis by (simp add: accept_quote_def exec_keys_def)
  qed
  note frame = dispatch_intent_Inr [OF queue this]
  show "admitted db hold db'"
    by (rule admitted_frame [OF adm frame(1)]) (simp_all add: frame accept_quote_def)
  obtain hid gid where "hold = hold_row hid user (r_id reservation) gid (funding_of credit (r_id reservation)) required route ?s stamp"
    using open_hold_admitted(2) [OF opened keys0 route] policy funded bounded by auto
  then show "eh_reserved_minor hold = required" "eh_created_at hold = stamp" "eh_state hold = HoldReserved" "eh_settled_minor hold = None"
    "eh_route_id hold = qr_id route" "eh_user_id hold = Some user" "eh_delivery_state hold = DeliveryPending"
    by (simp_all add: hold_row_def)
qed

lemma admit_Inr:
  assumes "admit env sha db user qid fp key w route policy budgets commercial proofs t clock = Inr (hold, db')"
  obtains (again) "db' = db" and "hold \<in> set (xd_holds db)"
  | (fresh) quote required answers where
      "require_route env route policy t commercial = Inr required"
      and "assert_headroom db user (qr_id route) required policy budgets t ''prepaid'' = Inr ()"
      and "book_work sha db user quote key w route policy budgets required answers t clock = Inr (hold, db')"
proof -
  from assms obtain quote where q: "find (\<lambda>q. sq_id q = qid \<and> sq_user_id q = user) (xd_quotes db) = Some quote"
    by (auto simp: admit_def result_simps split: option.splits)
  show ?thesis
  proof (cases "sq_accepted_reservation_id quote")
    case None
    with assms q obtain required answers where "require_route env route policy t commercial = Inr required"
      "assert_headroom db user (qr_id route) required policy budgets t ''prepaid'' = Inr ()"
      "book_work sha db user quote key w route policy budgets required answers t clock = Inr (hold, db')"
      by (auto simp: admit_def result_simps)
    then show ?thesis by (rule fresh)
  next
    case (Some rid)
    with assms q have "accepted_hold db user rid key w = Inr hold" "db' = db" by (auto simp: admit_def result_simps)
    then show ?thesis by (intro again) (auto simp: accepted_hold_def result_simps split: option.splits dest!: find_SomeD)
  qed
qed

lemma route_required:
  assumes "require_route env route policy t commercial = Inr required" and "route_ok route"
  shows "ledger_required policy route \<le> required" and "required \<le> qr_credits route * EXECUTION_MINOR_PER_CREDIT"
proof -
  note b = require_route_bounds [OF assms(1)]
  show "ledger_required policy route \<le> required" by (rule b(1))
  have "0 \<le> qr_credits route" using assms(2) by (simp add: route_ok_def route_fields_ok_def)
  then have "qr_credits route * min (fp_execution_minor_per_credit policy) EXECUTION_MINOR_PER_CREDIT
      \<le> qr_credits route * EXECUTION_MINOR_PER_CREDIT"
    by (intro mult_left_mono) simp_all
  with b(2) show "required \<le> qr_credits route * EXECUTION_MINOR_PER_CREDIT" by linarith
qed

lemma admit_sound:
  assumes "admit env sha db user qid fp key w route policy budgets commercial proofs t clock = Inr (hold, db')"
    and sound: "exec_sound db" and "route_ok route" and "policy_ok policy"
  shows "exec_sound db'"
  using assms(1)
proof (cases rule: admit_Inr)
  case again
  with sound show ?thesis by simp
next
  case (fresh quote required answers)
  have "admitted db hold db'"
    using sound by (intro book_work_admitted(1) [OF fresh(3)] route_required [OF fresh(1)] assms(3,4)) (simp add: exec_sound_def)
  from admitted_sound [OF this sound admitted_new [OF this]] show ?thesis .
qed

section \<open>The system\<close>

text \<open>
  Every transaction that touches these tables: the operations of this component, the credit
  ledger's own, older calls that record a liability without a hold and settle it, the queue
  and the older tables (any change), and the erasure of an account. A route or policy that
  reaches the code has passed its schema.
\<close>

definition forget_owner :: "int \<Rightarrow> execution_hold \<Rightarrow> execution_hold" where
  "forget_owner user h = (if eh_user_id h = Some user then h\<lparr>eh_user_id := None\<rparr> else h)"

inductive exec_step :: "exec_db \<Rightarrow> exec_db \<Rightarrow> bool" where
  claim: "claim_attempt env acc db user hid ck req route policy t = Inr (x, db') \<Longrightarrow> exec_step db db'"
| callback: "finish_attempt sha db b response failed rid t = Inr db' \<Longrightarrow> exec_step db db'"
| native: "record_native_cost db user hid n t = Inr db' \<Longrightarrow> exec_step db db'"
| outcome: "settle_delivery db user hid delivered t = Inr db' \<Longrightarrow> exec_step db db'"
| admission: "admit env sha db user qid fp key w route policy budgets commercial proofs t clock = Inr (hold, db') \<Longrightarrow>
    route_ok route \<Longrightarrow> policy_ok policy \<Longrightarrow> exec_step db db'"
| quoting: "issue_service_quote env db user fp key route policy commercial t = Inr (q, db') \<Longrightarrow> exec_step db db'"
| ledger: "credit_step (xd_credit db) c \<Longrightarrow> exec_step db (db\<lparr>xd_credit := c\<rparr>)"
| queue: "exec_step db (db\<lparr>xd_outbox := rows\<rparr>)"
| older_work: "exec_step db (db\<lparr>xd_services := services, xd_free := free\<rparr>)"
| older_call: "draw ''mcl'' db = (ml_id l, db1) \<Longrightarrow> exec_step db (db1\<lparr>xd_liabilities := xd_liabilities db1 @ [l]\<rparr>)"
| older_cost: "lid \<notin> at_liability_id ` set (xd_attempts db) \<Longrightarrow> (\<And>l. ml_id (g l) = ml_id l) \<Longrightarrow>
    exec_step db (update_liability lid g db)"
| erasure: "exec_step db (db\<lparr>xd_holds := map (forget_owner user) (xd_holds db)\<rparr>)"

lemma exec_sound_same:
  assumes "exec_sound db" and "exec_keys db'" and "xd_holds db' = xd_holds db" and "\<And>x. hold_pairs db' x = hold_pairs db x"
  shows "exec_sound db'"
  using assms by (simp add: exec_sound_def)

lemma erasure_sound:
  assumes "exec_sound db" shows "exec_sound (db\<lparr>xd_holds := map (forget_owner user) (xd_holds db)\<rparr>)"
proof -
  have id: "eh_id (forget_owner user h) = eh_id h" for h by (simp add: forget_owner_def)
  have "hold_sound (forget_owner user h) ps = hold_sound h ps" for h ps
    by (rule hold_sound_cong) (simp_all add: forget_owner_def)
  then show ?thesis
    using assms by (simp add: exec_sound_def exec_keys_def fresh_rows_def id comp_def image_image)
qed

lemma older_call_sound:
  assumes "exec_sound db" and "draw ''mcl'' db = (ml_id l, db1)"
  shows "exec_sound (db1\<lparr>xd_liabilities := xd_liabilities db1 @ [l]\<rparr>)"
proof (rule exec_sound_same [OF assms(1)])
  let ?c = "xd_credit db"
  have keys: "exec_keys db" using assms(1) by (simp add: exec_sound_def)
  then have parts: "inj (db_supply ?c)" "fresh_rows ml_id ''mcl'' (db_supply ?c) (db_drawn ?c) (xd_liabilities db)"
    "at_liability_id ` set (xd_attempts db) \<subseteq> ml_id ` set (xd_liabilities db)"
    by (simp_all add: exec_keys_def)
  have eq: "db1 = db\<lparr>xd_credit := ?c\<lparr>db_drawn := Suc (db_drawn ?c)\<rparr>\<rparr>" "ml_id l = ''mcl'' @ ''_'' @ db_supply ?c (db_drawn ?c)"
    using assms(2) by (simp_all add: draw_eq)
  show "exec_keys (db1\<lparr>xd_liabilities := xd_liabilities db1 @ [l]\<rparr>)"
    using exec_keys_bump [OF keys] parts(3) fresh_rows_snoc [OF parts(1,2) eq(2)] by (auto simp: exec_keys_def eq(1))
  show "hold_pairs (db1\<lparr>xd_liabilities := xd_liabilities db1 @ [l]\<rparr>) x = hold_pairs db x" for x
  proof -
    have "pairs_of (xd_liabilities db @ [l]) (filter (\<lambda>a. at_hold_id a = x) (xd_attempts db))
        = pairs_of (xd_liabilities db) (filter (\<lambda>a. at_hold_id a = x) (xd_attempts db))"
      by (rule pairs_of_snoc) (use parts(3) in auto)
    then show ?thesis by (simp add: hold_pairs_eq eq(1))
  qed
qed (use assms(2) in \<open>simp add: draw_eq, auto\<close>)

lemma older_cost_sound:
  assumes "exec_sound db" and "lid \<notin> at_liability_id ` set (xd_attempts db)" and id: "\<And>l. ml_id (g l) = ml_id l"
  shows "exec_sound (update_liability lid g db)"
proof (rule exec_sound_same [OF assms(1)])
  show "exec_keys (update_liability lid g db)"
    using assms(1) by (simp add: exec_sound_def exec_keys_def update_liability_def fresh_rows_update_by image_update_by id)
  show "hold_pairs (update_liability lid g db) x = hold_pairs db x" for x
  proof -
    have "pairs_of (update_by ml_id lid g ls) as = pairs_of ls as" if "lid \<notin> at_liability_id ` set as" for ls as
      using that by (induction as) (auto simp: row_at_update_by [of ml_id g, OF id] split: option.split)
    moreover have "lid \<notin> at_liability_id ` set (filter (\<lambda>a. at_hold_id a = x) (xd_attempts db))" using assms(2) by auto
    ultimately show ?thesis by (simp add: hold_pairs_eq update_liability_def)
  qed
qed (simp add: update_liability_def)

lemma issue_quote_sound:
  assumes "issue_service_quote env db user fp key route policy commercial t = Inr (q, db')" and "exec_sound db"
  shows "exec_sound db'"
proof (rule exec_sound_same [OF assms(2)])
  have keys: "exec_keys db" using assms(2) by (simp add: exec_sound_def)
  have "db' = db \<or> (\<exists>qs. db' = db\<lparr>xd_credit := (xd_credit db)\<lparr>db_drawn := Suc (db_drawn (xd_credit db))\<rparr>, xd_quotes := qs\<rparr>)"
    using assms(1) by (auto simp: issue_service_quote_def result_simps Let_def draw_eq split: option.splits)
  then show "exec_keys db'" "xd_holds db' = xd_holds db" "\<And>x. hold_pairs db' x = hold_pairs db x"
    using keys exec_keys_bump [OF keys] by auto
qed

theorem exec_step_sound: "exec_step db db' \<Longrightarrow> exec_sound db \<Longrightarrow> exec_sound db'"
proof (induction rule: exec_step.induct)
  case (claim env acc db user hid ck req route policy t x db')
  then show ?case by (cases x) (auto intro: claim_attempt_sound)
next
  case (ledger db c)
  then show ?case
    by (intro exec_sound_same [OF ledger.prems]) (auto simp: exec_sound_def intro: exec_keys_credit credit_step_supply)
next
  case (queue db rows)
  then show ?case by (intro exec_sound_same [OF queue]) (auto simp: exec_sound_def exec_keys_def)
next
  case (older_work db services free)
  then show ?case
    by (intro exec_sound_same [OF older_work]) (auto simp: exec_sound_def exec_keys_def hold_pairs_eq)
qed (auto intro: finish_attempt_sound record_native_cost_sound settle_delivery_sound admit_sound issue_quote_sound
      older_call_sound older_cost_sound erasure_sound)

end
