(* ===== verification/Execution_Properties.thy ===== *)
theory Execution_Properties
  imports Admission_Safety
begin

text \<open>
  The properties of funded executions, each with a witness on a small run: one owner with
  100 credits, a route with two model quotes, a claimed attempt and its callback.
\<close>

section \<open>What a budget relies on\<close>

text \<open>
  An admission guard adds up what commitments hold. \<open>covered_exposure\<close> is what it needs of
  whoever keeps them: in every state that can be reached no commitment has spent more than
  the guard counts for it.
\<close>

locale covered_exposure = step_invariant step ok
  for step :: "'s \<Rightarrow> 's \<Rightarrow> bool" and ok :: "'s \<Rightarrow> bool" +
  fixes commitments :: "'s \<Rightarrow> 'c list" and spent :: "'s \<Rightarrow> 'c \<Rightarrow> int" and counted :: "'c \<Rightarrow> int"
  assumes covers: "ok s \<Longrightarrow> c \<in> set (commitments s) \<Longrightarrow> spent s c \<le> counted c"
begin

lemma total_covered:
  assumes "step\<^sup>*\<^sup>* s s'" and "ok s"
  shows "total p (spent s') (commitments s') \<le> total p counted (commitments s')"
  unfolding total_def using covers [OF run_ok [OF assms]] by (intro sum_list_mono) simp

end

text \<open>What a hold has cost so far: metered native work and every observed provider cost.\<close>

definition observed_minor :: "exec_db \<Rightarrow> execution_hold \<Rightarrow> int" where
  "observed_minor db h =
     amount_or_0 (eh_native_settled_minor h)
     + sum_list (map (\<lambda>p. cost_minor (sk_policy (eh_snapshot h)) (amount_or_0 (ml_settled_cost (snd p)))) (hold_pairs db (eh_id h)))"

lemma observed_le_total:
  assumes "hold_core h ps"
  shows "amount_or_0 (eh_native_settled_minor h)
     + sum_list (map (\<lambda>p. cost_minor (sk_policy (eh_snapshot h)) (amount_or_0 (ml_settled_cost (snd p)))) ps) \<le> hold_total h ps"
proof -
  have "sum_list (map (\<lambda>p. cost_minor (sk_policy (eh_snapshot h)) (amount_or_0 (ml_settled_cost (snd p)))) ps)
      \<le> sum_list (map (\<lambda>(a, l). cost_minor (sk_policy (eh_snapshot h)) (used_cost l)) ps)"
    using assms by (intro sum_list_mono) (auto simp: hold_core_def case_prod_beta intro!: cost_minor_mono coupled_observed)
  moreover have "amount_or_0 (eh_native_settled_minor h) \<le> native_total h"
    using assms by (auto simp: hold_core_def native_total_def amount_or_0_def split: option.splits)
  ultimately show ?thesis by (simp add: hold_total_def)
qed

lemma total_le_amount:
  assumes "hold_sound h ps" shows "hold_total h ps \<le> hold_amount h"
proof (cases "eh_settled_minor h")
  case None
  with assms have fresh: "eh_native_settled_minor h = None" "\<forall>p \<in> set ps. \<not> cost_final (snd p)" "eh_state h \<noteq> HoldSettled"
    by (auto simp: hold_sound_def hold_money_def)
  have "\<not> hold_overrun h ps"
    using assms fresh(1,2)
    by (auto simp: hold_sound_def hold_core_def hold_overrun_def native_total_def list_ex_iff coupled_def cost_final_def)
  with assms have "hold_total h ps \<le> eh_reserved_minor h"
    using hold_total_bound [of h ps] by (simp add: hold_sound_def hold_core_def)
  with fresh(3) show ?thesis by (simp add: hold_amount_def)
next
  case (Some n)
  with assms show ?thesis by (auto simp: hold_sound_def hold_money_def hold_amount_def amount_or_0_def)
qed

interpretation fleet: covered_exposure exec_step exec_sound xd_holds observed_minor hold_amount
proof
  show "exec_step s s' \<Longrightarrow> exec_sound s \<Longrightarrow> exec_sound s'" for s s' by (rule exec_step_sound)
  show "observed_minor s c \<le> hold_amount c" if "exec_sound s" and "c \<in> set (xd_holds s)" for s c
  proof -
    have sound: "hold_sound c (hold_pairs s (eh_id c))" using that by (simp add: exec_sound_def)
    then have "observed_minor s c \<le> hold_total c (hold_pairs s (eh_id c))"
      unfolding observed_minor_def by (intro observed_le_total) (simp add: hold_sound_def)
    also have "\<dots> \<le> hold_amount c" by (rule total_le_amount [OF sound])
    finally show ?thesis .
  qed
qed

lemma reachable_hold:
  assumes "exec_sound db" and "exec_step\<^sup>*\<^sup>* db db'" and "h \<in> set (xd_holds db')"
  shows "hold_sound h (hold_pairs db' (eh_id h))"
  using fleet.run_ok [OF assms(2,1)] assms(3) by (simp add: exec_sound_def)

section \<open>A small run\<close>

definition sample_price :: price_quote where
  "sample_price = \<lparr>pq_provider = ''google'', pq_model = ''m'', pq_api_base = ''https://generativelanguage.googleapis.com'',
     pq_version = ''v'', pq_price_source_url = ''u'', pq_output_limit_source_url = ''u'', pq_usage_source_url = ''u'',
     pq_valid_from = 0, pq_expires_at = 1000, pq_input_rate = 300000, pq_output_rate = 2500000,
     pq_max_input_tokens = 2000, pq_max_output_tokens = 800, pq_output_limit_parameter = ''max_output_tokens'',
     pq_token_estimator = ''utf8-json-bytes-framing-v1''\<rparr>"

definition digest :: string where "digest = replicate 64 (CHR ''0'')"

definition sample_route :: qualified_route where
  "sample_route = \<lparr>qr_id = ''r'', qr_version = ''1'', qr_operation = ''enhanced_qa'',
     qr_tariff_version = ''credit-services-2026-10-27-v1'', qr_credits = the (map_of SERVICE_CREDITS ''enhanced_qa''),
     qr_mode = Enhanced, qr_deliverable = ''answer'', qr_supported_limits = [(''questions'', 1)], qr_source_formats = [],
     qr_qualification_id = ''q'', qr_evidence_sha256 = digest, qr_output_contract_sha256 = Some digest,
     qr_qualified_from = 0, qr_qualified_until = 1000, qr_native_cost_evidence_sha256 = digest,
     qr_native_processing_minor = 3, qr_worker_processing_minor = 2, qr_model_quotes = [sample_price, sample_price]\<rparr>"

definition sample_policy :: financial_policy where
  "sample_policy = \<lparr>fp_version = ''p'', fp_valid_from = 0, fp_expires_at = 1000, fp_provenance = InvoiceReconciled,
     fp_evidence_sha256 = digest, fp_execution_minor_per_credit = 45, fp_included_sales_tax_bps = 1800,
     fp_gateway_gross_bps = 236, fp_refund_gross_bps = 200, fp_incident_net_bps = 1000,
     fp_minimum_net_margin_bps = 1500, fp_target_net_margin_bps = 2000, fp_adverse_fx_minor_per_usd = 10000,
     fp_unrecoverable_provider_tax_bps = 1800\<rparr>"

definition sample_budgets :: budget_policy where
  "sample_budgets = \<lparr>bp_version = ''b'', bp_evidence_sha256 = digest, bp_valid_from = 0, bp_expires_at = 1000,
     bp_daily_global_minor = 500, bp_monthly_global_minor = 900, bp_monthly_account_minor = 300,
     bp_monthly_incident_minor = 300, bp_monthly_route_minor = [(''r'', 400)], bp_legacy_search_cost_minor = 5,
     bp_legacy_application_cost_minor = 7, bp_legacy_preparation_minor = 2, bp_legacy_provider_attempt_overhead_minor = 1\<rparr>"

definition sample_route_env :: route_env where
  "sample_route_env = \<lparr>en_rate_digest = (\<lambda>_. digest), en_contract_digest = (\<lambda>_. digest), en_output_contract = (\<lambda>_. Some (Some digest))\<rparr>"

definition sample_lot :: credit_grant where
  "sample_lot = \<lparr>g_id = ''cg_x'', g_user_id = Some 1, g_source_type = ''payment_order'', g_source_id = ''o'',
     g_origin_type = ''payment_order'', g_origin_id = ''o'', g_funding_kind = ''paid'', g_quantity = 100,
     g_remaining_credits = 98, g_expired_credits = 0, g_issued_at = 0, g_expires_at = None,
     g_terms_snapshot = DictTerms (JObj []), g_parent_grant_id = None\<rparr>"

definition sample_reservation :: credit_reservation where
  "sample_reservation = \<lparr>r_id = ''cr_x'', r_user_id = Some 1, r_idempotency_key = ''op'', r_operation = ''enhanced_qa'',
     r_source_id = ''s'', r_input_fingerprint = digest, r_quote_snapshot = JObj [], r_execution_allowance_minor = 67,
     r_reserved_credits = 2, r_committed_credits = 0, r_released_credits = 0, r_state = Reserved, r_created_at = 6,
     r_settled_at = None\<rparr>"

definition sample_credit :: credit_db where
  "sample_credit = \<lparr>db_users = [1], db_accounts = [\<lparr>acc_user_id = 1, acc_debt_credits = 0\<rparr>], db_campaigns = [], db_quotes = [],
     db_grants = [sample_lot], db_reservations = [sample_reservation],
     db_allocations = [\<lparr>al_id = ''ca_x'', al_reservation_id = ''cr_x'', al_grant_id = ''cg_x'', al_ordinal = 0,
       al_quantity = 2, al_committed_credits = 0, al_released_credits = 0\<rparr>], db_events = [],
     db_supply = (\<lambda>n. replicate n (CHR ''a'')), db_drawn = 0\<rparr>"

definition sample_snapshot :: hold_snapshot where
  "sample_snapshot = \<lparr>sk_route = sample_route, sk_policy = sample_policy, hs_budgets = sample_budgets,
     hs_execution_mode = InlineMode, hs_canary = None, hs_public_admission = None\<rparr>"

definition sample_hold :: execution_hold where
  "sample_hold = \<lparr>eh_id = ''ceh_x'', eh_user_id = Some 1, eh_reservation_id = ''cr_x'', eh_group_id = ''fin_x'', eh_route_id = ''r'',
     eh_funding_kind = ''prepaid'', eh_reserved_minor = 67, eh_native_reserved_minor = 5, eh_settled_minor = None,
     eh_native_settled_minor = None, eh_state = HoldRunning, eh_delivery_state = DeliveryPending,
     eh_snapshot = sample_snapshot, eh_created_at = 6, eh_settled_at = None\<rparr>"

definition sample_attempt :: "string \<Rightarrow> string \<Rightarrow> nat \<Rightarrow> cost_state \<Rightarrow> string option \<Rightarrow> execution_attempt" where
  "sample_attempt i l n s k = \<lparr>at_id = i, at_hold_id = ''ceh_x'', at_liability_id = l, at_ordinal = n, at_state = s,
     at_claim_key = k, at_request_hash = None, at_started_at = None, at_finished_at = None\<rparr>"

definition sample_liability :: "string \<Rightarrow> nat \<Rightarrow> cost_state \<Rightarrow> liability" where
  "sample_liability i n s = \<lparr>ml_id = i, ml_group_id = ''fin_x'', ml_attempt_number = n, ml_provider = ''google'', ml_model = ''m'',
     ml_endpoint_key = digest, ml_quote = liability_terms sample_price ''prepaid'' ''p'', ml_input_token_estimate = 2000,
     ml_reserved_cost = 2600, ml_settled_cost = None, ml_input_tokens = None, ml_output_tokens = None,
     ml_usage_provenance = None, ml_state = s, ml_created_at = 6, ml_settled_at = None\<rparr>"

text \<open>An operation whose first request is under way.\<close>

definition claimed_db :: exec_db where
  "claimed_db = \<lparr>xd_credit = sample_credit, xd_quotes = [], xd_holds = [sample_hold],
     xd_attempts = [sample_attempt ''cea_x'' ''mcl_x'' 1 CostStarted (Some ''c1''), sample_attempt ''cea_y'' ''mcl_y'' 2 CostPlanned None],
     xd_liabilities = [sample_liability ''mcl_x'' 1 CostReserved, sample_liability ''mcl_y'' 2 CostPlanned],
     xd_outbox = [], xd_services = [], xd_free = []\<rparr>"

definition sample_binding :: completion_binding where
  "sample_binding = \<lparr>cb_hold_id = ''ceh_x'', cb_attempt_id = ''cea_x'', cb_liability_id = ''mcl_x'', cb_group_id = ''fin_x'',
     cb_claim_key = ''c1'', cb_ordinal = 1, cb_owner_id = 1\<rparr>"

definition sample_response :: "int \<Rightarrow> provider_response" where
  "sample_response n = NativeResponse (Some \<lparr>gu_prompt = JInt 900, gu_candidates = JInt 300, gu_total = JInt (900 + n), gu_thoughts = JNull\<rparr>)"

definition sample_callback :: "int \<Rightarrow> funding_error + exec_db" where
  "sample_callback n = finish_attempt (\<lambda>s. digest) claimed_db sample_binding (sample_response n) False (Some ''req'') 8"

lemma inj_replicate: "inj (\<lambda>n. replicate n (CHR ''a''))"
  by (rule injI) (metis length_replicate)

lemma claimed_sound: "exec_sound claimed_db"
proof -
  have apart: "CHR ''x'' # [] \<noteq> replicate k (CHR ''a'')" "CHR ''y'' # [] \<noteq> replicate k (CHR ''a'')" for k
    by (cases k; simp)+
  have "exec_keys claimed_db"
    using apart by (simp add: exec_keys_def claimed_db_def sample_credit_def inj_replicate fresh_rows_def sample_hold_def
        sample_attempt_def sample_liability_def)
  moreover have "list_all (\<lambda>h. hold_sound h (hold_pairs claimed_db (eh_id h))) (xd_holds claimed_db)" by code_simp
  ultimately show ?thesis by (simp add: exec_sound_def list_all_iff)
qed

lemma callback_ok: "isl (sample_callback 400) = False" by code_simp
lemma callback_over: "isl (sample_callback 900) = False" by code_simp

lemma callback_step:
  assumes "sample_callback n = Inr db'" shows "exec_step\<^sup>*\<^sup>* claimed_db db'"
  using assms by (auto simp: sample_callback_def intro: exec_step.callback)

section \<open>Properties\<close>

text \<open>
  C35. The budget guards never undercount: in every state that can be reached, what the
  holds in a query's scope are counted with covers all native work metered and all provider
  cost observed on them, whatever is still unknown, settled late, erased or overrun.
\<close>

theorem counted_exposure_covers_cost:
  assumes "exec_sound db" and "exec_step\<^sup>*\<^sup>* db db'"
  shows "total (hold_in_scope s) (observed_minor db') (xd_holds db') \<le> total (hold_in_scope s) hold_amount (xd_holds db')"
  by (rule fleet.total_covered [OF assms(2,1)])

lemma counted_exposure_covers_cost_witness:
  "\<exists>db'. sample_callback 400 = Inr db' \<and>
     15 \<le> total (hold_in_scope (fleet_since 0)) (observed_minor db') (xd_holds db') \<and>
     total (hold_in_scope (fleet_since 0)) (observed_minor db') (xd_holds db')
       \<le> total (hold_in_scope (fleet_since 0)) hold_amount (xd_holds db')"
proof -
  obtain db' where run: "sample_callback 400 = Inr db'" using callback_ok by (cases "sample_callback 400") auto
  have "(case sample_callback 400 of Inr d \<Rightarrow> 15 \<le> total (hold_in_scope (fleet_since 0)) (observed_minor d) (xd_holds d) | Inl _ \<Rightarrow> False)"
    by code_simp
  with run counted_exposure_covers_cost [OF claimed_sound callback_step [OF run], of "fleet_since 0"] show ?thesis by simp
qed

text \<open>
  C36. A hold never has two provider requests without a final outcome, its attempts are
  claimed in the order of the plan, and while one attempt has no outcome, has an unusable
  one or an overrun, every further claim on the hold is refused.
\<close>

theorem one_request_in_flight:
  assumes "exec_sound db" and "exec_step\<^sup>*\<^sup>* db db'" and "h \<in> set (xd_holds db')"
  shows "length (filter blocked (hold_pairs db' (eh_id h))) \<le> 1 \<and> claimed_first (hold_pairs db' (eh_id h)) \<and>
    (filter blocked (hold_pairs db' (eh_id h)) = [] \<or> isl (claim_attempt env acc db' user (eh_id h) ck req route policy t))"
proof -
  have "isl (claim_attempt env acc db' user (eh_id h) ck req route policy t)"
    if open': "filter blocked (hold_pairs db' (eh_id h)) \<noteq> []"
  proof (rule ccontr)
    assume "\<not> isl (claim_attempt env acc db' user (eh_id h) ck req route policy t)"
    then obtain b r db2 where "claim_attempt env acc db' user (eh_id h) ck req route policy t = Inr ((b, r), db2)"
      by (cases "claim_attempt env acc db' user (eh_id h) ck req route policy t") auto
    then have idle: "\<forall>x \<in> set (hold_attempts db' (eh_id h)). \<not> outcome_blocks (at_state x)"
      by (rule claim_attempt_Inr) blast
    from open' obtain p where "p \<in> set (hold_pairs db' (eh_id h))" "blocked p" by (auto simp: filter_empty_conv)
    with idle hold_pairs_mem(1,2) [of p db' "eh_id h"] show False by (auto simp: blocked_def set_hold_attempts)
  qed
  with reachable_hold [OF assms] show ?thesis by (auto simp: hold_sound_def hold_core_def)
qed

lemma one_request_in_flight_witness:
  "length (filter blocked (hold_pairs claimed_db ''ceh_x'')) = 1 \<and>
   isl (claim_attempt sample_route_env True claimed_db 1 ''ceh_x'' ''c2'' \<lparr>rq_provider = ''google'', rq_model = ''m'',
     rq_api_base = ''https://generativelanguage.googleapis.com/'', rq_messages = [], rq_counted = None\<rparr> sample_route sample_policy 9)"
proof -
  have "length (filter blocked (hold_pairs claimed_db ''ceh_x'')) = 1" by code_simp
  moreover have "sample_hold \<in> set (xd_holds claimed_db)" "eh_id sample_hold = ''ceh_x''"
    by (simp_all add: claimed_db_def sample_hold_def)
  ultimately show ?thesis
    using one_request_in_flight [OF claimed_sound rtranclp.rtrancl_refl, of sample_hold sample_route_env True 1 "''c2''"
        "\<lparr>rq_provider = ''google'', rq_model = ''m'', rq_api_base = ''https://generativelanguage.googleapis.com/'',
          rq_messages = [], rq_counted = None\<rparr>" sample_route sample_policy 9]
    by auto
qed

text \<open>
  C37. The reserve of a hold is at most the execution allowance of its credits, and an
  operation goes over it only when a provider reported more than its quote or native work was
  metered above its reserve: otherwise the settled amount stays within the reserve, with
  every rounding of the ledger included.
\<close>

theorem overrun_only_when_observed:
  assumes "exec_sound db" and "exec_step\<^sup>*\<^sup>* db db'" and "h \<in> set (xd_holds db')"
  shows "eh_reserved_minor h \<le> qr_credits (sk_route (eh_snapshot h)) * EXECUTION_MINOR_PER_CREDIT \<and>
    (if eh_state h = HoldOverrun
     then native_total h > eh_native_reserved_minor h \<or>
       list_ex (\<lambda>(a, l). exceeds_quote l (amount_or_0 (ml_settled_cost l)) (amount_or_0 (ml_input_tokens l)) (amount_or_0 (ml_output_tokens l)))
         (hold_pairs db' (eh_id h))
     else amount_or_0 (eh_settled_minor h) \<le> eh_reserved_minor h)"
proof -
  let ?ps = "hold_pairs db' (eh_id h)"
  have sound: "hold_core h ?ps" "hold_money h ?ps" using reachable_hold [OF assms] by (simp_all add: hold_sound_def)
  have breach: "list_ex (\<lambda>(a, l). exceeds_quote l (amount_or_0 (ml_settled_cost l)) (amount_or_0 (ml_input_tokens l)) (amount_or_0 (ml_output_tokens l))) ?ps"
    if "(a, l) \<in> set ?ps" and "at_state a = CostOverrun" for a l
  proof -
    have "coupled a l" using sound(1) that(1) by (auto simp: hold_core_def)
    with that show ?thesis by (auto simp: coupled_def list_ex_iff intro!: bexI [of _ "(a, l)"])
  qed
  have "amount_or_0 (eh_settled_minor h) \<le> eh_reserved_minor h" if calm: "eh_state h \<noteq> HoldOverrun"
  proof (cases "eh_settled_minor h")
    case None
    have "0 \<le> reserved_total h ?ps"
      using sound(1) by (auto simp: hold_core_def reserved_total_def coupled_def intro!: add_nonneg_nonneg sum_list_nonneg cost_minor_nonneg)
    with None sound(1) show ?thesis by (simp add: amount_or_0_def hold_core_def)
  next
    case (Some n)
    have "\<not> hold_overrun h ?ps" using calm sound(2) by (simp add: hold_money_def)
    with Some sound hold_total_bound [OF sound(1)] show ?thesis by (simp add: amount_or_0_def hold_core_def hold_money_def)
  qed
  moreover have "native_total h > eh_native_reserved_minor h \<or>
      list_ex (\<lambda>(a, l). exceeds_quote l (amount_or_0 (ml_settled_cost l)) (amount_or_0 (ml_input_tokens l)) (amount_or_0 (ml_output_tokens l))) ?ps"
    if "eh_state h = HoldOverrun"
  proof -
    have "hold_overrun h ?ps" using that sound(2) by (simp add: hold_money_def)
    then consider "native_total h > eh_native_reserved_minor h" | a l where "(a, l) \<in> set ?ps" "at_state a = CostOverrun"
      by (auto simp: hold_overrun_def list_ex_iff)
    then show ?thesis by cases (use breach in blast)+
  qed
  ultimately show ?thesis using sound(1) by (simp add: hold_core_def)
qed

lemma overrun_only_when_observed_witness:
  "\<exists>db' h. sample_callback 900 = Inr db' \<and> h \<in> set (xd_holds db') \<and> eh_state h = HoldOverrun \<and> native_total h = 5 \<and>
     list_ex (\<lambda>(a, l). exceeds_quote l (amount_or_0 (ml_settled_cost l)) (amount_or_0 (ml_input_tokens l)) (amount_or_0 (ml_output_tokens l)))
       (hold_pairs db' (eh_id h))"
proof -
  obtain db' where run: "sample_callback 900 = Inr db'" using callback_over by (cases "sample_callback 900") auto
  have "(case sample_callback 900 of Inr d \<Rightarrow> list_ex (\<lambda>h. eh_state h = HoldOverrun \<and> native_total h = 5 \<and> eh_native_reserved_minor h = 5) (xd_holds d) | Inl _ \<Rightarrow> False)"
    by code_simp
  with run obtain h where h: "h \<in> set (xd_holds db')" "eh_state h = HoldOverrun" "native_total h = 5" "eh_native_reserved_minor h = 5"
    by (auto simp: list_ex_iff)
  with run overrun_only_when_observed [OF claimed_sound callback_step [OF run] h(1)] show ?thesis by auto
qed

end
