(* ===== verification/Execution_Runs.thy ===== *)
theory Execution_Runs
  imports Execution_Properties
begin

text \<open>
  Two facts about whole runs. References between the tables stay closed: a hold's
  reservation exists, an attempt has its hold, its place in the route and its liability, so
  the queries that expect one row find it. And an outcome of a delivery is final.
\<close>

section \<open>References\<close>

definition hold_key :: "execution_hold \<Rightarrow> string \<times> string \<times> string \<times> hold_snapshot" where
  "hold_key h = (eh_id h, eh_reservation_id h, eh_group_id h, eh_snapshot h)"

definition attempt_key :: "execution_attempt \<Rightarrow> string \<times> string \<times> nat" where
  "attempt_key a = (at_hold_id a, at_liability_id a, at_ordinal a)"

definition liability_key :: "liability \<Rightarrow> string \<times> string" where
  "liability_key l = (ml_id l, ml_group_id l)"

lemmas key_defs = hold_key_def attempt_key_def liability_key_def

definition attempt_placed :: "exec_db \<Rightarrow> execution_attempt \<Rightarrow> execution_hold \<Rightarrow> bool" where
  "attempt_placed db a h \<longleftrightarrow>
     eh_id h = at_hold_id a \<and> 1 \<le> at_ordinal a \<and> at_ordinal a \<le> length (qr_model_quotes (sk_route (eh_snapshot h))) \<and>
     (at_liability_id a, eh_group_id h) \<in> liability_key ` set (xd_liabilities db)"

definition refers :: "exec_db \<Rightarrow> bool" where
  "refers db \<longleftrightarrow>
     (\<forall>h \<in> set (xd_holds db). eh_reservation_id h \<in> r_id ` set (db_reservations (xd_credit db))) \<and>
     (\<forall>a \<in> set (xd_attempts db). \<exists>h \<in> set (xd_holds db). attempt_placed db a h)"

text \<open>The keys after an operation that adds no hold.\<close>

definition same_refs :: "exec_db \<Rightarrow> exec_db \<Rightarrow> bool" where
  "same_refs db db' \<longleftrightarrow>
     hold_key ` set (xd_holds db') = hold_key ` set (xd_holds db) \<and>
     attempt_key ` set (xd_attempts db') = attempt_key ` set (xd_attempts db) \<and>
     (\<forall>k \<in> liability_key ` set (xd_liabilities db).
        fst k \<in> at_liability_id ` set (xd_attempts db) \<longrightarrow> k \<in> liability_key ` set (xd_liabilities db')) \<and>
     supply_le (xd_credit db) (xd_credit db')"

lemma liability_ids: "at_liability_id ` set as = (\<lambda>k. fst (snd k)) ` attempt_key ` set as"
  by (simp add: image_image attempt_key_def)

lemma same_refs_refl [simp, intro]: "same_refs db db"
  by (simp add: same_refs_def)

lemma same_refs_trans [trans]:
  assumes "same_refs a b" and "same_refs b c" shows "same_refs a c"
proof -
  have "at_liability_id ` set (xd_attempts b) = at_liability_id ` set (xd_attempts a)"
    using assms(1) by (simp add: liability_ids same_refs_def)
  with assms show ?thesis by (auto simp: same_refs_def intro: supply_le_trans)
qed

lemma same_refs_keeps:
  assumes same: "same_refs db db'" and refs: "refers db" shows "refers db'"
  unfolding refers_def
proof (intro conjI ballI)
  fix h' assume "h' \<in> set (xd_holds db')"
  then have "hold_key h' \<in> hold_key ` set (xd_holds db)" using same by (auto simp: same_refs_def)
  then obtain h where "h \<in> set (xd_holds db)" "hold_key h' = hold_key h" by auto
  then show "eh_reservation_id h' \<in> r_id ` set (db_reservations (xd_credit db'))"
    using same refs by (auto simp: same_refs_def refers_def supply_le_def hold_key_def)
next
  fix a' assume "a' \<in> set (xd_attempts db')"
  then have "attempt_key a' \<in> attempt_key ` set (xd_attempts db)" using same by (auto simp: same_refs_def)
  then obtain a where a: "a \<in> set (xd_attempts db)" "attempt_key a' = attempt_key a" by auto
  then obtain h where h: "h \<in> set (xd_holds db)" "attempt_placed db a h" using refs by (auto simp: refers_def)
  then have "hold_key h \<in> hold_key ` set (xd_holds db')" using same by (auto simp: same_refs_def)
  then obtain h' where h': "h' \<in> set (xd_holds db')" "hold_key h' = hold_key h" by auto
  have "(at_liability_id a, eh_group_id h) \<in> liability_key ` set (xd_liabilities db')"
    using same h(2) a(1) unfolding same_refs_def attempt_placed_def by (metis fst_conv imageI)
  with h(2) h'(2) a(2) have "attempt_placed db' a' h'" by (simp add: attempt_placed_def hold_key_def attempt_key_def)
  with h'(1) show "\<exists>h \<in> set (xd_holds db'). attempt_placed db' a' h" ..
qed

section \<open>The outcome of a delivery stays\<close>

definition outcome_kept :: "exec_db \<Rightarrow> exec_db \<Rightarrow> bool" where
  "outcome_kept db db' \<longleftrightarrow>
     (\<forall>h \<in> set (xd_holds db). eh_delivery_state h \<noteq> DeliveryPending \<longrightarrow>
        (\<exists>h' \<in> set (xd_holds db'). eh_id h' = eh_id h \<and> eh_delivery_state h' = eh_delivery_state h))"

lemma outcome_kept_holds: "set (xd_holds db) \<subseteq> set (xd_holds db') \<Longrightarrow> outcome_kept db db'"
  by (auto simp: outcome_kept_def)

lemma outcome_kept_trans [trans]: "outcome_kept a b \<Longrightarrow> outcome_kept b c \<Longrightarrow> outcome_kept a c"
  unfolding outcome_kept_def by metis

lemma outcome_kept_map:
  assumes "xd_holds db' = map f (xd_holds db)" and "\<And>h. eh_id (f h) = eh_id h"
    and "\<And>h. h \<in> set (xd_holds db) \<Longrightarrow> eh_delivery_state h \<noteq> DeliveryPending \<Longrightarrow> eh_delivery_state (f h) = eh_delivery_state h"
  shows "outcome_kept db db'"
  using assms by (auto simp: outcome_kept_def)

text \<open>What an operation that adds no hold leaves.\<close>

definition kept :: "exec_db \<Rightarrow> exec_db \<Rightarrow> bool" where
  "kept db db' \<longleftrightarrow> same_refs db db' \<and> outcome_kept db db'"

lemma kept_refl [simp, intro]: "kept db db"
  by (simp add: kept_def outcome_kept_holds)

lemma kept_trans [trans]: "kept a b \<Longrightarrow> kept b c \<Longrightarrow> kept a c"
  by (auto simp: kept_def intro: same_refs_trans outcome_kept_trans)

lemma kept_holds:
  assumes "\<And>h. hold_key (f h) = hold_key h" and "\<And>h. eh_delivery_state (f h) = eh_delivery_state h"
  shows "kept db (update_hold hid f db)"
proof -
  have "hold_key ` set (xd_holds (update_hold hid f db)) = hold_key ` set (xd_holds db)"
    unfolding update_hold_def by (simp add: image_update_by assms(1))
  moreover have "eh_id (f h) = eh_id h" for h using assms(1) [of h] by (simp add: hold_key_def)
  then have "outcome_kept db (update_hold hid f db)"
    by (intro outcome_kept_map [of _ "\<lambda>h. if eh_id h = hid then f h else h"]) (auto simp: update_hold_def update_by_def assms(2))
  ultimately show ?thesis by (auto simp: kept_def same_refs_def update_hold_def)
qed

lemma kept_refresh: "kept db (refresh_hold hid t db)"
  unfolding refresh_hold_def by (rule kept_holds) (simp_all add: hold_key_def)

lemma kept_touch:
  assumes "keeps_keys f g" shows "kept db (touch a f g db)"
proof -
  have "attempt_key (f x) = attempt_key x" "liability_key (g l) = liability_key l" for x l
    using assms by (simp_all add: keeps_keys_def attempt_key_def liability_key_def)
  then show ?thesis by (simp add: kept_def same_refs_def image_update_by outcome_kept_holds)
qed

lemma kept_credit: "supply_le (xd_credit db) c \<Longrightarrow> kept db (db\<lparr>xd_credit := c\<rparr>)"
  by (simp add: kept_def same_refs_def outcome_kept_holds)

lemma kept_close:
  assumes "\<forall>p \<in> set ps. ml_id (snd p) = at_liability_id (fst p)"
  shows "kept db (fold (close_attempt d t) ps db)"
  using assms
proof (induction ps arbitrary: db)
  case (Cons p ps)
  have "close_attempt d t p db = touch (fst p) (close_f t (fst p)) (close_g d t (fst p)) db"
    using Cons.prems close_attempt_touch [of "snd p" "fst p" d t db] by simp
  then have "kept db (close_attempt d t p db)" by (simp add: kept_touch keeps_close)
  also have "kept (close_attempt d t p db) (fold (close_attempt d t) ps (close_attempt d t p db))" using Cons by simp
  finally show ?case by simp
qed simp

section \<open>The operations\<close>

lemma claim_kept:
  assumes "claim_attempt env acc db user hid ck req route policy t = Inr ((b, r), db')" shows "kept db db'"
  using assms
proof (rule claim_attempt_Inr)
  fix hold a e
  assume "db' = start_request ck t e hold a db"
  then have "db' = update_hold (eh_id hold) (\<lambda>h. h\<lparr>eh_state := HoldRunning\<rparr>) (touch a (start_attempt ck t) (reserve_liability e) db)"
    by (simp add: start_request_touch)
  moreover have "kept db (touch a (start_attempt ck t) (reserve_liability e) db)" by (rule kept_touch [OF keeps_start])
  moreover have "kept x (update_hold hid (\<lambda>h. h\<lparr>eh_state := HoldRunning\<rparr>) x)" for x hid
    by (rule kept_holds) (simp_all add: hold_key_def)
  ultimately show ?thesis by (auto intro: kept_trans)
qed

lemma finish_kept:
  assumes "finish_attempt sha db b response failed rid t = Inr db'" shows "kept db db'"
  using assms
proof (cases rule: finish_attempt_Inr)
  case (2 hold a l db1)
  let ?used = "if failed then None else usage_of response (ml_provider l)"
  have "kept db (record_usage a l failed ?used t db1)"
    unfolding note_outcome_touch [OF 2(8,6)] by (rule kept_touch [OF keeps_outcome])
  with 2(9) show ?thesis by (auto intro: kept_trans kept_refresh)
qed simp

lemma native_kept:
  assumes "record_native_cost db user hid n t = Inr db'" shows "kept db db'"
proof -
  have db': "db' = refresh_hold hid t (update_hold hid (\<lambda>h. h\<lparr>eh_native_settled_minor := Some n\<rparr>) db)"
    using assms by (auto simp: record_native_cost_def result_simps)
  have "kept db (update_hold hid (\<lambda>h. h\<lparr>eh_native_settled_minor := Some n\<rparr>) db)"
    by (rule kept_holds) (simp_all add: hold_key_def)
  then show ?thesis unfolding db' by (rule kept_trans [OF _ kept_refresh])
qed

lemma kept_outcome:
  assumes "distinct (map eh_id (xd_holds db))" and "hold \<in> set (xd_holds db)" and "eh_delivery_state hold = DeliveryPending"
  shows "kept db (update_hold (eh_id hold) (\<lambda>h. h\<lparr>eh_delivery_state := d\<rparr>) db)"
proof -
  let ?f = "\<lambda>h. h\<lparr>eh_delivery_state := d\<rparr>"
  have "hold_key (?f h) = hold_key h" for h by (simp add: hold_key_def)
  then have "same_refs db (update_hold (eh_id hold) ?f db)"
    unfolding same_refs_def update_hold_def by (simp add: image_update_by)
  moreover have "h = hold" if "h \<in> set (xd_holds db)" "eh_id h = eh_id hold" for h
    using distinct_key_eq [OF assms(1) that(1) assms(2) that(2)] .
  then have "outcome_kept db (update_hold (eh_id hold) ?f db)"
    using assms(3) by (intro outcome_kept_map [of _ "\<lambda>h. if eh_id h = eh_id hold then ?f h else h"]) (auto simp: update_hold_def update_by_def)
  ultimately show ?thesis by (simp add: kept_def)
qed

lemma settle_kept:
  assumes "settle_delivery db user hid delivered t = Inr db'" and keys: "exec_keys db" shows "kept db db'"
  using assms(1)
proof (cases rule: settle_delivery_Inr)
  case (settled hold reservation row credit)
  let ?ps = "hold_pairs db hid"
  let ?db1 = "fold (close_attempt delivered t) ?ps db"
  note hold = owned_holdD [OF settled(1)]
  have mem: "\<forall>p \<in> set ?ps. ml_id (snd p) = at_liability_id (fst p)" using hold_pairs_mem(4) by auto
  note frame = close_fold_frame [OF mem keys, of delivered t]
  have "kept db ?db1" by (rule kept_close [OF mem])
  also have "kept ?db1 (?db1\<lparr>xd_credit := credit\<rparr>)" by (rule kept_credit [OF supply_settle [OF settled(5)]])
  also have "kept (?db1\<lparr>xd_credit := credit\<rparr>) (update_hold hid (\<lambda>h. h\<lparr>eh_delivery_state := (if delivered then DeliveryDone else DeliveryFailed)\<rparr>) (?db1\<lparr>xd_credit := credit\<rparr>))"
    using kept_outcome [of "?db1\<lparr>xd_credit := credit\<rparr>" hold] frame hold settled(2) exec_keyed [OF keys]
    by (auto simp: exec_keys_def dest: fresh_rows_distinct)
  also have "kept \<dots> db'" unfolding settled(6) by (rule kept_refresh)
  finally show ?thesis .
qed simp

section \<open>Admission\<close>

lemma plan_fold_refs:
  fixes sha :: "string \<Rightarrow> string" and hid gid fu v :: string and t :: int
  defines "plan \<equiv> \<lambda>ms db. fold (plan_attempt sha hid gid fu v t) ms db"
  shows "set (xd_liabilities db) \<subseteq> set (xd_liabilities (plan ms db)) \<and> supply_le (xd_credit db) (xd_credit (plan ms db)) \<and>
    (\<forall>a \<in> set (xd_attempts (plan ms db)). a \<in> set (xd_attempts db) \<or>
       at_hold_id a = hid \<and> at_ordinal a \<in> fst ` set ms \<and> (at_liability_id a, gid) \<in> liability_key ` set (xd_liabilities (plan ms db)))"
  unfolding plan_def
proof (induction ms arbitrary: db)
  case (Cons m ms)
  let ?c = "xd_credit db"
  let ?l = "planned_row sha (''mcl_'' @ db_supply ?c (db_drawn ?c)) gid fu v t m"
  let ?db = "plan_attempt sha hid gid fu v t m db"
  have new: "?l \<in> set (xd_liabilities ?db)" "set (xd_liabilities db) \<subseteq> set (xd_liabilities ?db)" "supply_le ?c (xd_credit ?db)"
    "\<forall>a \<in> set (xd_attempts ?db). a \<in> set (xd_attempts db) \<or> at_hold_id a = hid \<and> at_ordinal a = fst m \<and> at_liability_id a = ml_id ?l"
    by (auto simp: plan_attempt_eq supply_le_def planned_attempt_row_def planned_row_def)
  note IH = Cons.IH [of ?db]
  have "?l \<in> set (xd_liabilities (fold (plan_attempt sha hid gid fu v t) ms ?db))" using IH new(1) by blast
  then have "(ml_id ?l, gid) \<in> liability_key ` set (xd_liabilities (fold (plan_attempt sha hid gid fu v t) ms ?db))"
    by (rule rev_image_eqI) (simp add: liability_key_def planned_row_def)
  with IH new show ?case by (auto intro: supply_le_trans)
qed simp

lemma open_hold_refs:
  assumes run: "open_hold sha user rid route snapshot required stamp db = Inr (hold, db')" and refs: "refers db"
    and rid: "rid \<in> r_id ` set (db_reservations (xd_credit db))" and route: "sk_route snapshot = route"
  shows "refers db'"
proof -
  let ?c = "xd_credit db"
  define gid where "gid = ''fin'' @ ''_'' @ db_supply ?c (db_drawn ?c)"
  define hid where "hid = ''ceh'' @ ''_'' @ db_supply ?c (Suc (db_drawn ?c))"
  let ?fu = "funding_of ?c rid"
  define h where "h = hold_row hid user rid gid ?fu required route snapshot stamp"
  define db2 where "db2 = db\<lparr>xd_credit := ?c\<lparr>db_drawn := Suc (Suc (db_drawn ?c))\<rparr>, xd_holds := xd_holds db @ [h]\<rparr>"
  define ms where "ms = zip [1..<Suc (length (qr_model_quotes route))] (qr_model_quotes route)"
  let ?v = "fp_version (sk_policy snapshot)"
  have eq: "db' = fold (plan_attempt sha hid gid ?fu ?v stamp) ms db2"
    using run by (auto simp: open_hold_def draw_eq Let_def result_simps h_def db2_def hid_def gid_def ms_def)
  have holds: "xd_holds db' = xd_holds db @ [h]"
  proof -
    have "xd_holds (fold (plan_attempt sha hid gid ?fu ?v stamp) ns d) = xd_holds d" for ns d
      by (induction ns arbitrary: d) (simp_all add: plan_attempt_eq)
    then show ?thesis by (simp add: eq db2_def)
  qed
  note plan = plan_fold_refs [of db2 sha hid gid ?fu ?v stamp ms, folded eq]
  have ordinals: "1 \<le> n \<and> n \<le> length (qr_model_quotes route)" if "n \<in> fst ` set ms" for n
    using that by (auto simp: ms_def simp del: upt_Suc dest!: set_zip_leftD)
  have "set (xd_liabilities db) \<subseteq> set (xd_liabilities db')" using plan by (simp add: db2_def)
  then have grow: "attempt_placed db a x \<Longrightarrow> attempt_placed db' a x" for a x by (auto simp: attempt_placed_def)
  show ?thesis unfolding refers_def
  proof (intro conjI ballI)
    fix x assume "x \<in> set (xd_holds db')"
    then have "eh_reservation_id x \<in> r_id ` set (db_reservations ?c)"
      using refs rid by (auto simp: holds h_def hold_row_def refers_def)
    then show "eh_reservation_id x \<in> r_id ` set (db_reservations (xd_credit db'))" using plan by (auto simp: db2_def supply_le_def)
  next
    fix a assume "a \<in> set (xd_attempts db')"
    with plan consider "a \<in> set (xd_attempts db)"
      | "at_hold_id a = hid" "at_ordinal a \<in> fst ` set ms" "(at_liability_id a, gid) \<in> liability_key ` set (xd_liabilities db')"
      by (auto simp: db2_def)
    then show "\<exists>x \<in> set (xd_holds db'). attempt_placed db' a x"
    proof cases
      case 1
      with refs obtain x where "x \<in> set (xd_holds db)" "attempt_placed db a x" by (auto simp: refers_def)
      then show ?thesis by (auto simp: holds intro: grow)
    next
      case 2
      then have "attempt_placed db' a h" using ordinals by (simp add: attempt_placed_def h_def hold_row_def route)
      then show ?thesis by (auto simp: holds)
    qed
  qed
qed

lemma refers_frame:
  assumes "refers db" and "xd_holds db' = xd_holds db" and "xd_attempts db' = xd_attempts db"
    and "set (xd_liabilities db) \<subseteq> set (xd_liabilities db')" and "supply_le (xd_credit db) (xd_credit db')"
  shows "refers db'"
  by (rule same_refs_keeps [OF _ assms(1)]) (use assms(2-5) in \<open>auto simp: same_refs_def\<close>)

lemma supply_bump: "supply_le c (c\<lparr>db_drawn := Suc (db_drawn c)\<rparr>)"
  by (simp add: supply_le_def)

lemma dispatch_refs:
  assumes "dispatch_intent w rid clock db = Inr db'" and "refers db" shows "refers db'"
  by (rule refers_frame [OF assms(2)])
     (use assms(1) in \<open>auto simp: dispatch_intent_def Let_def supply_bump split: if_splits option.splits sum.splits\<close>)

lemma admit_refs:
  assumes "admit env sha db user qid fp key w route policy budgets commercial proofs t clock = Inr (hold, db')" and refs: "refers db"
  shows "refers db'"
  using assms(1)
proof (cases rule: admit_Inr)
  case again
  with refs show ?thesis by simp
next
  case (fresh quote required answers)
  let ?s = "\<lparr>sk_route = route, sk_policy = policy, hs_budgets = budgets, hs_execution_mode = mode_of w,
               hs_canary = fst answers, hs_public_admission = snd answers\<rparr> :: hold_snapshot"
  from fresh(3) obtain reservation credit db1 where
    res: "reserve_credits (xd_credit db) user (qr_operation route) (wi_source_id w) key
              (qr_credits route) (sq_input_fingerprint quote) (quote_terms (sq_id quote) route) required t = Inr (reservation, credit)"
    and opened: "open_hold sha user (r_id reservation) route ?s required t (db\<lparr>xd_credit := credit\<rparr>) = Inr (hold, db1)"
    and queue: "dispatch_intent w (r_id reservation) clock (accept_quote (sq_id quote) (r_id reservation) t db1) = Inr db'"
    by (auto simp: book_work_def result_simps split: prod.splits)
  have "refers (db\<lparr>xd_credit := credit\<rparr>)" by (rule refers_frame [OF refs]) (simp_all add: supply_reserve [OF res])
  from open_hold_refs [OF opened this] reserve_present [OF res] have "refers db1" by simp
  then have "refers (accept_quote (sq_id quote) (r_id reservation) t db1)"
    by (rule refers_frame) (simp_all add: accept_quote_def)
  with queue show ?thesis by (rule dispatch_refs)
qed

section \<open>Every step\<close>

lemma claimed_linked: "refers db \<Longrightarrow> a \<in> set (xd_attempts db) \<Longrightarrow>
  \<exists>h \<in> set (xd_holds db). (at_liability_id a, eh_group_id h) \<in> liability_key ` set (xd_liabilities db)"
  by (fastforce simp: refers_def attempt_placed_def)

lemma older_cost_kept:
  assumes "lid \<notin> at_liability_id ` set (xd_attempts db)" and "\<And>l. ml_id (g l) = ml_id l"
  shows "kept db (update_liability lid g db)"
proof -
  have "l \<in> set (update_by ml_id lid g (xd_liabilities db))"
    if "l \<in> set (xd_liabilities db)" and "ml_id l \<in> at_liability_id ` set (xd_attempts db)" for l
    using that assms(1) by (intro mem_update_by_other) auto
  then show ?thesis
    by (auto simp: kept_def same_refs_def update_liability_def liability_key_def outcome_kept_holds)
qed

lemma erasure_kept: "kept db (db\<lparr>xd_holds := map (forget_owner user) (xd_holds db)\<rparr>)"
proof -
  have "hold_key (forget_owner user h) = hold_key h" for h by (simp add: forget_owner_def hold_key_def)
  moreover have "outcome_kept db (db\<lparr>xd_holds := map (forget_owner user) (xd_holds db)\<rparr>)"
    by (rule outcome_kept_map [of _ "forget_owner user"]) (simp_all add: forget_owner_def)
  ultimately show ?thesis by (simp add: kept_def same_refs_def image_image)
qed

lemma kept_unchanged:
  assumes "xd_holds db' = xd_holds db" and "xd_attempts db' = xd_attempts db"
    and "set (xd_liabilities db) \<subseteq> set (xd_liabilities db')" and "supply_le (xd_credit db) (xd_credit db')"
  shows "kept db db'"
  using assms by (auto simp: kept_def same_refs_def outcome_kept_holds)

lemma quoting_kept:
  assumes "issue_service_quote env db user fp key route policy commercial t = Inr (q, db')" shows "kept db db'"
  by (rule kept_unchanged)
     (use assms in \<open>auto simp: issue_service_quote_def result_simps Let_def draw_eq supply_bump split: option.splits\<close>)

text \<open>An admission adds a hold; every other step keeps the keys.\<close>

lemma exec_step_kept:
  assumes "exec_step db db'" and "exec_sound db"
  shows "kept db db' \<or> (\<exists>env sha user qid fp key w route policy budgets commercial proofs t clock hold.
    admit env sha db user qid fp key w route policy budgets commercial proofs t clock = Inr (hold, db') \<and>
    route_ok route \<and> policy_ok policy)"
  using assms
proof (cases rule: exec_step.cases)
  case (claim env acc user hid ck req route policy t x)
  then show ?thesis by (cases x) (auto intro: claim_kept)
next
  case (outcome user hid delivered t)
  with assms(2) settle_kept show ?thesis by (auto simp: exec_sound_def)
next
  case (ledger c)
  then show ?thesis by (auto intro: kept_credit credit_step_supply)
next
  case (queue rows)
  then show ?thesis by (auto intro: kept_unchanged)
next
  case (older_work services free)
  then show ?thesis by (auto intro: kept_unchanged)
next
  case (older_call l db1)
  then show ?thesis by (auto simp: draw_eq supply_bump intro!: kept_unchanged)
qed (blast intro: finish_kept native_kept quoting_kept older_cost_kept erasure_kept)+

lemma exec_step_refs:
  assumes "exec_step db db'" and "exec_sound db" and "refers db" shows "refers db'"
  using exec_step_kept [OF assms(1,2)] assms(3) by (auto simp: kept_def intro: same_refs_keeps admit_refs)

lemma exec_step_outcome:
  assumes "exec_step db db'" and "exec_sound db" shows "outcome_kept db db'"
  using exec_step_kept [OF assms]
proof (elim disjE exE conjE)
  fix env sha user qid fp key w route policy budgets commercial proofs t clock hold
  assume run: "admit env sha db user qid fp key w route policy budgets commercial proofs t clock = Inr (hold, db')"
    and ok: "route_ok route" "policy_ok policy"
  from run show ?thesis
  proof (cases rule: admit_Inr)
    case again
    then show ?thesis by (simp add: outcome_kept_holds)
  next
    case (fresh quote required answers)
    have "admitted db hold db'"
      using assms(2) by (intro book_work_admitted(1) [OF fresh(3)] route_required [OF fresh(1)] ok) (simp add: exec_sound_def)
    then show ?thesis by (auto simp: admitted_def intro: outcome_kept_holds)
  qed
qed (simp add: kept_def)

end
