(* ===== verification/Delivery_Properties.thy ===== *)
theory Delivery_Properties
  imports Execution_Runs
begin

text \<open>
  Further properties of funded executions: the outcome of a delivery settles the customer's
  credits once and for good, an admission leaves every ceiling respected, and the queries
  that expect a row find it.
\<close>

section \<open>Runs keep references and outcomes\<close>


definition delivered_as :: "string \<Rightarrow> delivery_state \<Rightarrow> exec_db \<Rightarrow> bool" where
  "delivered_as hid d db \<longleftrightarrow> (\<exists>h \<in> set (xd_holds db). eh_id h = hid \<and> eh_delivery_state h = d)"

interpretation final: step_invariant exec_step "\<lambda>db. exec_sound db \<and> d \<noteq> DeliveryPending \<and> delivered_as hid d db" for d hid
proof
  fix db db'
  assume step: "exec_step db db'" and ok: "exec_sound db \<and> d \<noteq> DeliveryPending \<and> delivered_as hid d db"
  then have "outcome_kept db db'" by (intro exec_step_outcome) simp_all
  with ok have "delivered_as hid d db'" unfolding outcome_kept_def delivered_as_def by metis
  with ok exec_step_sound [OF step] show "exec_sound db' \<and> d \<noteq> DeliveryPending \<and> delivered_as hid d db'" by simp
qed

section \<open>No internal fault\<close>

definition faulted :: "funding_error + 'a \<Rightarrow> bool" where
  "faulted r \<longleftrightarrow> (case r of Inl e \<Rightarrow> e = Fault \<or> e = Contract NoResultFound | Inr _ \<Rightarrow> False)"

lemma faulted_Inr [simp]: "\<not> faulted (Inr x)"
  by (simp add: faulted_def)
















section \<open>A settled delivery\<close>

lemma settle_delivery_row:
  assumes run: "settle_delivery db user hid delivered t = Inr db'" and keys: "exec_keys db" and ids: "ids_ok (xd_credit db)"
    and own: "owned_hold db user hid = Inr hold" and pending: "eh_delivery_state hold = DeliveryPending"
  shows "\<exists>before after. row_at r_id (eh_reservation_id hold) (db_reservations (xd_credit db)) = Some before \<and>
    row_at r_id (eh_reservation_id hold) (db_reservations (xd_credit db')) = Some after \<and> r_state after = Settled \<and>
    r_committed_credits after = (if delivered then r_reserved_credits before else 0)"
    and "delivered_as hid (if delivered then DeliveryDone else DeliveryFailed) db'"
proof -
  let ?db1 = "fold (close_attempt delivered t) (hold_pairs db hid) db"
  have mem: "\<forall>p \<in> set (hold_pairs db hid). ml_id (snd p) = at_liability_id (fst p)" using hold_pairs_mem(4) by auto
  note frame = close_fold_frame [OF mem keys, of delivered t]
  obtain reservation row credit where
    found: "row_at r_id (eh_reservation_id hold) (db_reservations (xd_credit ?db1)) = Some reservation"
    and settle: "settle_reservation (xd_credit ?db1) user (r_id reservation) (if delivered then r_reserved_credits reservation else 0) t = Inr (row, credit)"
    and db': "db' = refresh_hold hid t (update_hold hid (\<lambda>h. h\<lparr>eh_delivery_state := (if delivered then DeliveryDone else DeliveryFailed)\<rparr>) (?db1\<lparr>xd_credit := credit\<rparr>))"
    using run
  proof (cases rule: settle_delivery_Inr)
    case (repeated h)
    with own pending show thesis by (cases delivered) simp_all
  next
    case (settled h reservation row credit)
    from settled(1) own have "h = hold" by simp
    with settled that [of reservation row credit] show thesis by simp
  qed
  have "ids_ok (xd_credit ?db1)" using ids frame by simp
  note settled = settle_reservation_owned [OF this settle] settle_reservation_effect [OF this settle]
  have id: "r_id reservation = eh_reservation_id hold" using row_at_SomeD [OF found] by simp
  have "distinct (map r_id (db_reservations credit))" using settled(2) by (auto simp: ids_ok_def dest: fresh_rows_distinct)
  moreover have "row \<in> set (db_reservations credit)" "r_id row = eh_reservation_id hold"
    using settled(1) id by (auto simp: owned_reservation_def dest!: find_SomeD)
  ultimately have "row_at r_id (eh_reservation_id hold) (db_reservations credit) = Some row" using row_at_distinct by metis
  moreover have "xd_credit db' = credit" by (simp add: db' refresh_hold_def update_hold_def)
  ultimately show "\<exists>before after. row_at r_id (eh_reservation_id hold) (db_reservations (xd_credit db)) = Some before \<and>
      row_at r_id (eh_reservation_id hold) (db_reservations (xd_credit db')) = Some after \<and> r_state after = Settled \<and>
      r_committed_credits after = (if delivered then r_reserved_credits before else 0)"
    using found frame settled(1) by simp
  define d where "d = (if delivered then DeliveryDone else DeliveryFailed)"
  have "xd_holds db' = update_by eh_id hid (\<lambda>h. refreshed (hold_pairs ?db1 hid) t (h\<lparr>eh_delivery_state := d\<rparr>)) (xd_holds db)"
    using frame unfolding db' d_def [symmetric] by (simp add: refresh_hold_def update_hold_twice) (simp add: update_hold_def)
  moreover define h where "h = refreshed (hold_pairs ?db1 hid) t (hold\<lparr>eh_delivery_state := d\<rparr>)"
  ultimately have "h \<in> set (xd_holds db')" "eh_id h = hid" "eh_delivery_state h = d"
    using owned_holdD [OF own] by (auto simp: set_update_by)
  then show "delivered_as hid (if delivered then DeliveryDone else DeliveryFailed) db'"
    unfolding d_def [symmetric] by (auto simp: delivered_as_def)
qed

lemma delivered_refuses:
  assumes "exec_sound db" and "delivered_as hid d db" and "d \<noteq> DeliveryPending"
  shows "\<not> (\<exists>x. claim_attempt env acc db user hid ck req route policy t = Inr x)"
    and "settle_delivery db user hid again t = Inr db' \<Longrightarrow> d = (if again then DeliveryDone else DeliveryFailed) \<and> db' = db"
proof -
  obtain h where h: "h \<in> set (xd_holds db)" "eh_id h = hid" "eh_delivery_state h = d" using assms(2) by (auto simp: delivered_as_def)
  have ids: "distinct (map eh_id (xd_holds db))" using assms(1) by (auto simp: exec_sound_def exec_keys_def dest: fresh_rows_distinct)
  have same: "hold = h" if "hold \<in> set (xd_holds db)" "eh_id hold = hid" for hold
    using distinct_key_eq [OF ids that(1) h(1)] that(2) h(2) by simp
  show "\<not> (\<exists>x. claim_attempt env acc db user hid ck req route policy t = Inr x)"
  proof
    assume "\<exists>x. claim_attempt env acc db user hid ck req route policy t = Inr x"
    then obtain b r db' where "claim_attempt env acc db user hid ck req route policy t = Inr ((b, r), db')" by auto
    then obtain hold where "hold \<in> set (xd_holds db)" "eh_id hold = hid" "dispatchable hold" by (rule claim_attempt_Inr)
    with same h(3) assms(3) show False by (auto simp: dispatchable_def)
  qed
  assume "settle_delivery db user hid again t = Inr db'"
  then show "d = (if again then DeliveryDone else DeliveryFailed) \<and> db' = db"
    using same h(3) assms(3) by (cases rule: settle_delivery_Inr) (auto dest!: owned_holdD)
qed

section \<open>Exposure after an admission\<close>

lemma hold_usage_admitted:
  assumes "admitted db hold db'"
  shows "hold_usage db' s = hold_usage db s + (if hold_in_scope s hold then hold_amount hold else 0)"
  using assms by (simp add: admitted_def hold_usage_def total_def)

lemma fleet_usage_admitted:
  assumes "admitted db hold db'" and "eh_state hold = HoldReserved"
  shows "fleet_usage db' start p b = fleet_usage db start p b + hold_amount hold"
proof -
  have "legacy_usage db' start p b None = legacy_usage db start p b None"
    using assms(1) by (simp add: admitted_def legacy_usage_def)
  moreover have "hold_in_scope (fleet_since start) hold" using assms(2) by (simp add: hold_in_scope_def fleet_since_def)
  ultimately show ?thesis by (simp add: fleet_usage_def hold_usage_admitted [OF assms(1)])
qed

lemma headroom_Inr:
  assumes "assert_headroom db user route_id required p b t ''prepaid'' = Inr ()"
  obtains limit where "0 \<le> required" and "map_of (bp_monthly_route_minor b) route_id = Some limit"
    and "fleet_usage db (day_floor t) p b + required \<le> bp_daily_global_minor b"
    and "fleet_usage db (month_floor t) p b + required \<le> bp_monthly_global_minor b"
    and "hold_usage db ((fleet_since (month_floor t))\<lparr>us_owner := Some user\<rparr>) + required \<le> bp_monthly_account_minor b"
    and "hold_usage db ((fleet_since (month_floor t))\<lparr>us_route := Some route_id\<rparr>) + required \<le> limit"
    and "hold_usage db ((fleet_since (month_floor t))\<lparr>us_incident := True\<rparr>) + required \<le> bp_monthly_incident_minor b"
  using assms
  by (auto simp: assert_headroom_def within_ceiling_def result_simps Let_def split: option.splits)

lemma admit_exposure:
  assumes run: "admit env sha db user qid fp key w route policy budgets commercial proofs t clock = Inr (hold, db')"
    and sound: "exec_sound db" and ok: "route_ok route" "policy_ok policy" and new: "hold \<notin> set (xd_holds db)"
  shows "assert_headroom db user (qr_id route) (eh_reserved_minor hold) policy budgets t ''prepaid'' = Inr ()"
    and "admitted db hold db'" and "eh_state hold = HoldReserved" and "eh_user_id hold = Some user" and "eh_route_id hold = qr_id route"
    and "eh_delivery_state hold = DeliveryPending" and "hold_amount hold = eh_reserved_minor hold"
proof -
  obtain quote required answers where fresh: "require_route env route policy t commercial = Inr required"
    "assert_headroom db user (qr_id route) required policy budgets t ''prepaid'' = Inr ()"
    "book_work sha db user quote key w route policy budgets required answers t clock = Inr (hold, db')"
    using run new by (cases rule: admit_Inr) auto
  have "exec_keys db" using sound by (simp add: exec_sound_def)
  note booked = book_work_admitted [OF fresh(3) this ok route_required [OF fresh(1) ok(1)]]
  show "assert_headroom db user (qr_id route) (eh_reserved_minor hold) policy budgets t ''prepaid'' = Inr ()"
    unfolding booked(2) by (rule fresh(2))
  show "admitted db hold db'" "eh_state hold = HoldReserved" "eh_user_id hold = Some user" "eh_route_id hold = qr_id route"
    "eh_delivery_state hold = DeliveryPending" by (rule booked)+
  have "0 \<le> required" using headroom_Inr [OF fresh(2)] by metis
  then show "hold_amount hold = eh_reserved_minor hold" by (simp add: hold_amount_def booked amount_or_0_def)
qed

section \<open>Small states\<close>

definition sample_request :: model_request where
  "sample_request = \<lparr>rq_provider = ''google'', rq_model = ''m'', rq_api_base = ''https://generativelanguage.googleapis.com/'',
     rq_messages = [], rq_counted = None\<rparr>"

lemma claimed_ids: "ids_ok (xd_credit claimed_db)"
proof -
  have "CHR ''x'' # [] \<noteq> replicate k (CHR ''a'')" for k by (cases k) simp_all
  then show ?thesis
    by (simp add: ids_ok_def claimed_db_def sample_credit_def inj_replicate fresh_rows_def sample_lot_def sample_reservation_def)
qed


definition inline_work :: work_intent where
  "inline_work = \<lparr>wi_source_id = ''s'', wi_inline = True, wi_topic = None, wi_payload = None\<rparr>"

definition shop_quote :: service_quote where
  "shop_quote = \<lparr>sq_id = ''csq_x'', sq_user_id = 1, sq_idempotency_key = ''k'', sq_operation = ''enhanced_qa'', sq_input_fingerprint = digest,
     sq_contract_fingerprint = digest, sq_snapshot = \<lparr>sk_route = sample_route, sk_policy = sample_policy, sn_execution_required_minor = 67\<rparr>,
     sq_created_at = 5, sq_expires_at = 900, sq_accepted_reservation_id = None, sq_accepted_at = None\<rparr>"

text \<open>One owner with a lot of 100 credits and an open quote.\<close>

definition shop_credit :: credit_db where
  "shop_credit = sample_credit\<lparr>db_grants := [sample_lot\<lparr>g_remaining_credits := 100\<rparr>], db_reservations := [], db_allocations := []\<rparr>"

definition shop_db :: exec_db where
  "shop_db = \<lparr>xd_credit = shop_credit, xd_quotes = [shop_quote], xd_holds = [], xd_attempts = [], xd_liabilities = [],
     xd_outbox = [], xd_services = [], xd_free = []\<rparr>"

lemma shop_sound: "exec_sound shop_db"
  by (simp add: exec_sound_def exec_keys_def shop_db_def shop_credit_def sample_credit_def inj_replicate fresh_rows_def)

lemma sample_route_ok: "route_ok sample_route"
  by code_simp

lemma sample_policy_ok: "policy_ok sample_policy"
  by code_simp

lemma shop_required: "require_route sample_route_env sample_route sample_policy 6 True = Inr 67"
  by code_simp

lemma shop_headroom: "assert_headroom shop_db 1 ''r'' 67 sample_policy sample_budgets 6 ''prepaid'' = Inr ()"
  by code_simp

lemma shop_reserves:
  "isl (reserve_credits shop_credit 1 (qr_operation sample_route) ''s'' ''op'' (qr_credits sample_route) digest
     (quote_terms ''csq_x'' sample_route) 67 6) = False"
  by code_simp

lemma shop_admits:
  "\<exists>hold db'. admit sample_route_env (\<lambda>s. digest) shop_db 1 ''csq_x'' digest ''op'' inline_work sample_route sample_policy sample_budgets True
     (Inr (None, None)) 6 0 = Inr (hold, db')"
proof -
  obtain row credit where res: "reserve_credits shop_credit 1 (qr_operation sample_route) ''s'' ''op'' (qr_credits sample_route) digest
     (quote_terms ''csq_x'' sample_route) 67 6 = Inr (row, credit)"
    using shop_reserves by (cases "reserve_credits shop_credit 1 (qr_operation sample_route) ''s'' ''op'' (qr_credits sample_route) digest
     (quote_terms ''csq_x'' sample_route) 67 6") auto
  have route: "qr_id sample_route = ''r''" by (simp add: sample_route_def)
  have db: "xd_credit shop_db = shop_credit" "xd_quotes shop_db = [shop_quote]" "xd_holds shop_db = []" by (simp_all add: shop_db_def)
  have owner: "lock_owner shop_credit 1 = Inr ()" by (simp add: lock_owner_def shop_credit_def sample_credit_def)
  have work: "intent_complete inline_work = Inr ()" "wi_source_id inline_work = ''s''" "wi_inline inline_work"
    by (simp_all add: intent_complete_def inline_work_def)
  have quote: "sq_id shop_quote = ''csq_x''" "sq_user_id shop_quote = 1" "sq_input_fingerprint shop_quote = digest"
    "sq_accepted_reservation_id shop_quote = None" "sq_created_at shop_quote = 5" "sq_expires_at shop_quote = 900"
    "sk_route (sq_snapshot shop_quote) = sample_route" "sk_policy (sq_snapshot shop_quote) = sample_policy"
    "sn_execution_required_minor (sq_snapshot shop_quote) = 67" by (simp_all add: shop_quote_def)
  let ?snapshot = "\<lparr>sk_route = sample_route, sk_policy = sample_policy, hs_budgets = sample_budgets, hs_execution_mode = mode_of inline_work,
     hs_canary = None, hs_public_admission = None\<rparr>"
  have "\<exists>hold db1. open_hold sha 1 rid sample_route snapshot 67 6 (shop_db\<lparr>xd_credit := credit\<rparr>) = Inr (hold, db1)" for sha rid snapshot
    by (simp add: open_hold_def draw_eq Let_def db)
  then obtain hold db1 where opened: "open_hold (\<lambda>s. digest) 1 (r_id row) sample_route ?snapshot 67 6 (shop_db\<lparr>xd_credit := credit\<rparr>) = Inr (hold, db1)"
    by blast
  have "book_work (\<lambda>s. digest) shop_db 1 shop_quote ''op'' inline_work sample_route sample_policy sample_budgets 67 (None, None) 6 0
      = Inr (hold, accept_quote ''csq_x'' (r_id row) 6 db1)"
    unfolding book_work_def dispatch_intent_def db work quote res
    by (simp only: bindE_Inr lift_credit_Inr prod.case fst_conv snd_conv opened work if_True)
  moreover have "find (\<lambda>q. sq_id q = ''csq_x'' \<and> sq_user_id q = 1) (xd_quotes shop_db) = Some shop_quote"
    unfolding db by (simp add: quote)
  ultimately show ?thesis
    unfolding admit_def work db owner
    by (simp only: bindE_Inr lift_credit_Inr require_True quote option.case route shop_required shop_headroom simp_thms) simp
qed

section \<open>Properties\<close>

text \<open>
  C38. The first outcome of a delivery settles the customer's reservation: a delivery charges
  all of it, a failure nothing. However the system runs on, no further provider request starts
  on the hold, and settling it again is only accepted with the same outcome and changes nothing.
\<close>

theorem delivery_settled_once:
  assumes "exec_sound db" and "ids_ok (xd_credit db)" and "owned_hold db user hid = Inr hold"
    and "eh_delivery_state hold = DeliveryPending"
    and "settle_delivery db user hid delivered t = Inr db1" and "exec_step\<^sup>*\<^sup>* db1 db2"
  shows "(\<exists>before after. row_at r_id (eh_reservation_id hold) (db_reservations (xd_credit db)) = Some before \<and>
      row_at r_id (eh_reservation_id hold) (db_reservations (xd_credit db1)) = Some after \<and> r_state after = Settled \<and>
      r_committed_credits after = (if delivered then r_reserved_credits before else 0)) \<and>
    \<not> (\<exists>x. claim_attempt env acc db2 user' hid ck req route policy t' = Inr x) \<and>
    (\<forall>db3. settle_delivery db2 user' hid again t'' = Inr db3 \<longrightarrow> again = delivered \<and> db3 = db2)"
proof -
  have keys: "exec_keys db" using assms(1) by (simp add: exec_sound_def)
  note settled = settle_delivery_row [OF assms(5) keys assms(2,3,4)]
  have "exec_sound db1" using assms(5,1) by (rule settle_delivery_sound)
  then have late: "exec_sound db2" "delivered_as hid (if delivered then DeliveryDone else DeliveryFailed) db2"
    using final.run_ok [OF assms(6), of "if delivered then DeliveryDone else DeliveryFailed" hid] settled(2) by auto
  have open': "(if delivered then DeliveryDone else DeliveryFailed) \<noteq> DeliveryPending" by simp
  have "again = delivered \<and> db3 = db2" if "settle_delivery db2 user' hid again t'' = Inr db3" for db3
    using delivered_refuses(2) [OF late open' that] by (simp split: if_splits)
  with settled(1) delivered_refuses(1) [OF late open'] show ?thesis by blast
qed

lemma delivery_settled_once_witness:
  "\<exists>db1 after. settle_delivery claimed_db 1 ''ceh_x'' False 9 = Inr db1 \<and>
     row_at r_id ''cr_x'' (db_reservations (xd_credit db1)) = Some after \<and> r_state after = Settled \<and> r_committed_credits after = 0 \<and>
     isl (claim_attempt sample_route_env True db1 1 ''ceh_x'' ''c2'' sample_request sample_route sample_policy 10)"
proof -
  have own: "owned_hold claimed_db 1 ''ceh_x'' = Inr sample_hold" by (simp add: owned_hold_def lock_owner_def claimed_db_def sample_credit_def sample_hold_def)
  have hold: "eh_delivery_state sample_hold = DeliveryPending" "eh_reservation_id sample_hold = ''cr_x''" by (simp_all add: sample_hold_def)
  have "isl (settle_delivery claimed_db 1 ''ceh_x'' False 9) = False" by code_simp
  then obtain db1 where run: "settle_delivery claimed_db 1 ''ceh_x'' False 9 = Inr db1" by (cases "settle_delivery claimed_db 1 ''ceh_x'' False 9") auto
  note facts = delivery_settled_once [OF claimed_sound claimed_ids own hold(1) run rtranclp.rtrancl_refl, where env = sample_route_env
      and acc = True and user' = 1 and ck = "''c2''" and req = sample_request and route = sample_route and policy = sample_policy and t' = 10]
  from conjunct1 [OF facts] obtain "after" where "row_at r_id ''cr_x'' (db_reservations (xd_credit db1)) = Some after"
    "r_state after = Settled" "r_committed_credits after = 0"
    unfolding hold(2) by auto
  moreover have "isl (claim_attempt sample_route_env True db1 1 ''ceh_x'' ''c2'' sample_request sample_route sample_policy 10)"
    using facts [THEN conjunct2, THEN conjunct1] by (cases "claim_attempt sample_route_env True db1 1 ''ceh_x'' ''c2'' sample_request sample_route sample_policy 10") auto
  ultimately show ?thesis using run by blast
qed

text \<open>
  C39. Money is committed within the reviewed ceilings: right after a new admission the day's
  and the month's exposure of all work, old and new, the month's exposure of the account and
  of the route, and the money at risk of incidents are within the budget it was admitted under.
\<close>

theorem admission_within_budget:
  assumes "admit env sha db user qid fp key w route policy budgets commercial proofs t clock = Inr (hold, db')"
    and "exec_sound db" and "route_ok route" and "policy_ok policy" and "hold \<notin> set (xd_holds db)"
  shows "fleet_usage db' (day_floor t) policy budgets \<le> bp_daily_global_minor budgets \<and>
    fleet_usage db' (month_floor t) policy budgets \<le> bp_monthly_global_minor budgets \<and>
    hold_usage db' ((fleet_since (month_floor t))\<lparr>us_owner := Some user\<rparr>) \<le> bp_monthly_account_minor budgets \<and>
    hold_usage db' ((fleet_since (month_floor t))\<lparr>us_route := Some (qr_id route)\<rparr>)
      \<le> the (map_of (bp_monthly_route_minor budgets) (qr_id route)) \<and>
    hold_usage db' ((fleet_since (month_floor t))\<lparr>us_incident := True\<rparr>) \<le> bp_monthly_incident_minor budgets"
proof -
  note a = admit_exposure [OF assms]
  show ?thesis
    using a(1)
    by (rule headroom_Inr) (use a in \<open>auto simp: fleet_usage_admitted hold_usage_admitted\<close>)
qed

lemma admission_within_budget_witness:
  "\<exists>hold db'. admit sample_route_env (\<lambda>s. digest) shop_db 1 ''csq_x'' digest ''op'' inline_work sample_route sample_policy sample_budgets True
       (Inr (None, None)) 6 0 = Inr (hold, db') \<and>
     fleet_usage db' (day_floor 6) sample_policy sample_budgets \<le> 500 \<and>
     hold_usage db' ((fleet_since (month_floor 6))\<lparr>us_route := Some ''r''\<rparr>) \<le> 400"
proof -
  obtain hold db' where run: "admit sample_route_env (\<lambda>s. digest) shop_db 1 ''csq_x'' digest ''op'' inline_work sample_route sample_policy
      sample_budgets True (Inr (None, None)) 6 0 = Inr (hold, db')" using shop_admits by auto
  have "hold \<notin> set (xd_holds shop_db)" by (simp add: shop_db_def)
  from admission_within_budget [OF run shop_sound sample_route_ok sample_policy_ok this] run show ?thesis
    by (auto simp: sample_budgets_def sample_route_def)
qed



end
