(* ===== verification/Free_Core.thy ===== *)
theory Free_Core
  imports Admission
begin

text \<open>
  \<open>domains/free_core\<close>: the reviewed policy of free processing, its admission in front of
  every deterministic service, completion, and the settlement of measured expense. A free
  reservation is a row of the shared money exposure (\<open>xd_free\<close>). The parsed policy
  documents and the counts of the owner's workspace are arguments.
\<close>

section \<open>Policy\<close>

datatype free_error = FreeHttp nat string | FreeValueError string | FreeNoResult

record free_envelope =
  fe_route_id :: string
  fe_reserved_minor :: int
  fe_max_input_bytes :: int
  fe_max_source_records :: int
  fe_max_attempts :: int
  fe_per_account_30_days :: int

record free_policy =
  fy_version :: string
  fy_provenance :: provenance
  fy_funding_period_id :: string
  fy_evidence_sha256 :: string
  fy_valid_from :: int
  fy_expires_at :: int
  fy_shared_period_funded_minor :: int
  fy_free_allocation_minor :: int
  fy_global_30_day_operations :: int
  fy_financial_policy :: financial_policy
  fy_execution_budgets :: budget_policy
  fy_operations :: "(string \<times> free_envelope) list"

definition free_envelope_ok :: "free_envelope \<Rightarrow> bool" where
  "free_envelope_ok e \<longleftrightarrow>
     1 \<le> length (fe_route_id e) \<and> length (fe_route_id e) \<le> 120 \<and>
     is_positive_amount (fe_reserved_minor e) \<and> is_positive_amount (fe_max_input_bytes e) \<and>
     1 \<le> fe_max_source_records e \<and> fe_max_source_records e \<le> 10000 \<and>
     1 \<le> fe_max_attempts e \<and> fe_max_attempts e \<le> 3 \<and>
     1 \<le> fe_per_account_30_days e \<and> fe_per_account_30_days e \<le> 1000"

text \<open>\<open>bounded\<close>, the model validator; a missing operation is found by its own check.\<close>

definition free_policy_bounded :: "free_policy \<Rightarrow> free_error + free_policy" where
  "free_policy_bounded p =
     bindE (require (fy_valid_from p < fy_expires_at p \<and> fy_expires_at p \<le> fy_valid_from p + days 31)
       (FreeValueError ''Free processing funding must be reviewed within 31 days'')) (\<lambda>_.
     bindE (require (\<not> fy_free_allocation_minor p > fy_shared_period_funded_minor p)
       (FreeValueError ''Free processing must be allocated inside funded shared expenses'')) (\<lambda>_.
     bindE (require (\<not> fy_free_allocation_minor p > bp_monthly_global_minor (fy_execution_budgets p))
       (FreeValueError ''Free processing cannot exceed the common funded execution budget'')) (\<lambda>_.
     bindE (require ({''resume_parse'', ''basic_match'', ''curated_interview'', ''skill_roi''} \<subseteq> set (map fst (fy_operations p)))
       (FreeValueError ''Every supported deterministic route needs an explicit envelope'')) (\<lambda>_.
     bindE (require (\<not> (map_option fe_per_account_30_days (map_of (fy_operations p) ''resume_parse'') \<noteq> Some 1 \<or>
                        map_option fe_per_account_30_days (map_of (fy_operations p) ''basic_match'') \<noteq> Some 10))
       (FreeValueError ''The initial free-core contract is one resume and ten comparisons per 30 days'')) (\<lambda>_.
     bindE (require (list_all (\<lambda>(k, e). fe_route_id e \<in> set (map fst (bp_monthly_route_minor (fy_execution_budgets p))) \<and>
                        \<not> fe_reserved_minor e > fy_free_allocation_minor p) (fy_operations p))
       (FreeValueError ''Every free route must fit its funded envelope'')) (\<lambda>_. Inr p))))))"

definition free_enabled :: "settings \<Rightarrow> bool" where
  "free_enabled env \<longleftrightarrow> lower (case env ''FREE_CORE_ENABLED'' of None \<Rightarrow> ''false'' | Some v \<Rightarrow> v) = ''true''"

definition is_production :: "settings \<Rightarrow> bool" where
  "is_production env \<longleftrightarrow>
     lower (case env ''APP_ENV'' of None \<Rightarrow> ''production'' | Some v \<Rightarrow> v) \<notin> {''test'', ''development'', ''dev'', ''local'', ''staging''}"

text \<open>
  \<open>loaded\<close> is the policy document that the environment holds, \<open>paid\<close> the runtime review's
  policy and budgets; \<open>None\<close> when a document is missing or does not validate. Every
  refusal is the same \<open>FreeCoreUnavailable\<close>, here \<open>None\<close>.
\<close>

definition free_current_policy ::
  "settings \<Rightarrow> free_policy option \<Rightarrow> (financial_policy \<times> budget_policy) option \<Rightarrow> int \<Rightarrow> free_policy option" where
  "free_current_policy env loaded paid instant =
     (case loaded of None \<Rightarrow> None
      | Some p \<Rightarrow>
          let production = is_production env in
          if isl (require_current_policy (fy_financial_policy p) instant production) then None
          else if \<not> (fy_valid_from p \<le> instant \<and> instant < fy_expires_at p) then None
          else if production \<and> fy_provenance p \<noteq> InvoiceReconciled then None
          else if lower (env_value env ''UNIFIED_CREDIT_EXECUTION_ENABLED'') = ''true'' \<and>
                  paid \<noteq> Some (fy_financial_policy p, fy_execution_budgets p) then None
          else Some p)"

section \<open>Rows\<close>

record free_request =
  fq_id :: string
  fq_user_id :: int
  fq_source_type :: string
  fq_source_id :: string
  fq_idempotency_key :: string
  fq_input_fingerprint :: string
  fq_reservation_id :: string
  fq_result_id :: "string option"
  fq_completed :: bool

record free_db =
  fd_exec :: exec_db
  fd_requests :: "free_request list"

definition expense_usage :: "exec_db \<Rightarrow> int \<Rightarrow> int option \<Rightarrow> string option \<Rightarrow> int" where
  "expense_usage db start owner route =
     total (\<lambda>f. (\<not> fh_settled f \<or> fh_created_at f \<ge> start) \<and> (owner = None \<or> fh_user_id f = owner) \<and>
                (route = None \<or> Some (fh_route_id f) = route)) free_amount (xd_free db)"

fun analysis_operation :: "string \<Rightarrow> json \<Rightarrow> string option" where
  "analysis_operation operation payload =
     (if operation = ''job_match'' \<and> json_get ''mode'' payload \<in> {None, Some (JStr ''basic'')} then Some ''basic_match''
      else if operation = ''interview_questions'' \<and> json_get ''mode'' payload \<in> {None, Some (JStr ''curated'')}
      then Some ''curated_interview''
      else if operation = ''skill_roi'' then Some ''skill_roi'' else None)"

section \<open>Admission\<close>

text \<open>What a caller asks for; \<open>fw_records\<close> is the size of the owner's workspace.\<close>

record free_work =
  fw_operation :: string
  fw_source_type :: string
  fw_source_id :: string
  fw_key :: string
  fw_fingerprint :: string
  fw_input_bytes :: int
  fw_attempts :: int
  fw_records :: int

definition unavailable :: "string \<Rightarrow> free_error" where
  "unavailable text = FreeHttp 503 text"

definition recent_free :: "exec_db \<Rightarrow> int \<Rightarrow> free_hold list" where
  "recent_free db start = filter (\<lambda>f. fh_created_at f \<ge> start) (xd_free db)"

definition free_count :: "exec_db \<Rightarrow> int \<Rightarrow> int \<Rightarrow> string \<Rightarrow> nat" where
  "free_count db start user operation =
     length (filter (\<lambda>f. fh_user_id f = Some user \<and> fh_operation f = operation) (recent_free db start))"

definition route_overrun :: "exec_db \<Rightarrow> string \<Rightarrow> string \<Rightarrow> bool" where
  "route_overrun db route version \<longleftrightarrow>
     list_ex (\<lambda>f. fh_route_id f = route \<and> fh_policy_version f = version \<and>
                  (case fh_settled_minor f of None \<Rightarrow> False | Some n \<Rightarrow> n > fh_reserved_minor f)) (xd_free db)"

definition free_headroom :: "exec_db \<Rightarrow> int \<Rightarrow> free_policy \<Rightarrow> free_envelope \<Rightarrow> free_work \<Rightarrow> int \<Rightarrow> free_error + unit" where
  "free_headroom db user p e w stamp =
     bindE (require (\<not> (fw_input_bytes w > fe_max_input_bytes e \<or> fw_attempts w > fe_max_attempts e))
       (unavailable ''These inputs exceed the supported free-processing envelope. No content was shortened or credits charged.'')) (\<lambda>_.
     bindE (require (\<not> (fw_operation w = ''skill_roi'' \<and> fw_records w > fe_max_source_records e))
       (unavailable ''The complete workspace exceeds the supported free-processing record limit. No records were omitted or credits charged.'')) (\<lambda>_.
     bindE (require (\<not> route_overrun db (fe_route_id e) (fy_version p))
       (unavailable ''New processing on this route is paused while its actual expense overrun is reviewed.'')) (\<lambda>_.
     let start = stamp - days 30 in
     bindE (require (\<not> int (free_count db start user (fw_operation w)) \<ge> fe_per_account_30_days e)
       (FreeHttp 429 ''free_processing_account_limit'')) (\<lambda>_.
     bindE (require (\<not> int (length (recent_free db start)) \<ge> fy_global_30_day_operations p)
       (unavailable ''The funded free-processing capacity is fully allocated. Try later or continue using saved results.'')) (\<lambda>_.
     bindE (require (\<not> expense_usage db (fy_valid_from p) None None + fe_reserved_minor e > fy_free_allocation_minor p)
       (unavailable ''The funded free-processing allowance is fully allocated. Try later or continue using saved results.'')) (\<lambda>_.
     case assert_headroom db user (fe_route_id e) (fe_reserved_minor e) (fy_financial_policy p) (fy_execution_budgets p) stamp ''shared'' of
       Inl (FundingUnavailable text) \<Rightarrow> Inl (unavailable text)
     | Inl _ \<Rightarrow> Inl (FreeValueError ''Credit quantities must be bounded nonnegative integers.'')
     | Inr _ \<Rightarrow> Inr ()))))))"

definition free_reservation_row :: "string \<Rightarrow> int \<Rightarrow> free_policy \<Rightarrow> free_envelope \<Rightarrow> string \<Rightarrow> int \<Rightarrow> free_hold" where
  "free_reservation_row fid user p e operation stamp =
     \<lparr>fh_id = fid, fh_user_id = Some user, fh_operation = operation, fh_route_id = fe_route_id e,
      fh_policy_version = fy_version p, fh_funding_period_id = fy_funding_period_id p, fh_settled = False,
      fh_reserved_minor = fe_reserved_minor e, fh_settled_minor = None, fh_created_at = stamp, fh_settled_at = None,
      fh_receipt_sha256 = None\<rparr>"

definition book_free :: "free_db \<Rightarrow> int \<Rightarrow> free_policy \<Rightarrow> free_envelope \<Rightarrow> free_work \<Rightarrow> int \<Rightarrow> free_request \<times> free_db" where
  "book_free db user p e w stamp =
     (let (fid, db1) = draw ''fcr'' (fd_exec db);
          (qid, db2) = draw ''fcq'' (db1\<lparr>xd_free := xd_free db1 @ [free_reservation_row fid user p e (fw_operation w) stamp]\<rparr>);
          request = \<lparr>fq_id = qid, fq_user_id = user, fq_source_type = fw_source_type w, fq_source_id = fw_source_id w,
            fq_idempotency_key = fw_key w, fq_input_fingerprint = fw_fingerprint w, fq_reservation_id = fid,
            fq_result_id = None, fq_completed = False\<rparr>
      in (request, \<lparr>fd_exec = db2, fd_requests = fd_requests db @ [request]\<rparr>))"

text \<open>The second unique key: one request for one source.\<close>

definition source_taken :: "free_db \<Rightarrow> int \<Rightarrow> free_work \<Rightarrow> bool" where
  "source_taken db user w \<longleftrightarrow>
     list_ex (\<lambda>q. fq_user_id q = user \<and> fq_source_type q = fw_source_type w \<and> fq_source_id q = fw_source_id w) (fd_requests db)"

definition free_admit ::
  "settings \<Rightarrow> free_policy option \<Rightarrow> (financial_policy \<times> budget_policy) option \<Rightarrow> free_db \<Rightarrow> int \<Rightarrow> free_work \<Rightarrow> int
     \<Rightarrow> free_error + (free_request \<times> bool) \<times> free_db" where
  "free_admit env loaded paid db user w stamp =
     bindE (require (user \<in> set (db_users (xd_credit (fd_exec db)))) (FreeHttp 404 ''Account not found'')) (\<lambda>_.
     case find (\<lambda>q. fq_user_id q = user \<and> fq_idempotency_key q = fw_key w) (fd_requests db) of
       Some existing \<Rightarrow>
         bindE (require (\<not> (fq_input_fingerprint existing \<noteq> fw_fingerprint w \<or> fq_source_type existing \<noteq> fw_source_type w \<or>
                            fq_source_id existing \<noteq> fw_source_id w))
           (FreeHttp 409 ''This request key belongs to different inputs'')) (\<lambda>_. Inr ((existing, False), db))
     | None \<Rightarrow>
     bindE (require (\<not> (fw_input_bytes w < 0 \<or> fw_attempts w < 1))
       (FreeValueError ''A bounded complete processing envelope is required'')) (\<lambda>_.
     case free_current_policy env loaded paid stamp of
       None \<Rightarrow> Inl (unavailable ''New free processing is paused until its funded allowance is ready. Your saved results remain available.'')
     | Some p \<Rightarrow>
     case map_of (fy_operations p) (fw_operation w) of
       None \<Rightarrow> Inl (unavailable ''This optional free service has no reviewed processing allowance yet. Saved results remain available.'')
     | Some e \<Rightarrow>
     bindE (free_headroom (fd_exec db) user p e w stamp) (\<lambda>_.
     bindE (require (\<not> source_taken db user w) (FreeValueError ''IntegrityError'')) (\<lambda>_.
     let (request, db') = book_free db user p e w stamp in Inr ((request, True), db')))))"

section \<open>Completion and measured expense\<close>

definition free_complete :: "free_db \<Rightarrow> int \<Rightarrow> string \<Rightarrow> string \<Rightarrow> string \<Rightarrow> free_error + free_db" where
  "free_complete db user source_type source_id result_id =
     (let mine = (\<lambda>q. fq_user_id q = user \<and> fq_source_type q = source_type \<and> fq_source_id q = source_id) in
      case find mine (fd_requests db) of
        None \<Rightarrow> Inr db
      | Some row \<Rightarrow>
          bindE (require (\<not> (fq_completed row \<and> fq_result_id row \<noteq> Some result_id))
            (FreeValueError ''Free processing result was already bound'')) (\<lambda>_.
          Inr (db\<lparr>fd_requests := map (\<lambda>q. if mine q then q\<lparr>fq_completed := True, fq_result_id := Some result_id\<rparr> else q) (fd_requests db)\<rparr>)))"

definition settle_measured_expense :: "exec_db \<Rightarrow> string \<Rightarrow> int \<Rightarrow> string \<Rightarrow> int \<Rightarrow> free_error + exec_db" where
  "settle_measured_expense db fid actual_minor receipt now =
     bindE (require (\<not> (actual_minor < 0 \<or> \<not> is_sha256_hex receipt))
       (FreeValueError ''Measured expense and a retained receipt digest are required'')) (\<lambda>_.
     case row_at fh_id fid (xd_free db) of
       None \<Rightarrow> Inl FreeNoResult
     | Some row \<Rightarrow>
         if fh_settled row
         then bindE (require (\<not> (fh_settled_minor row \<noteq> Some actual_minor \<or> fh_receipt_sha256 row \<noteq> Some receipt))
                (FreeValueError ''Expense reconciliation conflicts with the recorded receipt'')) (\<lambda>_. Inr db)
         else Inr (db\<lparr>xd_free := update_by fh_id fid (\<lambda>f. f\<lparr>fh_settled_minor := Some actual_minor, fh_settled := True,
                fh_receipt_sha256 := Some receipt, fh_settled_at := Some now\<rparr>) (xd_free db)\<rparr>))"

end
