(* ===== verification/Free_Quota.thy ===== *)
theory Free_Quota
  imports Free_Core Delivery_Properties
begin

text \<open>
  The allowance of free processing over time: no thirty days hold more reservations of an
  account for an operation than the policies allowed, and every request has its own key,
  source and reservation.
\<close>

section \<open>What an admission does\<close>

lemma free_policy_bounded_contract:
  assumes "free_policy_bounded p = Inr q"
  shows "q = p" and "fy_valid_from p < fy_expires_at p" and "fy_free_allocation_minor p \<le> fy_shared_period_funded_minor p"
    and "\<exists>e. map_of (fy_operations p) ''resume_parse'' = Some e \<and> fe_per_account_30_days e = 1"
    and "\<exists>e. map_of (fy_operations p) ''basic_match'' = Some e \<and> fe_per_account_30_days e = 10"
  using assms by (auto simp: free_policy_bounded_def result_simps)

lemma free_current_policy_loaded: "free_current_policy env loaded paid t = Some p \<Longrightarrow> loaded = Some p"
  by (auto simp: free_current_policy_def Let_def split: option.splits if_splits)

lemma free_headroom_quota:
  "free_headroom db user p e w stamp = Inr u \<Longrightarrow>
     int (free_count db (stamp - days 30) user (fw_operation w)) < fe_per_account_30_days e"
  by (simp add: free_headroom_def Let_def result_simps)

lemma book_free_frame:
  assumes "book_free db user p e w stamp = (q, db')"
  shows "\<exists>fid. xd_free (fd_exec db') = xd_free (fd_exec db) @ [free_reservation_row fid user p e (fw_operation w) stamp] \<and>
     fq_reservation_id q = fid"
    and "fd_requests db' = fd_requests db @ [q]"
    and "fq_user_id q = user" "fq_idempotency_key q = fw_key w" "fq_source_type q = fw_source_type w"
    and "fq_source_id q = fw_source_id w" "fq_input_fingerprint q = fw_fingerprint w" "fq_completed q = False"
  using assms by (auto simp: book_free_def draw_def Let_def split: prod.splits)

text \<open>Either the key is known and nothing is written, or a row of each kind is added within the quota.\<close>

lemma free_admit_cases:
  assumes "free_admit env loaded paid db user w stamp = Inr ((q, new), db')"
  obtains (repeated) "new = False" "db' = db" "q \<in> set (fd_requests db)" "fq_user_id q = user" "fq_idempotency_key q = fw_key w"
  | (admitted) p e where "new = True" "loaded = Some p" "map_of (fy_operations p) (fw_operation w) = Some e"
      "free_headroom (fd_exec db) user p e w stamp = Inr ()" "\<not> source_taken db user w"
      "\<forall>r \<in> set (fd_requests db). \<not> (fq_user_id r = user \<and> fq_idempotency_key r = fw_key w)"
      "book_free db user p e w stamp = (q, db')"
proof (cases "find (\<lambda>q. fq_user_id q = user \<and> fq_idempotency_key q = fw_key w) (fd_requests db)")
  case None
  then have fresh: "\<forall>r \<in> set (fd_requests db). \<not> (fq_user_id r = user \<and> fq_idempotency_key r = fw_key w)"
    by (simp add: find_None_iff)
  from None assms obtain p e where
    "free_current_policy env loaded paid stamp = Some p" "map_of (fy_operations p) (fw_operation w) = Some e"
    "free_headroom (fd_exec db) user p e w stamp = Inr ()" "\<not> source_taken db user w"
    "book_free db user p e w stamp = (q, db')" "new"
    by (auto simp: free_admit_def result_simps split: option.splits prod.splits)
  with fresh show thesis by (intro admitted [of p e]) (auto dest: free_current_policy_loaded)
next
  case (Some r)
  then have "r \<in> set (fd_requests db)" "fq_user_id r = user" "fq_idempotency_key r = fw_key w"
    by (auto simp: find_Some_iff)
  moreover have "q = r" "new = False" "db' = db"
    using assms Some by (auto simp: free_admit_def result_simps)
  ultimately show thesis using repeated by blast
qed

section \<open>Windows\<close>

text \<open>The instants at which an account reserved an operation.\<close>

definition free_times :: "free_db \<Rightarrow> int \<Rightarrow> string \<Rightarrow> int list" where
  "free_times db user operation =
     map fh_created_at (filter (\<lambda>f. fh_user_id f = Some user \<and> fh_operation f = operation) (xd_free (fd_exec db)))"

definition in_window :: "int \<Rightarrow> int list \<Rightarrow> nat" where
  "in_window start ts = length (filter (\<lambda>x. start \<le> x \<and> x \<le> start + days 30) ts)"

lemma free_count_times: "free_count (fd_exec db) start user operation = length (filter (\<lambda>x. start \<le> x) (free_times db user operation))"
  by (simp add: free_count_def recent_free_def free_times_def filter_map o_def conj_ac)

lemma filter_length_mono: "(\<And>x. x \<in> set xs \<Longrightarrow> P x \<Longrightarrow> Q x) \<Longrightarrow> length (filter P xs) \<le> length (filter Q xs)"
  by (induction xs) auto

text \<open>One more instant is covered by the count over the thirty days before it, whichever window holds it.\<close>

lemma in_window_snoc:
  assumes "\<forall>s. in_window s ts \<le> limit" and "length (filter (\<lambda>x. stamp - days 30 \<le> x) ts) < limit"
  shows "in_window s (ts @ [stamp]) \<le> limit"
proof (cases "s \<le> stamp \<and> stamp \<le> s + days 30")
  case True
  then have "in_window s ts \<le> length (filter (\<lambda>x. stamp - days 30 \<le> x) ts)"
    unfolding in_window_def by (intro filter_length_mono) auto
  with assms(2) True show ?thesis by (simp add: in_window_def)
next
  case False
  with assms(1) [rule_format, of s] show ?thesis by (auto simp: in_window_def)
qed

section \<open>Steps\<close>

text \<open>
  \<open>funded p\<close> holds of the policies that were in force. The rest of the system writes no
  free reservation; erasing an account detaches its reservations and deletes its requests.
\<close>

definition detach_owner :: "int \<Rightarrow> free_hold \<Rightarrow> free_hold" where
  "detach_owner user f = (if fh_user_id f = Some user then f\<lparr>fh_user_id := None\<rparr> else f)"

inductive free_step :: "(free_policy \<Rightarrow> bool) \<Rightarrow> free_db \<Rightarrow> free_db \<Rightarrow> bool" for funded where
  admission: "free_admit env loaded paid db user w stamp = Inr ((q, new), db') \<Longrightarrow>
     (\<forall>p. loaded = Some p \<longrightarrow> funded p) \<Longrightarrow> free_step funded db db'"
| completion: "free_complete db user source_type source_id result_id = Inr db' \<Longrightarrow> free_step funded db db'"
| measured: "settle_measured_expense (fd_exec db) fid actual receipt now = Inr db2 \<Longrightarrow>
     free_step funded db (db\<lparr>fd_exec := db2\<rparr>)"
| other_work: "xd_free db2 = xd_free (fd_exec db) \<Longrightarrow> free_step funded db (db\<lparr>fd_exec := db2\<rparr>)"
| erasure: "xd_free db2 = map (detach_owner user) (xd_free (fd_exec db)) \<Longrightarrow>
     free_step funded db \<lparr>fd_exec = db2, fd_requests = filter (\<lambda>q. fq_user_id q \<noteq> user) (fd_requests db)\<rparr>"

lemma detach_owner_row [simp]:
  "fh_user_id (detach_owner user f) = Some u \<longleftrightarrow> fh_user_id f = Some u \<and> u \<noteq> user"
  "fh_operation (detach_owner user f) = fh_operation f" "fh_created_at (detach_owner user f) = fh_created_at f"
  by (auto simp: detach_owner_def)

lemma map_filter_map:
  "(\<And>x. P (f x) = P x) \<Longrightarrow> (\<And>x. h (f x) = h x) \<Longrightarrow> map h (filter P (map f xs)) = map h (filter P xs)"
  by (induction xs) auto

lemma measured_times:
  "settle_measured_expense (fd_exec db) fid actual receipt now = Inr db2 \<Longrightarrow>
     free_times (db\<lparr>fd_exec := db2\<rparr>) user operation = free_times db user operation"
  by (auto simp: settle_measured_expense_def result_simps free_times_def update_by_def
      split: option.splits if_splits intro!: map_filter_map)

lemma completion_frame:
  "free_complete db user source_type source_id result_id = Inr db' \<Longrightarrow>
     fd_exec db' = fd_exec db \<and>
     map (\<lambda>q. (fq_user_id q, fq_idempotency_key q, fq_source_type q, fq_source_id q, fq_reservation_id q)) (fd_requests db') =
     map (\<lambda>q. (fq_user_id q, fq_idempotency_key q, fq_source_type q, fq_source_id q, fq_reservation_id q)) (fd_requests db)"
  by (auto simp: free_complete_def Let_def result_simps split: option.splits)

definition within_quota :: "string \<Rightarrow> nat \<Rightarrow> free_db \<Rightarrow> bool" where
  "within_quota operation limit db \<longleftrightarrow> (\<forall>user s. in_window s (free_times db user operation) \<le> limit)"

definition quota_at_most :: "string \<Rightarrow> nat \<Rightarrow> free_policy \<Rightarrow> bool" where
  "quota_at_most operation limit p \<longleftrightarrow>
     (\<forall>e. map_of (fy_operations p) operation = Some e \<longrightarrow> fe_per_account_30_days e \<le> int limit)"

lemma admission_times:
  assumes "free_admit env loaded paid db user w stamp = Inr ((q, True), db')"
  shows "free_times db' u operation =
     free_times db u operation @ (if u = user \<and> operation = fw_operation w then [stamp] else [])"
  using assms
proof (cases rule: free_admit_cases)
  case (admitted p e)
  with book_free_frame(1) [OF admitted(7)] show ?thesis
    by (auto simp: free_times_def free_reservation_row_def)
qed simp

lemma free_step_quota:
  assumes "free_step (quota_at_most operation limit) db db'" and "within_quota operation limit db"
  shows "within_quota operation limit db'"
  using assms
proof (cases rule: free_step.cases)
  case (admission env loaded paid user w stamp q new)
  show ?thesis
  proof (cases new)
    case False
    with admission(1) have "db' = db" by (auto elim: free_admit_cases)
    with assms(2) show ?thesis by simp
  next
    case True
    from admission(1) obtain p e where "loaded = Some p" "map_of (fy_operations p) (fw_operation w) = Some e"
      and "free_headroom (fd_exec db) user p e w stamp = Inr ()"
      by (rule free_admit_cases) (use True in auto)
    with admission(2) free_headroom_quota [of "fd_exec db" user p e w stamp]
    have "operation = fw_operation w \<Longrightarrow> length (filter (\<lambda>x. stamp - days 30 \<le> x) (free_times db user operation)) < limit"
      by (auto simp: quota_at_most_def free_count_times)
    with assms(2) True admission_times [of env loaded paid db user w stamp q db'] admission(1)
    show ?thesis by (auto simp: within_quota_def intro!: in_window_snoc)
  qed
next
  case (completion user source_type source_id result_id)
  with completion_frame [OF completion] assms(2) show ?thesis by (simp add: within_quota_def free_times_def)
next
  case (measured fid actual receipt now db2)
  with assms(2) show ?thesis by (simp add: within_quota_def measured_times)
next
  case (other_work db2)
  with assms(2) show ?thesis by (simp add: within_quota_def free_times_def)
next
  case (erasure db2 user)
  have "free_times db' u operation = (if u = user then [] else free_times db u operation)" for u
    by (auto simp: erasure free_times_def filter_empty_conv intro!: map_filter_map)
  with assms(2) show ?thesis by (simp add: within_quota_def in_window_def)
qed

interpretation quota: step_invariant "free_step (quota_at_most operation limit)" "within_quota operation limit"
  by unfold_locales (rule free_step_quota)

lemma free_steps_mono:
  "(free_step f)\<^sup>*\<^sup>* db db' \<Longrightarrow> (\<And>p. f p \<Longrightarrow> g p) \<Longrightarrow> (free_step g)\<^sup>*\<^sup>* db db'"
  by (erule mono_rtranclp [rule_format, rotated]) (auto elim!: free_step.cases intro: free_step.intros)

section \<open>One request per key, source and reservation\<close>

definition requests_distinct :: "free_db \<Rightarrow> bool" where
  "requests_distinct db \<longleftrightarrow>
     distinct (map (\<lambda>q. (fq_user_id q, fq_idempotency_key q)) (fd_requests db)) \<and>
     distinct (map (\<lambda>q. (fq_user_id q, fq_source_type q, fq_source_id q)) (fd_requests db))"

lemma free_step_distinct:
  assumes "free_step funded db db'" and "requests_distinct db"
  shows "requests_distinct db'"
  using assms
proof (cases rule: free_step.cases)
  case (admission env loaded paid user w stamp q new)
  from admission(1) show ?thesis
  proof (cases rule: free_admit_cases)
    case (admitted p e)
    with book_free_frame [OF admitted(7)] assms(2) show ?thesis
      by (auto simp: requests_distinct_def source_taken_def list_ex_iff)
  qed (use assms(2) in simp)
next
  case (completion user source_type source_id result_id)
  note same = completion_frame [OF completion, THEN conjunct2]
  from arg_cong [OF same, of "map (\<lambda>(u, k, t, i, r). (u, k))"] arg_cong [OF same, of "map (\<lambda>(u, k, t, i, r). (u, t, i))"] assms(2)
  show ?thesis by (simp add: requests_distinct_def o_def)
next
  case (erasure db2 user)
  with assms(2) show ?thesis by (simp add: requests_distinct_def distinct_map_filter)
qed (use assms(2) in \<open>simp_all add: requests_distinct_def\<close>)

interpretation requests: step_invariant "free_step funded" requests_distinct
  by unfold_locales (rule free_step_distinct)

section \<open>Properties\<close>

definition sample_envelope :: "int \<Rightarrow> free_envelope" where
  "sample_envelope n = \<lparr>fe_route_id = ''r'', fe_reserved_minor = 20, fe_max_input_bytes = 5000, fe_max_source_records = 100,
     fe_max_attempts = 2, fe_per_account_30_days = n\<rparr>"

definition sample_free_policy :: free_policy where
  "sample_free_policy = \<lparr>fy_version = ''f'', fy_provenance = InvoiceReconciled, fy_funding_period_id = ''p'', fy_evidence_sha256 = digest,
     fy_valid_from = 0, fy_expires_at = 1000, fy_shared_period_funded_minor = 300, fy_free_allocation_minor = 200,
     fy_global_30_day_operations = 50, fy_financial_policy = sample_policy, fy_execution_budgets = sample_budgets,
     fy_operations = [(''resume_parse'', sample_envelope 1), (''basic_match'', sample_envelope 10),
       (''curated_interview'', sample_envelope 5), (''skill_roi'', sample_envelope 5)]\<rparr>"

definition empty_free_db :: free_db where
  "empty_free_db = \<lparr>fd_exec = shop_db, fd_requests = []\<rparr>"

definition parse_work :: free_work where
  "parse_work = \<lparr>fw_operation = ''resume_parse'', fw_source_type = ''resume'', fw_source_id = ''s'', fw_key = ''k'',
     fw_fingerprint = digest, fw_input_bytes = 1000, fw_attempts = 1, fw_records = 0\<rparr>"

definition sample_free_admission :: "free_error + (free_request \<times> bool) \<times> free_db" where
  "sample_free_admission = free_admit (\<lambda>_. None) (Some sample_free_policy) None empty_free_db 1 parse_work 6"

lemma sample_free_policy_bounded: "free_policy_bounded sample_free_policy = Inr sample_free_policy"
  by code_simp

lemma sample_free_admitted:
  "case sample_free_admission of Inr ((q, new), db) \<Rightarrow> new \<and> free_times db 1 ''resume_parse'' = [6] | Inl _ \<Rightarrow> False"
  by code_simp

text \<open>
  C19. The free contract: whatever reviewed policies follow one another and whatever else
  happens, no thirty days hold two free resume parses or eleven comparisons of one account,
  and no two requests of an account have the same key or the same source.
\<close>

theorem free_contract:
  assumes "(free_step (\<lambda>p. free_policy_bounded p = Inr p))\<^sup>*\<^sup>* db0 db" and "xd_free (fd_exec db0) = []" and "fd_requests db0 = []"
  shows "in_window s (free_times db user ''resume_parse'') \<le> 1 \<and> in_window s (free_times db user ''basic_match'') \<le> 10 \<and>
    requests_distinct db"
proof -
  have start: "within_quota operation limit db0" "requests_distinct db0" for operation limit
    by (simp_all add: within_quota_def in_window_def free_times_def assms(2,3) requests_distinct_def)
  have "(free_step (quota_at_most ''resume_parse'' 1))\<^sup>*\<^sup>* db0 db" "(free_step (quota_at_most ''basic_match'' 10))\<^sup>*\<^sup>* db0 db"
    by (rule free_steps_mono [OF assms(1)]; use free_policy_bounded_contract(4,5) in \<open>fastforce simp: quota_at_most_def\<close>)+
  with start quota.run_ok [where operation = "''resume_parse''" and limit = 1]
    quota.run_ok [where operation = "''basic_match''" and limit = 10] requests.run_ok [OF assms(1)]
  show ?thesis by (auto simp: within_quota_def)
qed

lemma free_contract_witness:
  "\<exists>q db. sample_free_admission = Inr ((q, True), db) \<and> free_times db 1 ''resume_parse'' = [6] \<and>
     in_window 0 (free_times db 1 ''resume_parse'') \<le> 1 \<and> in_window 0 (free_times db 1 ''basic_match'') \<le> 10 \<and> requests_distinct db"
proof -
  from sample_free_admitted obtain q db where run: "sample_free_admission = Inr ((q, True), db)" "free_times db 1 ''resume_parse'' = [6]"
    by (auto split: sum.splits)
  then have "free_step (\<lambda>p. free_policy_bounded p = Inr p) empty_free_db db"
    unfolding sample_free_admission_def by (rule_tac free_step.admission) (auto simp: sample_free_policy_bounded)
  then have "(free_step (\<lambda>p. free_policy_bounded p = Inr p))\<^sup>*\<^sup>* empty_free_db db" by (rule r_into_rtranclp)
  note contract = free_contract [OF this, where s = 0 and user = 1]
  have "xd_free (fd_exec empty_free_db) = []" "fd_requests empty_free_db = []" by (simp_all add: empty_free_db_def shop_db_def)
  with run contract show ?thesis by blast
qed

end
