(* ===== verification/Notifications.thy ===== *)
theory Notifications
  imports Mail_Budget Settings
begin

text \<open>
  \<open>domains/notifications\<close>: the outbox of messages to people, over the mail budget. Every
  committed transaction is a function on the rows; a delivery is a claim, a send through
  \<open>guarded_send\<close> and a settlement. AES-GCM is the pair of parameters \<open>seal\<close> and \<open>unseal\<close>
  (of a token and its associated document), SHA-256 of plain text is \<open>hash\<close>, Python's
  \<open>str\<close> of a document \<open>shown\<close>.
\<close>

section \<open>Rows\<close>

datatype note_status =
    NotePending | NoteProcessing | NoteSent | NoteFailed | NoteUnknown | NoteCancelled
  | ErasurePending | ErasureProcessing | ErasureSent | ErasureFailed | ErasureUnknown | ErasureCancelled

record mail_note =
  nt_id :: string
  nt_user_id :: "int option"
  nt_type :: string
  nt_recipient :: string
  nt_payload :: json
  nt_key :: string
  nt_status :: note_status
  nt_attempts :: nat
  nt_available_at :: int
  nt_claimed_at :: "int option"
  nt_sent_at :: "int option"
  nt_last_error :: "string option"
  nt_created_at :: int
  nt_updated_at :: int

record reminder =
  rm_id :: string
  rm_user_id :: int
  rm_opportunity_id :: "string option"
  rm_message :: string
  rm_due_at :: int
  rm_status :: string
  rm_delivery_channel :: string
  rm_sent_at :: "int option"

record reset_token =
  rt_id :: string
  rt_purpose :: string
  rt_user_id :: int
  rt_email_sha256 :: string
  rt_credential_sha256 :: string
  rt_status :: string
  rt_expires_at :: int
  rt_consumed_at :: "int option"

record mail_person =
  pn_id :: int
  pn_email :: string
  pn_password_hash :: string
  pn_account_state :: "string option"   \<comment> \<open>of the candidate password account\<close>

record note_db =
  nd_notes :: "mail_note list"
  nd_audit :: "audit_row list"
  nd_reminders :: "reminder list"
  nd_tokens :: "reset_token list"
  nd_people :: "mail_person list"
  nd_supply :: "nat \<Rightarrow> string"
  nd_drawn :: nat

datatype note_error = MailError mail_outcome | NoteIntegrity | NoteMissing

definition mail_error :: "mail_outcome + 'a \<Rightarrow> note_error + 'a" where
  "mail_error m = (case m of Inl e \<Rightarrow> Inl (MailError e) | Inr x \<Rightarrow> Inr x)"

lemma mail_error_eq_Inr [result_simps]: "mail_error m = Inr x \<longleftrightarrow> m = Inr x"
  by (cases m) (simp_all add: mail_error_def)

definition change_note :: "string \<Rightarrow> (mail_note \<Rightarrow> mail_note) \<Rightarrow> note_db \<Rightarrow> note_db" where
  "change_note i f db = db\<lparr>nd_notes := update_by nt_id i f (nd_notes db)\<rparr>"

definition is_security :: "string \<Rightarrow> bool" where
  "is_security kind \<longleftrightarrow> kind \<in> {''password_reset'', ''password_changed''}"

definition is_lifecycle :: "string \<Rightarrow> bool" where
  "is_lifecycle kind \<longleftrightarrow> kind \<notin> {''password_reset'', ''password_changed'', ''privacy_erasure''}"

section \<open>Switches\<close>

definition env_bool :: "settings \<Rightarrow> string \<Rightarrow> bool" where
  "env_bool env name =
     (case env name of None \<Rightarrow> False | Some v \<Rightarrow> lower (strip v) \<in> {''1'', ''true'', ''yes'', ''on''})"

definition lifecycle_email_enabled :: "settings \<Rightarrow> bool" where
  "lifecycle_email_enabled env = env_bool env ''LIFECYCLE_EMAILS_ENABLED''"

definition reset_configured :: "settings \<Rightarrow> bool" where
  "reset_configured env \<longleftrightarrow> strip (env_value env ''RESEND_API_KEY'') \<noteq> [] \<and> strip (env_value env ''EMAIL_FROM'') \<noteq> []"

definition erasure_configured :: "settings \<Rightarrow> bool" where
  "erasure_configured env \<longleftrightarrow> env ''PRIVACY_ERASURE_RECOVERY_ENABLED'' = Some ''true'' \<and> reset_configured env"

section \<open>Enqueueing\<close>

definition LIFECYCLE_SCHEDULE_LIMIT :: int where "LIFECYCLE_SCHEDULE_LIMIT = hours 24"

definition new_note :: "note_db \<Rightarrow> int option \<Rightarrow> string \<Rightarrow> string \<Rightarrow> json \<Rightarrow> string \<Rightarrow> note_status \<Rightarrow> int \<Rightarrow> int \<Rightarrow> mail_note" where
  "new_note db user kind recipient payload key status due now =
     \<lparr>nt_id = ''ntf_'' @ nd_supply db (nd_drawn db), nt_user_id = user, nt_type = kind, nt_recipient = recipient,
      nt_payload = payload, nt_key = key, nt_status = status, nt_attempts = 0, nt_available_at = due,
      nt_claimed_at = None, nt_sent_at = None, nt_last_error = None, nt_created_at = now, nt_updated_at = now\<rparr>"

text \<open>\<open>db.add\<close> of a message; its identifier and its key are unique in the table.\<close>

definition add_note :: "mail_note \<Rightarrow> note_db \<Rightarrow> note_error + note_db" where
  "add_note item db =
     bindE (require (nt_key item \<notin> nt_key ` set (nd_notes db) \<and> nt_id item \<notin> nt_id ` set (nd_notes db)) NoteIntegrity) (\<lambda>_.
     Inr (db\<lparr>nd_notes := nd_notes db @ [item], nd_drawn := Suc (nd_drawn db)\<rparr>))"

text \<open>
  \<open>available_at\<close> is \<open>Some None\<close> for a value that is not an instant with a time zone;
  \<open>reserve_at\<close> is the clock that the mail budget reads.
\<close>

definition enqueue_notification ::
  "(string \<Rightarrow> string) \<Rightarrow> string \<Rightarrow> settings \<Rightarrow> note_db \<Rightarrow> int option \<Rightarrow> string \<Rightarrow> string \<Rightarrow> json \<Rightarrow> string
     \<Rightarrow> int option option \<Rightarrow> int \<Rightarrow> int \<Rightarrow> note_error + mail_note option \<times> note_db" where
  "enqueue_notification sha dialect env db user kind recipient payload key available_at now reserve_at =
     (if \<not> lifecycle_email_enabled env then Inr (None, db)
      else if available_at = Some None then Inr (None, db)
      else
        let due = (case available_at of Some (Some t) \<Rightarrow> max now t | _ \<Rightarrow> now) in
        if due > now + LIFECYCLE_SCHEDULE_LIMIT then Inr (None, db)
        else case reserve_messages sha dialect (nd_audit db) [key] ''lifecycle'' (Some (due + the (TTL ''lifecycle''))) reserve_at of
          Inl e \<Rightarrow> if e \<noteq> MailDeferred then Inl (MailError e) else Inr (None, db)
        | Inr (funded, audit) \<Rightarrow>
            let db1 = db\<lparr>nd_audit := audit\<rparr> in
            case row_at nt_key key (nd_notes db1) of
              Some existing \<Rightarrow> Inr (Some existing, db1)
            | None \<Rightarrow>
                if mr_expires_at (hd funded) \<le> due then Inr (None, db1)
                else let item = new_note db1 user kind (lower (strip recipient)) payload key NotePending due now
                     in bindE (add_note item db1) (\<lambda>db2. Inr (Some item, db2)))"

text \<open>The due reminders of the query: scheduled, by mail, unsent, the earliest first.\<close>

definition due_reminders :: "note_db \<Rightarrow> int \<Rightarrow> nat \<Rightarrow> (reminder \<times> mail_person) list" where
  "due_reminders db now limit =
     take limit (map (\<lambda>r. (r, the (row_at pn_id (rm_user_id r) (nd_people db))))
       (sort_key rm_due_at (filter (\<lambda>r. rm_status r = ''scheduled'' \<and> rm_delivery_channel r = ''email'' \<and>
          rm_sent_at r = None \<and> rm_due_at r \<le> now \<and> row_at pn_id (rm_user_id r) (nd_people db) \<noteq> None) (nd_reminders db))))"

definition opt_str :: "string option \<Rightarrow> json" where
  "opt_str v = (case v of None \<Rightarrow> JNull | Some s \<Rightarrow> JStr s)"

fun queue_reminders ::
  "(string \<Rightarrow> string) \<Rightarrow> string \<Rightarrow> settings \<Rightarrow> int \<Rightarrow> (reminder \<times> mail_person) list \<Rightarrow> note_db \<Rightarrow> note_error + nat \<times> note_db" where
  "queue_reminders sha dialect env now [] db = Inr (0, db)"
| "queue_reminders sha dialect env now ((r, person) # rest) db =
     bindE (enqueue_notification sha dialect env db (Some (pn_id person)) ''reminder_due'' (pn_email person)
       (JObj [(''reminder_id'', JStr (rm_id r)), (''message'', JStr (rm_message r)), (''opportunity_id'', opt_str (rm_opportunity_id r))])
       (''reminder:'' @ rm_id r @ '':email'') None now now) (\<lambda>(item, db1).
     bindE (queue_reminders sha dialect env now rest db1) (\<lambda>(n, db2).
     Inr (n + (case item of Some i \<Rightarrow> if nt_status i = NotePending then 1 else 0 | None \<Rightarrow> 0), db2)))"

definition queue_due_reminder_emails ::
  "(string \<Rightarrow> string) \<Rightarrow> string \<Rightarrow> settings \<Rightarrow> note_db \<Rightarrow> nat \<Rightarrow> int \<Rightarrow> note_error + nat \<times> note_db" where
  "queue_due_reminder_emails sha dialect env db limit now =
     (if \<not> lifecycle_email_enabled env then Inr (0, db)
      else queue_reminders sha dialect env now (due_reminders db now limit) db)"

text \<open>The security messages reserve their own mail; a sealed token never enters the table in plain text.\<close>

definition reset_aad :: "json \<Rightarrow> string \<Rightarrow> int \<Rightarrow> json" where
  "reset_aad reset_id recipient expiry = JArr [reset_id, JStr recipient, JInt expiry]"

definition erasure_aad :: "json \<Rightarrow> string \<Rightarrow> int \<Rightarrow> json" where
  "erasure_aad proof_id recipient expiry = JArr [JStr ''hirewiz:privacy-erasure-email:v1'', proof_id, JStr recipient, JInt expiry]"

definition enqueue_reset ::
  "(string \<Rightarrow> string) \<Rightarrow> string \<Rightarrow> (string \<Rightarrow> json \<Rightarrow> string) \<Rightarrow> note_db \<Rightarrow> int \<Rightarrow> string \<Rightarrow> string \<Rightarrow> string \<Rightarrow> int \<Rightarrow> int \<Rightarrow> int
     \<Rightarrow> note_error + mail_note \<times> note_db" where
  "enqueue_reset sha dialect seal db user recipient reset_id token expires_at now reserve_at =
     bindE (mail_error (reserve_messages sha dialect (nd_audit db) [''password-reset:'' @ reset_id, ''password-changed:'' @ reset_id]
              ''password_reset'' (Some expires_at) reserve_at)) (\<lambda>(funded, audit).
     let expiry = expires_at div 1000;
         item = new_note db (Some user) ''password_reset'' recipient
           (JObj [(''reset_id'', JStr reset_id), (''expires_at_ms'', JInt expiry),
                  (''ciphertext'', JStr (seal token (reset_aad (JStr reset_id) recipient expiry)))])
           (''password-reset:'' @ reset_id) NotePending now now
     in bindE (add_note item (db\<lparr>nd_audit := audit\<rparr>)) (\<lambda>db1. Inr (item, db1)))"

definition enqueue_changed ::
  "(string \<Rightarrow> string) \<Rightarrow> string \<Rightarrow> note_db \<Rightarrow> int \<Rightarrow> string \<Rightarrow> string \<Rightarrow> int \<Rightarrow> int \<Rightarrow> note_error + mail_note \<times> note_db" where
  "enqueue_changed sha dialect db user recipient reset_id now reserve_at =
     (let key = ''password-changed:'' @ reset_id in
      case row_at nt_key key (nd_notes db) of
        Some existing \<Rightarrow> Inr (existing, db)
      | None \<Rightarrow>
          let db1 = (case reserve_messages sha dialect (nd_audit db) [key] ''password_reset'' None reserve_at of
                       Inl _ \<Rightarrow> db | Inr (_, audit) \<Rightarrow> db\<lparr>nd_audit := audit\<rparr>);
              item = new_note db1 (Some user) ''password_changed'' recipient (JObj [(''reset_id'', JStr reset_id)]) key NotePending now now
          in bindE (add_note item db1) (\<lambda>db2. Inr (item, db2)))"

definition enqueue_erasure ::
  "(string \<Rightarrow> string) \<Rightarrow> string \<Rightarrow> (string \<Rightarrow> json \<Rightarrow> string) \<Rightarrow> note_db \<Rightarrow> int \<Rightarrow> string \<Rightarrow> string \<Rightarrow> string \<Rightarrow> int \<Rightarrow> int \<Rightarrow> int
     \<Rightarrow> note_error + mail_note \<times> note_db" where
  "enqueue_erasure sha dialect seal db user recipient proof_id token expires_at now reserve_at =
     (let key = ''privacy-erasure:'' @ proof_id in
      bindE (mail_error (reserve_messages sha dialect (nd_audit db) [key] ''privacy_erasure'' (Some expires_at) reserve_at)) (\<lambda>(funded, audit).
      let expiry = expires_at div 1000;
          item = new_note db (Some user) ''privacy_erasure'' recipient
            (JObj [(''purpose'', JStr ''privacy_erasure''), (''proof_id'', JStr proof_id), (''expires_at_ms'', JInt expiry),
                   (''ciphertext'', JStr (seal token (erasure_aad (JStr proof_id) recipient expiry)))])
            key ErasurePending now now
      in bindE (add_note item (db\<lparr>nd_audit := audit\<rparr>)) (\<lambda>db1. Inr (item, db1))))"

section \<open>Messages\<close>

definition is_mail_token :: "string \<Rightarrow> bool" where
  "is_mail_token t \<longleftrightarrow> length t = 43 \<and>
     list_all (\<lambda>c. c \<in> set ''abcdefghijklmnopqrstuvwxyzABCDEFGHIJKLMNOPQRSTUVWXYZ0123456789_-'') t"

text \<open>The members of a sealed payload, if they are exactly \<open>ks\<close> and it has not expired.\<close>

definition sealed_payload :: "string list \<Rightarrow> json \<Rightarrow> int \<Rightarrow> (int \<times> json) option" where
  "sealed_payload ks payload now =
     (case payload of
        JObj ms \<Rightarrow>
          if set (map fst ms) \<noteq> set ks then None
          else (case (map_of ms ''expires_at_ms'', map_of ms ''ciphertext'') of
                  (Some (JInt expiry), Some c) \<Rightarrow> if now div 1000 \<ge> expiry then None else Some (expiry, c)
                | _ \<Rightarrow> None)
      | _ \<Rightarrow> None)"

definition payload_member :: "string \<Rightarrow> json \<Rightarrow> json" where
  "payload_member k payload = (case json_get k payload of None \<Rightarrow> JNull | Some v \<Rightarrow> v)"

definition reset_message :: "(json \<Rightarrow> json \<Rightarrow> string option) \<Rightarrow> mail_note \<Rightarrow> int \<Rightarrow> (string \<times> string) option" where
  "reset_message unseal item now =
     (if nt_type item = ''password_changed'' then
        Some (''Your HireWiz password was changed'',
          ''Your HireWiz password was changed. If you did not make this change, request a new reset at https://www.hirewizhq.com/forgot-password and contact support immediately.'')
      else if nt_type item \<noteq> ''password_reset'' then None
      else case sealed_payload [''reset_id'', ''expires_at_ms'', ''ciphertext''] (nt_payload item) now of
        None \<Rightarrow> None
      | Some (expiry, c) \<Rightarrow>
          (case unseal c (reset_aad (payload_member ''reset_id'' (nt_payload item)) (nt_recipient item) expiry) of
             None \<Rightarrow> None
           | Some token \<Rightarrow> if \<not> is_mail_token token then None
               else Some (''Reset your HireWiz password'',
                 ''Use this single-use link within 15 minutes to choose a new HireWiz password:'' @ [CHR 0x0A, CHR 0x0A] @
                 ''https://www.hirewizhq.com/reset-password#token='' @ token @ [CHR 0x0A, CHR 0x0A] @
                 ''If you did not request this, ignore this email. Your password has not changed.'')))"

definition erasure_message :: "(json \<Rightarrow> json \<Rightarrow> string option) \<Rightarrow> mail_note \<Rightarrow> int \<Rightarrow> (string \<times> string) option" where
  "erasure_message unseal item now =
     (if nt_type item \<noteq> ''privacy_erasure'' \<or> json_get ''purpose'' (nt_payload item) \<noteq> Some (JStr ''privacy_erasure'') then None
      else case sealed_payload [''purpose'', ''proof_id'', ''expires_at_ms'', ''ciphertext''] (nt_payload item) now of
        None \<Rightarrow> None
      | Some (expiry, c) \<Rightarrow>
          (case unseal c (erasure_aad (payload_member ''proof_id'' (nt_payload item)) (nt_recipient item) expiry) of
             None \<Rightarrow> None
           | Some token \<Rightarrow> if \<not> is_mail_token token then None
               else Some (''Confirm deletion of your HireWiz data'',
                 ''Someone requested deletion of the data remaining in your denied HireWiz account. This does not restore account access. To explicitly confirm deletion within 10 minutes, open:'' @ [CHR 0x0A, CHR 0x0A] @
                 ''https://www.hirewizhq.com/privacy-erasure/confirm#token='' @ token @ [CHR 0x0A, CHR 0x0A] @
                 ''Opening the link does not delete data. If you did not request deletion, ignore this email.'')))"

definition app_url :: "settings \<Rightarrow> string" where
  "app_url env =
     (let url = (if env_value env ''FRONTEND_URL'' = [] then ''https://www.hirewizhq.com'' else env_value env ''FRONTEND_URL'')
      in rev (dropWhile (\<lambda>c. c = CHR ''/'') (rev url)))"

definition workspace_url :: "(json \<Rightarrow> string) \<Rightarrow> settings \<Rightarrow> json \<Rightarrow> string" where
  "workspace_url shown env payload =
     (let opportunity = json_get ''opportunity_id'' payload in
      if json_truthy opportunity then app_url env @ ''/workspace/'' @ shown (the opportunity) else app_url env @ ''/dashboard'')"

definition shown_or :: "(json \<Rightarrow> string) \<Rightarrow> string \<Rightarrow> string \<Rightarrow> json \<Rightarrow> string" where
  "shown_or shown k d payload = (case json_get k payload of None \<Rightarrow> d | Some v \<Rightarrow> shown v)"

text \<open>\<open>_message\<close>; \<open>None\<close> when rendering raises.\<close>

definition note_message ::
  "(json \<Rightarrow> string) \<Rightarrow> (json \<Rightarrow> json \<Rightarrow> string option) \<Rightarrow> settings \<Rightarrow> mail_note \<Rightarrow> int \<Rightarrow> (string \<times> string) option" where
  "note_message shown unseal env item now =
     (let payload = (if json_truthy (Some (nt_payload item)) then nt_payload item else JObj []); kind = nt_type item; url = app_url env in
      if is_security kind then reset_message unseal item now
      else if kind = ''privacy_erasure'' then erasure_message unseal item now
      else if kind = ''account_recovery_requested'' then
        Some (''HireWiz account recovery requested'',
          ''A password recovery and browser account enrollment request was made for your HireWiz account. If you did not request this, contact support: '' @ url @ ''/contact'')
      else if kind = ''welcome'' then
        Some (''Welcome to HireWiz'', ''Your Career Workspace is ready. Add your resume to start building approved evidence: '' @ url @ ''/resume'')
      else if kind = ''onboarding_reminder'' then
        Some (''Finish your first HireWiz workspace'', ''Add a resume and target role to receive your first useful match: '' @ url @ ''/resume'')
      else if kind = ''analysis_completed'' then
        (case json_get ''operation'' payload of
           Some (JStr operation) \<Rightarrow> Some (''Your HireWiz analysis is ready'', ''Your '' @ map (\<lambda>c. if c = CHR ''_'' then CHR '' '' else c) operation @
             '' has completed. Review it here: '' @ workspace_url shown env payload)
         | None \<Rightarrow> Some (''Your HireWiz analysis is ready'', ''Your analysis has completed. Review it here: '' @ workspace_url shown env payload)
         | _ \<Rightarrow> None)
      else if kind = ''reminder_due'' then
        Some (''HireWiz reminder'', shown_or shown ''message'' ''A Career Workspace reminder is due.'' payload @ [CHR 0x0A, CHR 0x0A] @
          ''Open HireWiz: '' @ workspace_url shown env payload)
      else if kind = ''payment_receipt'' then
        Some (''Your HireWiz payment is confirmed'', ''Payment '' @ shown_or shown ''reference'' [] payload @ '' for '' @
          shown_or shown ''amount_display'' [] payload @ '' was confirmed. Review access and payment details: '' @ url @ ''/billing'')
      else Some (''HireWiz update'', ''You have a HireWiz update: '' @ url @ ''/dashboard''))"

section \<open>Sending\<close>

text \<open>The provider's HTTP answer; \<open>ha_body\<close> is \<open>None\<close> when it is not a JSON text.\<close>

record http_answer =
  ha_status :: int
  ha_length :: nat
  ha_digest :: string
  ha_body :: "json option"

definition is_message_id :: "string \<Rightarrow> bool" where
  "is_message_id t \<longleftrightarrow> 8 \<le> length t \<and> length t \<le> 200 \<and>
     list_all (\<lambda>c. c \<in> set ''abcdefghijklmnopqrstuvwxyzABCDEFGHIJKLMNOPQRSTUVWXYZ0123456789_-'') t"

definition accepted_body :: "json option \<Rightarrow> bool" where
  "accepted_body body =
     (case body of
        Some (JObj ms) \<Rightarrow> set (map fst ms) = {''id''} \<and> (case map_of ms ''id'' of Some (JStr i) \<Rightarrow> is_message_id i | _ \<Rightarrow> False)
      | _ \<Rightarrow> False)"

definition provider_answer :: "http_answer \<Rightarrow> provider_result" where
  "provider_answer a =
     (let status = ha_status a in
      \<lparr>pv_outcome =
         (if 200 \<le> status \<and> status < 300 \<and> ha_length a \<le> 16384 then (if accepted_body (ha_body a) then Sent else OutUnknown)
          else if status = 429 then OutRetryable
          else if 400 \<le> status \<and> status < 500 \<and> status \<noteq> 408 then OutPermanent
          else OutUnknown),
       pv_receipt_sha256 = ha_digest a, pv_status_code = Some status\<rparr>)"

definition mail_category :: "string \<Rightarrow> string" where
  "mail_category kind =
     (if kind = ''privacy_erasure'' then ''privacy_erasure'' else if is_security kind then ''password_reset'' else ''lifecycle'')"

definition note_expiry :: "mail_note \<Rightarrow> int option" where
  "note_expiry item = (case json_get ''expires_at_ms'' (nt_payload item) of Some (JInt ms) \<Rightarrow> Some (1000 * ms) | _ \<Rightarrow> None)"

text \<open>What one delivery meets: its clocks and the provider's answer (\<open>None\<close>: the call raised).\<close>

record note_call =
  nc_claim_at :: int
  nc_message_at :: int
  nc_env :: send_env
  nc_answer :: "http_answer option"
  nc_settle_at :: int

record mail_world =
  mw_sha :: "string \<Rightarrow> string"           \<comment> \<open>the labelled digest of the mail budget\<close>
  mw_unknown_receipt :: string
  mw_dialect :: string
  mw_settings :: settings
  mw_shown :: "json \<Rightarrow> string"
  mw_unseal :: "json \<Rightarrow> json \<Rightarrow> string option"
  mw_hash :: "string \<Rightarrow> string"

definition send_note :: "mail_world \<Rightarrow> note_call \<Rightarrow> mail_note \<Rightarrow> audit_row list \<Rightarrow> (mail_outcome + provider_result) \<times> bool \<times> audit_row list" where
  "send_note w call item audit =
     (if \<not> reset_configured (mw_settings w) then (Inl MailDeferred, False, audit)
      else case note_message (mw_shown w) (mw_unseal w) (mw_settings w) item (nc_message_at call) of
        None \<Rightarrow> (Inl MailPermanent, False, audit)
      | Some _ \<Rightarrow> guarded_send (mw_sha w) (mw_unknown_receipt w) (mw_dialect w)
                   ((nc_env call)\<lparr>en_answer := map_option provider_answer (nc_answer call)\<rparr>)
                   (nt_key item) (mail_category (nt_type item)) (note_expiry item) audit)"

section \<open>Settlement\<close>

definition send_failure :: "mail_outcome \<Rightarrow> int \<Rightarrow> mail_note \<Rightarrow> mail_note" where
  "send_failure outcome now item =
     (let item1 = item\<lparr>nt_last_error := Some ''MailDeliveryUnavailable'', nt_claimed_at := None, nt_updated_at := now\<rparr> in
      if outcome = MailDeferred then
        item1\<lparr>nt_status := NotePending, nt_attempts := nt_attempts item - 1, nt_available_at := now + minutes 1\<rparr>
      else if outcome = MailRetryable \<and> nt_attempts item < 3 then
        item1\<lparr>nt_status := NotePending, nt_available_at := now + minutes (2 ^ nt_attempts item)\<rparr>
      else if outcome \<in> {MailPermanent, MailRetryable} then item1\<lparr>nt_status := NoteFailed\<rparr>
      else item1\<lparr>nt_status := NoteUnknown\<rparr>)"

definition erasure_failure :: "mail_outcome \<Rightarrow> int \<Rightarrow> mail_note \<Rightarrow> mail_note" where
  "erasure_failure outcome now item =
     (let status = (if outcome = MailUnknown then ErasureUnknown
                    else if outcome = MailPermanent \<or> nt_attempts item \<ge> 3 then ErasureFailed else ErasurePending);
          status1 = (if outcome = MailDeferred then ErasurePending else status);
          item1 = item\<lparr>nt_status := status1, nt_attempts := (if outcome = MailDeferred then nt_attempts item - 1 else nt_attempts item),
            nt_claimed_at := None, nt_updated_at := now, nt_last_error := Some ''PrivacyMailUnavailable'', nt_available_at := now + minutes 1\<rparr>
      in if status1 = ErasureFailed then item1\<lparr>nt_payload := JObj []\<rparr> else item1)"

definition mark_sent :: "note_status \<Rightarrow> int \<Rightarrow> mail_note \<Rightarrow> mail_note" where
  "mark_sent status now item =
     item\<lparr>nt_status := status, nt_sent_at := Some now, nt_claimed_at := None, nt_last_error := None, nt_updated_at := now\<rparr>"

text \<open>
  The transaction after a send, by the kind of message. A failed reset keeps no payload, nor
  does a sent security or erasure message; a sent reminder is dated. \<open>.one()\<close> raises on a
  message that was deleted, except for an erasure.
\<close>

definition settled_note :: "mail_outcome + provider_result \<Rightarrow> int \<Rightarrow> mail_note \<Rightarrow> mail_note" where
  "settled_note result now item =
     (if nt_type item = ''privacy_erasure'' then
        (case result of Inl outcome \<Rightarrow> erasure_failure outcome now item
         | Inr _ \<Rightarrow> (mark_sent ErasureSent now item)\<lparr>nt_payload := JObj []\<rparr>)
      else if is_security (nt_type item) then
        (case result of
           Inl outcome \<Rightarrow> (let item1 = send_failure outcome now item
                           in if nt_status item1 = NoteFailed then item1\<lparr>nt_payload := JObj []\<rparr> else item1)
         | Inr _ \<Rightarrow> (mark_sent NoteSent now item)\<lparr>nt_payload := JObj []\<rparr>)
      else (case result of Inl outcome \<Rightarrow> send_failure outcome now item | Inr _ \<Rightarrow> mark_sent NoteSent now item))"

definition date_reminder :: "mail_note \<Rightarrow> int \<Rightarrow> note_db \<Rightarrow> note_db" where
  "date_reminder item now db =
     (case json_get ''reminder_id'' (nt_payload item) of
        Some (JStr i) \<Rightarrow> if i = [] then db
          else db\<lparr>nd_reminders := update_by rm_id i (\<lambda>r. r\<lparr>rm_sent_at := Some now\<rparr>) (nd_reminders db)\<rparr>
      | _ \<Rightarrow> db)"

definition settle_note :: "string \<Rightarrow> mail_outcome + provider_result \<Rightarrow> int \<Rightarrow> note_db \<Rightarrow> note_error + note_db" where
  "settle_note i result now db =
     (case row_at nt_id i (nd_notes db) of
        None \<Rightarrow> Inl NoteMissing
      | Some item \<Rightarrow>
          let db1 = change_note i (settled_note result now) db
          in Inr (if is_lifecycle (nt_type item) \<and> \<not> isl result then date_reminder item now db1 else db1))"

section \<open>Claims\<close>

text \<open>\<open>updated_at\<close> is set by every update of a row (\<open>onupdate\<close>).\<close>

datatype claim = NotClaimed | Withdrawn note_db | Claimed mail_note note_db

definition claim_lifecycle :: "string \<Rightarrow> int \<Rightarrow> note_db \<Rightarrow> claim" where
  "claim_lifecycle i now db =
     (case row_at nt_id i (nd_notes db) of
        None \<Rightarrow> NotClaimed
      | Some item \<Rightarrow>
          if nt_status item = NotePending \<and> is_lifecycle (nt_type item)
          then Claimed item (change_note i (\<lambda>n. n\<lparr>nt_status := NoteProcessing, nt_claimed_at := Some now,
                 nt_attempts := Suc (nt_attempts n), nt_updated_at := now\<rparr>) db)
          else NotClaimed)"

definition token_of :: "string \<Rightarrow> note_db \<Rightarrow> mail_note \<Rightarrow> reset_token option" where
  "token_of k db item =
     (case json_get k (nt_payload item) of Some (JStr i) \<Rightarrow> row_at rt_id i (nd_tokens db) | _ \<Rightarrow> None)"

definition owner_of :: "note_db \<Rightarrow> mail_note \<Rightarrow> mail_person option" where
  "owner_of db item = (case nt_user_id item of None \<Rightarrow> None | Some u \<Rightarrow> row_at pn_id u (nd_people db))"

text \<open>The obligation of a security message still stands.\<close>

definition reset_stands :: "(string \<Rightarrow> string) \<Rightarrow> note_db \<Rightarrow> int \<Rightarrow> mail_note \<Rightarrow> bool" where
  "reset_stands hash db now item =
     (case (token_of ''reset_id'' db item, owner_of db item) of
        (Some row, Some owner) \<Rightarrow>
          rt_purpose row = ''password_reset'' \<and> rt_user_id row = pn_id owner \<and>
          rt_status row = (if nt_type item = ''password_changed'' then ''COMPLETED'' else ''PENDING'') \<and>
          \<not> (nt_type item = ''password_reset'' \<and> rt_expires_at row \<le> now) \<and> pn_email owner = nt_recipient item \<and>
          hash (nt_recipient item) = rt_email_sha256 row
      | _ \<Rightarrow> False)"

definition claim_security :: "(string \<Rightarrow> string) \<Rightarrow> string \<Rightarrow> int \<Rightarrow> note_db \<Rightarrow> claim" where
  "claim_security hash i now db =
     (case row_at nt_id i (nd_notes db) of
        None \<Rightarrow> NotClaimed
      | Some item \<Rightarrow>
          if \<not> (nt_status item = NotePending \<and> is_security (nt_type item)) \<or> now < nt_available_at item then NotClaimed
          else if \<not> reset_stands hash db now item
          then Withdrawn (change_note i (\<lambda>n. n\<lparr>nt_status := NoteCancelled, nt_payload := JObj [], nt_updated_at := now\<rparr>) db)
          else Claimed item (change_note i (\<lambda>n. n\<lparr>nt_status := NoteProcessing, nt_claimed_at := Some now,
                 nt_attempts := Suc (nt_attempts n), nt_updated_at := now\<rparr>) db))"

definition erasure_stands :: "(string \<Rightarrow> string) \<Rightarrow> note_db \<Rightarrow> int \<Rightarrow> mail_note \<Rightarrow> bool" where
  "erasure_stands hash db now item =
     (case (token_of ''proof_id'' db item, owner_of db item) of
        (Some row, Some owner) \<Rightarrow>
          rt_purpose row = ''privacy_erasure'' \<and> rt_status row = ''PENDING'' \<and> rt_consumed_at row = None \<and>
          pn_account_state owner = Some ''DELETE_DENIED'' \<and> rt_user_id row = pn_id owner \<and> pn_email owner = nt_recipient item \<and>
          rt_email_sha256 row = hash (pn_email owner) \<and> rt_credential_sha256 row = hash (pn_password_hash owner) \<and>
          \<not> rt_expires_at row \<le> now \<and> \<not> nt_attempts item \<ge> 3
      | _ \<Rightarrow> False)"

definition claim_erasure :: "(string \<Rightarrow> string) \<Rightarrow> string \<Rightarrow> int \<Rightarrow> note_db \<Rightarrow> claim" where
  "claim_erasure hash i now db =
     (case row_at nt_id i (nd_notes db) of
        None \<Rightarrow> NotClaimed
      | Some item \<Rightarrow>
          if \<not> (nt_status item = ErasurePending \<and> nt_type item = ''privacy_erasure'') \<or> now < nt_available_at item then NotClaimed
          else if \<not> erasure_stands hash db now item
          then Withdrawn (change_note i (\<lambda>n. n\<lparr>nt_status := ErasureCancelled, nt_payload := JObj [], nt_updated_at := now\<rparr>) db)
          else Claimed item (change_note i (\<lambda>n. n\<lparr>nt_status := ErasureProcessing, nt_claimed_at := Some now,
                 nt_attempts := Suc (nt_attempts n), nt_updated_at := now\<rparr>) db))"

section \<open>Deliveries\<close>

text \<open>A claim, the send outside transactions, the settlement: its result, \<open>None\<close> if nothing was sent.\<close>

definition deliver_claimed ::
  "mail_world \<Rightarrow> note_call \<Rightarrow> claim \<Rightarrow> note_db \<Rightarrow> note_error + (mail_outcome + provider_result) option \<times> note_db" where
  "deliver_claimed w call c db =
     (case c of
        NotClaimed \<Rightarrow> Inr (None, db)
      | Withdrawn db1 \<Rightarrow> Inr (None, db1)
      | Claimed item db1 \<Rightarrow>
          let (result, called, audit) = send_note w call item (nd_audit db1)
          in bindE (settle_note (nt_id item) result (nc_settle_at call) (db1\<lparr>nd_audit := audit\<rparr>)) (\<lambda>db2. Inr (Some result, db2)))"

definition was_sent :: "(mail_outcome + provider_result) option \<Rightarrow> bool" where
  "was_sent result = (case result of Some (Inr _) \<Rightarrow> True | _ \<Rightarrow> False)"

definition deliver_security :: "mail_world \<Rightarrow> note_call \<Rightarrow> string \<Rightarrow> note_db \<Rightarrow> note_error + bool \<times> note_db" where
  "deliver_security w call i db =
     (if \<not> reset_configured (mw_settings w) then Inr (False, db)
      else bindE (deliver_claimed w call (claim_security (mw_hash w) i (nc_claim_at call) db) db) (\<lambda>(result, db1).
           Inr (was_sent result, db1)))"

text \<open>An erasure whose message was deleted meanwhile is not an error; what the mail budget recorded stays.\<close>

definition deliver_erasure :: "mail_world \<Rightarrow> note_call \<Rightarrow> string \<Rightarrow> note_db \<Rightarrow> bool \<times> note_db" where
  "deliver_erasure w call i db =
     (if \<not> erasure_configured (mw_settings w) then (False, db)
      else case claim_erasure (mw_hash w) i (nc_claim_at call) db of
        NotClaimed \<Rightarrow> (False, db)
      | Withdrawn db1 \<Rightarrow> (False, db1)
      | Claimed item db1 \<Rightarrow>
          let (result, called, audit) = send_note w call item (nd_audit db1); db2 = db1\<lparr>nd_audit := audit\<rparr>
          in case settle_note (nt_id item) result (nc_settle_at call) db2 of
               Inl _ \<Rightarrow> (False, db2)
             | Inr db3 \<Rightarrow> (\<not> isl result, db3))"

text \<open>A claim older than \<open>age\<close> has an unknown outcome, and is never sent again by itself.\<close>

definition stale_claim :: "(string \<Rightarrow> bool) \<Rightarrow> note_status \<Rightarrow> int \<Rightarrow> mail_note \<Rightarrow> bool" where
  "stale_claim kinds status before item \<longleftrightarrow> kinds (nt_type item) \<and> nt_status item = status \<and>
     (case nt_claimed_at item of None \<Rightarrow> False | Some t \<Rightarrow> t < before)"

definition sweep_stale :: "(string \<Rightarrow> bool) \<Rightarrow> note_status \<Rightarrow> note_status \<Rightarrow> int \<Rightarrow> int \<Rightarrow> note_db \<Rightarrow> note_db" where
  "sweep_stale kinds status unknown age now db =
     db\<lparr>nd_notes := map (\<lambda>n. if stale_claim kinds status (now - age) n
          then n\<lparr>nt_status := unknown, nt_claimed_at := None, nt_updated_at := now\<rparr> else n) (nd_notes db)\<rparr>"

definition due_ids :: "(string \<Rightarrow> bool) \<Rightarrow> note_status \<Rightarrow> int \<Rightarrow> nat \<Rightarrow> note_db \<Rightarrow> string list" where
  "due_ids kinds status now limit db =
     take limit (map nt_id (sort_key nt_available_at
       (filter (\<lambda>n. nt_status n = status \<and> kinds (nt_type n) \<and> nt_available_at n \<le> now) (nd_notes db))))"

fun deliver_each :: "(string \<Rightarrow> note_db \<Rightarrow> note_error + 'r \<times> note_db) \<Rightarrow> string list \<Rightarrow> note_db \<Rightarrow> note_error + 'r list \<times> note_db" where
  "deliver_each f [] db = Inr ([], db)"
| "deliver_each f (i # is) db =
     bindE (f i db) (\<lambda>(r, db1). bindE (deliver_each f is db1) (\<lambda>(rs, db2). Inr (r # rs, db2)))"

record delivery_summary =
  ds_configured :: bool
  ds_claimed :: nat
  ds_sent :: nat
  ds_retried :: nat
  ds_failed :: nat

definition erasure_deliver_pending :: "mail_world \<Rightarrow> (string \<Rightarrow> note_call) \<Rightarrow> note_db \<Rightarrow> nat \<Rightarrow> int \<Rightarrow> note_error + nat \<times> note_db" where
  "erasure_deliver_pending w calls db limit now =
     (let db1 = sweep_stale (\<lambda>k. k = ''privacy_erasure'') ErasureProcessing ErasureUnknown (minutes 2) now db in
      bindE (deliver_each (\<lambda>i d. Inr (deliver_erasure w (calls i) i d))
               (due_ids (\<lambda>k. k = ''privacy_erasure'') ErasurePending now limit db1) db1) (\<lambda>(rs, db2).
      Inr (length (filter id rs), db2)))"

definition status_at :: "string \<Rightarrow> note_db \<Rightarrow> note_status option" where
  "status_at i db = map_option nt_status (row_at nt_id i (nd_notes db))"

definition security_pending ::
  "mail_world \<Rightarrow> (string \<Rightarrow> note_call) \<Rightarrow> note_db \<Rightarrow> nat \<Rightarrow> int \<Rightarrow> note_error + (bool \<times> note_status option) list \<times> note_db" where
  "security_pending w calls db limit now =
     (if \<not> reset_configured (mw_settings w) then Inr ([], db)
      else
        let db1 = sweep_stale is_security NoteProcessing NoteUnknown (minutes 15) now db
        in deliver_each (\<lambda>i d. bindE (deliver_security w (calls i) i d) (\<lambda>(ok, d1). Inr ((ok, status_at i d1), d1)))
             (due_ids is_security NotePending now limit db1) db1)"

definition deliver_lifecycle ::
  "mail_world \<Rightarrow> note_call \<Rightarrow> string \<Rightarrow> note_db \<Rightarrow> note_error + (mail_outcome + provider_result) option \<times> note_db" where
  "deliver_lifecycle w call i db = deliver_claimed w call (claim_lifecycle i (nc_claim_at call) db) db"

definition deliver_pending_notifications ::
  "mail_world \<Rightarrow> (string \<Rightarrow> note_call) \<Rightarrow> note_db \<Rightarrow> nat \<Rightarrow> int \<Rightarrow> note_error + delivery_summary \<times> note_db" where
  "deliver_pending_notifications w calls db limit now =
     bindE (erasure_deliver_pending w calls db limit now) (\<lambda>(privacy_sent, db1).
     bindE (security_pending w calls db1 limit now) (\<lambda>(security, db2).
     let security_sent = length (filter fst security);
         security_failed = length (filter (\<lambda>(ok, st). \<not> ok \<and> st = Some NoteFailed) security);
         security_retried = length (filter (\<lambda>(ok, st). \<not> ok \<and> st = Some NotePending) security)
     in if \<not> (lifecycle_email_enabled (mw_settings w) \<and> reset_configured (mw_settings w))
        then Inr (\<lparr>ds_configured = reset_configured (mw_settings w), ds_claimed = length security,
                   ds_sent = security_sent + privacy_sent, ds_retried = security_retried, ds_failed = security_failed\<rparr>, db2)
        else
          let db3 = sweep_stale (\<lambda>k. k \<noteq> ''privacy_erasure'') NoteProcessing NoteUnknown (minutes 15) now db2;
              ids = due_ids is_lifecycle NotePending now limit db3
          in bindE (deliver_each (\<lambda>i d. bindE (deliver_lifecycle w (calls i) i d) (\<lambda>(r, d1). Inr ((r, status_at i d1), d1))) ids db3)
               (\<lambda>(results, db4).
             let failed = (\<lambda>st (r, s). (case r of Some (Inl _) \<Rightarrow> s = Some st | _ \<Rightarrow> False)) in
             Inr (\<lparr>ds_configured = True, ds_claimed = length ids + length security,
                   ds_sent = security_sent + length (filter (was_sent \<circ> fst) results) + privacy_sent,
                   ds_retried = security_retried + length (filter (failed NotePending) results),
                   ds_failed = security_failed + length (filter (failed NoteFailed) results)\<rparr>, db4))))"

end
