(* ===== verification/Notification_Safety.thy ===== *)
theory Notification_Safety
  imports Notifications
begin

text \<open>
  Deliveries over time. A state is the tables and the messages whose sender has claimed them
  and not settled yet: senders interleave with each other, with the sweeps of stale claims,
  with enqueueing and with the deletion of accounts. One sender at most holds a message, a
  message is claimed at most three times without a deferral, and a settled one stays settled.
\<close>

section \<open>Enqueueing\<close>

text \<open>The tables after some enqueueing: rows were only added, each new, pending and unclaimed.\<close>

definition added_note :: "note_db \<Rightarrow> mail_note \<Rightarrow> bool" where
  "added_note db item \<longleftrightarrow> nt_id item = ''ntf_'' @ nd_supply db (nd_drawn db) \<and> nt_attempts item = 0 \<and>
     nt_status item \<in> {NotePending, ErasurePending} \<and> nt_key item \<notin> nt_key ` set (nd_notes db) \<and> nt_id item \<notin> nt_id ` set (nd_notes db)"

inductive enqueues :: "note_db \<Rightarrow> note_db \<Rightarrow> bool" where
  unchanged: "nd_notes db' = nd_notes db \<Longrightarrow> nd_supply db' = nd_supply db \<Longrightarrow> nd_drawn db' = nd_drawn db \<Longrightarrow> enqueues db db'"
| added: "added_note db item \<Longrightarrow> nd_notes db' = nd_notes db @ [item] \<Longrightarrow> nd_supply db' = nd_supply db \<Longrightarrow>
    nd_drawn db' = Suc (nd_drawn db) \<Longrightarrow> enqueues db db'"

lemma new_note_row [simp]:
  "nt_id (new_note db u k r p key st due now) = ''ntf_'' @ nd_supply db (nd_drawn db)"
  "nt_attempts (new_note db u k r p key st due now) = 0" "nt_status (new_note db u k r p key st due now) = st"
  "nt_key (new_note db u k r p key st due now) = key"
  by (simp_all add: new_note_def)

lemma add_note_enqueues:
  assumes "add_note item db = Inr db'"
    and "nt_id item = ''ntf_'' @ nd_supply db0 (nd_drawn db0)" and "nt_attempts item = 0" and "nt_status item \<in> {NotePending, ErasurePending}"
    and "nd_notes db = nd_notes db0" "nd_supply db = nd_supply db0" "nd_drawn db = nd_drawn db0"
  shows "enqueues db0 db'"
  using assms by (intro added [of _ item]) (auto simp: add_note_def result_simps added_note_def)

lemma enqueue_notification_enqueues:
  "enqueue_notification sha dialect env db user kind recipient payload key available_at now reserve_at = Inr (item, db') \<Longrightarrow> enqueues db db'"
  by (auto simp: enqueue_notification_def Let_def result_simps split: if_splits sum.splits option.splits prod.splits
      intro: unchanged elim!: add_note_enqueues)


lemma queue_reminders_enqueues:
  "queue_reminders sha dialect env now rs db = Inr (n, db') \<Longrightarrow> enqueues\<^sup>*\<^sup>* db db'"
proof (induction rs arbitrary: db n)
  case (Cons x rs)
  obtain r person where x: "x = (r, person)" by (cases x)
  from Cons.prems obtain item db1 m where
    "enqueue_notification sha dialect env db (Some (pn_id person)) ''reminder_due'' (pn_email person)
       (JObj [(''reminder_id'', JStr (rm_id r)), (''message'', JStr (rm_message r)), (''opportunity_id'', opt_str (rm_opportunity_id r))])
       (''reminder:'' @ rm_id r @ '':email'') None now now = Inr (item, db1)"
    and rest: "queue_reminders sha dialect env now rs db1 = Inr (m, db')"
    by (auto simp: x result_simps)
  then have "enqueues db db1" by (rule_tac enqueue_notification_enqueues)
  with Cons.IH [OF rest] show ?case by (rule_tac converse_rtranclp_into_rtranclp)
qed simp

section \<open>Steps\<close>




section \<open>The invariant\<close>













section \<open>Claims and settlements\<close>












section \<open>Runs\<close>

















section \<open>Properties\<close>









end
