(* ===== verification/Expense_Policy.thy ===== *)
theory Expense_Policy
  imports Free_Core Usage
begin

text \<open>
  \<open>billing/cost_policy.py\<close>: the reviewed expense policy of packs and of the older AI units,
  its audit of every finite pack, and the guard of model funding, which shares the fleet's
  money with \<open>domains/credits/legacy_funding.py\<close>. \<open>Fraction\<close> is \<open>rat\<close>. The policy documents of
  the environment and of the runtime review are arguments, absent when they do not validate.
\<close>

section \<open>The policy\<close>

datatype cost_error = CostPolicyUnavailable string | CostValueError string

record pack_terms =
  pk_sku :: string
  pk_gross_minor :: int
  pk_service_credits :: int
  pk_analysis_units :: int
  pk_max_discount_minor :: int
  pk_max_bonus_service_credits :: int
  pk_max_bonus_analysis_units :: int

record expense_policy =
  ep_version :: string
  ep_catalog_version :: string
  ep_provenance :: provenance
  ep_reviewed_by :: string
  ep_approved :: bool
  ep_valid_from :: int
  ep_expires_at :: int
  ep_reconciled_through :: int
  ep_margin_bps :: int
  ep_contingency_bps :: int
  ep_sale_tax_reserve_bps :: int
  ep_gateway_fee_bps :: int
  ep_gateway_fee_tax_bps :: int
  ep_gateway_fixed_minor :: int
  ep_settlement_fx_minor :: int
  ep_refund_chargeback_reserve_bps :: int
  ep_adverse_fx_minor_per_usd :: int
  ep_monthly_platform_operations_minor :: int
  ep_monthly_marketing_operations_minor :: int
  ep_minimum_paid_packs_per_month :: int
  ep_search_cost_minor :: int
  ep_service_preparation_cost_minor :: int
  ep_application_cost_minor :: int
  ep_analysis_overhead_minor_per_unit :: int
  ep_provider_attempt_overhead_minor :: int
  ep_analysis_unit_model_ceiling_micros :: int
  ep_operation_model_ceilings_micros :: "(string \<times> int) list"
  ep_daily_model_budget_micros :: int
  ep_monthly_model_budget_micros :: int
  ep_monthly_promotional_model_budget_micros :: int
  ep_monthly_legacy_premium_model_budget_micros :: int
  ep_monthly_legacy_service_budget_minor :: int
  ep_service_search_credits :: int
  ep_service_apply_credits :: int
  ep_packs :: "pack_terms list"

text \<open>The bounds of the fields that amounts are computed from.\<close>

definition is_money :: "int \<Rightarrow> bool" where
  "is_money n \<longleftrightarrow> 0 \<le> n \<and> n \<le> 10 ^ 12"

definition is_rate_bps :: "int \<Rightarrow> bool" where
  "is_rate_bps n \<longleftrightarrow> 0 \<le> n \<and> n < 10000"

definition pack_ok :: "pack_terms \<Rightarrow> bool" where
  "pack_ok k \<longleftrightarrow> is_positive_amount (pk_gross_minor k) \<and> is_positive_amount (pk_service_credits k) \<and>
     is_positive_amount (pk_analysis_units k) \<and> is_money (pk_max_discount_minor k) \<and>
     is_money (pk_max_bonus_service_credits k) \<and> is_money (pk_max_bonus_analysis_units k)"

definition expense_fields_ok :: "expense_policy \<Rightarrow> bool" where
  "expense_fields_ok p \<longleftrightarrow>
     is_rate_bps (ep_margin_bps p) \<and> is_rate_bps (ep_contingency_bps p) \<and> is_rate_bps (ep_sale_tax_reserve_bps p) \<and>
     is_rate_bps (ep_gateway_fee_bps p) \<and> 0 \<le> ep_gateway_fee_tax_bps p \<and> ep_gateway_fee_tax_bps p \<le> 10000 \<and>
     is_money (ep_gateway_fixed_minor p) \<and> is_money (ep_settlement_fx_minor p) \<and> is_rate_bps (ep_refund_chargeback_reserve_bps p) \<and>
     is_positive_amount (ep_adverse_fx_minor_per_usd p) \<and> is_positive_amount (ep_monthly_platform_operations_minor p) \<and>
     is_positive_amount (ep_monthly_marketing_operations_minor p) \<and> is_positive_amount (ep_minimum_paid_packs_per_month p) \<and>
     is_positive_amount (ep_search_cost_minor p) \<and> is_positive_amount (ep_service_preparation_cost_minor p) \<and>
     is_positive_amount (ep_application_cost_minor p) \<and> is_money (ep_analysis_overhead_minor_per_unit p) \<and>
     is_money (ep_provider_attempt_overhead_minor p) \<and> is_positive_amount (ep_analysis_unit_model_ceiling_micros p) \<and>
     list_all (\<lambda>(_, n). is_positive_amount n) (ep_operation_model_ceilings_micros p) \<and>
     is_positive_amount (ep_daily_model_budget_micros p) \<and> is_positive_amount (ep_monthly_model_budget_micros p) \<and>
     is_positive_amount (ep_monthly_promotional_model_budget_micros p) \<and> is_money (ep_monthly_legacy_premium_model_budget_micros p) \<and>
     is_money (ep_monthly_legacy_service_budget_minor p) \<and> is_positive_amount (ep_service_search_credits p) \<and>
     is_positive_amount (ep_service_apply_credits p) \<and> length (ep_packs p) = 3 \<and> list_all pack_ok (ep_packs p)"

definition finite_review :: "expense_policy \<Rightarrow> cost_error + expense_policy" where
  "finite_review p =
     bindE (require (ep_valid_from p < ep_expires_at p \<and> ep_expires_at p \<le> ep_valid_from p + days 31)
       (CostValueError ''Expense review must expire within 31 days'')) (\<lambda>_.
     bindE (require (\<not> ep_reconciled_through p < ep_valid_from p - days 31)
       (CostValueError ''Monthly expense reconciliation is overdue'')) (\<lambda>_.
     bindE (require (\<not> (ep_monthly_promotional_model_budget_micros p > ep_monthly_model_budget_micros p \<or>
                        ep_daily_model_budget_micros p > ep_monthly_model_budget_micros p))
       (CostValueError ''Funded sub-budgets cannot exceed the monthly model budget'')) (\<lambda>_.
     bindE (require (card (set (map pk_sku (ep_packs p))) = 3)
       (CostValueError ''Exactly three distinct finite packs are required'')) (\<lambda>_.
     bindE (require (\<not> list_ex (\<lambda>k. pk_max_discount_minor k \<ge> pk_gross_minor k) (ep_packs p))
       (CostValueError ''Discounts cannot erase pack receipts'')) (\<lambda>_.
     bindE (require (\<not> ep_analysis_overhead_minor_per_unit p < 3 * ep_provider_attempt_overhead_minor p)
       (CostValueError ''Analysis allowance must fund all three worker attempts'')) (\<lambda>_.
     bindE (require (ep_operation_model_ceilings_micros p \<noteq> [])
       (CostValueError ''Explicit provider operation ceilings are required'')) (\<lambda>_. Inr p)))))))"

section \<open>The audit\<close>

text \<open>\<open>ceil(Fraction(a, b))\<close>\<close>

abbreviation ceil_ratio :: "int \<Rightarrow> int \<Rightarrow> int" where
  "ceil_ratio a b \<equiv> ceil_minor (of_int a / of_int b)"

definition usd_minor :: "expense_policy \<Rightarrow> int \<Rightarrow> int" where
  "usd_minor p micros = ceil_ratio (micros * ep_adverse_fx_minor_per_usd p) 1000000"

definition net_receipts :: "expense_policy \<Rightarrow> int \<Rightarrow> int" where
  "net_receipts p gross =
     (let tax = ceil_ratio (gross * ep_sale_tax_reserve_bps p) (10000 + ep_sale_tax_reserve_bps p);
          fee = ceil_ratio (gross * ep_gateway_fee_bps p) 10000;
          fee_tax = ceil_ratio (fee * ep_gateway_fee_tax_bps p) 10000;
          risk = ceil_ratio (gross * ep_refund_chargeback_reserve_bps p) 10000
      in gross - tax - fee - fee_tax - risk - ep_gateway_fixed_minor p - ep_settlement_fx_minor p)"

definition pack_allocation :: "expense_policy \<Rightarrow> int" where
  "pack_allocation p =
     ceil_ratio (ep_monthly_platform_operations_minor p + ep_monthly_marketing_operations_minor p) (ep_minimum_paid_packs_per_month p)"

definition unit_ai_cost :: "expense_policy \<Rightarrow> int" where
  "unit_ai_cost p = usd_minor p (ep_analysis_unit_model_ceiling_micros p) + ep_analysis_overhead_minor_per_unit p"

definition planning_factor :: "expense_policy \<Rightarrow> rat" where
  "planning_factor p = of_int (10000 + ep_contingency_bps p) / of_int (10000 - ep_margin_bps p)"

record pack_row =
  pw_sku :: string
  pw_net_receipts_minor :: int
  pw_required_net_minor :: int
  pw_allocation_minor :: int
  pw_analysis_units :: int
  pw_service_credits :: int

text \<open>One round of the loop over the packs: the row and the rate of a service credit.\<close>

definition audit_pack :: "expense_policy \<Rightarrow> pack_terms \<Rightarrow> cost_error + pack_row \<times> rat" where
  "audit_pack p k =
     (let gross = pk_gross_minor k - pk_max_discount_minor k;
          net = net_receipts p gross;
          service = pk_service_credits k + pk_max_bonus_service_credits k;
          units = pk_analysis_units k + pk_max_bonus_analysis_units k;
          remainder = of_int net / planning_factor p - of_int (pack_allocation p) - of_int (units * unit_ai_cost p)
      in bindE (require (\<not> remainder \<le> 0)
           (CostPolicyUnavailable ''The finite pack cannot fund its promised analysis and platform allocation.'')) (\<lambda>_.
         let raw = of_int (pack_allocation p) + of_int (units * unit_ai_cost p) + of_int service *
               max (of_int (ep_search_cost_minor p) / of_int (ep_service_search_credits p))
                   (of_int (ep_application_cost_minor p) / of_int (ep_service_apply_credits p));
             required = ceil_minor (raw * planning_factor p)
         in bindE (require (\<not> net < required)
              (CostPolicyUnavailable ''A finite pack or promotion does not cover its worst permitted workload.'')) (\<lambda>_.
            Inr (\<lparr>pw_sku = pk_sku k, pw_net_receipts_minor = net, pw_required_net_minor = required,
                  pw_allocation_minor = pack_allocation p, pw_analysis_units = units, pw_service_credits = service\<rparr>,
                 remainder / of_int service))))"

fun audit_packs :: "expense_policy \<Rightarrow> pack_terms list \<Rightarrow> cost_error + (pack_row \<times> rat) list" where
  "audit_packs p [] = Inr []"
| "audit_packs p (k # ks) = bindE (audit_pack p k) (\<lambda>row. bindE (audit_packs p ks) (\<lambda>rows. Inr (row # rows)))"

record audit_view =
  au_version :: string
  au_search_floor :: int
  au_apply_floor :: int
  au_packs :: "pack_row list"
  au_analysis_cost_minor_per_unit :: int
  au_fixed_allocation_minor_per_pack :: int

definition audit :: "expense_policy \<Rightarrow> cost_error + audit_view" where
  "audit p =
     bindE (audit_packs p (ep_packs p)) (\<lambda>rows.
     let lowest = Min (set (map snd rows));
         search_floor = ceil_minor (of_int (ep_search_cost_minor p) / lowest);
         apply_floor = ceil_minor (of_int (ep_application_cost_minor p) / lowest)
     in bindE (require (\<not> (ep_service_search_credits p < search_floor \<or> ep_service_apply_credits p < apply_floor))
          (CostPolicyUnavailable ''Configured service prices are below their expense floor.'')) (\<lambda>_.
        bindE (require (\<not> usd_minor p (ep_monthly_promotional_model_budget_micros p + ep_monthly_legacy_premium_model_budget_micros p)
                          + ep_monthly_legacy_service_budget_minor p > ep_monthly_marketing_operations_minor p)
          (CostPolicyUnavailable ''The promotional model pool is not funded by the marketing allocation.'')) (\<lambda>_.
        Inr \<lparr>au_version = ep_version p, au_search_floor = search_floor, au_apply_floor = apply_floor, au_packs = map fst rows,
             au_analysis_cost_minor_per_unit = unit_ai_cost p, au_fixed_allocation_minor_per_pack = pack_allocation p\<rparr>)))"

text \<open>Every refusal of \<open>current_policy\<close> is the same exception.\<close>

definition expense_unavailable :: cost_error where
  "expense_unavailable =
     CostPolicyUnavailable ''Paid services and optional AI are temporarily unavailable while cost funding is reviewed.''"

definition expense_current_policy :: "settings \<Rightarrow> expense_policy option \<Rightarrow> int \<Rightarrow> cost_error + expense_policy" where
  "expense_current_policy env loaded stamp =
     (case loaded of None \<Rightarrow> Inl expense_unavailable
      | Some p \<Rightarrow>
          if \<not> ep_approved p \<or> ep_reviewed_by p = ''operator-review-required'' then Inl expense_unavailable
          else if ep_provenance p = SyntheticTest \<and> lower (env_value env ''APP_ENV'') \<notin> {''test'', ''development''} then Inl expense_unavailable
          else if \<not> (ep_valid_from p \<le> stamp \<and> stamp < ep_expires_at p) \<or> ep_reconciled_through p > stamp then Inl expense_unavailable
          else if isl (audit p) then Inl expense_unavailable
          else Inr p)"

section \<open>Service prices\<close>

record catalog_product =
  ct_sku :: string
  ct_amount_minor :: int
  ct_entitlement_kind :: string
  ct_entitlement_quantity :: int
  ct_analysis_units :: int

definition bundle_product :: "string \<Rightarrow> int \<Rightarrow> int \<Rightarrow> int \<Rightarrow> catalog_product" where
  "bundle_product sku price credits units =
     \<lparr>ct_sku = sku, ct_amount_minor = price, ct_entitlement_kind = ''credit_bundle'', ct_entitlement_quantity = credits, ct_analysis_units = units\<rparr>"

definition BILLING_CATALOG_VERSION :: string where "BILLING_CATALOG_VERSION = ''inr-finite-2026-10-09-v3''"

definition CATALOG :: "catalog_product list" where
  "CATALOG =
     [bundle_product ''starter_bundle'' 64900 100 2, bundle_product ''growth_bundle'' 109900 300 6, bundle_product ''scale_bundle'' 219900 700 15,
      \<lparr>ct_sku = ''premium_30d'', ct_amount_minor = 99900, ct_entitlement_kind = ''premium_access'', ct_entitlement_quantity = 30, ct_analysis_units = 0\<rparr>,
      \<lparr>ct_sku = ''job_service_500'', ct_amount_minor = 49900, ct_entitlement_kind = ''job_service_credits'', ct_entitlement_quantity = 500, ct_analysis_units = 0\<rparr>]"

definition offered :: "catalog_product list" where
  "offered = filter (\<lambda>c. ct_entitlement_kind c = ''credit_bundle'') CATALOG"

definition service_prices :: "settings \<Rightarrow> expense_policy option \<Rightarrow> int \<Rightarrow> cost_error + int \<times> int \<times> string" where
  "service_prices env loaded stamp =
     bindE (expense_current_policy env loaded stamp) (\<lambda>p.
     bindE (require (ep_catalog_version p = BILLING_CATALOG_VERSION) (CostPolicyUnavailable ''The catalog requires a current expense review.'')) (\<lambda>_.
     bindE (require (set (map pk_sku (ep_packs p)) = set (map ct_sku offered))
       (CostPolicyUnavailable ''The expense review does not cover every finite pack.'')) (\<lambda>_.
     bindE (require (list_all (\<lambda>k. list_all (\<lambda>c. ct_sku c \<noteq> pk_sku k \<or>
                (pk_gross_minor k = ct_amount_minor c \<and> pk_service_credits k = ct_entitlement_quantity c \<and>
                 pk_analysis_units k = ct_analysis_units c)) offered) (ep_packs p))
       (CostPolicyUnavailable ''The finite pack no longer matches its reviewed expense terms.'')) (\<lambda>_.
     Inr (ep_service_search_credits p, ep_service_apply_credits p, ep_version p)))))"

section \<open>Actual expenses\<close>

text \<open>What the variance query reads of an order with its events, and of a refund.\<close>

record order_expense =
  oe_gross_minor :: int
  oe_provider_fee :: "int option"
  oe_customer_tax :: "int option"
  oe_paid_at :: "int option"
  oe_processed :: "(string \<times> int) list"   \<comment> \<open>type and time of the events of its provider that were processed\<close>

record refund_expense =
  re_amount_minor :: int
  re_processed_at :: "int option"
  re_created_at :: int

definition rounded_up :: "int \<Rightarrow> int \<Rightarrow> int" where
  "rounded_up value denominator = (value + denominator - 1) div denominator"

definition at_least :: "int \<Rightarrow> int option \<Rightarrow> bool" where
  "at_least t v = (case v of None \<Rightarrow> False | Some x \<Rightarrow> x \<ge> t)"

definition exceeds :: "int \<Rightarrow> int option \<Rightarrow> bool" where
  "exceeds bound v = (case v of None \<Rightarrow> False | Some x \<Rightarrow> x > bound)"

definition adverse_order :: "expense_policy \<Rightarrow> order_expense \<Rightarrow> bool" where
  "adverse_order p r \<longleftrightarrow>
     (let gross = oe_gross_minor r;
          fee = rounded_up (gross * ep_gateway_fee_bps p) 10000;
          bound = fee + rounded_up (fee * ep_gateway_fee_tax_bps p) 10000 + ep_gateway_fixed_minor p + ep_settlement_fx_minor p;
          tax_bound = rounded_up (gross * ep_sale_tax_reserve_bps p) (10000 + ep_sale_tax_reserve_bps p);
          recently_observed = list_ex (\<lambda>(kind, t). kind \<in> {''payment.captured'', ''order.paid'', ''refund.processed''} \<and>
             t \<ge> ep_reconciled_through p) (oe_processed r)
      in (at_least (ep_reconciled_through p) (oe_paid_at r) \<or> recently_observed) \<and>
         (exceeds bound (oe_provider_fee r) \<or> exceeds tax_bound (oe_customer_tax r)))"

definition assert_actual_variance :: "expense_policy \<Rightarrow> order_expense list \<Rightarrow> refund_expense list \<Rightarrow> cost_error + unit" where
  "assert_actual_variance p orders refunds =
     bindE (require (\<not> list_ex (adverse_order p) orders)
       (CostPolicyUnavailable ''New paid services and AI are paused while actual payment expenses are reconciled.'')) (\<lambda>_.
     let start = ep_reconciled_through p;
         captured = total (\<lambda>r. at_least start (oe_paid_at r)) oe_gross_minor orders;
         refunded = total (\<lambda>r. at_least start (re_processed_at r) \<or> re_created_at r \<ge> start) re_amount_minor refunds
     in require (\<not> refunded > ceil_ratio (captured * ep_refund_chargeback_reserve_bps p) 10000)
          (CostPolicyUnavailable ''New paid services and AI are paused while refund expenses are reconciled.''))"

section \<open>The common authority\<close>

text \<open>
  \<open>common_authority\<close>: no common budget while neither switch is on; otherwise the policy and
  budgets of the runtime review (\<open>paid\<close>) or of the free policy (\<open>free\<close>), which must agree.
\<close>

type_synonym authority = "financial_policy \<times> budget_policy"

definition authority_review :: funding_error where
  "authority_review = FundingUnavailable ''The common execution funding policy requires review.''"

definition common_authority ::
  "settings \<Rightarrow> authority option \<Rightarrow> free_policy option \<Rightarrow> int \<Rightarrow> funding_error + authority option" where
  "common_authority env paid loaded_free now =
     (let paid_on = (lower (env_value env ''UNIFIED_CREDIT_EXECUTION_ENABLED'') = ''true'');
          free_on = (lower (env_value env ''FREE_CORE_ENABLED'') = ''true'');
          chosen = (if free_on then map_option (\<lambda>f. (fy_financial_policy f, fy_execution_budgets f)) (free_current_policy env loaded_free paid now)
                    else paid)
      in if \<not> paid_on \<and> \<not> free_on then Inr None
         else case chosen of
           None \<Rightarrow> Inl authority_review
         | Some (policy, budgets) \<Rightarrow>
             if paid_on \<and> paid \<noteq> Some (policy, budgets) then Inl authority_review
             else if isl (require_current_policy policy now (is_production env)) then Inl authority_review
             else if \<not> (bp_valid_from budgets \<le> now \<and> now < bp_expires_at budgets) then Inl authority_review
             else Inr (Some (policy, budgets)))"

definition assert_legacy_headroom ::
  "settings \<Rightarrow> authority option \<Rightarrow> free_policy option \<Rightarrow> exec_db \<Rightarrow> int \<Rightarrow> int \<Rightarrow> string option \<Rightarrow> int \<Rightarrow> funding_error + unit" where
  "assert_legacy_headroom env paid loaded_free db provider_micros native_minor excluded stamp =
     bindE (nonnegative provider_micros ''provider_micros'') (\<lambda>_.
     bindE (nonnegative native_minor ''native_minor'') (\<lambda>_.
     bindE (common_authority env paid loaded_free stamp) (\<lambda>authority.
     case authority of
       None \<Rightarrow> Inr ()
     | Some (policy, budgets) \<Rightarrow>
         let required = ceil_ratio (provider_micros * fp_adverse_fx_minor_per_usd policy * (10000 + fp_unrecoverable_provider_tax_bps policy))
                          (10000 * 1000000) + native_minor;
             used = (\<lambda>start. hold_usage db (fleet_since start) + legacy_usage db start policy budgets excluded);
             full = FundingUnavailable ''The common execution budget is fully reserved.''
         in bindE (require (\<not> used (day_floor stamp) + required > bp_daily_global_minor budgets) full) (\<lambda>_.
            require (\<not> used (month_floor stamp) + required > bp_monthly_global_minor budgets) full))))"

section \<open>Model funding\<close>

definition overhead_micros :: "expense_policy \<Rightarrow> int" where
  "overhead_micros p = ceil_ratio (ep_provider_attempt_overhead_minor p * 1000000) (ep_adverse_fx_minor_per_usd p)"

definition model_spent :: "expense_policy \<Rightarrow> (liability \<Rightarrow> bool) \<Rightarrow> exec_db \<Rightarrow> int" where
  "model_spent p scope db = total scope (\<lambda>l. liability_amount l + overhead_micros p) (xd_liabilities db)"

definition since :: "int \<Rightarrow> liability \<Rightarrow> bool" where
  "since start l \<longleftrightarrow> \<not> cost_final l \<or> ml_created_at l \<ge> start"

definition at_risk :: "liability \<Rightarrow> bool" where
  "at_risk l \<longleftrightarrow> \<not> cost_final l \<or> lq_expense_pool (ml_quote l) = ''failed_work'' \<or>
     lq_expense_funding (ml_quote l) \<notin> {''prepaid'', ''legacy_premium''}"

record model_funding =
  mf_expense_policy_version :: string
  mf_expense_funding :: string
  mf_expense_pool :: string

definition ceiling_of :: "string \<Rightarrow> (string \<times> int) list \<Rightarrow> int" where
  "ceiling_of operation limits = (case map_of limits operation of None \<Rightarrow> 0 | Some n \<Rightarrow> n)"

definition assert_model_funding ::
  "settings \<Rightarrow> expense_policy option \<Rightarrow> authority option \<Rightarrow> free_policy option \<Rightarrow> order_expense list \<Rightarrow> refund_expense list
     \<Rightarrow> exec_db \<Rightarrow> string \<Rightarrow> int \<Rightarrow> int \<Rightarrow> string \<Rightarrow> int \<Rightarrow> cost_error + model_funding" where
  "assert_model_funding env loaded paid loaded_free orders refunds db operation operation_ceiling reservation funding now =
     bindE (expense_current_policy env loaded now) (\<lambda>p.
     bindE (assert_actual_variance p orders refunds) (\<lambda>_.
     bindE (require (\<not> operation_ceiling > ceiling_of operation (ep_operation_model_ceilings_micros p))
       (CostPolicyUnavailable ''This AI operation exceeds the reviewed product funding ceiling.'')) (\<lambda>_.
     bindE (case assert_legacy_headroom env paid loaded_free db reservation (ep_provider_attempt_overhead_minor p) None now of
              Inl (FundingUnavailable text) \<Rightarrow> Inl (CostPolicyUnavailable text)
            | Inl _ \<Rightarrow> Inl (CostValueError ''provider_micros must be a non-negative integer'')
            | Inr u \<Rightarrow> Inr u) (\<lambda>_.
     let funded = reservation + overhead_micros p; month = since (month_floor now);
         exhausted = CostPolicyUnavailable ''The funded AI budget is exhausted. Unknown provider costs remain reserved.''
     in bindE (require (\<not> model_spent p (since (day_floor now)) db + funded > ep_daily_model_budget_micros p) exhausted) (\<lambda>_.
        bindE (require (\<not> model_spent p month db + funded > ep_monthly_model_budget_micros p) exhausted) (\<lambda>_.
        bindE (require (\<not> model_spent p (\<lambda>l. month l \<and> at_risk l) db + funded > ep_monthly_promotional_model_budget_micros p)
          (CostPolicyUnavailable ''The finite promotional and failed-work AI funding pool is exhausted.'')) (\<lambda>_.
        bindE (require (\<not> (funding = ''legacy_premium'' \<and>
                 model_spent p (\<lambda>l. month l \<and> lq_expense_funding (ml_quote l) = ''legacy_premium'') db + funded
                   > ep_monthly_legacy_premium_model_budget_micros p))
          (CostPolicyUnavailable ''The funded legacy-access AI exposure pool is exhausted.'')) (\<lambda>_.
        Inr \<lparr>mf_expense_policy_version = ep_version p, mf_expense_funding = funding,
             mf_expense_pool = (if funding = ''prepaid'' then ''failed_work'' else funding)\<rparr>))))))))"

section \<open>Holds of service expenses\<close>

definition svc_granted :: "svc_event list \<Rightarrow> payment_order list \<Rightarrow> int \<Rightarrow> int" where
  "svc_granted events orders user =
     sum_list (concat (map (\<lambda>e. map (\<lambda>_. se_amount e)
        (filter (\<lambda>o1. po_public_id o1 = se_source_id e \<and> po_entitlement_kind o1 = ''credit_bundle'' \<and> po_policy_version o1 \<noteq> None) orders))
        (filter (\<lambda>e. se_user_id e = Some user \<and> se_source_type e = ''payment_order'') events)))"

definition svc_allocated :: "svc_reservation \<Rightarrow> int" where
  "svc_allocated r = path_or 0 [''paid_current_reserved_credits''] (sr_cost_policy_snapshot r)"

definition svc_consumed :: "svc_reservation \<Rightarrow> int" where
  "svc_consumed r =
     (if sr_state r = SvcReserved then svc_allocated r
      else if sr_committed_amount r < svc_allocated r then sr_committed_amount r else svc_allocated r)"

definition current_service_funding :: "svc_event list \<Rightarrow> payment_order list \<Rightarrow> svc_reservation list \<Rightarrow> int \<Rightarrow> int" where
  "current_service_funding events orders reservations user =
     max 0 (svc_granted events orders user - total (\<lambda>r. sr_user_id r = Some user) svc_consumed reservations)"

text \<open>What a reservation of the table still holds, with the top-up of failed preparations.\<close>

definition with_contingency :: "expense_policy \<Rightarrow> int \<Rightarrow> int" where
  "with_contingency p n = ceil_ratio (n * (10000 + ep_contingency_bps p)) 10000"

definition snapshot_version :: "json option \<Rightarrow> json option" where
  "snapshot_version snapshot = (case Option.bind snapshot (json_get ''version'') of Some JNull \<Rightarrow> None | v \<Rightarrow> v)"

definition historical_hold :: "expense_policy \<Rightarrow> dated_service \<Rightarrow> int" where
  "historical_hold p r =
     (let cost = (if snapshot_version (sr_cost_policy_snapshot r) \<noteq> None then 0
                  else if sr_operation r = ''job_search'' then ep_search_cost_minor p
                  else if sr_operation r = ''job_application'' then ep_application_cost_minor p else 0)
      in (cost * sr_requested_count r * (10000 + ep_contingency_bps p) + 9999) div 10000)"

definition needs_preparation_floor :: "dated_service \<Rightarrow> bool" where
  "needs_preparation_floor r \<longleftrightarrow> sr_operation r = ''job_search'' \<and>
     path_or 0 [''paid_service_cost_count''] (sr_cost_policy_snapshot r) = 0 \<and>
     (sr_state r = SvcReserved \<or> sr_committed_amount r = 0)"

definition retained_hold :: "expense_policy \<Rightarrow> dated_service \<Rightarrow> int" where
  "retained_hold p r =
     (let snapshot = sr_cost_policy_snapshot r;
          retained = (case json_path [''legacy_service_hold_minor''] snapshot of None \<Rightarrow> historical_hold p r | Some n \<Rightarrow> n)
                     + path_or 0 [''failed_service_hold_minor''] snapshot;
          preparation = path_or (ep_service_preparation_cost_minor p) [''policy'', ''service_preparation_cost_minor''] snapshot;
          contingency = path_or (ep_contingency_bps p) [''policy'', ''contingency_bps''] snapshot;
          preparation_floor = (preparation * (10000 + contingency) + 9999) div 10000
      in if needs_preparation_floor r \<and> retained < preparation_floor then preparation_floor else retained)"

record service_hold =
  sh_legacy_service_hold_minor :: int
  sh_failed_service_hold_minor :: int
  sh_paid_service_cost_count :: int

text \<open>
  \<open>audited\<close> is the result of \<open>audit\<close>; \<open>paid_credits\<close> what \<open>current_service_funding\<close> says of the
  owner (zero without one).
\<close>

definition service_hold_of :: "expense_policy \<Rightarrow> audit_view \<Rightarrow> string \<Rightarrow> int \<Rightarrow> int \<Rightarrow> int \<Rightarrow> service_hold" where
  "service_hold_of p audited operation unit_price count1 paid_credits =
     (let search = (operation = ''job_search'');
          floor1 = (if search then au_search_floor audited else au_apply_floor audited);
          required = unit_price * count1;
          paid = min required paid_credits;
          legacy_count = (if unit_price < floor1 then count1 else ceil_ratio (required - paid) unit_price);
          paid_count = count1 - legacy_count;
          per_job = (if search then ep_search_cost_minor p else ep_application_cost_minor p);
          hold = with_contingency p (legacy_count * per_job);
          failed_cost = (if paid_count \<noteq> 0 \<or> (search \<and> count1 = 0)
                         then (if search then ep_service_preparation_cost_minor p else per_job) else 0);
          failed_hold = with_contingency p failed_cost;
          failed_hold1 = (if search \<and> paid_count = 0
                          then max failed_hold (with_contingency p (ep_service_preparation_cost_minor p) - hold) else failed_hold)
      in \<lparr>sh_legacy_service_hold_minor = hold, sh_failed_service_hold_minor = failed_hold1, sh_paid_service_cost_count = paid_count\<rparr>)"

definition service_expense_holds ::
  "settings \<Rightarrow> authority option \<Rightarrow> free_policy option \<Rightarrow> exec_db \<Rightarrow> expense_policy \<Rightarrow> string \<Rightarrow> int \<Rightarrow> int \<Rightarrow> int \<Rightarrow> string option \<Rightarrow> int
     \<Rightarrow> cost_error + service_hold" where
  "service_expense_holds env paid loaded_free db p operation unit_price count1 paid_credits excluded now =
     bindE (audit p) (\<lambda>audited.
     if operation \<notin> {''job_search'', ''job_application''} \<or> (count1 \<le> 0 \<and> operation \<noteq> ''job_search'')
     then Inr \<lparr>sh_legacy_service_hold_minor = 0, sh_failed_service_hold_minor = 0, sh_paid_service_cost_count = 0\<rparr>
     else
       let h = service_hold_of p audited operation unit_price count1 paid_credits;
           per_job = (if operation = ''job_search'' then ep_search_cost_minor p else ep_application_cost_minor p);
           exposure = sh_legacy_service_hold_minor h + sh_failed_service_hold_minor h;
           used = total (\<lambda>r. (sr_state r = SvcReserved \<or> sr_created_at r \<ge> month_floor now) \<and> Some (sr_id r) \<noteq> excluded)
                    (retained_hold p) (xd_services db)
       in bindE (require (\<not> used + exposure > ep_monthly_legacy_service_budget_minor p)
            (CostPolicyUnavailable ''New service work is paused while its finite legacy and unsuccessful-work funding is reviewed.'')) (\<lambda>_.
          bindE (case assert_legacy_headroom env paid loaded_free db 0 (max (with_contingency p (count1 * per_job)) exposure) excluded now of
                   Inl (FundingUnavailable text) \<Rightarrow> Inl (CostPolicyUnavailable text)
                 | Inl _ \<Rightarrow> Inl (CostValueError ''native_minor must be a non-negative integer'')
                 | Inr u \<Rightarrow> Inr u) (\<lambda>_. Inr h)))"

end
