(* ===== verification/Pack_Economics.thy ===== *)
theory Pack_Economics
  imports Expense_Policy
begin

text \<open>
  What an expense policy promises once its audit has passed: whatever a customer does with a
  finite pack, its net receipts cover the cost with contingency and leave the margin.
\<close>

section \<open>One pack\<close>

lemma ceil_minor_nonneg: "0 \<le> x \<Longrightarrow> 0 \<le> ceil_minor x"
  using ceil_minor_mono [of 0 x] by (simp add: ceil_minor_ceiling)

lemma audit_packs_mem:
  "audit_packs p ks = Inr rows \<Longrightarrow> k \<in> set ks \<Longrightarrow> \<exists>row. audit_pack p k = Inr row"
  by (induction ks arbitrary: rows) (auto simp: result_simps)

text \<open>A job costs at most its credits at the dearest rate.\<close>

lemma jobs_within_credits:
  fixes searches applications :: int
  assumes jobs: "searches * ep_service_search_credits p + applications * ep_service_apply_credits p \<le> service"
    and nonneg: "0 \<le> searches" "0 \<le> applications"
    and ok: "0 < ep_service_search_credits p" "0 < ep_service_apply_credits p" "0 < ep_search_cost_minor p" "0 < ep_application_cost_minor p"
  shows "of_int (searches * ep_search_cost_minor p + applications * ep_application_cost_minor p) \<le>
     (of_int service :: rat) * max (of_int (ep_search_cost_minor p) / of_int (ep_service_search_credits p))
       (of_int (ep_application_cost_minor p) / of_int (ep_service_apply_credits p))" (is "?cost \<le> _ * ?rate")
proof -
  let ?s = "of_int (ep_service_search_credits p) :: rat" and ?a = "of_int (ep_service_apply_credits p) :: rat"
  have s: "of_int (ep_search_cost_minor p) \<le> ?s * ?rate" using ok(1) by (simp add: field_simps max_def)
  have a: "of_int (ep_application_cost_minor p) \<le> ?a * ?rate" using ok(2) by (simp add: field_simps max_def)
  have "?cost = of_int searches * of_int (ep_search_cost_minor p) + of_int applications * of_int (ep_application_cost_minor p)" by simp
  also have "\<dots> \<le> of_int searches * (?s * ?rate) + of_int applications * (?a * ?rate)"
    using nonneg s a by (intro add_mono mult_left_mono) simp_all
  also have "\<dots> = of_int (searches * ep_service_search_credits p + applications * ep_service_apply_credits p) * ?rate"
    by (simp add: algebra_simps)
  also have "\<dots> \<le> of_int service * ?rate"
    using jobs ok by (intro mult_right_mono) (simp_all only: of_int_le_iff, simp add: max_def)
  finally show ?thesis .
qed

lemma audit_pack_covers:
  assumes "audit_pack p k = Inr row" and "expense_fields_ok p"
    and "0 \<le> units" "units \<le> pk_analysis_units k + pk_max_bonus_analysis_units k"
    and "0 \<le> searches" "0 \<le> applications"
    and "searches * ep_service_search_credits p + applications * ep_service_apply_credits p
           \<le> pk_service_credits k + pk_max_bonus_service_credits k"
  shows "(pack_allocation p + units * unit_ai_cost p + searches * ep_search_cost_minor p + applications * ep_application_cost_minor p)
           * (10000 + ep_contingency_bps p)
     \<le> (10000 - ep_margin_bps p) * net_receipts p (pk_gross_minor k - pk_max_discount_minor k)"
proof -
  let ?service = "pk_service_credits k + pk_max_bonus_service_credits k"
    and ?all = "pk_analysis_units k + pk_max_bonus_analysis_units k"
    and ?rate = "max (of_int (ep_search_cost_minor p) / of_int (ep_service_search_credits p))
       (of_int (ep_application_cost_minor p) / of_int (ep_service_apply_credits p)) :: rat"
    and ?net = "net_receipts p (pk_gross_minor k - pk_max_discount_minor k)"
  have ok: "0 < ep_service_search_credits p" "0 < ep_service_apply_credits p" "0 < ep_search_cost_minor p" "0 < ep_application_cost_minor p"
    "0 \<le> ep_margin_bps p" "ep_margin_bps p < 10000" "0 \<le> ep_contingency_bps p" "0 \<le> ep_adverse_fx_minor_per_usd p"
    "0 \<le> ep_analysis_unit_model_ceiling_micros p" "0 \<le> ep_analysis_overhead_minor_per_unit p"
    using assms(2) by (auto simp: expense_fields_ok_def is_positive_amount_def is_money_def is_rate_bps_def)
  have ai: "0 \<le> unit_ai_cost p" using ok(8-10) by (auto simp: unit_ai_cost_def usd_minor_def intro!: add_nonneg_nonneg ceil_minor_nonneg)
  let ?raw = "of_int (pack_allocation p) + of_int (?all * unit_ai_cost p) + of_int ?service * ?rate :: rat"
  have "ceil_minor (?raw * planning_factor p) \<le> ?net"
    using assms(1) by (simp add: audit_pack_def Let_def result_simps not_less)
  then have net: "?raw * planning_factor p \<le> of_int ?net" using ceil_minor_ge [of "?raw * planning_factor p"] of_int_le_iff order_trans by blast
  have "of_int (units * unit_ai_cost p) \<le> (of_int (?all * unit_ai_cost p) :: rat)"
    unfolding of_int_le_iff using assms(4) ai by (rule mult_right_mono)
  with jobs_within_credits [OF assms(7,5,6) ok(1-4)]
  have "of_int (pack_allocation p + units * unit_ai_cost p + searches * ep_search_cost_minor p + applications * ep_application_cost_minor p) \<le> ?raw"
    by simp
  moreover have "0 \<le> planning_factor p" using ok(6,7) by (simp add: planning_factor_def)
  ultimately have "of_int (pack_allocation p + units * unit_ai_cost p + searches * ep_search_cost_minor p + applications * ep_application_cost_minor p)
      * planning_factor p \<le> of_int ?net" (is "of_int ?cost * _ \<le> _")
    using net by (meson mult_right_mono order_trans)
  then have "of_int ?cost * of_int (10000 + ep_contingency_bps p) \<le> (of_int (10000 - ep_margin_bps p) * of_int ?net :: rat)"
    using ok(6) by (simp add: planning_factor_def pos_divide_le_eq mult.commute)
  then show ?thesis by (metis of_int_le_iff of_int_mult)
qed

section \<open>Properties\<close>

definition sample_pack :: "string \<Rightarrow> int \<Rightarrow> int \<Rightarrow> int \<Rightarrow> pack_terms" where
  "sample_pack sku price credits units =
     \<lparr>pk_sku = sku, pk_gross_minor = price, pk_service_credits = credits, pk_analysis_units = units, pk_max_discount_minor = 0,
      pk_max_bonus_service_credits = 0, pk_max_bonus_analysis_units = 0\<rparr>"

definition sample_expense :: expense_policy where
  "sample_expense = \<lparr>ep_version = ''e'', ep_catalog_version = BILLING_CATALOG_VERSION, ep_provenance = InvoiceReconciled, ep_reviewed_by = ''r'',
     ep_approved = True, ep_valid_from = 0, ep_expires_at = 1000, ep_reconciled_through = 0, ep_margin_bps = 1000, ep_contingency_bps = 500,
     ep_sale_tax_reserve_bps = 1800, ep_gateway_fee_bps = 200, ep_gateway_fee_tax_bps = 1800, ep_gateway_fixed_minor = 0, ep_settlement_fx_minor = 0,
     ep_refund_chargeback_reserve_bps = 200, ep_adverse_fx_minor_per_usd = 10000, ep_monthly_platform_operations_minor = 100000,
     ep_monthly_marketing_operations_minor = 100000, ep_minimum_paid_packs_per_month = 20, ep_search_cost_minor = 100,
     ep_service_preparation_cost_minor = 100, ep_application_cost_minor = 200, ep_analysis_overhead_minor_per_unit = 30,
     ep_provider_attempt_overhead_minor = 10, ep_analysis_unit_model_ceiling_micros = 20000,
     ep_operation_model_ceilings_micros = [(''resume_tailor'', 40000)], ep_daily_model_budget_micros = 200000,
     ep_monthly_model_budget_micros = 900000, ep_monthly_promotional_model_budget_micros = 500000,
     ep_monthly_legacy_premium_model_budget_micros = 0, ep_monthly_legacy_service_budget_minor = 9000, ep_service_search_credits = 1,
     ep_service_apply_credits = 2, ep_packs = [sample_pack ''starter_bundle'' 64900 100 2, sample_pack ''growth_bundle'' 109900 300 6,
       sample_pack ''scale_bundle'' 219900 700 15]\<rparr>"

lemma sample_expense_ok: "expense_fields_ok sample_expense" "isl (audit sample_expense) = False"
  by code_simp+

text \<open>
  C16. A pack funds its worst workload: when the audit of a policy passes, then for each pack,
  sold at its largest discount with its largest bonus, any use of its analysis units and any
  mix of searches and applications that its service credits buy costs so little that the net
  receipts cover it with the contingency and keep the margin.
\<close>

theorem pack_funds_every_workload:
  assumes "audit p = Inr audited" and "expense_fields_ok p" and "k \<in> set (ep_packs p)"
    and "0 \<le> units" "units \<le> pk_analysis_units k + pk_max_bonus_analysis_units k"
    and "0 \<le> searches" "0 \<le> applications"
    and "searches * ep_service_search_credits p + applications * ep_service_apply_credits p
           \<le> pk_service_credits k + pk_max_bonus_service_credits k"
  shows "(pack_allocation p + units * unit_ai_cost p + searches * ep_search_cost_minor p + applications * ep_application_cost_minor p)
           * (10000 + ep_contingency_bps p)
     \<le> (10000 - ep_margin_bps p) * net_receipts p (pk_gross_minor k - pk_max_discount_minor k)"
proof -
  obtain rows where "audit_packs p (ep_packs p) = Inr rows" using assms(1) by (auto simp: audit_def result_simps)
  with audit_packs_mem assms(3) obtain row where "audit_pack p k = Inr row" by blast
  then show ?thesis using assms(2,4-8) by (rule audit_pack_covers)
qed

lemma pack_funds_every_workload_witness:
  "\<exists>audited. audit sample_expense = Inr audited \<and>
     (pack_allocation sample_expense + 2 * unit_ai_cost sample_expense + 40 * 100 + 30 * 200) * 10500
       \<le> 9000 * net_receipts sample_expense 64900"
proof -
  obtain audited where run: "audit sample_expense = Inr audited" using sample_expense_ok(2) by (cases "audit sample_expense") auto
  have "sample_pack ''starter_bundle'' 64900 100 2 \<in> set (ep_packs sample_expense)" by (simp add: sample_expense_def)
  from pack_funds_every_workload [OF run sample_expense_ok(1) this, of 2 40 30] run show ?thesis
    by (simp add: sample_pack_def sample_expense_def)
qed

end
