(* ===== verification/Run_Budget.thy ===== *)
theory Run_Budget
  imports Expense_Policy
begin

text \<open>
  \<open>services/model_cost_policy.py\<close> and \<open>persistent_run_budget\<close> of \<open>services/generation_budget.py\<close>:
  the frozen price policy of an older (unit-billed) run, the quote of one attempt, and the two
  transactions around every provider request. The price policy in the environment and its
  JSON form on the run are arguments: \<open>qc_dump\<close> and \<open>qc_parse\<close> are pydantic's
  \<open>model_dump\<close> and \<open>model_validate\<close>.
\<close>

section \<open>The price policy\<close>

datatype budget_error = ModelCostUnavailable string | BudgetExhausted string | BudgetFault

record cost_policy =
  cy_version :: string
  cy_operation_limits :: "(string \<times> int) list"
  cy_quotes :: "price_quote list"

definition is_operation_name :: "string \<Rightarrow> bool" where
  "is_operation_name k \<longleftrightarrow> 1 \<le> length k \<and> length k \<le> 64 \<and> hd k \<in> set ''abcdefghijklmnopqrstuvwxyz'' \<and>
     list_all (\<lambda>c. c \<in> set ''abcdefghijklmnopqrstuvwxyz0123456789_'') (tl k)"

definition price_key :: "price_quote \<Rightarrow> string \<times> string \<times> string" where
  "price_key q = (pq_provider q, pq_model q, pq_api_base q)"

definition cost_policy_ok :: "cost_policy \<Rightarrow> bool" where
  "cost_policy_ok p \<longleftrightarrow>
     cy_operation_limits p \<noteq> [] \<and> list_all (\<lambda>(k, n). is_operation_name k \<and> is_positive_amount n) (cy_operation_limits p) \<and>
     1 \<le> length (cy_quotes p) \<and> length (cy_quotes p) \<le> 100 \<and> list_all price_ok (cy_quotes p) \<and> distinct (map price_key (cy_quotes p))"

record quote_codec =
  qc_dump :: "cost_policy \<Rightarrow> json"
  qc_parse :: "json \<Rightarrow> cost_policy option"

text \<open>What the environment configures: nothing, an invalid document, or a policy.\<close>

datatype configured = NoPolicy | BadPolicy | Policy cost_policy

definition model_current_policy :: "configured \<Rightarrow> budget_error + cost_policy" where
  "model_current_policy c =
     (case c of
        NoPolicy \<Rightarrow> Inl (ModelCostUnavailable ''Optional AI generation is unavailable: configure a reviewed model-cost policy.'')
      | BadPolicy \<Rightarrow> Inl (ModelCostUnavailable ''Optional AI generation is unavailable: the model-cost policy is invalid.'')
      | Policy p \<Rightarrow> Inr p)"

text \<open>The reviewed inputs of a request: settings, expense policy, common authority, free policy, payment facts.\<close>

record reviews =
  rv_settings :: settings
  rv_configured :: configured
  rv_expense :: "expense_policy option"
  rv_paid :: "authority option"
  rv_free :: "free_policy option"
  rv_orders :: "order_expense list"
  rv_refunds :: "refund_expense list"
  rv_codec :: quote_codec

definition freeze_run_quote :: "reviews \<Rightarrow> analysis_run \<Rightarrow> int \<Rightarrow> budget_error + analysis_run" where
  "freeze_run_quote rv run now =
     (if ar_model_cost_quote run \<noteq> None then Inr run else
     bindE (require (ar_generation_attempt_count run = 0)
       (ModelCostUnavailable ''This legacy operation has unquoted model attempts. Start a new reviewed operation.'')) (\<lambda>_.
     bindE (model_current_policy (rv_configured rv)) (\<lambda>policy.
     bindE (case expense_current_policy (rv_settings rv) (rv_expense rv) now of
              Inl (CostPolicyUnavailable text) \<Rightarrow> Inl (ModelCostUnavailable text) | Inl _ \<Rightarrow> Inl BudgetFault | Inr e \<Rightarrow> Inr e) (\<lambda>expense.
     case map_of (cy_operation_limits policy) (ar_operation run) of
       None \<Rightarrow> Inl (ModelCostUnavailable ''Optional AI generation is unavailable: this operation has no cost ceiling.'')
     | Some limit \<Rightarrow>
     bindE (require (\<not> (limit > ceiling_of (ar_operation run) (ep_operation_model_ceilings_micros expense) \<or>
                        limit > max 1 (ar_estimated_units run) * ep_analysis_unit_model_ceiling_micros expense))
       (ModelCostUnavailable ''Optional AI generation is unavailable: this operation exceeds its funded expense allowance.'')) (\<lambda>_.
     bindE (require (list_ex (\<lambda>q. pq_valid_from q \<le> now \<and> now < pq_expires_at q) (cy_quotes policy))
       (ModelCostUnavailable ''Optional AI generation is unavailable: the reviewed price quotes are expired or not yet valid.'')) (\<lambda>_.
     Inr (run\<lparr>ar_model_cost_quote := Some (json_put ''expense_funding'' JNull
                (json_put ''expense_policy_version'' (JStr (ep_version expense)) (qc_dump (rv_codec rv) policy))),
              ar_model_cost_ceiling := Some limit, ar_model_cost_reserved := 0, ar_model_cost_settled := 0,
              ar_model_cost_state := CostActive\<rparr>)))))))"

text \<open>The quote of one attempt: the saved prices, under the tighter of both bounds.\<close>

record attempt_terms = price_quote +
  tm_operation_policy_version :: string
  tm_admission_policy_version :: string
  tm_authorized_ceiling :: int

definition drop_slash :: "string \<Rightarrow> string" where
  "drop_slash s = rev (dropWhile (\<lambda>c. c = CHR ''/'') (rev s))"

definition unknown_endpoint :: budget_error where
  "unknown_endpoint =
     ModelCostUnavailable ''Optional AI generation is unavailable: the exact model endpoint has no authorized price quote.''"

definition endpoint_terms ::
  "cost_policy \<Rightarrow> cost_policy \<Rightarrow> price_quote \<Rightarrow> price_quote \<Rightarrow> int \<Rightarrow> int \<Rightarrow> budget_error + attempt_terms" where
  "endpoint_terms frozen current saved active effective now =
     bindE (require (pq_valid_from saved \<le> now \<and> now < pq_expires_at saved \<and> pq_valid_from active \<le> now \<and> now < pq_expires_at active)
       (ModelCostUnavailable ''The exact model-price quote is expired or not yet valid. Refresh the reviewed policy and start a new operation.'')) (\<lambda>_.
     bindE (require (active\<lparr>pq_max_input_tokens := pq_max_input_tokens saved, pq_max_output_tokens := pq_max_output_tokens saved\<rparr> = saved)
       (ModelCostUnavailable ''This operation's model-price authorization changed. Start a new reviewed operation.'')) (\<lambda>_.
     let quote = saved\<lparr>pq_max_input_tokens := min (pq_max_input_tokens saved) (pq_max_input_tokens active),
                       pq_max_output_tokens := min (pq_max_output_tokens saved) (pq_max_output_tokens active)\<rparr>
     in Inr (price_quote.extend quote (attempt_terms.fields (cy_version frozen) (cy_version current) effective))))"

definition attempt_quote ::
  "reviews \<Rightarrow> analysis_run \<Rightarrow> string \<Rightarrow> string \<Rightarrow> string \<Rightarrow> int \<Rightarrow> budget_error + attempt_terms \<times> int \<times> analysis_run" where
  "attempt_quote rv run0 provider model api_base now =
     bindE (freeze_run_quote rv run0 now) (\<lambda>run.
     case Option.bind (ar_model_cost_quote run) (qc_parse (rv_codec rv)) of
       None \<Rightarrow> Inl BudgetFault
     | Some frozen \<Rightarrow>
     bindE (model_current_policy (rv_configured rv)) (\<lambda>current.
     case map_of (cy_operation_limits current) (ar_operation run) of
       None \<Rightarrow> Inl (ModelCostUnavailable ''The operation's model-cost authorization was revoked.'')
     | Some limit \<Rightarrow>
     let key = (provider, model, drop_slash api_base) in
     case find (\<lambda>q. price_key q = key) (cy_quotes frozen) of
       None \<Rightarrow> Inl unknown_endpoint
     | Some saved \<Rightarrow>
     case find (\<lambda>q. price_key q = key) (cy_quotes current) of
       None \<Rightarrow> Inl unknown_endpoint
     | Some active \<Rightarrow>
     case ar_model_cost_ceiling run of
       None \<Rightarrow> bindE (endpoint_terms frozen current saved active 0 now) (\<lambda>_. Inl BudgetFault)
     | Some frozen_limit \<Rightarrow>
         let effective = min frozen_limit limit in
         bindE (endpoint_terms frozen current saved active effective now) (\<lambda>quote. Inr (quote, effective, run))))"

section \<open>Calls\<close>

record model_call =
  mc_id :: string
  mc_run_id :: string
  mc_user_id :: int
  mc_liability_id :: "string option"
  mc_provider :: string
  mc_model :: string
  mc_prompt_version :: string
  mc_attempt_number :: nat
  mc_input_tokens :: int
  mc_output_tokens :: int
  mc_tokens_estimated :: bool
  mc_latency_ms :: int
  mc_estimated_cost :: int
  mc_quote :: attempt_terms
  mc_reserved_cost :: int
  mc_settled_cost :: "int option"
  mc_cost_state :: cost_state
  mc_estimate_provenance :: string
  mc_usage_provenance :: "string option"
  mc_output_limit :: int
  mc_status :: string
  mc_error_code :: "string option"
  mc_settled_at :: "int option"
  mc_created_at :: int

record budget_world =
  bw_usage :: usage_db
  bw_exec :: exec_db
  bw_calls :: "model_call list"

record model_ask =
  ma_provider :: string
  ma_model :: string
  ma_messages :: "json list"
  ma_api_base :: string
  ma_counted :: "int option"
  ma_prompt_version :: string

record call_ticket =
  tk_event_id :: string
  tk_provider :: string
  tk_model :: string
  tk_attempt_number :: nat
  tk_max_output_tokens :: int
  tk_liability_id :: string
  tk_group_id :: string

definition find_run :: "'a budget_world_scheme \<Rightarrow> string \<Rightarrow> int \<Rightarrow> analysis_run option" where
  "find_run w run_id user = find (\<lambda>r. ar_id r = run_id \<and> ar_user_id r = user) (us_runs (bw_usage w))"

definition has_user :: "'a budget_world_scheme \<Rightarrow> int \<Rightarrow> bool" where
  "has_user w user \<longleftrightarrow> user \<in> u_id ` set (us_users (bw_usage w))"

definition not_authorized :: budget_error where
  "not_authorized = BudgetExhausted ''The operation is no longer authorized for model requests.''"

definition live_status :: "analysis_run \<Rightarrow> bool" where
  "live_status run \<longleftrightarrow> \<not> ar_cancel_requested run \<and> ar_status run \<in> {RunQueued, RunRunning}"

text \<open>\<open>canary\<close> is the answer of \<open>require_accepted_provider_run\<close>: the text of its refusal, if any.\<close>

definition preflight ::
  "reviews \<Rightarrow> 'a budget_world_scheme \<Rightarrow> string \<Rightarrow> int \<Rightarrow> model_ask \<Rightarrow> string option \<Rightarrow> int \<Rightarrow> budget_error + int" where
  "preflight rv w run_id user ask canary now =
     (case find_run w run_id user of
        None \<Rightarrow> Inl not_authorized
      | Some run \<Rightarrow>
     bindE (require (has_user w user \<and> live_status run) not_authorized) (\<lambda>_.
     bindE (require (canary = None) (BudgetExhausted ''New model work requires reviewed canary admission.'')) (\<lambda>_.
     bindE (require (\<not> (ar_generation_attempt_count run \<ge> ar_generation_attempt_limit run \<or> ar_model_cost_state run = CostRunOverrun))
       (BudgetExhausted ''The operation's model budget is exhausted.'')) (\<lambda>_.
     bindE (require (\<not> (ar_model_cost_quote run = None \<and> list_ex (\<lambda>c. mc_run_id c = run_id) (bw_calls w)))
       (ModelCostUnavailable ''This legacy operation has unquoted model history. Start a new reviewed operation.'')) (\<lambda>_.
     bindE (attempt_quote rv run (ma_provider ask) (ma_model ask) (ma_api_base ask) now) (\<lambda>(quote, _, _).
     Inr (pq_max_input_tokens quote)))))))"

text \<open>The funding that the run's first request fixes, and that every later one keeps.\<close>

definition fix_funding :: "usage_db \<Rightarrow> int \<Rightarrow> analysis_run \<Rightarrow> analysis_run" where
  "fix_funding db user run =
     (if Option.bind (ar_model_cost_quote run) (json_get ''expense_funding'') \<in> {None, Some JNull} then
        (let (funding, run1) = funding_for_run db user run (ar_estimated_units run)
         in put_quote ''expense_funding'' (JStr funding) run1)
      else run)"

definition run_funding :: "analysis_run \<Rightarrow> string" where
  "run_funding run =
     (case Option.bind (ar_model_cost_quote run) (json_get ''expense_funding'') of
        Some (JStr s) \<Rightarrow> if s = [] then ''promotion'' else s | _ \<Rightarrow> ''promotion'')"

definition call_liability ::
  "(string \<Rightarrow> string) \<Rightarrow> string \<Rightarrow> string \<Rightarrow> nat \<Rightarrow> model_ask \<Rightarrow> attempt_terms \<Rightarrow> model_funding \<Rightarrow> int \<Rightarrow> int \<Rightarrow> int \<Rightarrow> liability" where
  "call_liability sha lid gid n ask quote funding input_tokens reservation now =
     \<lparr>ml_id = lid, ml_group_id = gid, ml_attempt_number = n, ml_provider = ma_provider ask, ml_model = ma_model ask,
      ml_endpoint_key = sha (pq_api_base quote),
      ml_quote = price_quote.extend (price_quote.truncate quote)
        (liability_quote.fields (mf_expense_funding funding) (mf_expense_pool funding) (mf_expense_policy_version funding)),
      ml_input_token_estimate = input_tokens, ml_reserved_cost = reservation, ml_settled_cost = None, ml_input_tokens = None,
      ml_output_tokens = None, ml_usage_provenance = None, ml_state = CostReserved, ml_created_at = now, ml_settled_at = None\<rparr>"

definition call_event ::
  "string \<Rightarrow> string \<Rightarrow> int \<Rightarrow> string \<Rightarrow> nat \<Rightarrow> model_ask \<Rightarrow> attempt_terms \<Rightarrow> int \<Rightarrow> int \<Rightarrow> int \<Rightarrow> model_call" where
  "call_event eid run_id user lid n ask quote input_tokens reservation now =
     \<lparr>mc_id = eid, mc_run_id = run_id, mc_user_id = user, mc_liability_id = Some lid, mc_provider = ma_provider ask, mc_model = ma_model ask,
      mc_prompt_version = ma_prompt_version ask, mc_attempt_number = n, mc_input_tokens = input_tokens, mc_output_tokens = 0,
      mc_tokens_estimated = True, mc_latency_ms = 0, mc_estimated_cost = reservation, mc_quote = quote, mc_reserved_cost = reservation,
      mc_settled_cost = None, mc_cost_state = CostReserved,
      mc_estimate_provenance = (if ma_provider ask = ''google'' \<and> ma_counted ask \<noteq> None then ''gemini-countTokens-utf8-max-v1''
                                else pq_token_estimator quote),
      mc_usage_provenance = None, mc_output_limit = pq_max_output_tokens quote, mc_status = ''attempted'', mc_error_code = None,
      mc_settled_at = None, mc_created_at = now\<rparr>"

section \<open>The transaction before a request\<close>

text \<open>\<open>db.add\<close> of the liability and the event, and the counters of the run; the ticket is what the caller keeps.\<close>

definition book_call ::
  "(string \<Rightarrow> string) \<Rightarrow> 'a budget_world_scheme \<Rightarrow> analysis_run \<Rightarrow> int \<Rightarrow> model_ask \<Rightarrow> attempt_terms \<Rightarrow> model_funding \<Rightarrow> int \<Rightarrow> int \<Rightarrow> int
     \<Rightarrow> call_ticket \<times> 'a budget_world_scheme" where
  "book_call sha w run user ask quote funding input_tokens reservation now =
     (let (eid, x1) = draw ''mdl'' (bw_exec w);
          (lid, x2) = draw ''mcl'' x1;
          (gid, x3) = (case ar_model_cost_group_id run of Some g \<Rightarrow> (g, x2) | None \<Rightarrow> draw ''fin'' x2);
          n = Suc (ar_generation_attempt_count run);
          run1 = run\<lparr>ar_generation_attempt_count := n, ar_model_cost_reserved := ar_model_cost_reserved run + reservation,
                   ar_model_call := Some (ma_provider ask, ma_model ask, ma_prompt_version ask), ar_model_cost_group_id := Some gid\<rparr>;
          row = call_liability sha lid gid n ask quote funding input_tokens reservation now;
          call = call_event eid (ar_id run) user lid n ask quote input_tokens reservation now
      in (\<lparr>tk_event_id = eid, tk_provider = ma_provider ask, tk_model = ma_model ask, tk_attempt_number = n,
           tk_max_output_tokens = pq_max_output_tokens quote, tk_liability_id = lid, tk_group_id = gid\<rparr>,
          w\<lparr>bw_usage := store_run run1 (bw_usage w), bw_exec := x3\<lparr>xd_liabilities := xd_liabilities x3 @ [row]\<rparr>,
            bw_calls := bw_calls w @ [call]\<rparr>))"

definition before_call ::
  "reviews \<Rightarrow> (string \<Rightarrow> string) \<Rightarrow> 'a budget_world_scheme \<Rightarrow> string \<Rightarrow> int \<Rightarrow> model_ask \<Rightarrow> string option \<Rightarrow> int
     \<Rightarrow> budget_error + call_ticket \<times> 'a budget_world_scheme" where
  "before_call rv sha w run_id user ask canary now =
     (case find_run w run_id user of
        None \<Rightarrow> Inl not_authorized
      | Some run0 \<Rightarrow>
     bindE (require (has_user w user) not_authorized) (\<lambda>_.
     bindE (require (canary = None) (BudgetExhausted ''New model work requires reviewed canary admission.'')) (\<lambda>_.
     bindE (require (live_status run0) not_authorized) (\<lambda>_.
     bindE (require (\<not> ar_generation_attempt_count run0 \<ge> ar_generation_attempt_limit run0)
       (BudgetExhausted ''The operation's total model-attempt budget was reached.'')) (\<lambda>_.
     bindE (require (ar_model_cost_state run0 \<noteq> CostRunOverrun)
       (BudgetExhausted ''Returned usage exceeded the authorized estimate. Further model attempts are blocked.'')) (\<lambda>_.
     bindE (require (\<not> (ar_model_cost_quote run0 = None \<and> list_ex (\<lambda>c. mc_run_id c = run_id) (bw_calls w)))
       (ModelCostUnavailable ''This legacy operation has unquoted model history. Start a new reviewed operation.'')) (\<lambda>_.
     bindE (attempt_quote rv run0 (ma_provider ask) (ma_model ask) (ma_api_base ask) now) (\<lambda>(quote, current_ceiling, run1).
     let input_tokens = max (input_token_estimate (ma_messages ask)) (amount_or_0 (ma_counted ask));
         reservation = quoted_cost quote input_tokens (pq_max_output_tokens quote);
         run2 = fix_funding (bw_usage w) user run1
     in bindE (require (\<not> input_tokens > pq_max_input_tokens quote)
          (BudgetExhausted ''The prompt exceeds the operation's authorized input estimate.'')) (\<lambda>_.
        bindE (require (\<not> ar_model_cost_reserved run1 + ar_model_cost_settled run1 + reservation > current_ceiling)
          (BudgetExhausted ''The operation's quoted maximum authorized estimated spend was reached.'')) (\<lambda>_.
        bindE (case assert_model_funding (rv_settings rv) (rv_expense rv) (rv_paid rv) (rv_free rv) (rv_orders rv) (rv_refunds rv) (bw_exec w)
                 (ar_operation run2) current_ceiling reservation (run_funding run2) now of
                 Inl (CostPolicyUnavailable text) \<Rightarrow> Inl (BudgetExhausted text) | Inl _ \<Rightarrow> Inl BudgetFault | Inr f \<Rightarrow> Inr f) (\<lambda>funding.
        Inr (book_call sha w run2 user ask quote funding input_tokens reservation now))))))))))))"

section \<open>The transaction after a request\<close>

text \<open>
  \<open>bound\<close>: this process issued the ticket and still knows which liability it belongs to.
  Otherwise the event of the run says it, while both exist.
\<close>

definition find_call :: "'a budget_world_scheme \<Rightarrow> call_ticket \<Rightarrow> string \<Rightarrow> int \<Rightarrow> model_call option" where
  "find_call w ticket run_id user =
     find (\<lambda>c. mc_id c = tk_event_id ticket \<and> mc_run_id c = run_id \<and> mc_user_id c = user) (bw_calls w)"

definition binding_of ::
  "'a budget_world_scheme \<Rightarrow> call_ticket \<Rightarrow> bool \<Rightarrow> string \<Rightarrow> int \<Rightarrow> (string \<times> string \<times> nat) option" where
  "binding_of w ticket bound run_id user =
     (if bound then Some (tk_liability_id ticket, tk_group_id ticket, tk_attempt_number ticket)
      else case (find_run w run_id user, find_call w ticket run_id user) of
        (Some run, Some call) \<Rightarrow>
          (case (mc_liability_id call, group_id run) of
             (Some lid, Some gid) \<Rightarrow> if lid = [] then None else Some (lid, gid, mc_attempt_number call)
           | _ \<Rightarrow> None)
      | _ \<Rightarrow> None)"

definition bound_liability :: "exec_db \<Rightarrow> call_ticket \<Rightarrow> string \<times> string \<times> nat \<Rightarrow> liability option" where
  "bound_liability db ticket b =
     (case b of (lid, gid, n) \<Rightarrow>
        if tk_attempt_number ticket \<noteq> n then None
        else find (\<lambda>l. ml_id l = lid \<and> ml_group_id l = gid \<and> ml_attempt_number l = n \<and> ml_provider l = tk_provider ticket \<and>
               ml_model l = tk_model ticket) (xd_liabilities db))"

definition call_overrun :: "liability \<Rightarrow> int \<Rightarrow> int \<Rightarrow> int \<Rightarrow> bool" where
  "call_overrun l cost input_tokens output_tokens \<longleftrightarrow>
     cost > ml_reserved_cost l \<or> output_tokens > pq_max_output_tokens (ml_quote l) \<or> input_tokens > pq_max_input_tokens (ml_quote l)"

definition exceeds_ceiling :: "int option \<Rightarrow> int \<Rightarrow> bool" where
  "exceeds_ceiling limit n = (case limit of None \<Rightarrow> False | Some m \<Rightarrow> n > m)"

definition charge_cost :: "liability \<Rightarrow> int \<Rightarrow> bool \<Rightarrow> analysis_run \<Rightarrow> analysis_run \<times> bool" where
  "charge_cost l cost over run =
     (let reserved = ar_model_cost_reserved run - ml_reserved_cost l; settled = ar_model_cost_settled run + cost;
          over1 = (over \<or> exceeds_ceiling (ar_model_cost_ceiling run) (reserved + settled));
          run1 = run\<lparr>ar_model_cost_reserved := reserved, ar_model_cost_settled := settled\<rparr>
      in (if over1 then run1\<lparr>ar_model_cost_state := CostRunOverrun\<rparr> else run1, over1))"

definition change_call :: "call_ticket \<Rightarrow> string \<Rightarrow> int \<Rightarrow> bool \<Rightarrow> (model_call \<Rightarrow> model_call) \<Rightarrow> model_call list \<Rightarrow> model_call list" where
  "change_call ticket run_id user present f calls =
     (if present then map (\<lambda>c. if mc_id c = tk_event_id ticket \<and> mc_run_id c = run_id \<and> mc_user_id c = user then f c else c) calls else calls)"

text \<open>\<open>failure\<close> is the finite code of the provider's error, if there was one.\<close>

definition after_call ::
  "'a budget_world_scheme \<Rightarrow> string \<Rightarrow> int \<Rightarrow> call_ticket \<Rightarrow> bool \<Rightarrow> int \<Rightarrow> provider_response \<Rightarrow> string option \<Rightarrow> int
     \<Rightarrow> budget_error + 'a budget_world_scheme" where
  "after_call w run_id user ticket bound latency_ms response failure now =
     (let run = find_run w run_id user; present = (run \<noteq> None);
          strange = ModelCostUnavailable ''The model-cost event does not belong to this operation.'' in
      case Option.bind (binding_of w ticket bound run_id user) (bound_liability (bw_exec w) ticket) of
        None \<Rightarrow> Inl strange
      | Some l \<Rightarrow>
          if ml_settled_at l \<noteq> None then Inr w
          else
            let noted = (\<lambda>c. c\<lparr>mc_status := (if failure = None then ''succeeded'' else ''failed''), mc_latency_ms := max 0 latency_ms,
                         mc_error_code := failure\<rparr>)
            in case (if failure = None then usage_of response (ml_provider l) else None) of
                 None \<Rightarrow>
                   let state = (if failure = None then CostUnavailable else CostUnknown)
                   in Inr (w\<lparr>bw_exec := update_liability (ml_id l) (\<lambda>x. x\<lparr>ml_state := state\<rparr>) (bw_exec w),
                             bw_calls := change_call ticket run_id user present (\<lambda>c. (noted c)\<lparr>mc_cost_state := state\<rparr>) (bw_calls w)\<rparr>)
               | Some (input_tokens, output_tokens, provenance) \<Rightarrow>
                   let cost = quoted_cost (ml_quote l) input_tokens output_tokens;
                       over = call_overrun l cost input_tokens output_tokens;
                       charged = map_option (charge_cost l cost over) run;
                       over1 = (case charged of None \<Rightarrow> over | Some (_, o1) \<Rightarrow> o1);
                       state = (if over1 then CostOverrun else CostSettled)
                   in bindE (require (over \<or> run = None \<or> Option.bind run ar_model_cost_ceiling \<noteq> None) BudgetFault) (\<lambda>_.
                      Inr (w\<lparr>bw_usage := (case charged of None \<Rightarrow> bw_usage w | Some (r, _) \<Rightarrow> store_run r (bw_usage w)),
                             bw_exec := update_liability (ml_id l) (\<lambda>x. x\<lparr>ml_input_tokens := Some input_tokens, ml_output_tokens := Some output_tokens,
                               ml_usage_provenance := Some provenance, ml_settled_cost := Some cost, ml_settled_at := Some now, ml_state := state\<rparr>) (bw_exec w),
                             bw_calls := change_call ticket run_id user present (\<lambda>c. (noted c)\<lparr>mc_input_tokens := input_tokens,
                               mc_output_tokens := output_tokens, mc_tokens_estimated := False, mc_usage_provenance := Some provenance,
                               mc_estimated_cost := cost, mc_settled_cost := Some cost, mc_settled_at := Some now, mc_cost_state := state\<rparr>) (bw_calls w)\<rparr>)))"

end
