(* ===== verification/Run_Budget_Safety.thy ===== *)
theory Run_Budget_Safety
  imports Run_Budget Admission_Safety
begin

text \<open>
  The counters of a unit-billed run against the provider liabilities of its group: they agree
  in every reachable state, and the spend they show stays under the frozen ceiling until a
  provider reports more than was quoted; from then on no request is authorized.
\<close>

section \<open>Totals\<close>

lemma total_update_by_any:
  assumes "distinct (map key rows)" and "r \<in> set rows" and "key r = k"
  shows "total p h (update_by key k f rows) =
     total p h rows - (if p r then h r else 0) + (if p (f r) then h (f r) else (0 :: int))"
  using assms
proof (induction rows)
  case (Cons x xs)
  show ?case
  proof (cases "x = r")
    case True
    with Cons.prems have "k \<notin> key ` set xs" by auto
    with True Cons.prems show ?thesis by (simp add: update_by_absent)
  next
    case False
    with Cons.prems have "r \<in> set xs" "key x \<noteq> k" by (auto simp: rev_image_eqI)
    with Cons show ?thesis by simp
  qed
qed simp

text \<open>A liability is open until its cost is settled.\<close>

definition open_cost :: "string \<Rightarrow> liability list \<Rightarrow> int" where
  "open_cost g ls = total (\<lambda>l. ml_group_id l = g \<and> ml_settled_at l = None) ml_reserved_cost ls"

definition settled_cost :: "string \<Rightarrow> liability list \<Rightarrow> int" where
  "settled_cost g ls = total (\<lambda>l. ml_group_id l = g \<and> ml_settled_at l \<noteq> None) (\<lambda>l. amount_or_0 (ml_settled_cost l)) ls"

lemmas cost_totals = open_cost_def settled_cost_def

lemma cost_totals_other:
  assumes "\<And>l. l \<in> set new \<Longrightarrow> ml_group_id l \<noteq> g"
  shows "open_cost g (ls @ new) = open_cost g ls" "settled_cost g (ls @ new) = settled_cost g ls"
proof -
  have "total (\<lambda>l. ml_group_id l = g \<and> P l) h new = 0" for P and h :: "liability \<Rightarrow> int"
    using assms by (induction new) auto
  then show "open_cost g (ls @ new) = open_cost g ls" "settled_cost g (ls @ new) = settled_cost g ls"
    by (simp_all add: cost_totals)
qed

section \<open>The invariant\<close>

definition run_limits :: "analysis_run \<Rightarrow> bool" where
  "run_limits r \<longleftrightarrow> ar_generation_attempt_count r \<le> ar_generation_attempt_limit r \<and>
     (case ar_model_cost_ceiling r of None \<Rightarrow> True
      | Some c \<Rightarrow> 0 \<le> c \<and> (ar_model_cost_state r = CostRunOverrun \<or> ar_model_cost_reserved r + ar_model_cost_settled r \<le> c))"

definition run_counted :: "liability list \<Rightarrow> analysis_run \<Rightarrow> bool" where
  "run_counted ls r \<longleftrightarrow>
     (case ar_model_cost_group_id r of
        None \<Rightarrow> ar_model_cost_reserved r = 0 \<and> ar_model_cost_settled r = 0
      | Some g \<Rightarrow> 0 < ar_generation_attempt_count r \<and> ar_model_cost_ceiling r \<noteq> None \<and>
                 ar_model_cost_reserved r = open_cost g ls \<and> ar_model_cost_settled r = settled_cost g ls)"

definition future_group :: "exec_db \<Rightarrow> string \<Rightarrow> bool" where
  "future_group db g \<longleftrightarrow> (\<exists>k \<ge> db_drawn (xd_credit db). g = ''fin_'' @ db_supply (xd_credit db) k)"

type_synonym tickets = "(call_ticket \<times> string \<times> int) list"

definition unit_runs :: "'a budget_world_scheme \<Rightarrow> analysis_run set" where
  "unit_runs w = {r \<in> set (us_runs (bw_usage w)). \<not> is_unified r}"

text \<open>A ticket names the group of its run, and no other run has that group.\<close>

definition tickets_ok :: "'a budget_world_scheme \<Rightarrow> tickets \<Rightarrow> bool" where
  "tickets_ok w issued \<longleftrightarrow>
     (\<forall>(tk, run_id, user) \<in> set issued. \<not> future_group (bw_exec w) (tk_group_id tk) \<and>
        (\<forall>r \<in> set (us_runs (bw_usage w)). ar_id r = run_id \<and> ar_user_id r = user \<longleftrightarrow> ar_model_cost_group_id r = Some (tk_group_id tk)))"

fun budget_ok :: "'a budget_world_scheme \<times> tickets \<Rightarrow> bool" where
  "budget_ok (w, issued) \<longleftrightarrow>
     inj (db_supply (xd_credit (bw_exec w))) \<and>
     distinct (map ar_id (us_runs (bw_usage w))) \<and> 
     fresh_rows ml_id ''mcl'' (db_supply (xd_credit (bw_exec w))) (db_drawn (xd_credit (bw_exec w))) (xd_liabilities (bw_exec w)) \<and>
     (\<forall>l \<in> set (xd_liabilities (bw_exec w)). \<not> future_group (bw_exec w) (ml_group_id l)) \<and>
     (\<forall>l \<in> set (xd_liabilities (bw_exec w)). ml_settled_at l = None \<or> ml_settled_cost l \<noteq> None) \<and>
     (\<forall>r \<in> set (us_runs (bw_usage w)). \<forall>g. ar_model_cost_group_id r = Some g \<longrightarrow> \<not> future_group (bw_exec w) g) \<and>
     (\<forall>r \<in> set (us_runs (bw_usage w)). \<forall>q \<in> set (us_runs (bw_usage w)). ar_model_cost_group_id r \<noteq> None \<and>
        ar_model_cost_group_id r = ar_model_cost_group_id q \<longrightarrow> r = q) \<and>
     (\<forall>r \<in> unit_runs w. run_limits r \<and> run_counted (xd_liabilities (bw_exec w)) r) \<and>
     tickets_ok w issued"

declare budget_ok.simps [simp del]

section \<open>What a request's quote does to the run\<close>

lemma freeze_run_quote_Inr:
  assumes "freeze_run_quote rv run now = Inr run1"
  shows "run1 = run \<or> (ar_model_cost_quote run = None \<and> ar_generation_attempt_count run = 0 \<and>
     (\<exists>q c policy. rv_configured rv = Policy policy \<and> map_of (cy_operation_limits policy) (ar_operation run) = Some c \<and>
        run1 = run\<lparr>ar_model_cost_quote := Some q, ar_model_cost_ceiling := Some c, ar_model_cost_reserved := 0, ar_model_cost_settled := 0,
          ar_model_cost_state := CostActive\<rparr>))"
  using assms
  by (auto simp: freeze_run_quote_def model_current_policy_def result_simps split: if_splits option.splits configured.splits)

lemma attempt_quote_Inr:
  assumes "attempt_quote rv run provider model base now = Inr (quote, limit, run1)"
  shows "freeze_run_quote rv run now = Inr run1" and "\<exists>c. ar_model_cost_ceiling run1 = Some c \<and> limit \<le> c"
proof -
  from assms obtain run2 frozen current cap saved active where frozen: "freeze_run_quote rv run now = Inr run2"
    and rest: "(case ar_model_cost_ceiling run2 of
         None \<Rightarrow> bindE (endpoint_terms frozen current saved active 0 now) (\<lambda>_. Inl BudgetFault)
       | Some frozen_limit \<Rightarrow>
           bindE (endpoint_terms frozen current saved active (min frozen_limit cap) now) (\<lambda>quote. Inr (quote, min frozen_limit cap, run2)))
       = Inr (quote, limit, run1)"
    unfolding attempt_quote_def Let_def bindE_eq_Inr case_option_eq_Inr by blast
  then obtain c where "ar_model_cost_ceiling run2 = Some c" "limit = min c cap" "run1 = run2"
    by (cases "ar_model_cost_ceiling run2") (auto simp: result_simps)
  with frozen show "freeze_run_quote rv run now = Inr run1" "\<exists>c. ar_model_cost_ceiling run1 = Some c \<and> limit \<le> c" by auto
qed

lemma put_quote_columns [simp]:
  "ar_id (put_quote k v run) = ar_id run" "ar_user_id (put_quote k v run) = ar_user_id run"
  "ar_generation_attempt_count (put_quote k v run) = ar_generation_attempt_count run"
  "ar_generation_attempt_limit (put_quote k v run) = ar_generation_attempt_limit run"
  "ar_model_cost_group_id (put_quote k v run) = ar_model_cost_group_id run"
  "ar_model_cost_ceiling (put_quote k v run) = ar_model_cost_ceiling run"
  "ar_model_cost_reserved (put_quote k v run) = ar_model_cost_reserved run"
  "ar_model_cost_settled (put_quote k v run) = ar_model_cost_settled run"
  "ar_model_cost_state (put_quote k v run) = ar_model_cost_state run"
  by (simp_all add: put_quote_def)

lemma is_unified_put_quote: "k \<noteq> ''billing_currency'' \<Longrightarrow> is_unified (put_quote k v run) = is_unified run"
  by (auto simp: is_unified_def put_quote_def json_get_put split: option.splits)

lemma fix_funding_cases:
  obtains "fix_funding db user run = run"
  | v where "fix_funding db user run = put_quote ''expense_funding'' v run"
  | v v' where "fix_funding db user run = put_quote ''expense_funding'' v (put_quote ''expense_paid_units'' v' run)"
proof -
  obtain funding run1 where f: "funding_for_run db user run (ar_estimated_units run) = (funding, run1)" by (cases "funding_for_run db user run (ar_estimated_units run)")
  then have "run1 = run \<or> (\<exists>v'. run1 = put_quote ''expense_paid_units'' v' run)"
    by (auto simp: funding_for_run_def Let_def split: if_splits)
  moreover have "fix_funding db user run = run \<or> fix_funding db user run = put_quote ''expense_funding'' (JStr funding) run1"
    by (simp add: fix_funding_def f)
  ultimately show thesis using that by blast
qed

lemma fix_funding_frame:
  "ar_id (fix_funding db user run) = ar_id run" "ar_user_id (fix_funding db user run) = ar_user_id run"
  "ar_generation_attempt_count (fix_funding db user run) = ar_generation_attempt_count run"
  "ar_generation_attempt_limit (fix_funding db user run) = ar_generation_attempt_limit run"
  "ar_model_cost_group_id (fix_funding db user run) = ar_model_cost_group_id run"
  "ar_model_cost_ceiling (fix_funding db user run) = ar_model_cost_ceiling run"
  "ar_model_cost_reserved (fix_funding db user run) = ar_model_cost_reserved run"
  "ar_model_cost_settled (fix_funding db user run) = ar_model_cost_settled run"
  "ar_model_cost_state (fix_funding db user run) = ar_model_cost_state run"
  "is_unified (fix_funding db user run) = is_unified run"
  by (rule fix_funding_cases [of db user run], simp_all add: is_unified_put_quote)+

lemma before_call_Inr:
  assumes "before_call rv sha w run_id user ask canary now = Inr (tk, w')"
  obtains run0 run1 quote limit funding tokens cost where
    "find_run w run_id user = Some run0" "live_status run0" "ar_generation_attempt_count run0 < ar_generation_attempt_limit run0"
    "ar_model_cost_state run0 \<noteq> CostRunOverrun"
    "attempt_quote rv run0 (ma_provider ask) (ma_model ask) (ma_api_base ask) now = Inr (quote, limit, run1)"
    "ar_model_cost_reserved run1 + ar_model_cost_settled run1 + cost \<le> limit"
    "book_call sha w (fix_funding (bw_usage w) user run1) user ask quote funding tokens cost now = (tk, w')"
proof -
  from assms obtain run0 where run0: "find_run w run_id user = Some run0" by (auto simp: before_call_def split: option.splits)
  from assms have "live_status run0" "ar_generation_attempt_count run0 < ar_generation_attempt_limit run0" "ar_model_cost_state run0 \<noteq> CostRunOverrun"
    by (simp_all add: before_call_def run0 result_simps)
  moreover from assms obtain quote limit run1 where quote: "attempt_quote rv run0 (ma_provider ask) (ma_model ask) (ma_api_base ask) now = Inr (quote, limit, run1)"
    by (auto simp: before_call_def run0 result_simps)
  moreover from assms obtain funding tokens cost where
    "ar_model_cost_reserved run1 + ar_model_cost_settled run1 + cost \<le> limit"
    "book_call sha w (fix_funding (bw_usage w) user run1) user ask quote funding tokens cost now = (tk, w')"
    by (simp add: before_call_def run0 quote result_simps Let_def not_less) blast
  ultimately show thesis using that [OF run0] by blast
qed

section \<open>Requests\<close>

lemma find_run_Some: "find_run w run_id user = Some r \<Longrightarrow> r \<in> set (us_runs (bw_usage w)) \<and> ar_id r = run_id \<and> ar_user_id r = user"
  by (auto simp: find_run_def find_Some_iff)

lemma find_run_unique:
  "distinct (map ar_id (us_runs (bw_usage w))) \<Longrightarrow> r \<in> set (us_runs (bw_usage w)) \<Longrightarrow> find_run w (ar_id r) (ar_user_id r) = Some r"
  unfolding find_run_def
proof (induction "us_runs (bw_usage w)" arbitrary: w)
  case (Cons x xs)
  from Cons(2) [symmetric] Cons.prems show ?case
    using Cons.hyps(1) [of "w\<lparr>bw_usage := (bw_usage w)\<lparr>us_runs := xs\<rparr>\<rparr>"] by (auto simp: rev_image_eqI)
qed simp

abbreviation drawn_of :: "'a budget_world_scheme \<Rightarrow> nat" where "drawn_of w \<equiv> db_drawn (xd_credit (bw_exec w))"
abbreviation supply_of :: "'a budget_world_scheme \<Rightarrow> nat \<Rightarrow> string" where "supply_of w \<equiv> db_supply (xd_credit (bw_exec w))"
abbreviation runs_of :: "'a budget_world_scheme \<Rightarrow> analysis_run list" where "runs_of w \<equiv> us_runs (bw_usage w)"
abbreviation costs_of :: "'a budget_world_scheme \<Rightarrow> liability list" where "costs_of w \<equiv> xd_liabilities (bw_exec w)"

definition call_group :: "'a budget_world_scheme \<Rightarrow> analysis_run \<Rightarrow> string" where
  "call_group w run = (case ar_model_cost_group_id run of Some g \<Rightarrow> g | None \<Rightarrow> ''fin_'' @ supply_of w (drawn_of w + 2))"

definition called_run :: "analysis_run \<Rightarrow> string \<Rightarrow> int \<Rightarrow> model_ask \<Rightarrow> analysis_run" where
  "called_run run gid cost ask =
     run\<lparr>ar_generation_attempt_count := Suc (ar_generation_attempt_count run), ar_model_cost_reserved := ar_model_cost_reserved run + cost,
       ar_model_call := Some (ma_provider ask, ma_model ask, ma_prompt_version ask), ar_model_cost_group_id := Some gid\<rparr>"

lemma book_call_effect:
  assumes "book_call sha w run user ask quote funding tokens cost now = (tk, w')"
  obtains row where
    "runs_of w' = update_by ar_id (ar_id run) (\<lambda>_. called_run run (call_group w run) cost ask) (runs_of w)"
    "costs_of w' = costs_of w @ [row]" "ml_id row = ''mcl_'' @ supply_of w (Suc (drawn_of w))"
    "ml_group_id row = call_group w run" "ml_reserved_cost row = cost" "ml_settled_at row = None" "tk_group_id tk = call_group w run"
    "supply_of w' = supply_of w" "drawn_of w' = drawn_of w + (if ar_model_cost_group_id run = None then 3 else 2)"
proof -
  define row where "row = call_liability sha (''mcl_'' @ supply_of w (Suc (drawn_of w))) (call_group w run)
    (Suc (ar_generation_attempt_count run)) ask quote funding tokens cost now"
  show thesis
    by (rule that [of row])
       (use assms in \<open>auto simp: book_call_def draw_eq Let_def store_run_def called_run_def call_group_def row_def call_liability_def
          split: option.splits\<close>)
qed

section \<open>Requests keep the invariant\<close>

lemma budget_okD:
  assumes "budget_ok (w, issued)"
  shows "inj (supply_of w)" "distinct (map ar_id (runs_of w))" "fresh_rows ml_id ''mcl'' (supply_of w) (drawn_of w) (costs_of w)"
    "\<And>l. l \<in> set (costs_of w) \<Longrightarrow> \<not> future_group (bw_exec w) (ml_group_id l)"
    "\<And>l. l \<in> set (costs_of w) \<Longrightarrow> ml_settled_at l = None \<or> ml_settled_cost l \<noteq> None"
    "\<And>r g. r \<in> set (runs_of w) \<Longrightarrow> ar_model_cost_group_id r = Some g \<Longrightarrow> \<not> future_group (bw_exec w) g"
    "\<And>r q. r \<in> set (runs_of w) \<Longrightarrow> q \<in> set (runs_of w) \<Longrightarrow> ar_model_cost_group_id r \<noteq> None \<Longrightarrow>
       ar_model_cost_group_id r = ar_model_cost_group_id q \<Longrightarrow> r = q"
    "\<And>r. r \<in> unit_runs w \<Longrightarrow> run_limits r" "\<And>r. r \<in> unit_runs w \<Longrightarrow> run_counted (costs_of w) r"
    "\<And>tk run_id user. (tk, run_id, user) \<in> set issued \<Longrightarrow> \<not> future_group (bw_exec w) (tk_group_id tk)"
    "\<And>tk run_id user r. (tk, run_id, user) \<in> set issued \<Longrightarrow> r \<in> set (runs_of w) \<Longrightarrow>
       ar_id r = run_id \<and> ar_user_id r = user \<longleftrightarrow> ar_model_cost_group_id r = Some (tk_group_id tk)"
  using assms unfolding budget_ok.simps tickets_ok_def by blast+

lemma future_group_later:
  "db_supply (xd_credit db') = db_supply (xd_credit db) \<Longrightarrow> db_drawn (xd_credit db) \<le> db_drawn (xd_credit db') \<Longrightarrow>
     \<not> future_group db g \<Longrightarrow> \<not> future_group db' g"
  by (auto simp: future_group_def)

text \<open>One run and the liabilities change.\<close>

lemma change_run_ok:
  assumes ok: "budget_ok (w, issued)" and run0: "run0 \<in> set (runs_of w)"
    and runs: "runs_of w' = update_by ar_id (ar_id run0) (\<lambda>_. x) (runs_of w)"
    and keep: "ar_id x = ar_id run0" "ar_user_id x = ar_user_id run0"
    and later: "supply_of w' = supply_of w" "drawn_of w \<le> drawn_of w'"
    and costs: "fresh_rows ml_id ''mcl'' (supply_of w') (drawn_of w') (costs_of w')"
      "\<And>l. l \<in> set (costs_of w') \<Longrightarrow> \<not> future_group (bw_exec w') (ml_group_id l) \<and> (ml_settled_at l = None \<or> ml_settled_cost l \<noteq> None)"
    and group: "\<And>g. ar_model_cost_group_id x = Some g \<Longrightarrow> \<not> future_group (bw_exec w') g \<and>
      (ar_model_cost_group_id run0 = Some g \<or> future_group (bw_exec w) g)"
      "\<And>g. ar_model_cost_group_id run0 = Some g \<Longrightarrow> ar_model_cost_group_id x = Some g"
    and new: "\<not> is_unified x \<Longrightarrow> run_limits x \<and> run_counted (costs_of w') x \<and> \<not> is_unified run0"
    and others: "\<And>r. r \<in> unit_runs w \<Longrightarrow> r \<noteq> run0 \<Longrightarrow> run_counted (costs_of w') r"
  shows "budget_ok (w', issued)"
proof -
  note facts = budget_okD [OF ok]
  have mem: "r = x \<or> (r \<in> set (runs_of w) \<and> r \<noteq> run0)" if "r \<in> set (runs_of w')" for r
    using mem_update_byD [OF that [unfolded runs]] by auto
  have late: "\<not> future_group (bw_exec w') g" if "\<not> future_group (bw_exec w) g" for g
    by (rule future_group_later [OF later(1)]) (use later(2) that in auto)
  have alone: "ar_model_cost_group_id r \<noteq> Some g" if "ar_model_cost_group_id x = Some g" "r \<in> set (runs_of w)" "r \<noteq> run0" for r g
    using group(1) [OF that(1)] facts(6) [OF that(2)] facts(7) [OF that(2) run0] that(3) by auto
  have unit: "run_limits r \<and> run_counted (costs_of w') r" if r: "r \<in> unit_runs w'" for r
  proof (cases "r = x")
    case True
    with r new show ?thesis by (simp add: unit_runs_def)
  next
    case False
    with r mem [of r] have "r \<in> unit_runs w" "r \<noteq> run0" by (auto simp: unit_runs_def)
    with others facts(8) show ?thesis by blast
  qed
  have apart: "r = q" if "r \<in> set (runs_of w')" "q \<in> set (runs_of w')" "ar_model_cost_group_id r \<noteq> None"
    "ar_model_cost_group_id r = ar_model_cost_group_id q" for r q
    using mem [OF that(1)] mem [OF that(2)] that(3,4) facts(7) alone by (metis option.exhaust)
  have tickets: "ar_id r = run_id \<and> ar_user_id r = user \<longleftrightarrow> ar_model_cost_group_id r = Some (tk_group_id tk)"
    if "(tk, run_id, user) \<in> set issued" "r \<in> set (runs_of w')" for tk run_id user r
  proof (cases "r = x")
    case True
    have "ar_model_cost_group_id x = Some (tk_group_id tk) \<longleftrightarrow> ar_model_cost_group_id run0 = Some (tk_group_id tk)"
      using group facts(10) [OF that(1)] by blast
    with True facts(11) [OF that(1) run0] keep show ?thesis by simp
  next
    case False
    with mem [OF that(2)] facts(11) [OF that(1)] show ?thesis by blast
  qed
  have "distinct (map ar_id (runs_of w'))"
    unfolding runs update_by_def by (rule back_subst [of distinct, OF facts(2)]) (auto simp: keep)
  moreover have "ar_model_cost_group_id r = Some g \<Longrightarrow> \<not> future_group (bw_exec w') g" if "r \<in> set (runs_of w')" for r g
    using mem [OF that] group(1) late facts(6) by blast
  moreover have "inj (supply_of w')" using facts(1) later(1) by simp
  ultimately show ?thesis
    unfolding budget_ok.simps tickets_ok_def using costs unit apart tickets late [OF facts(10)] by (intro conjI ballI allI impI) (blast | fast)+
qed

lemma budget_ok_ticket:
  assumes "budget_ok (w, issued)" and "\<not> future_group (bw_exec w) (tk_group_id tk)"
    and "\<And>r. r \<in> set (runs_of w) \<Longrightarrow> ar_id r = run_id \<and> ar_user_id r = user \<longleftrightarrow> ar_model_cost_group_id r = Some (tk_group_id tk)"
  shows "budget_ok (w, (tk, run_id, user) # issued)"
proof -
  from assms have "tickets_ok w ((tk, run_id, user) # issued)" by (auto simp: tickets_ok_def budget_ok.simps)
  with assms(1) show ?thesis unfolding budget_ok.simps by blast
qed

lemma no_group_costs:
  assumes "\<And>l. l \<in> set ls \<Longrightarrow> ml_group_id l \<noteq> g"
  shows "open_cost g ls = 0" "settled_cost g ls = 0"
  using cost_totals_other [of ls g "[]"] assms by (simp_all add: cost_totals)

definition reviewed :: "reviews \<Rightarrow> bool" where
  "reviewed rv \<longleftrightarrow> (\<forall>p. rv_configured rv = Policy p \<longrightarrow> cost_policy_ok p)"

text \<open>The run that a request's quote leaves: the old one, or an unquoted one that was frozen.\<close>

lemma quoted_run:
  assumes "freeze_run_quote rv run0 now = Inr run1" and "reviewed rv"
  shows "ar_id run1 = ar_id run0 \<and> ar_user_id run1 = ar_user_id run0 \<and> ar_model_cost_group_id run1 = ar_model_cost_group_id run0 \<and>
     ar_generation_attempt_count run1 = ar_generation_attempt_count run0 \<and> ar_generation_attempt_limit run1 = ar_generation_attempt_limit run0 \<and>
     (run1 = run0 \<or> \<not> is_unified run0 \<and> ar_generation_attempt_count run0 = 0 \<and> ar_model_cost_reserved run1 = 0 \<and>
        ar_model_cost_settled run1 = 0 \<and> 0 \<le> amount_or_0 (ar_model_cost_ceiling run1))"
  using freeze_run_quote_Inr [OF assms(1)]
proof (elim disjE exE conjE)
  fix q c policy
  assume frozen: "ar_model_cost_quote run0 = None" "ar_generation_attempt_count run0 = 0" "rv_configured rv = Policy policy"
    "map_of (cy_operation_limits policy) (ar_operation run0) = Some c"
    "run1 = run0\<lparr>ar_model_cost_quote := Some q, ar_model_cost_ceiling := Some c, ar_model_cost_reserved := 0, ar_model_cost_settled := 0,
          ar_model_cost_state := CostActive\<rparr>"
  have "0 < c" using assms(2) frozen(3,4) map_of_SomeD
    by (fastforce simp: reviewed_def cost_policy_ok_def list_all_iff is_positive_amount_def)
  with frozen show ?thesis by (simp add: is_unified_def amount_or_0_def)
qed simp

lemma before_call_ok:
  assumes run: "before_call rv sha w run_id user ask canary now = Inr (tk, w')" and ok: "budget_ok (w, issued)" and rv: "reviewed rv"
  shows "budget_ok (w', (tk, run_id, user) # issued)"
proof -
  obtain run0 run1 quote limit funding tokens cost where found: "find_run w run_id user = Some run0"
    and attempts: "ar_generation_attempt_count run0 < ar_generation_attempt_limit run0" "ar_model_cost_state run0 \<noteq> CostRunOverrun"
    and quote: "attempt_quote rv run0 (ma_provider ask) (ma_model ask) (ma_api_base ask) now = Inr (quote, limit, run1)"
    and spend: "ar_model_cost_reserved run1 + ar_model_cost_settled run1 + cost \<le> limit"
    and booked: "book_call sha w (fix_funding (bw_usage w) user run1) user ask quote funding tokens cost now = (tk, w')"
    using run by (rule before_call_Inr)
  define run2 where "run2 = fix_funding (bw_usage w) user run1"
  note frame = fix_funding_frame [of "bw_usage w" user run1, folded run2_def]
  note facts = budget_okD [OF ok] and run0 = find_run_Some [OF found]
  obtain c where c: "ar_model_cost_ceiling run1 = Some c" "limit \<le> c" using attempt_quote_Inr(2) [OF quote] by blast
  note quoted = quoted_run [OF attempt_quote_Inr(1) [OF quote] rv]
  define gid where "gid = call_group w run2"
  obtain row where effect: "runs_of w' = update_by ar_id (ar_id run0) (\<lambda>_. called_run run2 gid cost ask) (runs_of w)"
    "costs_of w' = costs_of w @ [row]" "ml_id row = ''mcl_'' @ supply_of w (Suc (drawn_of w))" "ml_group_id row = gid"
    "ml_reserved_cost row = cost" "ml_settled_at row = None" "tk_group_id tk = gid" "supply_of w' = supply_of w"
    "drawn_of w' = drawn_of w + (if ar_model_cost_group_id run2 = None then 3 else 2)"
    using book_call_effect [OF booked [folded run2_def]] quoted unfolding gid_def frame by metis
  have group0: "ar_model_cost_group_id run2 = ar_model_cost_group_id run0" using quoted frame by simp
  have gid: "gid = (case ar_model_cost_group_id run0 of Some g \<Rightarrow> g | None \<Rightarrow> ''fin_'' @ supply_of w (drawn_of w + 2))"
    by (simp add: gid_def call_group_def group0)
  have late: "\<not> future_group (bw_exec w') g" if "\<not> future_group (bw_exec w) g" for g
    by (rule future_group_later [OF effect(8)]) (use effect(9) that in auto)
  have gid_future: "\<not> future_group (bw_exec w') gid"
  proof (cases "ar_model_cost_group_id run0")
    case None
    then show ?thesis using effect(8,9) group0 by (auto simp: future_group_def gid dest!: injD [OF facts(1)])
  next
    case (Some g)
    with late [OF facts(6) [OF conjunct1 [OF run0] Some]] show ?thesis by (simp add: gid)
  qed
  have none: "future_group (bw_exec w) gid" if "ar_model_cost_group_id run0 = None"
    unfolding future_group_def gid using that by (intro exI [of _ "drawn_of w + 2"]) simp
  have others: "ar_model_cost_group_id r \<noteq> Some gid" if "r \<in> set (runs_of w)" "r \<noteq> run0" for r
    using that facts(6,7) run0 none by (cases "ar_model_cost_group_id run0") (auto simp: gid)
  have id0: "ar_id (called_run run2 gid cost ask) = ar_id run0" "ar_user_id (called_run run2 gid cost ask) = ar_user_id run0"
    using quoted frame by (simp_all add: called_run_def)
  have new: "run_limits (called_run run2 gid cost ask) \<and> run_counted (costs_of w') (called_run run2 gid cost ask) \<and> \<not> is_unified run0"
    if "\<not> is_unified (called_run run2 gid cost ask)"
  proof -
    have plain: "\<not> is_unified run0" using that quoted frame(10) by (auto simp: called_run_def is_unified_def)
    then have unit: "run_limits run0" "run_counted (costs_of w) run0" using facts(8,9) run0 by (auto simp: unit_runs_def)
    have "ar_model_cost_reserved run1 = open_cost gid (costs_of w) \<and> ar_model_cost_settled run1 = settled_cost gid (costs_of w)"
    proof (cases "ar_model_cost_group_id run0")
      case None
      then have "l \<in> set (costs_of w) \<Longrightarrow> ml_group_id l \<noteq> gid" for l using none facts(4) by blast
      then have "open_cost gid (costs_of w) = 0" "settled_cost gid (costs_of w) = 0" by (simp_all add: no_group_costs)
      with None unit(2) quoted show ?thesis by (auto simp: run_counted_def)
    next
      case (Some g)
      with unit(2) quoted show ?thesis by (auto simp: run_counted_def gid)
    qed
    moreover have "open_cost gid (costs_of w') = open_cost gid (costs_of w) + cost" "settled_cost gid (costs_of w') = settled_cost gid (costs_of w)"
      by (simp_all add: effect cost_totals)
    moreover have "0 \<le> c" using quoted c unit(1) by (auto simp: run_limits_def amount_or_0_def)
    ultimately show ?thesis
      using plain quoted frame spend c attempts by (simp add: run_limits_def run_counted_def called_run_def amount_or_0_def)
  qed
  have "budget_ok (w', issued)"
  proof (rule change_run_ok [OF ok _ effect(1) id0 effect(8)])
    show "fresh_rows ml_id ''mcl'' (supply_of w') (drawn_of w') (costs_of w')"
      unfolding effect(2,8)
      by (rule fresh_rows_later [OF fresh_rows_snoc [OF facts(1) fresh_rows_Suc [OF facts(3)]]]) (simp_all add: effect(3,9))
    show "\<not> future_group (bw_exec w') (ml_group_id l) \<and> (ml_settled_at l = None \<or> ml_settled_cost l \<noteq> None)" if "l \<in> set (costs_of w')" for l
      using that facts(4,5) late gid_future effect(2,4,6) by auto
    show "run_counted (costs_of w') r" if "r \<in> unit_runs w" "r \<noteq> run0" for r
    proof -
      from that others have "ar_model_cost_group_id r = Some g \<Longrightarrow> g \<noteq> gid" for g by (auto simp: unit_runs_def)
      with facts(9) [OF that(1)] cost_totals_other [of "[row]" _ "costs_of w"] effect(4) show ?thesis
        unfolding effect(2) by (auto simp: run_counted_def split: option.splits)
    qed
    show "\<not> future_group (bw_exec w') g \<and> (ar_model_cost_group_id run0 = Some g \<or> future_group (bw_exec w) g)"
      if "ar_model_cost_group_id (called_run run2 gid cost ask) = Some g" for g
      using that gid_future none by (cases "ar_model_cost_group_id run0") (simp_all add: called_run_def gid)
    show "ar_model_cost_group_id (called_run run2 gid cost ask) = Some g" if "ar_model_cost_group_id run0 = Some g" for g
      using that by (simp add: called_run_def gid)
  qed (use run0 effect(9) new in simp_all)
  moreover have "ar_id r = run_id \<and> ar_user_id r = user \<longleftrightarrow> ar_model_cost_group_id r = Some (tk_group_id tk)" if "r \<in> set (runs_of w')" for r
    using mem_update_byD [OF that [unfolded effect(1)]] run0 id0 others effect(7) by (auto simp: called_run_def)
  ultimately show ?thesis using gid_future effect(7) by (intro budget_ok_ticket) simp_all
qed

section \<open>Settlements keep the invariant\<close>

lemma bound_liability_Some:
  assumes "bound_liability db tk b = Some l"
  shows "l \<in> set (xd_liabilities db) \<and> b = (ml_id l, ml_group_id l, ml_attempt_number l)"
  using assms by (auto simp: bound_liability_def find_Some_iff split: prod.splits if_splits)

text \<open>
  A settlement leaves the tables alone, or changes the state of an open liability, or settles
  it and charges the run that it belongs to.
\<close>

lemma after_call_cases:
  assumes "after_call w run_id user tk bound latency response failure now = Inr w'"
  obtains (unchanged) "w' = w"
  | (unknown) l state where "l \<in> set (costs_of w)" "ml_settled_at l = None" "bw_usage w' = bw_usage w"
      "bw_exec w' = update_liability (ml_id l) (\<lambda>x. x\<lparr>ml_state := state\<rparr>) (bw_exec w)"
  | (settled) l i k provenance cost state where "l \<in> set (costs_of w)" "ml_settled_at l = None"
      "bw_exec w' = update_liability (ml_id l) (\<lambda>x. x\<lparr>ml_input_tokens := Some i, ml_output_tokens := Some k,
         ml_usage_provenance := Some provenance, ml_settled_cost := Some cost, ml_settled_at := Some now, ml_state := state\<rparr>) (bw_exec w)"
      "case find_run w run_id user of None \<Rightarrow> bw_usage w' = bw_usage w
       | Some r \<Rightarrow> (\<exists>over. bw_usage w' = store_run (fst (charge_cost l cost over r)) (bw_usage w))"
      "\<And>n. binding_of w tk bound run_id user = Some n \<Longrightarrow> fst (snd n) = ml_group_id l"
      "binding_of w tk bound run_id user \<noteq> None"
proof -
  from assms obtain b l where b: "binding_of w tk bound run_id user = Some b" "bound_liability (bw_exec w) tk b = Some l"
    by (auto simp: after_call_def Let_def bind_eq_Some_conv split: option.splits)
  note l = bound_liability_Some [OF b(2)]
  show thesis
  proof (cases "ml_settled_at l = None \<and> w' \<noteq> w")
    case False
    with assms b show thesis using unchanged by (auto simp: after_call_def Let_def)
  next
    case True
    show thesis
    proof (cases "if failure = None then usage_of response (ml_provider l) else None")
      case None
      with assms b True l show thesis by (intro unknown [of l]) (auto simp: after_call_def Let_def)
    next
      case (Some u)
      obtain i k provenance where u: "u = (i, k, provenance)" by (cases u)
      show thesis
      proof (rule settled [where l = l and i = i and k = k and provenance = provenance and cost = "quoted_cost (ml_quote l) i k"])
        show "l \<in> set (costs_of w)" "ml_settled_at l = None" using l True by auto
        show "\<And>n. binding_of w tk bound run_id user = Some n \<Longrightarrow> fst (snd n) = ml_group_id l" "binding_of w tk bound run_id user \<noteq> None"
          using b l by auto
        show "case find_run w run_id user of None \<Rightarrow> bw_usage w' = bw_usage w
          | Some r \<Rightarrow> (\<exists>over. bw_usage w' = store_run (fst (charge_cost l (quoted_cost (ml_quote l) i k) over r)) (bw_usage w))"
          using assms b True Some by (auto simp: after_call_def Let_def u result_simps split: option.splits prod.splits) (metis fst_conv)+
        show "bw_exec w' = update_liability (ml_id l) (\<lambda>x. x\<lparr>ml_input_tokens := Some i, ml_output_tokens := Some k,
           ml_usage_provenance := Some provenance, ml_settled_cost := Some (quoted_cost (ml_quote l) i k), ml_settled_at := Some now,
           ml_state := (if (case map_option (charge_cost l (quoted_cost (ml_quote l) i k) (call_overrun l (quoted_cost (ml_quote l) i k) i k)) (find_run w run_id user) of
              None \<Rightarrow> call_overrun l (quoted_cost (ml_quote l) i k) i k | Some (_, o1) \<Rightarrow> o1) then CostOverrun else CostSettled)\<rparr>) (bw_exec w)"
          using assms b True Some by (auto simp: after_call_def Let_def u result_simps)
      qed
    qed
  qed
qed

text \<open>
  Runs may disappear (erasure), appear with an unused identifier and no group, and change in
  the columns that the budget does not read; liabilities may appear for groups of no run.
\<close>

definition same_money :: "analysis_run \<Rightarrow> analysis_run \<Rightarrow> bool" where
  "same_money r r' \<longleftrightarrow> ar_id r' = ar_id r \<and> ar_user_id r' = ar_user_id r \<and> is_unified r' = is_unified r \<and>
     ar_generation_attempt_count r' = ar_generation_attempt_count r \<and> ar_generation_attempt_limit r' = ar_generation_attempt_limit r \<and>
     ar_model_cost_group_id r' = ar_model_cost_group_id r \<and> ar_model_cost_ceiling r' = ar_model_cost_ceiling r \<and>
     ar_model_cost_reserved r' = ar_model_cost_reserved r \<and> ar_model_cost_settled r' = ar_model_cost_settled r \<and>
     ar_model_cost_state r' = ar_model_cost_state r"

definition new_run :: "'a budget_world_scheme \<Rightarrow> tickets \<Rightarrow> analysis_run \<Rightarrow> bool" where
  "new_run w issued r \<longleftrightarrow> ar_id r \<notin> ar_id ` set (runs_of w) \<and> ar_id r \<notin> (\<lambda>(tk, run_id, user). run_id) ` set issued \<and>
     ar_generation_attempt_count r \<le> ar_generation_attempt_limit r \<and>
     ar_model_cost_group_id r = None \<and> ar_model_cost_reserved r = 0 \<and> ar_model_cost_settled r = 0 \<and> ar_model_cost_ceiling r = None"

lemma budget_frame_ok:
  assumes ok: "budget_ok (w, issued)"
    and runs: "distinct (map ar_id (runs_of w'))" "\<And>r'. r' \<in> set (runs_of w') \<Longrightarrow> new_run w issued r' \<or> (\<exists>r \<in> set (runs_of w). same_money r r')"
    and later: "supply_of w' = supply_of w" "drawn_of w \<le> drawn_of w'"
    and costs: "fresh_rows ml_id ''mcl'' (supply_of w') (drawn_of w') (costs_of w')"
      "\<And>l. l \<in> set (costs_of w') \<Longrightarrow> \<not> future_group (bw_exec w') (ml_group_id l) \<and> (ml_settled_at l = None \<or> ml_settled_cost l \<noteq> None)"
    and totals: "\<And>r g. r \<in> unit_runs w \<Longrightarrow> ar_model_cost_group_id r = Some g \<Longrightarrow>
        open_cost g (costs_of w') = open_cost g (costs_of w) \<and> settled_cost g (costs_of w') = settled_cost g (costs_of w)"
  shows "budget_ok (w', issued)"
proof -
  note facts = budget_okD [OF ok]
  have late: "\<not> future_group (bw_exec w') g" if "\<not> future_group (bw_exec w) g" for g
    by (rule future_group_later [OF later(1)]) (use later(2) that in auto)
  have old: "\<exists>r0 \<in> set (runs_of w). same_money r0 r" if "r \<in> set (runs_of w')" "ar_model_cost_group_id r \<noteq> None" for r
    using runs(2) [OF that(1)] that(2) by (auto simp: new_run_def)
  have "run_limits r \<and> run_counted (costs_of w') r" if "r \<in> unit_runs w'" for r
  proof -
    from that have r: "r \<in> set (runs_of w')" "\<not> is_unified r" by (auto simp: unit_runs_def)
    from runs(2) [OF r(1)] show ?thesis
    proof (elim disjE bexE)
      assume "new_run w issued r"
      then show ?thesis by (simp add: new_run_def run_limits_def run_counted_def amount_or_0_def)
    next
      fix r0
      assume r0: "r0 \<in> set (runs_of w)" "same_money r0 r"
      with r have unit: "r0 \<in> unit_runs w" by (auto simp: unit_runs_def same_money_def)
      show ?thesis using facts(8,9) [OF unit] totals [OF unit] r0(2)
        by (auto simp: run_limits_def run_counted_def same_money_def split: option.splits)
    qed
  qed
  moreover have "r = q" if rq: "r \<in> set (runs_of w')" "q \<in> set (runs_of w')" "ar_model_cost_group_id r \<noteq> None"
    "ar_model_cost_group_id r = ar_model_cost_group_id q" for r q
  proof -
    obtain r0 q0 where "r0 \<in> set (runs_of w)" "same_money r0 r" "q0 \<in> set (runs_of w)" "same_money q0 q"
      using old [OF rq(1,3)] old [OF rq(2)] rq(3,4) by auto
    with facts(7) [of r0 q0] rq have "ar_id r = ar_id q" by (simp add: same_money_def)
    with runs(1) rq(1,2) show ?thesis by (auto simp: distinct_map dest: inj_onD)
  qed
  moreover have "ar_id r = run_id \<and> ar_user_id r = user \<longleftrightarrow> ar_model_cost_group_id r = Some (tk_group_id tk)"
    if "(tk, run_id, user) \<in> set issued" "r \<in> set (runs_of w')" for tk run_id user r
    using runs(2) [OF that(2)] facts(11) [OF that(1)] that(1) by (force simp: new_run_def same_money_def)
  moreover have "\<not> future_group (bw_exec w') g" if "r \<in> set (runs_of w')" "ar_model_cost_group_id r = Some g" for r g
    using old [OF that(1)] that(2) facts(6) late by (fastforce simp: same_money_def)
  ultimately show ?thesis
    unfolding budget_ok.simps tickets_ok_def using facts(1) later(1) runs(1) costs late [OF facts(10)] by (intro conjI ballI allI impI) (blast | simp | fast)+
qed

lemma settled_totals:
  assumes "distinct (map ml_id ls)" and "l \<in> set ls" and "ml_settled_at l = None"
    and "ml_group_id (f l) = ml_group_id l" "ml_settled_at (f l) = Some now" "ml_settled_cost (f l) = Some cost"
  shows "open_cost g (update_by ml_id (ml_id l) f ls) = open_cost g ls - (if ml_group_id l = g then ml_reserved_cost l else 0)"
    "settled_cost g (update_by ml_id (ml_id l) f ls) = settled_cost g ls + (if ml_group_id l = g then cost else 0)"
  unfolding cost_totals total_update_by_any [OF assms(1,2) refl] using assms(3-) by (simp_all add: amount_or_0_def)

lemma marked_totals:
  assumes "\<And>l. ml_group_id (f l) = ml_group_id l \<and> ml_settled_at (f l) = ml_settled_at l \<and> ml_reserved_cost (f l) = ml_reserved_cost l \<and>
     ml_settled_cost (f l) = ml_settled_cost l"
  shows "open_cost g (update_by ml_id k f ls) = open_cost g ls" "settled_cost g (update_by ml_id k f ls) = settled_cost g ls"
  unfolding cost_totals by (induction ls) (auto simp: assms)

lemma same_money_refl: "same_money r r"
  by (simp add: same_money_def)

lemma charge_cost_frame:
  "ar_id (fst (charge_cost l cost over r)) = ar_id r" "ar_user_id (fst (charge_cost l cost over r)) = ar_user_id r"
  "is_unified (fst (charge_cost l cost over r)) = is_unified r"
  "ar_model_cost_group_id (fst (charge_cost l cost over r)) = ar_model_cost_group_id r"
  "ar_generation_attempt_count (fst (charge_cost l cost over r)) = ar_generation_attempt_count r"
  "ar_generation_attempt_limit (fst (charge_cost l cost over r)) = ar_generation_attempt_limit r"
  "ar_model_cost_reserved (fst (charge_cost l cost over r)) = ar_model_cost_reserved r - ml_reserved_cost l"
  "ar_model_cost_settled (fst (charge_cost l cost over r)) = ar_model_cost_settled r + cost"
  "ar_model_cost_ceiling (fst (charge_cost l cost over r)) = ar_model_cost_ceiling r"
  by (simp_all add: charge_cost_def is_unified_def Let_def)

lemma charge_cost_limits: "run_limits r \<Longrightarrow> run_limits (fst (charge_cost l cost over r))"
  by (auto simp: run_limits_def charge_cost_def exceeds_ceiling_def amount_or_0_def Let_def split: option.splits)

lemma after_call_ok:
  assumes run: "after_call w run_id user tk bound latency response failure now = Inr w'" and ok: "budget_ok (w, issued)"
    and bound: "bound \<Longrightarrow> (tk, run_id, user) \<in> set issued"
  shows "budget_ok (w', issued)"
  using run
proof (cases rule: after_call_cases)
  case unchanged
  with ok show ?thesis by simp
next
  case (unknown l state)
  note facts = budget_okD [OF ok]
  have costs: "costs_of w' = update_by ml_id (ml_id l) (\<lambda>x. x\<lparr>ml_state := state\<rparr>) (costs_of w)" "supply_of w' = supply_of w" "drawn_of w' = drawn_of w"
    by (simp_all add: unknown(4) update_liability_def)
  show ?thesis
  proof (rule budget_frame_ok [OF ok])
    show "fresh_rows ml_id ''mcl'' (supply_of w') (drawn_of w') (costs_of w')" using facts(3) by (simp add: costs fresh_rows_update_by)
    show "\<not> future_group (bw_exec w') (ml_group_id r) \<and> (ml_settled_at r = None \<or> ml_settled_cost r \<noteq> None)" if row: "r \<in> set (costs_of w')" for r
    proof -
      obtain r0 where r0: "r0 \<in> set (costs_of w)"
        and "ml_group_id r = ml_group_id r0" "ml_settled_at r = ml_settled_at r0" "ml_settled_cost r = ml_settled_cost r0"
        using mem_update_byD [OF row [unfolded costs(1)]] by auto
      with facts(4,5) [OF r0] show ?thesis by (simp add: future_group_def costs(2,3))
    qed
  qed (use facts(2) in \<open>auto simp: unknown(3) costs marked_totals intro: same_money_refl\<close>)
next
  case (settled l i k provenance cost state)
  note facts = budget_okD [OF ok]
  define f where "f = (\<lambda>x :: liability. x\<lparr>ml_input_tokens := Some i, ml_output_tokens := Some k, ml_usage_provenance := Some provenance,
    ml_settled_cost := Some cost, ml_settled_at := Some now, ml_state := state\<rparr>)"
  have costs: "costs_of w' = update_by ml_id (ml_id l) f (costs_of w)" "supply_of w' = supply_of w" "drawn_of w' = drawn_of w"
    by (simp_all add: settled(3) update_liability_def f_def)
  have f: "ml_group_id (f l) = ml_group_id l" "ml_settled_at (f l) = Some now" "ml_settled_cost (f l) = Some cost" for l
    by (simp_all add: f_def)
  note totals = settled_totals [where f = f, OF fresh_rows_distinct [OF facts(3)] settled(1,2) f]
  have fresh: "fresh_rows ml_id ''mcl'' (supply_of w') (drawn_of w') (costs_of w')"
    using facts(3) by (simp add: costs fresh_rows_update_by f_def)
  have rows: "\<not> future_group (bw_exec w') (ml_group_id r) \<and> (ml_settled_at r = None \<or> ml_settled_cost r \<noteq> None)" if "r \<in> set (costs_of w')" for r
    using mem_update_byD [OF that [unfolded costs(1)]] facts(4,5) f by (auto simp: future_group_def costs)
  show ?thesis
  proof (cases "find_run w run_id user")
    case None
    with settled(6) have "bound" by (auto simp: binding_of_def split: if_splits)
    with settled(5) bound have issued: "(tk, run_id, user) \<in> set issued" "tk_group_id tk = ml_group_id l" by (auto simp: binding_of_def)
    have "ml_group_id l \<noteq> g" if "r \<in> unit_runs w" "ar_model_cost_group_id r = Some g" for r g
      using facts(11) [OF issued(1), of r] issued(2) that find_run_unique [OF facts(2), of r] None by (auto simp: unit_runs_def)
    then show ?thesis
      by (intro budget_frame_ok [OF ok _ _ _ _ fresh rows])
         (use settled(4) None facts(2) in \<open>auto simp: costs totals intro: same_money_refl\<close>)
  next
    case (Some r0)
    note r0 = find_run_Some [OF Some]
    from settled(4) Some obtain over where charged: "bw_usage w' = store_run (fst (charge_cost l cost over r0)) (bw_usage w)" by auto
    have group: "ar_model_cost_group_id r0 = Some (ml_group_id l)"
    proof (cases bound)
      case True
      with settled(5) have "tk_group_id tk = ml_group_id l" by (auto simp: binding_of_def)
      with facts(11) [OF bound [OF True], of r0] r0 show ?thesis by simp
    next
      case False
      with settled(5,6) Some show ?thesis by (fastforce simp: binding_of_def group_id_def split: option.splits if_splits)
    qed
    show ?thesis
    proof (rule change_run_ok [OF ok conjunct1 [OF r0] _ _ _ costs(2) _ fresh rows])
      show "runs_of w' = update_by ar_id (ar_id r0) (\<lambda>_. fst (charge_cost l cost over r0)) (runs_of w)"
        by (simp add: charged store_run_def charge_cost_frame)
      show "run_limits (fst (charge_cost l cost over r0)) \<and> run_counted (costs_of w') (fst (charge_cost l cost over r0)) \<and> \<not> is_unified r0"
        if "\<not> is_unified (fst (charge_cost l cost over r0))"
        using facts(8,9) [of r0] r0 that group
        by (simp add: unit_runs_def charge_cost_limits charge_cost_frame run_counted_def costs(1) totals)
      show "run_counted (costs_of w') r" if "r \<in> unit_runs w" "r \<noteq> r0" for r
      proof -
        from that facts(7) [of r r0] group r0 have "ar_model_cost_group_id r \<noteq> Some (ml_group_id l)" by (auto simp: unit_runs_def)
        with facts(9) [OF that(1)] show ?thesis by (auto simp: run_counted_def costs(1) totals split: option.splits)
      qed
    qed (use group facts(6) r0 in \<open>auto simp: charge_cost_frame costs future_group_def\<close>)
  qed
qed

section \<open>Interleavings\<close>

text \<open>
  Everything that may happen to the tables between two transactions of the budget: the other
  work of the program leaves the money columns of the runs and the liabilities of their
  groups as they are.
\<close>

definition keeps_money :: "'a budget_world_scheme \<Rightarrow> tickets \<Rightarrow> 'a budget_world_scheme \<Rightarrow> bool" where
  "keeps_money w issued w' \<longleftrightarrow>
     distinct (map ar_id (runs_of w')) \<and>
     (\<forall>r' \<in> set (runs_of w'). new_run w issued r' \<or> (\<exists>r \<in> set (runs_of w). same_money r r')) \<and>
     supply_of w' = supply_of w \<and> drawn_of w \<le> drawn_of w' \<and>
     fresh_rows ml_id ''mcl'' (supply_of w') (drawn_of w') (costs_of w') \<and>
     (\<forall>l \<in> set (costs_of w'). \<not> future_group (bw_exec w') (ml_group_id l) \<and> (ml_settled_at l = None \<or> ml_settled_cost l \<noteq> None)) \<and>
     (\<forall>r \<in> unit_runs w. \<forall>g. ar_model_cost_group_id r = Some g \<longrightarrow>
        filter (\<lambda>l. ml_group_id l = g) (costs_of w') = filter (\<lambda>l. ml_group_id l = g) (costs_of w))"

inductive budget_step :: "'a budget_world_scheme \<times> tickets \<Rightarrow> 'a budget_world_scheme \<times> tickets \<Rightarrow> bool" where
  request: "before_call rv sha w run_id user ask canary now = Inr (tk, w') \<Longrightarrow> reviewed rv \<Longrightarrow>
    budget_step (w, issued) (w', (tk, run_id, user) # issued)"
| response: "after_call w run_id user tk bound latency response failure now = Inr w' \<Longrightarrow> bound \<longrightarrow> (tk, run_id, user) \<in> set issued \<Longrightarrow>
    budget_step (w, issued) (w', issued)"
| other_work: "keeps_money w issued w' \<Longrightarrow> budget_step (w, issued) (w', issued)"

lemma cost_totals_filter:
  assumes "filter (\<lambda>l. ml_group_id l = g) ls' = filter (\<lambda>l. ml_group_id l = g) ls"
  shows "open_cost g ls' = open_cost g ls" "settled_cost g ls' = settled_cost g ls"
proof -
  have "total (\<lambda>l. ml_group_id l = g \<and> P l) h ls = total P h (filter (\<lambda>l. ml_group_id l = g) ls)" for P and h :: "liability \<Rightarrow> int" and ls
    by (simp add: total_def conj_commute)
  with assms show "open_cost g ls' = open_cost g ls" "settled_cost g ls' = settled_cost g ls" by (simp_all add: cost_totals)
qed

interpretation budget: step_invariant budget_step budget_ok
proof
  fix s s' :: "'a budget_world_scheme \<times> tickets"
  assume "budget_step s s'" and ok: "budget_ok s"
  then show "budget_ok s'"
  proof (cases rule: budget_step.cases)
    case (request rv sha w run_id user ask canary now tk w' issued)
    with ok show ?thesis using before_call_ok by blast
  next
    case (response w run_id user tk bound latency response failure now w' issued)
    with ok show ?thesis using after_call_ok by blast
  next
    case (other_work w issued w')
    from other_work(3) have "budget_ok (w', issued)"
      unfolding keeps_money_def by (elim conjE, intro budget_frame_ok [OF ok [unfolded other_work(1)]]) (blast intro: cost_totals_filter)+
    with other_work(2) show ?thesis by simp
  qed
qed

end
