(* ===== verification/Run_Spend.thy ===== *)
theory Run_Spend
  imports Run_Budget_Safety Pack_Economics Usage_Safety Execution_Properties
begin



section \<open>An example\<close>














section \<open>Properties\<close>



end
