(* ===== verification/Spec2Isabelle.thy ===== *)
theory Spec2Isabelle
  imports Credit_Properties Usage_Safety Service_Credits Postgres_Pacing Mail_Budget Dispatch_Properties Payments_Properties
    Delivery_Properties Free_Quota Notification_Safety Pack_Economics Run_Spend
begin

text \<open>
  A model of the money, delivery and pacing core of the HireWiz backend (\<open>src/backend/app\<close>).

  Parts, and the theories that model them:

  \<^item> Prelude, Documents, Settings, Accounts: results as \<open>'e + 'a\<close> (\<open>Inl\<close> is the exception),
    tables as lists of rows with a key, JSON documents, environment variables, the user row.
    Instants are microseconds of UTC (milliseconds in the pacing theories). Settings also
    holds \<open>services/generation_gate.py\<close>.
  \<^item> Credit_Models, Pricing, Credit_Ledger: \<open>domains/credits/{models,pricing,schemas,service}.py\<close>,
    the unified credit ledger: quotes, grants, expiry, the wallet, reservation, settlement and
    revocation. Ledger_History states what an audited ledger is (locales \<open>audited_ledger\<close> and
    \<open>reconciled_ledger\<close>); Credit_History, Credit_Safety, Credit_Contract, Credit_Settlement and
    Credit_Invariants prove the laws for the ledger, Credit_Properties states C1 to C9.
  \<^item> Usage, Usage_Safety: \<open>domains/usage/service.py\<close>, the analysis-unit ledger (C11 to C13).
  \<^item> Service_Credits: \<open>domains/employer/credits.py\<close> (C14, C15).
  \<^item> Host_Pacing, Postgres_Pacing: \<open>domains/employer/host_pacing.py\<close> and
    \<open>postgres_host_pacing.py\<close>. The locale \<open>exclusive_slot\<close> is what a client of any of the three
    authorities relies on (C17, C18, C20).
  \<^item> Mail_Budget: \<open>domains/notifications/mail_budget.py\<close> (C21, C22).
  \<^item> Notifications, Notification_Safety: the mail queue of \<open>domains/notifications\<close> and its three
    senders over that budget (C10).
  \<^item> Dispatch, Dispatch_Safety, Dispatch_Properties: \<open>domains/dispatch/service.py\<close>, the durable
    outbox (C24 to C30).
  \<^item> Payments, Payments_Safety, Payments_Properties: \<open>billing/service.py\<close> and
    \<open>domains/credits/payments.py\<close>, the provider's webhooks from the event ledger to orders,
    transactions, refunds and what they entitle to (C31 to C34). The decoded document and the
    digest of the body are arguments; one sequence hands out all row numbers.
  \<^item> Finance, Model_Cost, Service_Routes: \<open>domains/credits/finance.py\<close>, the price quotes and
    usage readings of \<open>services/{model_cost_policy,generation_budget}.py\<close> and the qualified
    routes of \<open>domains/credits/service_quotes.py\<close>: the exact money that a delivery needs.
  \<^item> Execution_Models, Execution, Admission: \<open>domains/credits/{execution,admission}.py\<close>: the hold
    on a whole operation, its planned attempts and provider liabilities, the ceilings in front
    of new work, and the transactions admit, claim, callback, native cost and delivery.
    Credit_Supply, Execution_Safety and Admission_Safety prove that each keeps the invariant
    \<open>exec_sound\<close>; Execution_Properties states C35 to C37. What a budget guard needs of the
    holds is the locale \<open>covered_exposure\<close>, an extension of \<open>step_invariant\<close> (Prelude), which
    carries every invariant over runs. Execution_Runs shows that references stay closed and
    outcomes final; Delivery_Properties states C38 to C40. Calendar holds the days and months that the
    budgets of mail and money share.

  \<^item> Free_Core, Free_Quota: \<open>domains/free_core\<close>, the quotas of free work (C19).
  \<^item> Expense_Policy, Pack_Economics: \<open>billing/cost_policy.py\<close> and
    \<open>domains/credits/legacy_funding.py\<close>, the reviewed expense policy, its audit and the funding
    guards that rest on it (C16).
  \<^item> Run_Budget, Run_Budget_Safety, Run_Spend: the operation policy of
    \<open>services/model_cost_policy.py\<close> and \<open>persistent_run_budget\<close> of
    \<open>services/generation_budget.py\<close>, the transactions before and after each provider request
    of a unit-billed run (C23).

  How the code is translated. A transaction is a function on the rows it may change; its
  exceptions are values and the caller rolls back. Row locks and flushes order transactions
  and do nothing inside one. Identifiers drawn by \<open>uuid4\<close> come from a supply that the state
  carries (\<open>db_supply\<close>, assumed injective where a property needs it) or are arguments. The
  clock is an argument. SHA-256, the URL parser, the time-zone data, Cloud Tasks, the mail
  provider, the answers of the rollout (canary or public audience) and the Redis and PostgreSQL servers are parameters or enter as data of the call.
  Where other processes may commit between two transactions, their effect is a function of
  the environment record or another step of the transition system.

  Bounds: loops are structural recursions on the rows, the lots, the ordinals or the given
  clock readings, so no fuel is used; an acquire whose readings end while it still waits is
  \<open>None\<close>.

  Not modelled: HTTP routing and serialisation, the web and mobile clients, the document
  parsers and the language-model clients, deployment and release scripts, and the domain
  handlers that a delivery calls (their outcome is a parameter of the delivery).
\<close>

end
